(* ===== verification/OrderedMap.thy ===== *)
theory OrderedMap
  imports Prelude
begin

text \<open>
  The ordered maps of the program.  \<open>BTreeMap\<close> keeps its keys sorted and is
  iterated in that order, which fixes the order of the cookies in a request
  header.  A map is a list of pairs with strictly ascending keys; \<open>bt_get\<close> and
  \<open>bt_insert\<close> are \<open>BTreeMap::get\<close> and \<open>BTreeMap::insert\<close>.  The interface the
  clients rely on is the locale \<open>map_interface\<close>, interpreted on these lists.
\<close>

section \<open>The interface\<close>

locale map_interface =
  fixes empty :: 'm
    and get :: "'m \<Rightarrow> 'k \<Rightarrow> 'v option"
    and insert :: "'k \<Rightarrow> 'v \<Rightarrow> 'm \<Rightarrow> 'm"
    and invar :: "'m \<Rightarrow> bool"
  assumes invar_empty: "invar empty"
    and invar_insert: "invar m \<Longrightarrow> invar (insert k v m)"
    and get_empty: "get empty k = None"
    and get_insert: "invar m \<Longrightarrow> get (insert k v m) k' = (if k' = k then Some v else get m k')"
begin

definition absorb :: "('k \<times> 'v) list \<Rightarrow> 'm \<Rightarrow> 'm" where
  "absorb kvs m = fold (\<lambda>(k, v). insert k v) kvs m"

lemma invar_absorb: "invar m \<Longrightarrow> invar (absorb kvs m)"
  by (induction kvs arbitrary: m) (auto simp: absorb_def invar_insert)

lemma get_absorb:
  "invar m \<Longrightarrow> get (absorb kvs m) k = (case map_of (rev kvs) k of Some v \<Rightarrow> Some v | None \<Rightarrow> get m k)"
proof (induction kvs arbitrary: m)
  case (Cons kv kvs)
  obtain k0 v0 where kv: "kv = (k0, v0)" by (cases kv)
  have "get (absorb (kv # kvs) m) k = get (absorb kvs (insert k0 v0 m)) k"
    by (simp add: absorb_def kv)
  also have "\<dots> = (case map_of (rev kvs) k of Some v \<Rightarrow> Some v | None \<Rightarrow> get (insert k0 v0 m) k)"
    by (rule Cons.IH) (rule invar_insert [OF Cons.prems])
  finally show ?case
    using Cons.prems by (simp add: kv get_insert map_of_append map_add_def split: option.split)
qed (simp add: absorb_def)

end

section \<open>Sorted association lists\<close>

fun bt_get :: "('k::linorder \<times> 'v) list \<Rightarrow> 'k \<Rightarrow> 'v option" where
  "bt_get [] k = None"
| "bt_get ((k', v) # m) k = (if k = k' then Some v else bt_get m k)"

fun bt_insert :: "'k::linorder \<Rightarrow> 'v \<Rightarrow> ('k \<times> 'v) list \<Rightarrow> ('k \<times> 'v) list" where
  "bt_insert k v [] = [(k, v)]"
| "bt_insert k v ((k', v') # m) =
     (if k < k' then (k, v) # (k', v') # m
      else if k = k' then (k, v) # m
      else (k', v') # bt_insert k v m)"

definition bt_sorted :: "('k::linorder \<times> 'v) list \<Rightarrow> bool" where
  "bt_sorted m \<longleftrightarrow> sorted_wrt (<) (map fst m)"

definition bt_from_list :: "('k::linorder \<times> 'v) list \<Rightarrow> ('k \<times> 'v) list" where
  "bt_from_list kvs = fold (\<lambda>(k, v). bt_insert k v) kvs []"

lemma fst_set_bt_insert [simp]: "fst ` set (bt_insert k v m) = insert k (fst ` set m)"
  by (induction k v m rule: bt_insert.induct) auto

lemma bt_sorted_Nil [simp]: "bt_sorted []"
  by (simp add: bt_sorted_def)

lemma bt_sorted_Cons [simp]:
  "bt_sorted ((k, v) # m) \<longleftrightarrow> (\<forall>k' \<in> fst ` set m. k < k') \<and> bt_sorted m"
  by (auto simp: bt_sorted_def)

lemma bt_sorted_insert: "bt_sorted m \<Longrightarrow> bt_sorted (bt_insert k v m)"
proof (induction k v m rule: bt_insert.induct)
  case (2 k v k' v' m)
  then show ?case
    by (cases "k < k'"; cases "k = k'") (fastforce simp del: split_paired_All split_paired_Ex)+
qed simp

lemma bt_get_notin: "k \<notin> fst ` set m \<Longrightarrow> bt_get m k = None"
  by (induction m k rule: bt_get.induct) auto

lemma bt_get_insert:
  "bt_sorted m \<Longrightarrow> bt_get (bt_insert k v m) k' = (if k' = k then Some v else bt_get m k')"
  by (induction k v m rule: bt_insert.induct) auto

interpretation btree: map_interface "[]" bt_get bt_insert bt_sorted
  by unfold_locales (simp_all add: bt_sorted_insert bt_get_insert)

lemma bt_get_Some_in: "bt_get m k = Some v \<Longrightarrow> (k, v) \<in> set m"
  by (induction m k rule: bt_get.induct) (auto split: if_splits)

lemma bt_in_get: "bt_sorted m \<Longrightarrow> (k, v) \<in> set m \<Longrightarrow> bt_get m k = Some v"
  by (induction m k rule: bt_get.induct) force+

text \<open>A sorted list is determined by its lookups, so two maps with the same
  bindings are the same value.\<close>

lemma bt_ext:
  fixes m m' :: "('a::linorder \<times> 'b) list"
  assumes "bt_sorted m" "bt_sorted m'" "\<And>k. bt_get m k = bt_get m' k"
  shows "m = m'"
proof -
  have same: "set m = set m'"
  proof (rule set_eqI)
    fix kv :: "'a \<times> 'b"
    obtain k v where kv: "kv = (k, v)" by (cases kv)
    have "kv \<in> set m \<longleftrightarrow> bt_get m k = Some v"
      using bt_in_get [OF assms(1)] bt_get_Some_in [of m k v] kv by blast
    moreover have "kv \<in> set m' \<longleftrightarrow> bt_get m' k = Some v"
      using bt_in_get [OF assms(2)] bt_get_Some_in [of m' k v] kv by blast
    ultimately show "kv \<in> set m \<longleftrightarrow> kv \<in> set m'" by (simp add: assms(3))
  qed
  have sd: "sorted (map fst m)" "distinct (map fst m)" "sorted (map fst m')" "distinct (map fst m')"
    using assms(1,2) by (simp_all add: bt_sorted_def strict_sorted_iff)
  then have "inj_on fst (set m \<union> set m')"
    by (simp add: same distinct_map)
  from map_sorted_distinct_set_unique [OF this sd same] show ?thesis .
qed

lemma bt_sorted_from_list: "bt_sorted (bt_from_list kvs)"
  using btree.invar_absorb [of "[]" kvs] by (simp add: btree.absorb_def bt_from_list_def)

lemma bt_get_from_list: "bt_get (bt_from_list kvs) k = map_of (rev kvs) k"
  using btree.get_absorb [of "[]" kvs k]
  by (simp add: btree.absorb_def bt_from_list_def split: option.splits)

end
