(* ===== verification/NetAddr.thy ===== *)
theory NetAddr
  imports Prelude
begin

unbundle bit_operations_syntax

text \<open>
  IP addresses as the standard library has them: \<open>Ipv4Addr\<close> a 32-bit word,
  \<open>Ipv6Addr\<close> a 128-bit word, the predicates the program asks of them, and the
  address parser of \<open>core::net::parser\<close> that \<open>str::parse\<close> runs (decimal octets
  without leading zeros, hexadecimal groups of at most four digits, one
  \<open>::\<close>, an embedded IPv4 tail).  \<open>should_bind\<close> is the destination
  classification of \<open>src/crates/outbound/src/dialer.rs\<close>.
\<close>

section \<open>Addresses\<close>

type_synonym ipv4 = "32 word"
type_synonym ipv6 = "128 word"

datatype ip_addr = V4 (the_v4: ipv4) | V6 (the_v6: ipv6)

text \<open>The derived order of \<open>IpAddr\<close>: every IPv4 address before every IPv6 address, each by its number.\<close>

instantiation ip_addr :: linorder
begin

definition less_eq_ip_addr :: "ip_addr \<Rightarrow> ip_addr \<Rightarrow> bool" where
  "less_eq_ip_addr a b = (case (a, b) of
      (V4 x, V4 y) \<Rightarrow> x \<le> y | (V4 _, V6 _) \<Rightarrow> True | (V6 _, V4 _) \<Rightarrow> False | (V6 x, V6 y) \<Rightarrow> x \<le> y)"

definition less_ip_addr :: "ip_addr \<Rightarrow> ip_addr \<Rightarrow> bool" where
  "less_ip_addr a b \<longleftrightarrow> a \<le> b \<and> \<not> b \<le> a"

instance
  by intro_classes (auto simp: less_eq_ip_addr_def less_ip_addr_def split: ip_addr.splits)

end

definition is_ipv4 :: "ip_addr \<Rightarrow> bool" where
  "is_ipv4 a = (case a of V4 _ \<Rightarrow> True | V6 _ \<Rightarrow> False)"

definition is_ipv6 :: "ip_addr \<Rightarrow> bool" where
  "is_ipv6 a = (case a of V4 _ \<Rightarrow> False | V6 _ \<Rightarrow> True)"

record socket_addr =
  sa_ip :: ip_addr
  sa_port :: u16

definition octets4 :: "ipv4 \<Rightarrow> bytes" where
  "octets4 a = [ucast (drop_bit 24 a), ucast (drop_bit 16 a), ucast (drop_bit 8 a), ucast a]"

definition ipv4_of_octets :: "nat \<Rightarrow> nat \<Rightarrow> nat \<Rightarrow> nat \<Rightarrow> ipv4" where
  "ipv4_of_octets a b c d = of_nat (((a * 256 + b) * 256 + c) * 256 + d)"

definition octets6 :: "ipv6 \<Rightarrow> bytes" where
  "octets6 a = map (\<lambda>i. ucast (drop_bit (120 - 8 * i) a)) [0..<16]"

definition segment0 :: "ipv6 \<Rightarrow> u16" where
  "segment0 a = ucast (drop_bit 112 a)"

definition ipv4_is_loopback :: "ipv4 \<Rightarrow> bool" where
  "ipv4_is_loopback a \<longleftrightarrow> drop_bit 24 a = 127"

definition ipv4_is_link_local :: "ipv4 \<Rightarrow> bool" where
  "ipv4_is_link_local a \<longleftrightarrow> drop_bit 16 a = 0xA9FE"

definition ipv4_is_multicast :: "ipv4 \<Rightarrow> bool" where
  "ipv4_is_multicast a \<longleftrightarrow> 224 \<le> drop_bit 24 a \<and> drop_bit 24 a \<le> 239"

definition ipv6_is_multicast :: "ipv6 \<Rightarrow> bool" where
  "ipv6_is_multicast a \<longleftrightarrow> drop_bit 120 a = 0xFF"

definition is_loopback :: "ip_addr \<Rightarrow> bool" where
  "is_loopback a = (case a of V4 v4 \<Rightarrow> ipv4_is_loopback v4 | V6 v6 \<Rightarrow> v6 = 1)"

definition is_unspecified :: "ip_addr \<Rightarrow> bool" where
  "is_unspecified a = (case a of V4 v4 \<Rightarrow> v4 = 0 | V6 v6 \<Rightarrow> v6 = 0)"

definition should_bind :: "ip_addr \<Rightarrow> bool" where
  "should_bind addr = (case addr of
      V4 v4 \<Rightarrow> \<not> ipv4_is_loopback v4 \<and> \<not> ipv4_is_link_local v4 \<and> \<not> ipv4_is_multicast v4
        \<and> v4 \<noteq> 0 \<and> v4 \<noteq> 0xFFFFFFFF
    | V6 v6 \<Rightarrow> (let is_link_local = (segment0 v6 AND 0xFFC0 = 0xFE80) in
        v6 \<noteq> 1 \<and> \<not> is_link_local \<and> \<not> ipv6_is_multicast v6 \<and> v6 \<noteq> 0))"

section \<open>The address parser\<close>

definition to_digit :: "nat \<Rightarrow> char \<Rightarrow> nat option" where
  "to_digit radix c = (let n = of_char c :: nat;
       v = (if 48 \<le> n \<and> n \<le> 57 then Some (n - 48)
            else if 97 \<le> n \<and> n \<le> 122 then Some (n - 87)
            else if 65 \<le> n \<and> n \<le> 90 then Some (n - 55) else None)
     in opt_filter (\<lambda>d. d < radix) v)"

fun read_digits :: "nat \<Rightarrow> string \<Rightarrow> nat list \<times> string" where
  "read_digits radix [] = ([], [])"
| "read_digits radix (c # cs) = (case to_digit radix c of
      None \<Rightarrow> ([], c # cs)
    | Some d \<Rightarrow> (let (ds, rest) = read_digits radix cs in (d # ds, rest)))"

definition read_number :: "nat \<Rightarrow> nat \<Rightarrow> bool \<Rightarrow> nat \<Rightarrow> string \<Rightarrow> (nat \<times> string) option" where
  "read_number radix max_digits allow_zero_prefix max_val s =
     (let (ds, rest) = read_digits radix s;
          result = foldl (\<lambda>a d. a * radix + d) 0 ds
      in if length ds > max_digits \<or> ds = [] then None
         else if \<not> allow_zero_prefix \<and> hd ds = 0 \<and> length ds > 1 then None
         else if result > max_val then None
         else Some (result, rest))"

definition read_given_char :: "char \<Rightarrow> string \<Rightarrow> string option" where
  "read_given_char c s = (case s of [] \<Rightarrow> None | x # xs \<Rightarrow> if x = c then Some xs else None)"

definition read_separator ::
  "char \<Rightarrow> nat \<Rightarrow> (string \<Rightarrow> ('a \<times> string) option) \<Rightarrow> string \<Rightarrow> ('a \<times> string) option" where
  "read_separator sep index inner s =
     (if index > 0 then Option.bind (read_given_char sep s) inner else inner s)"

definition read_octet :: "string \<Rightarrow> (nat \<times> string) option" where
  "read_octet s = read_number 10 3 False 255 s"

definition read_ipv4_addr :: "string \<Rightarrow> (ipv4 \<times> string) option" where
  "read_ipv4_addr s = do {
     (a, s) \<leftarrow> read_separator (CHR ''.'') 0 read_octet s;
     (b, s) \<leftarrow> read_separator (CHR ''.'') 1 read_octet s;
     (c, s) \<leftarrow> read_separator (CHR ''.'') 2 read_octet s;
     (d, s) \<leftarrow> read_separator (CHR ''.'') 3 read_octet s;
     Some (ipv4_of_octets a b c d, s) }"

text \<open>\<open>read_groups\<close> reads up to \<open>limit\<close> groups; \<open>n\<close> counts the groups still
  allowed, \<open>i = limit - n\<close> is the index of the next one.\<close>

fun read_groups :: "nat \<Rightarrow> nat \<Rightarrow> string \<Rightarrow> nat list \<times> bool \<times> string" where
  "read_groups 0 limit s = ([], False, s)"
| "read_groups (Suc n) limit s =
     (let i = limit - Suc n;
          v4 = (if i < limit - 1 then read_separator (CHR '':'') i read_ipv4_addr s else None)
      in case v4 of
           Some (a, s') \<Rightarrow> ([unat (drop_bit 16 a), unat (take_bit 16 a)], True, s')
         | None \<Rightarrow> (case read_separator (CHR '':'') i (read_number 16 4 True 65535) s of
               None \<Rightarrow> ([], False, s)
             | Some (g, s') \<Rightarrow>
                 (let (gs, v4, s'') = read_groups n limit s' in (g # gs, v4, s''))))"

definition ipv6_of_groups :: "nat list \<Rightarrow> ipv6" where
  "ipv6_of_groups gs = of_nat (foldl (\<lambda>a g. a * 65536 + g) 0 gs)"

definition read_ipv6_addr :: "string \<Rightarrow> (ipv6 \<times> string) option" where
  "read_ipv6_addr s =
     (let (head, head_ipv4, s1) = read_groups 8 8 s in
      if length head = 8 then Some (ipv6_of_groups head, s1)
      else if head_ipv4 then None
      else do {
        s2 \<leftarrow> read_given_char (CHR '':'') s1;
        s3 \<leftarrow> read_given_char (CHR '':'') s2;
        let limit = 8 - (length head + 1);
            (tail, _, s4) = read_groups limit limit s3
        in Some (ipv6_of_groups (head @ replicate (8 - length head - length tail) 0 @ tail), s4) })"

definition parse_with :: "(string \<Rightarrow> ('a \<times> string) option) \<Rightarrow> string \<Rightarrow> 'a option" where
  "parse_with p s = (case p s of Some (a, []) \<Rightarrow> Some a | _ \<Rightarrow> None)"

definition parse_ipv4 :: "string \<Rightarrow> ipv4 option" where
  "parse_ipv4 s = (if length (as_bytes s) > 15 then None else parse_with read_ipv4_addr s)"

definition parse_ipv6 :: "string \<Rightarrow> ipv6 option" where
  "parse_ipv6 s = parse_with read_ipv6_addr s"

definition read_ip_addr :: "string \<Rightarrow> (ip_addr \<times> string) option" where
  "read_ip_addr s = (case read_ipv4_addr s of
       Some (a, r) \<Rightarrow> Some (V4 a, r)
     | None \<Rightarrow> map_option (\<lambda>(a, r). (V6 a, r)) (read_ipv6_addr s))"

definition parse_ip :: "string \<Rightarrow> ip_addr option" where
  "parse_ip s = parse_with read_ip_addr s"

definition ipv4_to_string :: "ipv4 \<Rightarrow> string" where
  "ipv4_to_string a =
     nat_to_string (unat (drop_bit 24 a)) @ ''.'' @
     nat_to_string (unat (take_bit 8 (drop_bit 16 a))) @ ''.'' @
     nat_to_string (unat (take_bit 8 (drop_bit 8 a))) @ ''.'' @
     nat_to_string (unat (take_bit 8 a))"

section \<open>Printing and parsing an IPv4 address\<close>

lemma to_digit_char_of: "d < 10 \<Longrightarrow> to_digit 10 (char_of (48 + d)) = Some d"
  by (simp add: to_digit_def of_char_of Let_def)

lemma read_digits_append:
  assumes "list_all2 (\<lambda>c d. to_digit radix c = Some d) cs ds"
    and "rest = [] \<or> to_digit radix (hd rest) = None"
  shows "read_digits radix (cs @ rest) = (ds, rest)"
  using assms(1)
proof (induction rule: list_all2_induct)
  case Nil
  then show ?case using assms(2) by (cases rest) simp_all
qed simp

text \<open>\<open>ds\<close> are the digit values of the printed form of \<open>n\<close>.\<close>

definition digits_shape :: "nat \<Rightarrow> nat list \<Rightarrow> bool" where
  "digits_shape n ds \<longleftrightarrow>
     list_all2 (\<lambda>c d. to_digit 10 c = Some d) (digits_of n) ds
     \<and> foldl (\<lambda>a d. a * 10 + d) 0 ds = n \<and> ds \<noteq> []
     \<and> (n < 1000 \<longrightarrow> length ds \<le> 3) \<and> (hd ds = 0 \<longrightarrow> n = 0 \<and> length ds = 1)"

lemma digits_shape_small: "n < 10 \<Longrightarrow> digits_shape n [n]"
  by (simp add: digits_shape_def digits_of_small to_digit_char_of)

lemma length_digits_of_100: "m < 100 \<Longrightarrow> length (digits_of m) \<le> 2"
  by (cases "m < 10") (simp_all add: digits_of_small digits_of_big [of m])

lemma digits_shape_big:
  assumes big: "\<not> n < 10" and ds: "digits_shape (n div 10) ds"
  shows "digits_shape n (ds @ [n mod 10])"
proof -
  have all2: "list_all2 (\<lambda>c d. to_digit 10 c = Some d) (digits_of (n div 10)) ds"
    using ds by (simp add: digits_shape_def)
  have len: "length ds \<le> 2" if "n < 1000"
  proof -
    have "length ds = length (digits_of (n div 10))"
      using list_all2_lengthD [OF all2] by simp
    also have "\<dots> \<le> 2" using that by (intro length_digits_of_100) simp
    finally show ?thesis .
  qed
  have last: "list_all2 (\<lambda>c d. to_digit 10 c = Some d) [char_of (48 + n mod 10)] [n mod 10]"
    by (simp add: to_digit_char_of)
  have "list_all2 (\<lambda>c d. to_digit 10 c = Some d) (digits_of n) (ds @ [n mod 10])"
    unfolding digits_of_big [OF big] by (rule list_all2_appendI [OF all2 last])
  moreover have "hd (ds @ [n mod 10]) = 0 \<longrightarrow> n = 0 \<and> length (ds @ [n mod 10]) = 1"
    using ds big by (auto simp: digits_shape_def)
  moreover have "foldl (\<lambda>a d. a * 10 + d) 0 (ds @ [n mod 10]) = n"
    using ds by (simp add: digits_shape_def)
  ultimately show ?thesis
    using len by (simp add: digits_shape_def)
qed

lemma digits_shape_exists: "\<exists>ds. digits_shape n ds"
proof (induction n rule: digits_of.induct)
  case (1 n)
  then show ?case
    using digits_shape_small digits_shape_big by (cases "n < 10") blast+
qed

lemma read_octet_digits:
  assumes "n \<le> 255" "rest = [] \<or> to_digit 10 (hd rest) = None"
  shows "read_octet (digits_of n @ rest) = Some (n, rest)"
proof -
  obtain ds where ds: "digits_shape n ds"
    using digits_shape_exists by blast
  then have "read_digits 10 (digits_of n @ rest) = (ds, rest)"
    using assms(2) by (intro read_digits_append) (simp_all add: digits_shape_def)
  then show ?thesis
    using ds assms(1) by (auto simp: read_octet_def read_number_def digits_shape_def)
qed

lemma to_digit_dot [simp]: "to_digit 10 (CHR ''.'') = None"
  by (simp add: to_digit_def)

lemma ipv4_of_octets_split:
  "ipv4_of_octets (unat (drop_bit 24 a)) (unat (take_bit 8 (drop_bit 16 a)))
     (unat (take_bit 8 (drop_bit 8 a))) (unat (take_bit 8 a)) = a"
proof -
  define n where "n = unat a"
  have lt: "n < 2 ^ 32" using unsigned_less [of a, where ?'a = nat] by (simp add: n_def)
  have parts: "unat (drop_bit 24 a) = n div 2 ^ 24"
    "unat (take_bit 8 (drop_bit 16 a)) = n div 2 ^ 16 mod 2 ^ 8"
    "unat (take_bit 8 (drop_bit 8 a)) = n div 2 ^ 8 mod 2 ^ 8"
    "unat (take_bit 8 a) = n mod 2 ^ 8"
    unfolding n_def unat_drop_bit_eq unsigned_take_bit_eq
    by (simp_all only: take_bit_eq_mod drop_bit_eq_div)
  have "((n div 2 ^ 24 * 256 + n div 2 ^ 16 mod 2 ^ 8) * 256 + n div 2 ^ 8 mod 2 ^ 8) * 256
      + n mod 2 ^ 8 = n"
  proof -
    have split: "k div d div 256 * 256 + k div d mod 256 = k div d" for k d :: nat
      by (rule div_mult_mod_eq)
    have "n div 2 ^ 24 = n div 2 ^ 16 div 256" "n div 2 ^ 16 = n div 2 ^ 8 div 256"
      "n div 2 ^ 8 = n div 1 div 256"
      by (simp_all add: div_mult2_eq [symmetric])
    then show ?thesis using split [of n "2 ^ 16"] split [of n "2 ^ 8"] split [of n 1] by simp
  qed
  then show ?thesis
    unfolding ipv4_of_octets_def parts by (simp add: n_def)
qed

lemma unat_octets_le:
  "unat (drop_bit 24 (a :: ipv4)) \<le> 255" "unat (take_bit 8 (w :: ipv4)) \<le> 255"
proof -
  have "unat a < 2 ^ 32" using unsigned_less [of a, where ?'a = nat] by simp
  then show "unat (drop_bit 24 a) \<le> 255"
    unfolding unat_drop_bit_eq by (simp add: drop_bit_eq_div)
  show "unat (take_bit 8 w) \<le> 255"
    unfolding unsigned_take_bit_eq by (simp add: take_bit_eq_mod)
qed

lemma read_ipv4_to_string:
  assumes "rest = [] \<or> to_digit 10 (hd rest) = None"
  shows "read_ipv4_addr (ipv4_to_string a @ rest) = Some (a, rest)"
  using assms
  by (simp add: read_ipv4_addr_def ipv4_to_string_def nat_to_string_def read_separator_def
      read_given_char_def read_octet_digits unat_octets_le ipv4_of_octets_split)

lemma length_digits_of_octet: "n \<le> 255 \<Longrightarrow> length (digits_of n) \<le> 3"
  using digits_shape_exists [of n] by (auto simp: digits_shape_def dest: list_all2_lengthD)

lemma as_bytes_digit: "digit_val c \<noteq> None \<Longrightarrow> length (utf8_char c) = 1"
  by (auto simp: digit_val_def utf8_char_def Let_def split: if_splits)

lemma length_as_bytes_digits: "length (as_bytes (digits_of n)) = length (digits_of n)"
proof -
  have "\<forall>c \<in> set cs. digit_val c \<noteq> None \<Longrightarrow> length (as_bytes cs) = length cs" for cs
    by (induction cs) (simp_all add: as_bytes_def as_bytes_digit)
  then show ?thesis using digits_of_digit by blast
qed

lemma as_bytes_append: "as_bytes (s @ t) = as_bytes s @ as_bytes t"
  by (simp add: as_bytes_def)

lemma length_ipv4_to_string: "length (as_bytes (ipv4_to_string a)) \<le> 15"
proof -
  have dot: "length (as_bytes ''.'') = 1" by (simp add: as_bytes_def utf8_char_def)
  show ?thesis
    using length_digits_of_octet [OF unat_octets_le(1) [of a]]
      length_digits_of_octet [OF unat_octets_le(2) [of "drop_bit 16 a"]]
      length_digits_of_octet [OF unat_octets_le(2) [of "drop_bit 8 a"]]
      length_digits_of_octet [OF unat_octets_le(2) [of a]]
    unfolding ipv4_to_string_def nat_to_string_def as_bytes_append length_append
      length_as_bytes_digits dot by linarith
qed

lemma parse_ipv4_to_string: "parse_ipv4 (ipv4_to_string a) = Some a"
  using read_ipv4_to_string [of "[]" a] length_ipv4_to_string [of a]
  by (simp add: parse_ipv4_def parse_with_def)

lemma parse_ip_of_ipv4: "parse_ip (ipv4_to_string a) = Some (V4 a)"
  using read_ipv4_to_string [of "[]" a] by (simp add: parse_ip_def parse_with_def read_ip_addr_def)

end
