(* ===== verification/ApiModels.thy ===== *)
theory ApiModels
  imports Prelude
begin

text \<open>
  The wire models of the API crate (\<open>src/crates/api/src/models\<close>).

  Every struct is a record with the fields of the source (prefixed by the
  struct, since HOL field names are global), every enum a datatype.  The serde
  derives are not modelled; the two hand-written field deserialisers are, over a
  datatype of JSON values.  The requests of the server's interface are gathered
  in one datatype \<open>api_request\<close> whose constructors carry the request
  structs; \<open>request_method\<close>, \<open>request_path\<close>, \<open>query_pairs\<close> and
  \<open>has_body\<close> are the members of the \<open>SendableRequest\<close> trait.
\<close>

section \<open>Common\<close>

datatype json_number = NInt int | NFloat string

datatype json =
    JNull
  | JBool bool
  | JNumber json_number
  | JString string
  | JArray "json list"
  | JObject "(string \<times> json) list"

type_synonym json_object = "(string \<times> json) list"

record logout_reason_t =
  lr_reason :: "string option"
  lr_message :: "string option"

record 'a base_response =
  br_code :: int
  br_message :: "string option"
  br_data :: "'a option"
  br_action :: "string option"
  br_logout_reason :: "logout_reason_t option"
  br_extra :: "json_object option"

definition base_response_default :: "'a base_response" where
  "base_response_default = \<lparr>br_code = 0, br_message = None, br_data = None,
     br_action = None, br_logout_reason = None, br_extra = None\<rparr>"

definition is_force_logout :: "'a base_response \<Rightarrow> bool" where
  "is_force_logout r \<longleftrightarrow> br_action r = Some ''logout''"

section \<open>VPN models\<close>

datatype protocol_mode = Udp | FeilianTcp

definition protocol_mode_repr :: "protocol_mode \<Rightarrow> int" where
  "protocol_mode_repr m = (case m of Udp \<Rightarrow> 0 | FeilianTcp \<Rightarrow> 1)"

definition protocol_mode_from_repr :: "int \<Rightarrow> protocol_mode option" where
  "protocol_mode_from_repr n =
     (if n = 0 then Some Udp else if n = 1 then Some FeilianTcp else None)"

lemma protocol_mode_from_repr_repr [simp]:
  "protocol_mode_from_repr (protocol_mode_repr m) = Some m"
  by (cases m) (simp_all add: protocol_mode_repr_def protocol_mode_from_repr_def)

record vpn_setting =
  vs_enable :: "bool option"
  vs_mode :: "string option"
  vs_split_only :: "bool option"
  vs_vpn_status :: "int option"
  vs_admin_enable :: "bool option"
  vs_vpn_domain :: "string option"
  vs_raw :: "json_object option"

record ip_delay_routing_policy =
  idr_is_operator :: "bool option"
  idr_policy_type :: "int option"

definition OPERATOR :: int where "OPERATOR = 1"

definition is_operator_routing :: "ip_delay_routing_policy \<Rightarrow> bool" where
  "is_operator_routing p \<longleftrightarrow>
     unwrap_or (idr_is_operator p) False \<and> idr_policy_type p = Some OPERATOR"

record vpn_dot =
  dot_id :: "int option"
  dot_ip :: string
  dot_api_ip :: "string option"
  dot_api_port :: "int option"
  dot_vpn_port :: "int option"
  dot_protocol_mode :: "int option"
  dot_timeout :: "int option"
  dot_mode :: "int option"
  dot_type :: "string option"
  dot_name :: "string option"
  dot_display_name :: "string option"
  dot_fast_ip :: "string option"
  dot_ip4_domain :: "string option"
  dot_reconnect :: "bool option"
  dot_exclude :: "bool option"
  dot_dedicated :: "bool option"
  dot_backup_ips :: "string list option"
  dot_ip_delay_routing_policy :: "ip_delay_routing_policy option"
  dot_raw :: "json_object option"

definition vpn_dot_default :: vpn_dot where
  "vpn_dot_default = \<lparr>dot_id = None, dot_ip = [], dot_api_ip = None, dot_api_port = None,
     dot_vpn_port = None, dot_protocol_mode = None, dot_timeout = None, dot_mode = None,
     dot_type = None, dot_name = None, dot_display_name = None, dot_fast_ip = None,
     dot_ip4_domain = None, dot_reconnect = None, dot_exclude = None, dot_dedicated = None,
     dot_backup_ips = None, dot_ip_delay_routing_policy = None, dot_raw = None\<rparr>"

record vpn_conn_request =
  vcr_mode :: "string option"
  vcr_public_key :: string
  vcr_otp :: "string option"
  vcr_export_id :: int
  vcr_sign_token :: "string option"
  vcr_not_auto :: "bool option"

record vpn_report_request =
  vrr_type :: string
  vrr_ip :: string
  vrr_public_key :: string
  vrr_mode :: string

datatype vpn_report_type = ReportConnected | ReportDisconnected

definition vpn_report_type_repr :: "vpn_report_type \<Rightarrow> int" where
  "vpn_report_type_repr t = (case t of ReportConnected \<Rightarrow> 100 | ReportDisconnected \<Rightarrow> 101)"

definition vpn_report_type_wire :: "vpn_report_type \<Rightarrow> string" where
  "vpn_report_type_wire t = int_to_string (vpn_report_type_repr t)"

record central_dns =
  cd_tenant_id :: string
  cd_cpe_id :: int
  cd_dnat_ip :: string
  cd_dns :: "string list"
  cd_second_bloom :: string
  cd_third_bloom :: string
  cd_bloom_num :: int
  cd_version :: string

record ip_nat =
  nat_ips :: "string list"
  nat_is_default_nat :: bool
  nat_nat_ip :: string

text \<open>The answer tables are \<open>HashMap<String, Vec<String>>\<close>.  A table is an
  association list with distinct keys, in the order in which the map is iterated.\<close>

type_synonym domain_map = "(string \<times> string list) list"

record vpn_conn_setting =
  st_vpn_mtu :: int
  st_vpn_dns :: "string option"
  st_vpn_dns_backup :: "string option"
  st_vpn_dns_domain_split :: "string list option"
  st_vpn_route_full :: "string list option"
  st_vpn_route_split :: "string list option"
  st_v6_route_full :: "string list option"
  st_v6_route_split :: "string list option"
  st_vpn_dynamic_domain_route_split :: "domain_map option"
  st_v6_vpn_dynamic_domain_route_split :: "domain_map option"
  st_vpn_wildcard_dynamic_domain_route_split :: "domain_map option"
  st_suffix_wildcard_dynamic_domain_route_split :: "domain_map option"
  st_dynamic_domain :: "domain_map option"
  st_central_dns :: "central_dns option"
  st_ip_nats :: "ip_nat list option"

record vpn_conn_response =
  conn_ip :: string
  conn_ipv6 :: "string option"
  conn_ip_mask :: "int option"
  conn_public_key :: string
  conn_preshared_key :: "string option"
  conn_sign_token :: "string option"
  conn_protocol_version :: "string option"
  conn_setting :: vpn_conn_setting
  conn_raw :: "json_object option"

text \<open>\<open>deserialize_flexible_opt_i32\<close>: the argument is the value of an optional
  field, \<open>None\<close> for a null.\<close>

definition number_as_i64 :: "json_number \<Rightarrow> int option" where
  "number_as_i64 n = (case n of NInt i \<Rightarrow> if i64_ok i then Some i else None | NFloat _ \<Rightarrow> None)"

definition deserialize_flexible_opt_i32 :: "json option \<Rightarrow> int option" where
  "deserialize_flexible_opt_i32 v = (case v of
       Some (JNumber number) \<Rightarrow> opt_filter i32_ok (number_as_i64 number)
     | Some (JString text) \<Rightarrow> parse_i32 (trim text)
     | _ \<Rightarrow> None)"

text \<open>\<open>deserialize_stringified_json\<close>: \<open>from_str\<close> and \<open>from_value\<close> are serde's
  decoders for the field's type.\<close>

definition deserialize_stringified_json ::
  "(string \<Rightarrow> 'a option) \<Rightarrow> (json \<Rightarrow> 'a option) \<Rightarrow> json option \<Rightarrow> 'a option" where
  "deserialize_stringified_json from_str from_value v = (case v of
       Some (JString text) \<Rightarrow>
         (let text = trim text in if text \<noteq> [] then from_str text else None)
     | Some JNull \<Rightarrow> None
     | None \<Rightarrow> None
     | Some other \<Rightarrow> from_value other)"

section \<open>One-time passwords, profile and security\<close>

record otp_provision =
  op_url :: string
  op_timestamp :: int

record login_setting =
  ls_login_version :: "string option"
  ls_raw :: "json_object option"

definition is_v1 :: "login_setting \<Rightarrow> bool" where
  "is_v1 s \<longleftrightarrow> ls_login_version s = Some ''v1''"

record user_info =
  ui_uid :: "string option"
  ui_name :: "string option"
  ui_email :: "string option"
  ui_mobile :: "string option"
  ui_raw :: "json_object option"

record signing_rule =
  sr_urls :: "string list option"
  sr_enable_signing :: "bool option"
  sr_signing_input_params :: "int option"
  sr_max_time_desync :: "int option"

record tenant_signing_config =
  tsc_enable :: "bool option"
  tsc_algorithms :: "string list option"
  tsc_rules :: "signing_rule list option"
  tsc_rules_map :: "json_object option"

record tenant_config =
  tc_signing_config :: "tenant_signing_config option"
  tc_raw :: "json_object option"

record security_report_item =
  sri_key :: string
  sri_level :: int
  sri_data :: "json_object option"

record security_report_request =
  srq_status :: "string option"
  srq_items :: "security_report_item list"
  srq_raw :: "json_object option"

section \<open>Authentication models\<close>

record activate_info =
  ai_activate_host :: "string option"
  ai_activate_backup_domain :: "string option"
  ai_activate_enable_backup_domain :: "bool option"
  ai_tenant_name :: "string option"
  ai_name :: "string option"
  ai_zh_name :: "string option"
  ai_en_name :: "string option"
  ai_domain :: "string option"
  ai_enable_self_signed :: "bool option"
  ai_self_signed_cert :: "string option"
  ai_enable_public_key :: "bool option"
  ai_public_key :: "string option"
  ai_raw :: "json_object option"

record password_login_request =
  pl_login_scene :: string
  pl_account_type :: string
  pl_account :: string
  pl_password :: string

record send_code_request =
  sc_login_scene :: string
  sc_account_type :: string
  sc_login_type :: string
  sc_account :: string

record verify_code_request =
  vc_login_scene :: string
  vc_account_type :: string
  vc_login_type :: string
  vc_account :: string
  vc_code :: string

record verify_mfa_request =
  vm_login_scene :: string
  vm_mfa_type :: string
  vm_account :: string
  vm_code :: "string option"
  vm_password :: "string option"

record mfa_send_request =
  ms_login_scene :: string
  ms_mfa_type :: string
  ms_account :: string

record login_skip_request =
  sk_login_scene :: string
  sk_account :: string

record oauth_callback_request =
  oc_alias_key :: string
  oc_code :: string
  oc_state :: string
  oc_code_verifier :: string

record oauth_query_callback_request =
  oq_alias :: string
  oq_code :: string
  oq_state :: string

record device_oauth_callback_request =
  dc_alias_key :: string
  dc_code :: string
  dc_state :: string
  dc_code_verifier :: "string option"

record login_v2_next =
  ln_action :: "string option"
  ln_can_skip :: "bool option"
  ln_auth_list :: "string list option"
  ln_mobile :: "string option"
  ln_email :: "string option"
  ln_password_rule :: "json_object option"
  ln_link :: "string option"
  ln_passkey_uid :: "string option"

record login_v2_result =
  l2_result :: "string option"
  l2_next :: "login_v2_next option"

record login_result =
  lres_login_result :: "string option"
  lres_url :: "string option"
  lres_auth :: "json option"
  lres_timestamp :: "int option"
  lres_need_verify :: "bool option"
  lres_token :: "string option"
  lres_vpn_token :: "string option"
  lres_csrf_token :: "string option"
  lres_uid :: "string option"
  lres_need_mfa :: "bool option"
  lres_mfa_token :: "string option"
  lres_raw :: "json_object option"

record third_party_login_info =
  tp_alias :: "string option"
  tp_alias_key :: "string option"
  tp_name :: "string option"
  tp_link :: "string option"
  tp_url :: "string option"
  tp_login_url :: "string option"
  tp_token :: "string option"
  tp_state :: "string option"
  tp_schema :: "string option"
  tp_appid :: "string option"
  tp_agentid :: "string option"
  tp_scope :: "string option"
  tp_notice :: "string option"
  tp_is_custom :: "bool option"
  tp_full_title :: "string option"
  tp_icon :: "string option"
  tp_abbreviation :: "string option"
  tp_raw :: "json_object option"

record common_string_result =
  cs_result :: "string option"

section \<open>Requests\<close>

datatype http_method = GET | POST

datatype api_request =
    ActivateRequest string
  | PasswordLoginRequest password_login_request
  | SendCodeRequest send_code_request
  | VerifyCodeRequest verify_code_request
  | VerifyMfaRequest verify_mfa_request
  | V1LoginRequest password_login_request
  | V1SendCodeRequest send_code_request
  | V1VerifyCodeRequest verify_code_request
  | V1MfaSendRequest mfa_send_request
  | V1MfaVerifyRequest verify_mfa_request
  | V1LoginSkipRequest login_skip_request
  | LogoutRequest bool
  | OAuthCallbackRequest oauth_callback_request
  | OAuthQueryCallbackRequest oauth_query_callback_request
  | DeviceOAuthCallbackRequest device_oauth_callback_request
  | GetThirdPartyLoginLinksRequest "string option"
  | ThirdPartyTokenCheckRequest string
  | FetchOtpRequest
  | GetLoginSettingRequest
  | GetUserInfoRequest
  | GetTenantConfigRequest
  | SecurityReportRequest security_report_request
  | GetVpnSettingRequest
  | GetVpnLocationsRequest
  | VpnConnRequest vpn_conn_request
  | VpnPingRequest
  | VpnReportRequest vpn_report_request

fun request_method :: "api_request \<Rightarrow> http_method" where
  "request_method (LogoutRequest _) = GET"
| "request_method (OAuthQueryCallbackRequest _) = GET"
| "request_method (GetThirdPartyLoginLinksRequest _) = GET"
| "request_method GetLoginSettingRequest = GET"
| "request_method GetUserInfoRequest = GET"
| "request_method GetTenantConfigRequest = GET"
| "request_method GetVpnSettingRequest = GET"
| "request_method GetVpnLocationsRequest = GET"
| "request_method VpnPingRequest = GET"
| "request_method _ = POST"

text \<open>The characters \<open>PATH_SEGMENT\<close> leaves unencoded: ASCII letters and digits
  (those \<open>NON_ALPHANUMERIC\<close> does not hold) and the four removed marks.\<close>

definition path_segment_keeps :: "char \<Rightarrow> bool" where
  "path_segment_keeps c \<longleftrightarrow> (let n = of_char c :: nat in
     (48 \<le> n \<and> n \<le> 57) \<or> (65 \<le> n \<and> n \<le> 90) \<or> (97 \<le> n \<and> n \<le> 122)
     \<or> c \<in> set ''-._~'')"

text \<open>\<open>SendableRequest::path\<close>; \<open>percent_encode\<close> is the percent-encoding crate.\<close>

fun request_path :: "((char \<Rightarrow> bool) \<Rightarrow> string \<Rightarrow> string) \<Rightarrow> api_request \<Rightarrow> string" where
  "request_path pe (ActivateRequest _) = ''/api/match''"
| "request_path pe (PasswordLoginRequest _) = ''/api/login''"
| "request_path pe (SendCodeRequest _) = ''/api/login/code/send''"
| "request_path pe (VerifyCodeRequest _) = ''/api/login/code/verify''"
| "request_path pe (VerifyMfaRequest _) = ''/api/mfa/code/verify''"
| "request_path pe (V1LoginRequest _) = ''/api/v1/login''"
| "request_path pe (V1SendCodeRequest _) = ''/api/v1/login/send''"
| "request_path pe (V1VerifyCodeRequest _) = ''/api/v1/login/verify''"
| "request_path pe (V1MfaSendRequest _) = ''/api/v1/login/mfa/send''"
| "request_path pe (V1MfaVerifyRequest _) = ''/api/v1/login/mfa/verify''"
| "request_path pe (V1LoginSkipRequest _) = ''/api/v1/login/skip''"
| "request_path pe (LogoutRequest _) = ''/api/logout''"
| "request_path pe (OAuthCallbackRequest _) = ''/api/tpslogin/callback''"
| "request_path pe (OAuthQueryCallbackRequest r) =
     ''/api/tpslogin/callback/'' @ pe path_segment_keeps (oq_alias r)"
| "request_path pe (DeviceOAuthCallbackRequest _) = ''/api/tpslogin/device/callback''"
| "request_path pe (GetThirdPartyLoginLinksRequest _) = ''/api/tpslogin/link''"
| "request_path pe (ThirdPartyTokenCheckRequest _) = ''/api/tpslogin/token/check''"
| "request_path pe FetchOtpRequest = ''/api/v2/p/otp''"
| "request_path pe GetLoginSettingRequest = ''/api/login/setting''"
| "request_path pe GetUserInfoRequest = ''/api/info/me''"
| "request_path pe GetTenantConfigRequest = ''/api/tenant/config''"
| "request_path pe (SecurityReportRequest _) = ''/api/security/report''"
| "request_path pe GetVpnSettingRequest = ''/api/setting''"
| "request_path pe GetVpnLocationsRequest = ''/api/vpn/list''"
| "request_path pe (VpnConnRequest _) = ''/vpn/conn''"
| "request_path pe VpnPingRequest = ''/vpn/ping''"
| "request_path pe (VpnReportRequest _) = ''/vpn/report''"

fun query_pairs :: "api_request \<Rightarrow> (string \<times> string) list" where
  "query_pairs (LogoutRequest logout_all) =
     [(''logout_all'', if logout_all then ''true'' else ''false'')]"
| "query_pairs (OAuthQueryCallbackRequest r) = [(''code'', oq_code r), (''state'', oq_state r)]"
| "query_pairs (GetThirdPartyLoginLinksRequest code_challenge) = (case code_challenge of
       Some challenge \<Rightarrow> if challenge \<noteq> [] then [(''code_challenge'', challenge)] else []
     | None \<Rightarrow> [])"
| "query_pairs _ = []"

text \<open>Whether \<open>SendableRequest::body\<close> yields a serialised struct: the requests of
  \<open>impl_json_request!\<close> do, those of \<open>impl_empty_request!\<close> and the hand-written
  GET requests keep the default \<open>Ok(None)\<close>.\<close>

fun has_body :: "api_request \<Rightarrow> bool" where
  "has_body FetchOtpRequest = False"
| "has_body r = (request_method r = POST)"

section \<open>Response decoders\<close>

text \<open>\<open>serde_json::from_slice\<close> at the response type of each request.\<close>

record decoders =
  dec_activate :: "bytes \<Rightarrow> activate_info base_response option"
  dec_login_v2 :: "bytes \<Rightarrow> login_v2_result base_response option"
  dec_login_result :: "bytes \<Rightarrow> login_result base_response option"
  dec_string_result :: "bytes \<Rightarrow> common_string_result base_response option"
  dec_links :: "bytes \<Rightarrow> third_party_login_info list base_response option"
  dec_otp :: "bytes \<Rightarrow> otp_provision base_response option"
  dec_login_setting :: "bytes \<Rightarrow> login_setting base_response option"
  dec_user_info :: "bytes \<Rightarrow> user_info base_response option"
  dec_tenant_config :: "bytes \<Rightarrow> tenant_config base_response option"
  dec_vpn_setting :: "bytes \<Rightarrow> vpn_setting base_response option"
  dec_vpn_locations :: "bytes \<Rightarrow> vpn_dot list base_response option"
  dec_vpn_conn :: "bytes \<Rightarrow> vpn_conn_response base_response option"
  dec_object :: "bytes \<Rightarrow> json_object base_response option"
  dec_value :: "bytes \<Rightarrow> json base_response option"

section \<open>Facts\<close>

text \<open>A request with a body is a POST, and a POST without one is the OTP fetch.\<close>

lemma has_body_post: "has_body r \<Longrightarrow> request_method r = POST"
  by (cases r) simp_all

lemma post_has_body: "request_method r = POST \<Longrightarrow> has_body r \<or> r = FetchOtpRequest"
  by (cases r) simp_all

lemma query_pairs_get: "query_pairs r \<noteq> [] \<Longrightarrow> request_method r = GET"
  by (cases r) simp_all

lemma flexible_opt_i32_bounds:
  "deserialize_flexible_opt_i32 v = Some n \<Longrightarrow> i32_ok n"
  by (auto simp: deserialize_flexible_opt_i32_def opt_filter_eq_Some parse_i32_def i32_ok_def
      dest: parse_unsigned_le split: option.splits json.splits if_splits)

end
