(* ===== verification/Signing.thy ===== *)
theory Signing
  imports Prelude
begin

unbundle bit_operations_syntax

text \<open>
  Request signing and password encryption (\<open>src/crates/api/src/signing.rs\<close>).

  The primitives the module calls (HMAC-SHA256, SHA-256, SHA-1, AES-CBC, base64,
  hex, the protobuf encoder) are third-party; they are the fields of the record
  \<open>crypto\<close>, with the digests typed by their width so that a digest has its
  fixed length by construction.  The module's own logic is defined over them:
  which requests are signed, which inputs the signature covers, where the key
  comes from, and the HKDF expansion loop.
\<close>

section \<open>Third-party primitives\<close>

record crypto =
  hmac_sha256 :: "bytes \<Rightarrow> bytes \<Rightarrow> 256 word"
  hmac_key_ok :: "bytes \<Rightarrow> bool"
  sha256 :: "bytes \<Rightarrow> 256 word"
  sha1 :: "bytes \<Rightarrow> 160 word"
  b64_encode :: "bytes \<Rightarrow> string"
  b64_decode :: "string \<Rightarrow> bytes option"
  hex_encode :: "bytes \<Rightarrow> string"
  aes256_cbc_pkcs7 :: "bytes \<Rightarrow> bytes \<Rightarrow> bytes \<Rightarrow> bytes option"
  encode_sign_header :: "u64 \<Rightarrow> u64 \<Rightarrow> bytes \<Rightarrow> bytes"

text \<open>\<open>GenericArray\<close> as bytes, most significant first.\<close>

definition array_bytes :: "'a::len word \<Rightarrow> bytes" where
  "array_bytes w = map (\<lambda>i. ucast (drop_bit (LENGTH('a) - 8 * Suc i) w)) [0..<LENGTH('a) div 8]"

lemma length_array_bytes [simp]: "length (array_bytes (w :: 'a::len word)) = LENGTH('a) div 8"
  by (simp add: array_bytes_def)

text \<open>\<open>Url\<close>: what the program reads of a parsed URL.\<close>

record url =
  u_str :: string
  u_host :: "string option"
  u_port :: "u16 option"
  u_path :: string
  u_query :: "string option"

text \<open>\<open>HeaderMap\<close>: single-valued, names in lower case; \<open>insert\<close> replaces.\<close>

type_synonym headers = "(string \<times> string) list"

definition header_insert :: "string \<Rightarrow> string \<Rightarrow> headers \<Rightarrow> headers" where
  "header_insert n v hs = (n, v) # filter (\<lambda>kv. fst kv \<noteq> n) hs"

lemma map_of_header_insert [simp]: "map_of (header_insert n v hs) = (map_of hs)(n \<mapsto> v)"
proof
  fix k
  have "map_of (filter (\<lambda>kv. fst kv \<noteq> n) hs) k = map_of hs k" if "k \<noteq> n"
    using that by (induction hs) auto
  then show "map_of (header_insert n v hs) k = ((map_of hs)(n \<mapsto> v)) k"
    by (simp add: header_insert_def)
qed

section \<open>Configuration\<close>

abbreviation flag_METHOD :: u64 where "flag_METHOD \<equiv> push_bit 1 1"
abbreviation flag_PATH :: u64 where "flag_PATH \<equiv> push_bit 2 1"
abbreviation flag_QUERY :: u64 where "flag_QUERY \<equiv> push_bit 3 1"
abbreviation flag_BODY_SHA256 :: u64 where "flag_BODY_SHA256 \<equiv> push_bit 4 1"
abbreviation flag_COOKIE :: u64 where "flag_COOKIE \<equiv> push_bit 5 1"
abbreviation flag_ANDROID_RESERVED_6 :: u64 where "flag_ANDROID_RESERVED_6 \<equiv> push_bit 6 1"
abbreviation flag_CSRF_TOKEN :: u64 where "flag_CSRF_TOKEN \<equiv> push_bit 7 1"
abbreviation flag_KNOCK_TOKEN :: u64 where "flag_KNOCK_TOKEN \<equiv> push_bit 8 1"
abbreviation flag_JWT_TOKEN :: u64 where "flag_JWT_TOKEN \<equiv> push_bit 9 1"

definition flags_contain :: "u64 \<Rightarrow> u64 \<Rightarrow> bool" where
  "flags_contain flags f \<longleftrightarrow> flags AND f = f"

record signing_rule_config =
  src_urls :: "string list"
  src_enable_signing :: bool
  src_signing_input_params :: u64
  src_max_time_desync :: "u64 option"

record signing_config =
  sg_enabled :: bool
  sg_root_key_version :: u64
  sg_signing_input_params :: u64
  sg_algorithms :: "string list"
  sg_rules :: "signing_rule_config list"
  sg_activation_code :: "string option"
  sg_device_id :: "string option"
  sg_hmac_key_base64 :: "string option"
  sg_shared_secret :: "string option"

definition signing_config_default :: signing_config where
  "signing_config_default = \<lparr>sg_enabled = False, sg_root_key_version = 0,
     sg_signing_input_params = 0, sg_algorithms = [], sg_rules = [], sg_activation_code = None,
     sg_device_id = None, sg_hmac_key_base64 = None, sg_shared_secret = None\<rparr>"

datatype signing_error = MissingSecret | InvalidBase64 | InvalidKey

datatype password_cipher_error = Padding | InvalidKeyLength nat

record signed_header =
  sh_name :: string
  sh_value :: string

section \<open>Operations\<close>

definition header_value :: "(string \<Rightarrow> bool) \<Rightarrow> headers \<Rightarrow> string \<Rightarrow> string option" where
  "header_value to_str_ok hs name = opt_filter to_str_ok (map_of hs name)"

definition is_multipart :: "(string \<Rightarrow> bool) \<Rightarrow> headers \<Rightarrow> bool" where
  "is_multipart to_str_ok hs = (case header_value to_str_ok hs ''content-type'' of
      None \<Rightarrow> False | Some v \<Rightarrow> prefix ''multipart/'' (to_ascii_lowercase v))"

definition default_signing_input_flags :: u64 where
  "default_signing_input_flags = flag_METHOD OR flag_PATH OR flag_QUERY OR flag_BODY_SHA256
     OR flag_COOKIE OR flag_ANDROID_RESERVED_6 OR flag_CSRF_TOKEN OR flag_KNOCK_TOKEN"

definition signing_input_flags :: "signing_config \<Rightarrow> url \<Rightarrow> u64 option" where
  "signing_input_flags cfg u =
     (if sg_rules cfg = [] then
        Some (if sg_signing_input_params cfg = 0 then default_signing_input_flags
              else sg_signing_input_params cfg)
      else map_option (\<lambda>rule. if src_signing_input_params rule = 0
                              then default_signing_input_flags
                              else src_signing_input_params rule)
        (find (\<lambda>rule. src_enable_signing rule \<and> u_path u \<in> set (src_urls rule)) (sg_rules cfg)))"

definition DEFAULT_ROOT_KEY_VERSION :: u64 where "DEFAULT_ROOT_KEY_VERSION = 1"

definition root_key_version :: "signing_config \<Rightarrow> u64" where
  "root_key_version cfg = (if sg_root_key_version cfg = 0 then DEFAULT_ROOT_KEY_VERSION
     else sg_root_key_version cfg)"

definition opt_bytes :: "bool \<Rightarrow> string option \<Rightarrow> bytes" where
  "opt_bytes b v = (if b then (case v of None \<Rightarrow> [] | Some s \<Rightarrow> as_bytes s) else [])"

definition signing_input ::
  "crypto \<Rightarrow> (string \<Rightarrow> bool) \<Rightarrow> string \<Rightarrow> url \<Rightarrow> headers \<Rightarrow> bytes \<Rightarrow> u64 \<Rightarrow> bytes" where
  "signing_input c to_str_ok verb u hs body flags =
     opt_bytes (flags_contain flags flag_METHOD) (Some verb)
     @ opt_bytes (flags_contain flags flag_PATH) (Some (u_path u))
     @ opt_bytes (flags_contain flags flag_QUERY) (u_query u)
     @ (if flags_contain flags flag_BODY_SHA256 \<and> body \<noteq> []
        then array_bytes (sha256 c body) else [])
     @ opt_bytes (flags_contain flags flag_COOKIE) (header_value to_str_ok hs ''cookie'')
     @ opt_bytes (flags_contain flags flag_CSRF_TOKEN) (header_value to_str_ok hs ''csrf-token'')
     @ opt_bytes (flags_contain flags flag_KNOCK_TOKEN) (header_value to_str_ok hs ''knock-token'')
     @ opt_bytes (flags_contain flags flag_JWT_TOKEN)
         (map_option trim (header_value to_str_ok hs ''jwt-token''))"

text \<open>The \<open>while okm.len() < length\<close> loop of \<open>hkdf_sha256\<close>.\<close>

function hkdf_expand ::
  "crypto \<Rightarrow> bytes \<Rightarrow> bytes \<Rightarrow> nat \<Rightarrow> bytes \<Rightarrow> bytes \<Rightarrow> u8 \<Rightarrow> (signing_error, bytes) result" where
  "hkdf_expand c prk info len okm previous counter =
     (if length okm < len then
        (if hmac_key_ok c prk then
           (let previous = array_bytes (hmac_sha256 c prk (previous @ info @ [counter]))
            in hkdf_expand c prk info len (okm @ previous) previous (counter + 1))
         else Inl InvalidKey)
      else Inr (take len okm))"
  by pat_completeness auto
termination
  by (relation "measure (\<lambda>(c, prk, info, len, okm, previous, counter). len - length okm)") auto

declare hkdf_expand.simps [simp del]

definition hkdf_sha256 ::
  "crypto \<Rightarrow> bytes \<Rightarrow> bytes \<Rightarrow> bytes \<Rightarrow> nat \<Rightarrow> (signing_error, bytes) result" where
  "hkdf_sha256 c ikm salt info len =
     (if hmac_key_ok c salt then
        (let prk = array_bytes (hmac_sha256 c salt ikm)
         in hkdf_expand c prk info len [] [] 1)
      else Inl InvalidKey)"

definition HTTP_SIGN_HKDF_SECRET :: bytes where
  "HTTP_SIGN_HKDF_SECRET = as_bytes ''ygicehnydny4fj''"

definition generate_http_sign_key_bytes ::
  "crypto \<Rightarrow> string \<Rightarrow> string \<Rightarrow> (signing_error, bytes) result" where
  "generate_http_sign_key_bytes c activation_code device_id =
     (let normalized_code = to_ascii_lowercase (trim activation_code);
          info = normalized_code @ ''|'' @ device_id
      in hkdf_sha256 c HTTP_SIGN_HKDF_SECRET [] (as_bytes info) 32)"

definition hmac_key :: "crypto \<Rightarrow> signing_config \<Rightarrow> (signing_error, bytes) result" where
  "hmac_key c cfg = (case sg_hmac_key_base64 cfg of
      Some encoded \<Rightarrow> ok_or InvalidBase64 (b64_decode c encoded)
    | None \<Rightarrow> (case (sg_activation_code cfg, sg_device_id cfg) of
          (Some activation_code, Some device_id) \<Rightarrow>
            generate_http_sign_key_bytes c activation_code device_id
        | _ \<Rightarrow> ok_or MissingSecret (map_option as_bytes (sg_shared_secret cfg))))"

definition encode_http_sign_header :: "crypto \<Rightarrow> u64 \<Rightarrow> u64 \<Rightarrow> bytes \<Rightarrow> bytes" where
  "encode_http_sign_header c version flags signature = encode_sign_header c version flags signature"

definition sign ::
  "crypto \<Rightarrow> (string \<Rightarrow> bool) \<Rightarrow> signing_config \<Rightarrow> string \<Rightarrow> url \<Rightarrow> headers \<Rightarrow> bytes
   \<Rightarrow> (signing_error, signed_header list) result" where
  "sign c to_str_ok cfg verb u hs body =
     (if \<not> sg_enabled cfg then Inr []
      else if to_ascii_lowercase verb = to_ascii_lowercase ''PUT'' \<or> is_multipart to_str_ok hs
      then Inr []
      else (case signing_input_flags cfg u of
          None \<Rightarrow> Inr []
        | Some flags \<Rightarrow>
            res_bind (hmac_key c cfg) (\<lambda>key.
              let input = signing_input c to_str_ok verb u hs body flags
              in if hmac_key_ok c key then
                   (let signature = array_bytes (hmac_sha256 c key input);
                        header = encode_http_sign_header c (root_key_version cfg) flags signature
                    in Inr [\<lparr>sh_name = ''Sign'', sh_value = ''v1;'' @ b64_encode c header\<rparr>])
                 else Inl InvalidKey)))"

definition AES_CBC_BLOCK_SIZE :: nat where "AES_CBC_BLOCK_SIZE = 16"

definition FIXED_PASSWORD_KEY :: string where
  "FIXED_PASSWORD_KEY = ''8bfa9ad090fbbf87e518f1ce24a93eee''"

text \<open>\<open>zip\<close> copies the digest's characters over a zeroed array.\<close>

definition aes_cbc_iv :: "crypto \<Rightarrow> string \<Rightarrow> bytes" where
  "aes_cbc_iv c key =
     (let digest_hex = as_bytes (hex_encode c (array_bytes (sha1 c (as_bytes key))));
          n = min AES_CBC_BLOCK_SIZE (length digest_hex)
      in take n digest_hex @ replicate (AES_CBC_BLOCK_SIZE - n) 0)"

definition encrypt_aes_cbc ::
  "crypto \<Rightarrow> string \<Rightarrow> string \<Rightarrow> (password_cipher_error, string) result" where
  "encrypt_aes_cbc c fixed_string plaintext =
     (let key = as_bytes fixed_string in
      if length key \<noteq> 32 then Inl (InvalidKeyLength (length key))
      else (case aes256_cbc_pkcs7 c key (aes_cbc_iv c fixed_string) (as_bytes plaintext) of
          None \<Rightarrow> Inl Padding
        | Some ciphertext \<Rightarrow> Inr (hex_encode c ciphertext)))"

section \<open>The expansion loop computes RFC 5869\<close>

text \<open>\<open>hkdf_T i\<close> is the block \<open>T(i)\<close> of the RFC; the counter octet wraps at 256.\<close>

fun hkdf_T :: "crypto \<Rightarrow> bytes \<Rightarrow> bytes \<Rightarrow> nat \<Rightarrow> bytes" where
  "hkdf_T c prk info 0 = []"
| "hkdf_T c prk info (Suc i) =
     array_bytes (hmac_sha256 c prk (hkdf_T c prk info i @ info @ [of_nat (Suc i)]))"

definition hkdf_blocks :: "crypto \<Rightarrow> bytes \<Rightarrow> bytes \<Rightarrow> nat \<Rightarrow> bytes" where
  "hkdf_blocks c prk info n = concat (map (\<lambda>i. hkdf_T c prk info (Suc i)) [0..<n])"

lemma length_hkdf_T: "length (hkdf_T c prk info (Suc i)) = 32"
  by simp

lemma length_hkdf_blocks: "length (hkdf_blocks c prk info n) = 32 * n"
  unfolding hkdf_blocks_def by (induction n) (simp_all del: hkdf_T.simps add: length_hkdf_T)

lemma hkdf_blocks_Suc: "hkdf_blocks c prk info (Suc n) = hkdf_blocks c prk info n @ hkdf_T c prk info (Suc n)"
  by (simp add: hkdf_blocks_def del: hkdf_T.simps)

lemma hkdf_blocks_mono:
  "n \<le> m \<Longrightarrow> \<exists>rest. hkdf_blocks c prk info m = hkdf_blocks c prk info n @ rest"
proof (induction m)
  case (Suc m)
  then show ?case
    using hkdf_blocks_Suc [of c prk info m] by (cases "n = Suc m") (auto simp del: hkdf_T.simps)
qed simp

lemma take_hkdf_blocks:
  assumes "len \<le> 32 * n" "n \<le> m"
  shows "take len (hkdf_blocks c prk info m) = take len (hkdf_blocks c prk info n)"
  using hkdf_blocks_mono [OF assms(2), of c prk info] assms(1)
  by (auto simp: length_hkdf_blocks)

lemma hkdf_expand_blocks:
  assumes "hmac_key_ok c prk"
  shows "hkdf_expand c prk info len (hkdf_blocks c prk info n) (hkdf_T c prk info n) (of_nat (Suc n))
    = Inr (take len (hkdf_blocks c prk info (max n len)))"
proof (induction "len - 32 * n" arbitrary: n rule: less_induct)
  case less
  show ?case
  proof (cases "32 * n < len")
    case True
    have counter: "of_nat (Suc (Suc n)) = (of_nat (Suc n) + 1 :: u8)" by simp
    have "hkdf_expand c prk info len (hkdf_blocks c prk info n) (hkdf_T c prk info n) (of_nat (Suc n))
      = hkdf_expand c prk info len (hkdf_blocks c prk info (Suc n)) (hkdf_T c prk info (Suc n))
          (of_nat (Suc (Suc n)))"
      using True assms unfolding hkdf_blocks_Suc hkdf_T.simps counter
      by (subst hkdf_expand.simps) (simp only: length_hkdf_blocks if_True Let_def)
    also have "\<dots> = Inr (take len (hkdf_blocks c prk info (max (Suc n) len)))"
      using True by (intro less) (simp add: diff_less_mono2)
    also have "max (Suc n) len = max n len" using True by simp
    finally show ?thesis .
  next
    case False
    then show ?thesis
      using take_hkdf_blocks [of len n "max n len" c prk info]
      by (subst hkdf_expand.simps) (simp add: length_hkdf_blocks)
  qed
qed

lemma hkdf_sha256_rfc5869:
  assumes "hmac_key_ok c salt" "hmac_key_ok c (array_bytes (hmac_sha256 c salt ikm))" "len \<le> 32 * n"
  shows "hkdf_sha256 c ikm salt info len =
    Inr (take len (hkdf_blocks c (array_bytes (hmac_sha256 c salt ikm)) info n))"
proof -
  let ?prk = "array_bytes (hmac_sha256 c salt ikm)"
  have "hkdf_expand c ?prk info len (hkdf_blocks c ?prk info 0) (hkdf_T c ?prk info 0) (of_nat (Suc 0))
    = Inr (take len (hkdf_blocks c ?prk info (max 0 len)))"
    by (rule hkdf_expand_blocks [OF assms(2)])
  moreover have "take len (hkdf_blocks c ?prk info len) = take len (hkdf_blocks c ?prk info n)"
    using take_hkdf_blocks [of len n "max n len" c ?prk info] assms(3)
      take_hkdf_blocks [of len len "max n len" c ?prk info] by simp
  ultimately show ?thesis
    using assms(1) by (simp add: hkdf_sha256_def hkdf_blocks_def)
qed

text \<open>C23: \<open>hkdf_sha256\<close> is RFC 5869: for every requested length the loop returns, and it returns
  the first \<open>len\<close> bytes of the concatenated blocks \<open>T(1), T(2), ...\<close>, whichever number \<open>n\<close>
  of blocks that covers the length.\<close>

theorem hkdf_sha256_correct:
  assumes "hmac_key_ok c salt" "hmac_key_ok c (array_bytes (hmac_sha256 c salt ikm))"
    and "len \<le> 32 * n"
  shows "\<exists>okm. hkdf_sha256 c ikm salt info len = Inr okm \<and> length okm = len
    \<and> okm = take len (hkdf_blocks c (array_bytes (hmac_sha256 c salt ikm)) info n)"
  using hkdf_sha256_rfc5869 [OF assms] assms(3) by (simp add: length_hkdf_blocks)

definition toy_crypto :: crypto where
  "toy_crypto = \<lparr>hmac_sha256 = (\<lambda>k m. of_nat (length k * 7 + length m)), hmac_key_ok = (\<lambda>_. True),
     sha256 = (\<lambda>m. of_nat (length m)), sha1 = (\<lambda>m. of_nat (length m)),
     b64_encode = (\<lambda>b. replicate (length b) (CHR ''A'')), b64_decode = (\<lambda>s. Some (as_bytes s)),
     hex_encode = (\<lambda>b. replicate (2 * length b) (CHR ''0'')),
     aes256_cbc_pkcs7 = (\<lambda>k iv p. Some p), encode_sign_header = (\<lambda>v f s. s)\<rparr>"

theorem hkdf_sha256_correct_witness:
  "\<exists>okm. hkdf_sha256 toy_crypto [1] [] [2] 40 = Inr okm \<and> length okm = 40
    \<and> okm = take 40 (hkdf_blocks toy_crypto (array_bytes (hmac_sha256 toy_crypto [] [1])) [2] 2)"
  by (rule hkdf_sha256_correct) (simp_all add: toy_crypto_def)

section \<open>What is signed\<close>

lemma root_key_version_nonzero: "root_key_version cfg \<noteq> 0"
  by (simp add: root_key_version_def DEFAULT_ROOT_KEY_VERSION_def)

lemma length_aes_cbc_iv: "length (aes_cbc_iv c key) = 16"
  by (simp add: aes_cbc_iv_def AES_CBC_BLOCK_SIZE_def Let_def)

lemma length_FIXED_PASSWORD_KEY: "length (as_bytes FIXED_PASSWORD_KEY) = 32"
  by (simp add: FIXED_PASSWORD_KEY_def as_bytes_def utf8_char_def)

text \<open>A signature is attached exactly when signing is on, the request is neither a
  PUT nor multipart, and a rule covers its path; then the header is the single
  \<open>Sign\<close> header of version 1.\<close>

definition signs :: "(string \<Rightarrow> bool) \<Rightarrow> signing_config \<Rightarrow> string \<Rightarrow> url \<Rightarrow> headers \<Rightarrow> bool" where
  "signs to_str_ok cfg verb u hs \<longleftrightarrow>
     sg_enabled cfg \<and> to_ascii_lowercase verb \<noteq> ''put'' \<and> \<not> is_multipart to_str_ok hs
     \<and> (sg_rules cfg = [] \<or>
        (\<exists>rule \<in> set (sg_rules cfg). src_enable_signing rule \<and> u_path u \<in> set (src_urls rule)))"

lemma lower_PUT: "to_ascii_lowercase ''PUT'' = ''put''"
  by code_simp

lemma signing_input_flags_None:
  "signing_input_flags cfg u = None \<longleftrightarrow> sg_rules cfg \<noteq> [] \<and>
     (\<forall>rule \<in> set (sg_rules cfg). \<not> (src_enable_signing rule \<and> u_path u \<in> set (src_urls rule)))"
  by (auto simp: signing_input_flags_def find_None_iff)

lemma sign_unsigned: "\<not> signs ok cfg verb u hs \<Longrightarrow> sign c ok cfg verb u hs body = Inr []"
  using signing_input_flags_None [of cfg u] by (auto simp: sign_def signs_def lower_PUT)

lemma sign_signed:
  assumes "signs ok cfg verb u hs"
  obtains flags where "signing_input_flags cfg u = Some flags"
    "sign c ok cfg verb u hs body = res_bind (hmac_key c cfg) (\<lambda>key.
       if hmac_key_ok c key then Inr [\<lparr>sh_name = ''Sign'', sh_value = ''v1;'' @ b64_encode c
         (encode_sign_header c (root_key_version cfg) flags
           (array_bytes (hmac_sha256 c key (signing_input c ok verb u hs body flags))))\<rparr>]
       else Inl InvalidKey)"
proof -
  have "signing_input_flags cfg u \<noteq> None"
    using assms unfolding signing_input_flags_None signs_def by blast
  then obtain flags where "signing_input_flags cfg u = Some flags" by blast
  with assms show ?thesis
    by (intro that) (simp_all add: sign_def signs_def lower_PUT encode_http_sign_header_def Let_def
        cong: if_cong)
qed

lemma hmac_key_generated:
  assumes "sg_hmac_key_base64 cfg = None" "sg_activation_code cfg = Some code"
    "sg_device_id cfg = Some dev"
  shows "hmac_key c cfg = hkdf_sha256 c HTTP_SIGN_HKDF_SECRET []
    (as_bytes (to_ascii_lowercase (trim code) @ ''|'' @ dev)) 32"
  using assms by (simp add: hmac_key_def generate_http_sign_key_bytes_def)

end
