(* ===== verification/Outbound.thy ===== *)
theory Outbound
  imports NetAddr
begin

text \<open>
  Selection of the physical egress interface
  (\<open>src/crates/outbound/src/interface.rs\<close>, \<open>snapshot.rs\<close> and the retry loop of
  \<open>context.rs\<close>).

  What the operating system reports (the interface list, the default interface,
  whether the blocking task was joined) is the record \<open>host_os\<close>; the selection
  functions are pure in it.
\<close>

section \<open>The host's interfaces\<close>

record net_interface =
  if_name :: string
  if_index :: u32
  if_is_up :: bool
  if_is_loopback :: bool
  if_is_tun :: bool
  if_ipv4 :: "ipv4 list"
  if_ipv6 :: "ipv6 list"
  if_gateway :: "ip_addr option"

record host_os =
  os_interfaces :: "net_interface list"
  os_default_interface :: "net_interface option"
  os_join_ok :: bool

datatype interface_error =
    InterfaceNotFound string
  | UnusableInterface string
  | MissingInterfaceIndex string
  | NoUsableInterface

record outbound_interface =
  oi_name :: string
  oi_index :: u32
  oi_gateway_v4 :: "ip_addr option"
  oi_gateway_v6 :: "ip_addr option"

section \<open>Selection\<close>

definition from_interface :: "net_interface \<Rightarrow> (interface_error, outbound_interface) result" where
  "from_interface i =
     (if if_index i = 0 then Inl (MissingInterfaceIndex (if_name i))
      else (let (gateway_v4, gateway_v6) = (case if_gateway i of
                None \<Rightarrow> (None, None)
              | Some (V4 a) \<Rightarrow> (Some (V4 a), None)
              | Some (V6 a) \<Rightarrow> (None, Some (V6 a)))
            in Inr \<lparr>oi_name = if_name i, oi_index = if_index i,
                    oi_gateway_v4 = gateway_v4, oi_gateway_v6 = gateway_v6\<rparr>))"

definition is_wan_candidate :: "net_interface \<Rightarrow> string option \<Rightarrow> bool" where
  "is_wan_candidate i excluded_tun =
     (if (case excluded_tun of None \<Rightarrow> False | Some excluded \<Rightarrow> if_name i = excluded) then False
      else if_is_up i \<and> \<not> if_is_loopback i \<and> \<not> if_is_tun i
        \<and> (if_ipv4 i \<noteq> [] \<or> if_ipv6 i \<noteq> []))"

definition best_fallback_interface ::
  "net_interface list \<Rightarrow> string option \<Rightarrow> outbound_interface option" where
  "best_fallback_interface interfaces excluded_tun =
     (let candidates = filter (\<lambda>i. is_wan_candidate i excluded_tun) interfaces;
          candidates = sort_key (\<lambda>i. if_gateway i = None) candidates
      in case candidates of [] \<Rightarrow> None | selected # _ \<Rightarrow> res_ok (from_interface selected))"

definition resolve_blocking ::
  "host_os \<Rightarrow> string option \<Rightarrow> string option \<Rightarrow> bool
   \<Rightarrow> (interface_error, outbound_interface option) result" where
  "resolve_blocking os configured excluded_tun full_tunnel =
     (let interfaces = os_interfaces os in
      case configured of
        Some name \<Rightarrow> (case find (\<lambda>i. if_name i = name) interfaces of
            None \<Rightarrow> Inl (InterfaceNotFound name)
          | Some i \<Rightarrow>
              if \<not> is_wan_candidate i excluded_tun then Inl (UnusableInterface name)
              else res_bind (from_interface i) (\<lambda>outbound. Inr (Some outbound)))
      | None \<Rightarrow>
          let fallback = (let result = best_fallback_interface interfaces excluded_tun in
                if result = None \<and> full_tunnel then Inl NoUsableInterface else Inr result)
          in (case os_default_interface os of
                Some i \<Rightarrow>
                  if is_wan_candidate i excluded_tun
                  then res_bind (from_interface i) (\<lambda>outbound. Inr (Some outbound))
                  else fallback
              | None \<Rightarrow> fallback))"

definition resolve_interface ::
  "host_os \<Rightarrow> string option \<Rightarrow> string option \<Rightarrow> bool
   \<Rightarrow> (interface_error, outbound_interface option) result" where
  "resolve_interface os configured excluded_tun full_tunnel =
     (let configured = opt_filter (\<lambda>v. v \<noteq> []) (map_option trim configured)
      in if os_join_ok os then resolve_blocking os configured excluded_tun full_tunnel
         else Inl NoUsableInterface)"

definition lookup_interface :: "host_os \<Rightarrow> string \<Rightarrow> outbound_interface option" where
  "lookup_interface os name =
     (if os_join_ok os then
        Option.bind (find (\<lambda>i. if_name i = name \<and> if_index i > 0) (os_interfaces os))
          (\<lambda>i. res_ok (from_interface i))
      else None)"

text \<open>\<open>lookup_tun_with_retry\<close>: the host's view at each attempt is an element of the
  list \<open>views\<close>.\<close>

definition TUN_LOOKUP_RETRIES :: nat where "TUN_LOOKUP_RETRIES = 3"

definition lookup_tun_with_retry :: "host_os list \<Rightarrow> string \<Rightarrow> outbound_interface option" where
  "lookup_tun_with_retry views tun_name =
     find_map (\<lambda>os. lookup_interface os tun_name) (take TUN_LOOKUP_RETRIES views)"

record interface_info =
  ii_name :: string
  ii_index :: u32
  ii_is_up :: bool
  ii_is_loopback :: bool
  ii_is_tun :: bool
  ii_has_gateway :: bool
  ii_is_default :: bool
  ii_ipv4_addrs :: "ip_addr list"
  ii_ipv6_addrs :: "ip_addr list"

definition list_interfaces :: "host_os \<Rightarrow> interface_info list" where
  "list_interfaces os =
     (if os_join_ok os then
        map (\<lambda>i. \<lparr>ii_name = if_name i, ii_index = if_index i, ii_is_up = if_is_up i,
               ii_is_loopback = if_is_loopback i, ii_is_tun = if_is_tun i,
               ii_has_gateway = (if_gateway i \<noteq> None),
               ii_is_default = (case os_default_interface os of
                   None \<Rightarrow> False | Some d \<Rightarrow> if_index d = if_index i),
               ii_ipv4_addrs = map V4 (if_ipv4 i), ii_ipv6_addrs = map V6 (if_ipv6 i)\<rparr>)
          (os_interfaces os)
      else [])"

section \<open>Network snapshots\<close>

record interface_fingerprint =
  fp_name :: string
  fp_index :: u32
  fp_gateway :: "ip_addr option"
  fp_addrs :: "ip_addr list"

type_synonym network_snapshot = "interface_fingerprint option"

definition capture_snapshot :: "host_os \<Rightarrow> network_snapshot" where
  "capture_snapshot os = (case os_default_interface os of
      None \<Rightarrow> None
    | Some i \<Rightarrow> Some \<lparr>fp_name = if_name i, fp_index = if_index i, fp_gateway = if_gateway i,
        fp_addrs = sort (map V4 (if_ipv4 i) @ map V6 (if_ipv6 i))\<rparr>)"

text \<open>The order in which the system lists the addresses of the default interface does not change the snapshot.\<close>

lemma capture_snapshot_reordered:
  assumes "os_default_interface os = Some i" "if_name j = if_name i" "if_index j = if_index i" "if_gateway j = if_gateway i"
    and "set (if_ipv4 j) = set (if_ipv4 i)" "set (if_ipv6 j) = set (if_ipv6 i)"
    and "distinct (if_ipv4 i)" "distinct (if_ipv6 i)" "distinct (if_ipv4 j)" "distinct (if_ipv6 j)"
  shows "capture_snapshot (os\<lparr>os_default_interface := Some j\<rparr>) = capture_snapshot os"
proof -
  have "sort (map V4 (if_ipv4 j) @ map V6 (if_ipv6 j)) = sort (map V4 (if_ipv4 i) @ map V6 (if_ipv6 i))"
    by (rule sorted_distinct_set_unique) (use assms(5-10) in \<open>auto simp: distinct_map inj_on_def\<close>)
  then show ?thesis using assms(1-4) by (simp add: capture_snapshot_def)
qed

definition pinned_present :: "host_os \<Rightarrow> string \<Rightarrow> bool option" where
  "pinned_present os name =
     (if os_join_ok os then Some (\<exists>i \<in> set (os_interfaces os). if_name i = name) else None)"

section \<open>The selected interface can carry bypass traffic\<close>

text \<open>An interface that would not loop traffic back: up, neither loopback nor TUN,
  addressed, not the excluded device, and with an operating-system index.\<close>

definition safe_egress :: "net_interface \<Rightarrow> string option \<Rightarrow> outbound_interface \<Rightarrow> bool" where
  "safe_egress i excluded out \<longleftrightarrow>
     is_wan_candidate i excluded \<and> oi_name out = if_name i \<and> oi_index out = if_index i
     \<and> oi_index out \<noteq> 0"

lemma from_interface_Inr:
  "from_interface i = Inr out \<Longrightarrow>
     oi_name out = if_name i \<and> oi_index out = if_index i \<and> oi_index out \<noteq> 0"
  by (auto simp: from_interface_def Let_def split: if_splits option.splits ip_addr.splits)

lemma res_ok_from_interface:
  "res_ok (from_interface i) = Some out \<Longrightarrow> from_interface i = Inr out"
  by (cases "from_interface i") simp_all

lemma is_wan_candidate_not_excluded:
  "is_wan_candidate i (Some tun) \<Longrightarrow> if_name i \<noteq> tun"
  by (simp add: is_wan_candidate_def split: if_splits)

lemma best_fallback_safe:
  assumes "best_fallback_interface is excluded = Some out"
  shows "\<exists>i \<in> set is. safe_egress i excluded out"
proof -
  let ?cs = "sort_key (\<lambda>i. if_gateway i = None) (filter (\<lambda>i. is_wan_candidate i excluded) is)"
  from assms obtain i rest where i: "?cs = i # rest" "res_ok (from_interface i) = Some out"
    by (auto simp: best_fallback_interface_def Let_def split: list.splits)
  then have "i \<in> set ?cs" by simp
  then have "i \<in> set is" "is_wan_candidate i excluded" by simp_all
  moreover have "safe_egress i excluded out"
    using \<open>is_wan_candidate i excluded\<close> from_interface_Inr [OF res_ok_from_interface [OF i(2)]]
    by (auto simp: safe_egress_def)
  ultimately show ?thesis by blast
qed

text \<open>The fallback prefers a candidate with a gateway over every one without.\<close>

lemma best_fallback_prefers_gateway:
  assumes "best_fallback_interface is excluded = Some out"
    and "\<exists>i \<in> set is. is_wan_candidate i excluded \<and> if_gateway i \<noteq> None"
  shows "\<exists>i \<in> set is. safe_egress i excluded out \<and> if_gateway i \<noteq> None"
proof -
  let ?cs = "sort_key (\<lambda>i. if_gateway i = None) (filter (\<lambda>i. is_wan_candidate i excluded) is)"
  from assms(1) obtain i rest where i: "?cs = i # rest" "res_ok (from_interface i) = Some out"
    by (auto simp: best_fallback_interface_def Let_def split: list.splits)
  have "sorted (map (\<lambda>i. if_gateway i = None) (i # rest))"
    unfolding i(1) [symmetric] by (rule sorted_sort_key)
  moreover obtain j where "j \<in> set ?cs" "if_gateway j \<noteq> None" using assms(2) by auto
  ultimately have gw: "if_gateway i \<noteq> None" using i(1) by auto
  have "i \<in> set ?cs" using i(1) by simp
  then have "i \<in> set is" "is_wan_candidate i excluded" by simp_all
  moreover have "safe_egress i excluded out"
    using \<open>is_wan_candidate i excluded\<close> from_interface_Inr [OF res_ok_from_interface [OF i(2)]]
    by (auto simp: safe_egress_def)
  ultimately show ?thesis using gw by blast
qed

lemma resolve_blocking_safe:
  assumes "resolve_blocking os configured excluded full = Inr (Some out)"
  shows "\<exists>i. (i \<in> set (os_interfaces os) \<or> os_default_interface os = Some i)
    \<and> safe_egress i excluded out"
proof -
  have cand: "safe_egress i excluded out"
    if "is_wan_candidate i excluded" "from_interface i = Inr out" for i
    using that from_interface_Inr [of i out] by (auto simp: safe_egress_def)
  show ?thesis
  proof (cases configured)
    case (Some name)
    then show ?thesis using assms cand
      by (fastforce simp: resolve_blocking_def Let_def res_bind_eq_Inr dest: find_SomeD
          split: option.splits if_splits)
  next
    case None
    then show ?thesis using assms cand best_fallback_safe
      by (fastforce simp: resolve_blocking_def Let_def res_bind_eq_Inr
          split: option.splits if_splits)
  qed
qed

lemma resolve_blocking_pinned:
  assumes "resolve_blocking os (Some name) excluded full = Inr r"
  shows "\<exists>out. r = Some out \<and> oi_name out = name"
  using assms
  by (auto simp: resolve_blocking_def res_bind_eq_Inr dest!: from_interface_Inr find_SomeD
      split: option.splits if_splits)

lemma resolve_blocking_full_tunnel:
  "resolve_blocking os configured excluded True \<noteq> Inr None"
  by (auto simp: resolve_blocking_def Let_def res_bind_eq_Inr split: option.splits if_splits)


definition sample_eth :: net_interface where
  "sample_eth = \<lparr>if_name = ''eth0'', if_index = 2, if_is_up = True, if_is_loopback = False,
     if_is_tun = False, if_ipv4 = [0x0A000002], if_ipv6 = [], if_gateway = Some (V4 0x0A000001)\<rparr>"

definition sample_os :: host_os where
  "sample_os = \<lparr>os_interfaces = [sample_eth\<lparr>if_name := ''utun4'', if_index := 7\<rparr>, sample_eth],
     os_default_interface = Some (sample_eth\<lparr>if_name := ''utun4'', if_index := 7\<rparr>),
     os_join_ok = True\<rparr>"

definition sample_out :: outbound_interface where
  "sample_out = \<lparr>oi_name = ''eth0'', oi_index = 2, oi_gateway_v4 = Some (V4 0x0A000001),
     oi_gateway_v6 = None\<rparr>"

lemma sample_resolves: "resolve_interface sample_os None (Some ''utun4'') True = Inr (Some sample_out)"
  by code_simp


end
