(* ===== verification/Dialer.thy ===== *)
theory Dialer
  imports Outbound
begin

text \<open>
  Sockets pinned to the physical interface, the interface-bound DNS resolver and
  the HTTP connector (\<open>dialer.rs\<close>, \<open>resolver.rs\<close>, \<open>connector.rs\<close> of
  \<open>src/crates/outbound/src\<close>).

  A socket is the record of the options set on it.  Every call into the operating
  system goes through \<open>sys_env\<close>, an oracle on a world of any type, and may fail;
  the functions return the first error, as the \<open>?\<close> of the source does.  The
  contract the socket constructors share (a socket for a routable destination is
  bound to the interface before it is used) is the locale \<open>socket_factory\<close>.
\<close>

section \<open>Sockets and the operating system\<close>

datatype socket_family = FamV4 | FamV6

definition family_from_addr :: "socket_addr \<Rightarrow> socket_family" where
  "family_from_addr a = (if is_ipv4 (sa_ip a) then FamV4 else FamV6)"

datatype platform = Linux | MacOS | Windows | OtherOS

datatype io_kind = AddrInUse | PermissionDenied | InvalidInput | IoOther nat

record sock =
  sk_family :: socket_family
  sk_stream :: bool
  sk_device :: "u32 option"
  sk_mark :: "u32 option"
  sk_local :: "socket_addr option"
  sk_peer :: "socket_addr option"

datatype sys_op =
    OpSocket socket_family bool
  | OpNonblocking
  | OpReuseAddress
  | OpNodelay
  | OpOnlyV6
  | OpBindDevice socket_family u32
  | OpSetMark u32
  | OpBind socket_addr
  | OpConnect socket_addr
  | OpRegister
  | OpSendTo bytes socket_addr

datatype sys_res = SysOk | SysErr io_kind | SysTimeout

datatype recv_res = RecvOk bytes | RecvErr io_kind | RecvTimeout

record 'w sys_env =
  sys_platform :: platform
  sys_call :: "'w \<Rightarrow> sys_op \<Rightarrow> sys_res \<times> 'w"
  sys_local_port :: "'w \<Rightarrow> sock \<Rightarrow> (io_kind, u16) result"
  sys_recv :: "'w \<Rightarrow> sock \<Rightarrow> recv_res \<times> 'w"

datatype dialer_error =
    SocketCreate io_kind
  | SocketBind socket_addr io_kind
  | InterfaceBind string io_kind
  | ConnectTimeout socket_addr duration
  | Connect socket_addr io_kind
  | SetOption io_kind
  | Unsupported string

definition sys_do :: "'w sys_env \<Rightarrow> sys_op \<Rightarrow> (io_kind \<Rightarrow> dialer_error) \<Rightarrow> ('w, dialer_error, unit) io" where
  "sys_do env op err = (\<lambda>w. case sys_call env w op of
      (SysOk, w') \<Rightarrow> (Inr (), w')
    | (SysErr k, w') \<Rightarrow> (Inl (err k), w')
    | (SysTimeout, w') \<Rightarrow> (Inl (err (IoOther 0)), w'))"

section \<open>Dialer\<close>

definition DEFAULT_CONNECT_TIMEOUT :: duration where
  "DEFAULT_CONNECT_TIMEOUT = from_secs 10"

definition BIND_MAX_RETRIES :: u32 where "BIND_MAX_RETRIES = 10"

definition BYPASS_FWMARK :: u32 where "BYPASS_FWMARK = 0x162E"

record dialer =
  dl_interface :: "outbound_interface option"
  dl_connect_timeout :: duration
  dl_tcp_nodelay :: bool

definition dialer_new :: "outbound_interface option \<Rightarrow> dialer" where
  "dialer_new i = \<lparr>dl_interface = i, dl_connect_timeout = DEFAULT_CONNECT_TIMEOUT,
     dl_tcp_nodelay = True\<rparr>"

definition interface_name_or_default :: "dialer \<Rightarrow> string" where
  "interface_name_or_default d = (case dl_interface d of None \<Rightarrow> ''<default>'' | Some i \<Rightarrow> oi_name i)"

definition new_socket2 :: "'w sys_env \<Rightarrow> socket_family \<Rightarrow> bool \<Rightarrow> ('w, dialer_error, sock) io" where
  "new_socket2 env family stream =
     io_bind (sys_do env (OpSocket family stream) SocketCreate) (\<lambda>_.
     io_bind (sys_do env OpNonblocking SetOption) (\<lambda>_.
     io_return \<lparr>sk_family = family, sk_stream = stream, sk_device = None, sk_mark = None,
       sk_local = None, sk_peer = None\<rparr>))"

definition bind_socket_to_interface_inner ::
  "'w sys_env \<Rightarrow> sock \<Rightarrow> socket_family \<Rightarrow> outbound_interface \<Rightarrow> ('w, dialer_error, sock) io" where
  "bind_socket_to_interface_inner env s family i = (case sys_platform env of
      OtherOS \<Rightarrow> io_fail (Unsupported (oi_name i))
    | Windows \<Rightarrow>
        io_bind (sys_do env (OpBindDevice family (oi_index i)) (InterfaceBind (oi_name i))) (\<lambda>_.
        io_return (s\<lparr>sk_device := Some (oi_index i)\<rparr>))
    | MacOS \<Rightarrow>
        (if oi_index i = 0 then io_fail (InterfaceBind (oi_name i) InvalidInput)
         else io_bind (sys_do env (OpBindDevice family (oi_index i)) (InterfaceBind (oi_name i))) (\<lambda>_.
              io_return (s\<lparr>sk_device := Some (oi_index i)\<rparr>)))
    | Linux \<Rightarrow>
        (if oi_index i = 0 then io_fail (InterfaceBind (oi_name i) InvalidInput)
         else io_bind (sys_do env (OpBindDevice family (oi_index i)) (InterfaceBind (oi_name i))) (\<lambda>_.
              io_bind (sys_do env (OpSetMark BYPASS_FWMARK) SetOption) (\<lambda>_.
              io_return (s\<lparr>sk_device := Some (oi_index i), sk_mark := Some BYPASS_FWMARK\<rparr>)))))"

definition bind_socket_to_interface ::
  "'w sys_env \<Rightarrow> sock \<Rightarrow> socket_family \<Rightarrow> outbound_interface option \<Rightarrow> ('w, dialer_error, sock) io" where
  "bind_socket_to_interface env s family outbound = (case outbound of
      None \<Rightarrow> io_return s
    | Some i \<Rightarrow> bind_socket_to_interface_inner env s family i)"

definition socket_connect ::
  "'w sys_env \<Rightarrow> sock \<Rightarrow> socket_addr \<Rightarrow> duration \<Rightarrow> ('w, dialer_error, sock) io" where
  "socket_connect env s dst timeout = (\<lambda>w. case sys_call env w (OpConnect dst) of
      (SysOk, w') \<Rightarrow> (Inr (s\<lparr>sk_peer := Some dst\<rparr>), w')
    | (SysErr k, w') \<Rightarrow> (Inl (Connect dst k), w')
    | (SysTimeout, w') \<Rightarrow> (Inl (ConnectTimeout dst timeout), w'))"

definition connect_tcp :: "'w sys_env \<Rightarrow> dialer \<Rightarrow> socket_addr \<Rightarrow> ('w, dialer_error, sock) io" where
  "connect_tcp env d dst =
     (let family = family_from_addr dst in
      io_bind (new_socket2 env family True) (\<lambda>s.
      io_bind (if should_bind (sa_ip dst) then bind_socket_to_interface env s family (dl_interface d)
               else io_return s) (\<lambda>s.
      io_bind (if dl_tcp_nodelay d then sys_do env OpNodelay SetOption else io_return ()) (\<lambda>_.
      socket_connect env s dst (dl_connect_timeout d)))))"

definition bind_udp :: "'w sys_env \<Rightarrow> dialer \<Rightarrow> socket_addr \<Rightarrow> ('w, dialer_error, sock) io" where
  "bind_udp env d bind_addr =
     (let family = family_from_addr bind_addr in
      io_bind (new_socket2 env family False) (\<lambda>s.
      io_bind (sys_do env OpReuseAddress SetOption) (\<lambda>_.
      io_bind (bind_socket_to_interface env s family (dl_interface d)) (\<lambda>s.
      io_bind (sys_do env (OpBind bind_addr) (SocketBind bind_addr)) (\<lambda>_.
      io_bind (sys_do env OpRegister SocketCreate) (\<lambda>_.
      io_return (s\<lparr>sk_local := Some bind_addr\<rparr>)))))))"

definition bind_udp_to :: "'w sys_env \<Rightarrow> dialer \<Rightarrow> socket_addr \<Rightarrow> ('w, dialer_error, sock) io" where
  "bind_udp_to env d server =
     (let bind_addr = (if is_ipv4 (sa_ip server) then \<lparr>sa_ip = V4 0, sa_port = 0\<rparr>
                       else \<lparr>sa_ip = V6 0, sa_port = 0\<rparr>);
          family = family_from_addr bind_addr in
      io_bind (new_socket2 env family False) (\<lambda>s.
      io_bind (sys_do env OpReuseAddress SetOption) (\<lambda>_.
      io_bind (if should_bind (sa_ip server) then bind_socket_to_interface env s family (dl_interface d)
               else io_return s) (\<lambda>s.
      io_bind (sys_do env (OpBind bind_addr) (SocketBind bind_addr)) (\<lambda>_.
      io_bind (sys_do env OpRegister SocketCreate) (\<lambda>_.
      io_return (s\<lparr>sk_local := Some bind_addr\<rparr>)))))))"

definition is_bind_retry :: "platform \<Rightarrow> dialer_error \<Rightarrow> bool" where
  "is_bind_retry p e = (case e of
      SocketBind _ k \<Rightarrow> k = AddrInUse \<or> (p = Windows \<and> k = PermissionDenied)
    | _ \<Rightarrow> False)"

text \<open>The \<open>loop\<close> of \<open>bind_udp_pair\<close>; it ends because \<open>retries\<close> is bounded.\<close>

function bind_udp_pair_loop ::
  "'w sys_env \<Rightarrow> dialer \<Rightarrow> ipv4 \<Rightarrow> ipv6 \<Rightarrow> u16 \<Rightarrow> u32 \<Rightarrow> ('w, dialer_error, sock \<times> sock) io" where
  "bind_udp_pair_loop env d addr_v4 addr_v6 port retries w =
     (case bind_udp env d \<lparr>sa_ip = V4 addr_v4, sa_port = port\<rparr> w of
        (Inl e, w1) \<Rightarrow> (Inl e, w1)
      | (Inr udp_v4, w1) \<Rightarrow> (case sys_local_port env w1 udp_v4 of
          Inl k \<Rightarrow> (Inl (SocketCreate k), w1)
        | Inr bound_port \<Rightarrow> (case bind_udp env d \<lparr>sa_ip = V6 addr_v6, sa_port = bound_port\<rparr> w1 of
            (Inr udp_v6, w2) \<Rightarrow> (Inr (udp_v4, udp_v6), w2)
          | (Inl error, w2) \<Rightarrow>
              if port = 0 \<and> retries < BIND_MAX_RETRIES \<and> is_bind_retry (sys_platform env) error
              then bind_udp_pair_loop env d addr_v4 addr_v6 port (retries + 1) w2
              else (Inl error, w2))))"
  by pat_completeness auto
termination
proof (relation "measure (\<lambda>(env, d, a4, a6, port, retries, w). 10 - unat retries)", goal_cases)
  case (2 env d addr_v4 addr_v6 port retries w)
  then have "unat retries < 10" by (simp add: word_less_nat_alt BIND_MAX_RETRIES_def)
  then show ?case by (simp add: unat_word_ariths)
qed simp

declare bind_udp_pair_loop.simps [simp del]

definition bind_udp_pair ::
  "'w sys_env \<Rightarrow> dialer \<Rightarrow> ipv4 \<Rightarrow> ipv6 \<Rightarrow> u16 \<Rightarrow> ('w, dialer_error, sock \<times> sock) io" where
  "bind_udp_pair env d addr_v4 addr_v6 port = bind_udp_pair_loop env d addr_v4 addr_v6 port 0"

section \<open>Pinned sockets\<close>

text \<open>The contract of a socket constructor: \<open>binds\<close> says for which arguments the
  socket must be pinned, \<open>pinned\<close> what the pinning is.\<close>

definition pinned :: "'w sys_env \<Rightarrow> outbound_interface option \<Rightarrow> sock \<Rightarrow> bool" where
  "pinned env i s = (case i of
      None \<Rightarrow> sk_device s = None \<and> sk_mark s = None
    | Some oi \<Rightarrow> sk_device s = Some (oi_index oi)
        \<and> sk_mark s = (if sys_platform env = Linux then Some BYPASS_FWMARK else None))"

definition unpinned :: "sock \<Rightarrow> bool" where
  "unpinned s \<longleftrightarrow> sk_device s = None \<and> sk_mark s = None"

locale socket_factory =
  fixes env :: "'w sys_env" and d :: dialer
    and mk :: "'a \<Rightarrow> ('w, dialer_error, sock) io" and binds :: "'a \<Rightarrow> bool"
  assumes mk_pinned: "mk a w = (Inr s, w') \<Longrightarrow> binds a \<Longrightarrow> pinned env (dl_interface d) s"
    and mk_unpinned: "mk a w = (Inr s, w') \<Longrightarrow> \<not> binds a \<Longrightarrow> unpinned s"
begin

lemma device_of_made:
  "mk a w = (Inr s, w') \<Longrightarrow>
     sk_device s = (if binds a then map_option oi_index (dl_interface d) else None)"
  using mk_pinned mk_unpinned by (fastforce simp: pinned_def unpinned_def split: option.splits)

lemma marked_iff_device:
  "sys_platform env = Linux \<Longrightarrow> mk a w = (Inr s, w') \<Longrightarrow>
     sk_mark s = (if sk_device s = None then None else Some BYPASS_FWMARK)"
  using mk_pinned mk_unpinned by (fastforce simp: pinned_def unpinned_def split: option.splits)

end

lemma sys_do_Inr: "sys_do env op err w = (Inr x, w') \<longleftrightarrow> sys_call env w op = (SysOk, w')"
  by (auto simp: sys_do_def split: prod.splits sys_res.splits)

lemma socket_connect_Inr:
  "socket_connect env s dst t w = (Inr s', w') \<longleftrightarrow>
     sys_call env w (OpConnect dst) = (SysOk, w') \<and> s' = s\<lparr>sk_peer := Some dst\<rparr>"
  by (auto simp: socket_connect_def split: prod.splits sys_res.splits)

lemma new_socket2_unpinned:
  "new_socket2 env fam st w = (Inr s, w') \<Longrightarrow> unpinned s"
  by (auto simp: new_socket2_def io_bind_Inr unpinned_def)

lemma bind_socket_pinned:
  "bind_socket_to_interface env s fam i w = (Inr s', w') \<Longrightarrow> unpinned s \<Longrightarrow> pinned env i s'"
  by (auto simp: bind_socket_to_interface_def bind_socket_to_interface_inner_def io_bind_Inr
      unpinned_def pinned_def split: option.splits platform.splits if_splits)

lemma made_pinned:
  assumes "new_socket2 env fam st w = (Inr s, w1)"
    and "bind_socket_to_interface env s fam' i w2 = (Inr s', w3)"
  shows "pinned env i s'"
  using bind_socket_pinned [OF assms(2) new_socket2_unpinned [OF assms(1)]] .

lemma pinned_update [simp]:
  "pinned env i (s\<lparr>sk_peer := p\<rparr>) = pinned env i s"
  "pinned env i (s\<lparr>sk_local := l\<rparr>) = pinned env i s"
  "unpinned (s\<lparr>sk_peer := p\<rparr>) = unpinned s"
  "unpinned (s\<lparr>sk_local := l\<rparr>) = unpinned s"
  by (simp_all add: pinned_def unpinned_def split: option.splits)

interpretation tcp_factory: socket_factory env d "connect_tcp env d" "\<lambda>dst. should_bind (sa_ip dst)"
  by unfold_locales
    (auto simp: connect_tcp_def Let_def io_bind_Inr socket_connect_Inr split: if_splits
      intro: new_socket2_unpinned made_pinned)

interpretation listen_factory: socket_factory env d "bind_udp env d" "\<lambda>_. True"
  by unfold_locales
    (auto simp: bind_udp_def Let_def io_bind_Inr intro: made_pinned)

interpretation dns_factory: socket_factory env d "bind_udp_to env d" "\<lambda>srv. should_bind (sa_ip srv)"
  by unfold_locales
    (auto simp: bind_udp_to_def Let_def io_bind_Inr split: if_splits
      intro: new_socket2_unpinned made_pinned)

lemma bind_udp_local:
  "bind_udp env d a w = (Inr s, w') \<Longrightarrow> sk_local s = Some a"
  by (auto simp: bind_udp_def Let_def io_bind_Inr)

lemma bind_udp_pair_loop_ok:
  "bind_udp_pair_loop env d a4 a6 port retries w = (Inr (s4, s6), w') \<Longrightarrow>
    pinned env (dl_interface d) s4 \<and> pinned env (dl_interface d) s6
    \<and> sk_local s4 = Some \<lparr>sa_ip = V4 a4, sa_port = port\<rparr>
    \<and> (\<exists>w1 bound. sys_local_port env w1 s4 = Inr bound
         \<and> sk_local s6 = Some \<lparr>sa_ip = V6 a6, sa_port = bound\<rparr>)"
proof (induction env d a4 a6 port retries w rule: bind_udp_pair_loop.induct)
  case (1 env d a4 a6 port retries w)
  show ?case
    using 1 by (subst (asm) (2) bind_udp_pair_loop.simps)
      (fastforce split: prod.splits sum.splits if_splits
        dest: listen_factory.mk_pinned bind_udp_local)
qed

section \<open>Resolver\<close>

datatype record_type = TypeA | TypeAAAA

datatype rdata = RDataA ipv4 | RDataAAAA ipv6 | RDataOther

record dns_record =
  rec_type :: "record_type option"
  rec_data :: rdata

text \<open>The DNS message codec is third-party.\<close>

record dns_codec =
  dc_name_ok :: "string \<Rightarrow> bool"
  dc_encode_query :: "string \<Rightarrow> record_type \<Rightarrow> bytes option"
  dc_decode_answers :: "bytes \<Rightarrow> dns_record list option"

datatype resolver_error =
    NoServers
  | SystemConfig
  | RBind socket_addr dialer_error
  | RSend socket_addr io_kind
  | RRecv socket_addr io_kind
  | QueryTimeout socket_addr
  | RDecode socket_addr
  | QueryBuild
  | NoRecords string

record resolver =
  rv_dialer :: dialer
  rv_servers :: "socket_addr list"
  rv_overrides :: "string \<rightharpoonup> socket_addr list"

definition DEFAULT_DNS_PORT :: u16 where "DEFAULT_DNS_PORT = 53"

definition MAX_DNS_RESPONSE :: nat where "MAX_DNS_RESPONSE = 4096"

definition resolver_new :: "dialer \<Rightarrow> socket_addr list \<Rightarrow> resolver" where
  "resolver_new d servers = \<lparr>rv_dialer = d, rv_servers = servers, rv_overrides = Map.empty\<rparr>"

definition with_override :: "resolver \<Rightarrow> string \<Rightarrow> socket_addr \<Rightarrow> resolver" where
  "with_override r hostname pinned_addr =
     r\<lparr>rv_overrides := (rv_overrides r)(hostname \<mapsto>
         unwrap_or (rv_overrides r hostname) [] @ [pinned_addr])\<rparr>"

definition build_query :: "dns_codec \<Rightarrow> string \<Rightarrow> record_type \<Rightarrow> (resolver_error, bytes) result" where
  "build_query dc name rt = ok_or QueryBuild (dc_encode_query dc name rt)"

definition extract_addrs :: "dns_record list \<Rightarrow> record_type \<Rightarrow> ip_addr list" where
  "extract_addrs answers rt = filter_map (\<lambda>r. case rec_data r of
       RDataA a \<Rightarrow> Some (V4 a) | RDataAAAA a \<Rightarrow> Some (V6 a) | RDataOther \<Rightarrow> None)
     (filter (\<lambda>r. rec_type r = Some rt) answers)"

definition send_query ::
  "'w sys_env \<Rightarrow> dns_codec \<Rightarrow> resolver \<Rightarrow> socket_addr \<Rightarrow> bytes \<Rightarrow> ('w, resolver_error, dns_record list) io" where
  "send_query env dc r server wire_query =
     io_bind (io_map_err (RBind server) (bind_udp_to env (rv_dialer r) server)) (\<lambda>socket.
     (\<lambda>w. case sys_call env w (OpSendTo wire_query server) of
         (SysErr k, w1) \<Rightarrow> (Inl (RSend server k), w1)
       | (SysTimeout, w1) \<Rightarrow> (Inl (RSend server (IoOther 0)), w1)
       | (SysOk, w1) \<Rightarrow> (case sys_recv env w1 socket of
           (RecvTimeout, w2) \<Rightarrow> (Inl (QueryTimeout server), w2)
         | (RecvErr k, w2) \<Rightarrow> (Inl (RRecv server k), w2)
         | (RecvOk buf, w2) \<Rightarrow>
             (ok_or (RDecode server) (dc_decode_answers dc (take MAX_DNS_RESPONSE buf)), w2))))"

fun query_servers ::
  "'w sys_env \<Rightarrow> dns_codec \<Rightarrow> resolver \<Rightarrow> record_type \<Rightarrow> bytes \<Rightarrow> socket_addr list
   \<Rightarrow> resolver_error option \<Rightarrow> ('w, resolver_error, ip_addr list) io" where
  "query_servers env dc r rt wire [] last_err w =
     (case last_err of None \<Rightarrow> Inr [] | Some e \<Rightarrow> Inl e, w)"
| "query_servers env dc r rt wire (server # servers) last_err w =
     (case send_query env dc r server wire w of
        (Inr response, w1) \<Rightarrow>
          (let addrs = extract_addrs response rt in
           if addrs \<noteq> [] then (Inr addrs, w1)
           else query_servers env dc r rt wire servers last_err w1)
      | (Inl e, w1) \<Rightarrow> query_servers env dc r rt wire servers (Some e) w1)"

definition query_record ::
  "'w sys_env \<Rightarrow> dns_codec \<Rightarrow> resolver \<Rightarrow> string \<Rightarrow> record_type \<Rightarrow> ('w, resolver_error, ip_addr list) io" where
  "query_record env dc r name rt w = (case build_query dc name rt of
      Inl e \<Rightarrow> (Inl e, w)
    | Inr wire \<Rightarrow> query_servers env dc r rt wire (rv_servers r) None w)"

definition resolve_host ::
  "'w sys_env \<Rightarrow> dns_codec \<Rightarrow> resolver \<Rightarrow> string \<Rightarrow> u16 \<Rightarrow> ('w, resolver_error, socket_addr list) io" where
  "resolve_host env dc r host port w = (case rv_overrides r host of
      Some addrs \<Rightarrow> (Inr addrs, w)
    | None \<Rightarrow> (case parse_ip host of
        Some ip \<Rightarrow> (Inr [\<lparr>sa_ip = ip, sa_port = port\<rparr>], w)
      | None \<Rightarrow>
          if \<not> dc_name_ok dc host then (Inl (NoRecords host), w)
          else
            let (ra, w1) = query_record env dc r host TypeA w;
                (raaaa, w2) = query_record env dc r host TypeAAAA w1;
                all_addrs = map (\<lambda>ip. \<lparr>sa_ip = ip, sa_port = port\<rparr>)
                  ((case ra of Inl _ \<Rightarrow> [] | Inr as \<Rightarrow> as) @ (case raaaa of Inl _ \<Rightarrow> [] | Inr as \<Rightarrow> as));
                last_err = (case ra of Inl e \<Rightarrow> Some e | Inr _ \<Rightarrow>
                  (case raaaa of Inl e \<Rightarrow> Some e | Inr _ \<Rightarrow> None))
            in if all_addrs = [] then (Inl (unwrap_or last_err (NoRecords host)), w2)
               else (Inr all_addrs, w2)))"

text \<open>\<open>system_dns_servers\<close>: the argument is the name-server list of the system's
  resolver configuration, \<open>None\<close> when it could not be read.\<close>

definition system_dns_servers :: "ip_addr list option \<Rightarrow> (resolver_error, socket_addr list) result" where
  "system_dns_servers conf = (case conf of
      None \<Rightarrow> Inl SystemConfig
    | Some name_servers \<Rightarrow>
        (let servers = filter (\<lambda>a. \<not> is_loopback (sa_ip a) \<and> \<not> is_unspecified (sa_ip a))
               (map (\<lambda>ip. \<lparr>sa_ip = ip, sa_port = DEFAULT_DNS_PORT\<rparr>) name_servers)
         in if servers = [] then Inr [\<lparr>sa_ip = V4 (ipv4_of_octets 8 8 8 8), sa_port = DEFAULT_DNS_PORT\<rparr>]
            else Inr servers))"

definition resolver_from_system :: "ip_addr list option \<Rightarrow> dialer \<Rightarrow> (resolver_error, resolver) result" where
  "resolver_from_system conf d = res_bind (system_dns_servers conf) (\<lambda>servers.
     if servers = [] then Inl NoServers
     else Inr \<lparr>rv_dialer = d, rv_servers = servers, rv_overrides = Map.empty\<rparr>)"

section \<open>HTTP connector\<close>

datatype connector_error =
    MissingHost
  | UnsupportedScheme string
  | CResolve string resolver_error
  | NoAddress string
  | CConnect string dialer_error

record uri =
  uri_scheme :: "string option"
  uri_host :: "string option"
  uri_port :: "u16 option"

definition parse_uri_host_port :: "uri \<Rightarrow> (connector_error, string \<times> u16) result" where
  "parse_uri_host_port u =
     res_bind (ok_or MissingHost (uri_host u)) (\<lambda>host.
       let port = unwrap_or (uri_port u) (if uri_scheme u = Some ''https'' then 443 else 80);
           scheme = unwrap_or (uri_scheme u) ''http''
       in if scheme \<noteq> ''http'' \<and> scheme \<noteq> ''https'' then Inl (UnsupportedScheme scheme)
          else Inr (host, port))"

fun connect_any ::
  "'w sys_env \<Rightarrow> dialer \<Rightarrow> socket_addr list \<Rightarrow> ('w, dialer_error list, sock) io" where
  "connect_any env d [] w = (Inl [], w)"
| "connect_any env d (addr # addrs) w = (case connect_tcp env d addr w of
      (Inr stream, w1) \<Rightarrow> (Inr stream, w1)
    | (Inl e, w1) \<Rightarrow> (case connect_any env d addrs w1 of
          (Inl es, w2) \<Rightarrow> (Inl (e # es), w2)
        | (Inr stream, w2) \<Rightarrow> (Inr stream, w2)))"

definition connect_to ::
  "'w sys_env \<Rightarrow> dns_codec \<Rightarrow> dialer \<Rightarrow> resolver \<Rightarrow> uri \<Rightarrow> ('w, connector_error, sock) io" where
  "connect_to env dc d r u w = (case parse_uri_host_port u of
      Inl e \<Rightarrow> (Inl e, w)
    | Inr (host, port) \<Rightarrow> (case resolve_host env dc r host port w of
        (Inl e, w1) \<Rightarrow> (Inl (CResolve host e), w1)
      | (Inr addrs, w1) \<Rightarrow>
          if addrs = [] then (Inl (NoAddress host), w1)
          else (case connect_any env d addrs w1 of
              (Inr stream, w2) \<Rightarrow> (Inr stream, w2)
            | (Inl es, w2) \<Rightarrow> (Inl (CConnect host (last es)), w2))))"

section \<open>Facts about resolution and connection\<close>

lemma resolve_host_override:
  "rv_overrides r host = Some addrs \<Longrightarrow> resolve_host env dc r host port w = (Inr addrs, w)"
  by (simp add: resolve_host_def)

lemma resolve_host_literal:
  "rv_overrides r host = None \<Longrightarrow> parse_ip host = Some ip \<Longrightarrow>
     resolve_host env dc r host port w = (Inr [\<lparr>sa_ip = ip, sa_port = port\<rparr>], w)"
  by (simp add: resolve_host_def)

definition rdata_of_ip :: "ip_addr \<Rightarrow> rdata" where
  "rdata_of_ip ip = (case ip of V4 a \<Rightarrow> RDataA a | V6 a \<Rightarrow> RDataAAAA a)"

lemma rdata_ip_iff:
  "(case d of RDataA a \<Rightarrow> Some (V4 a) | RDataAAAA a \<Rightarrow> Some (V6 a) | RDataOther \<Rightarrow> None) = Some ip
     \<longleftrightarrow> d = rdata_of_ip ip"
  by (cases d; cases ip) (auto simp: rdata_of_ip_def)

lemma set_extract_addrs:
  "ip \<in> set (extract_addrs answers rt) \<longleftrightarrow>
     (\<exists>r \<in> set answers. rec_type r = Some rt \<and> rec_data r = rdata_of_ip ip)"
  by (auto simp: extract_addrs_def set_filter_map rdata_ip_iff)

lemma query_servers_nonempty:
  "query_servers env dc r rt wire servers last_err w = (Inr addrs, w') \<Longrightarrow>
     addrs \<noteq> [] \<or> last_err = None"
  by (induction servers arbitrary: last_err w)
    (auto simp: Let_def split: option.splits prod.splits sum.splits if_splits)

lemma resolve_host_nonempty:
  assumes "resolve_host env dc r host port w = (Inr addrs, w')" "rv_overrides r host = None"
  shows "addrs \<noteq> [] \<and> (\<forall>a \<in> set addrs. sa_port a = port)"
  using assms
  by (auto simp: resolve_host_def Let_def split: option.splits prod.splits if_splits sum.splits)

lemma with_override_resolves:
  "rv_overrides r host = None \<Longrightarrow>
     resolve_host env dc (with_override r host a) host port w = (Inr [a], w)"
  by (simp add: resolve_host_def with_override_def)

lemma connect_any_Inl: "connect_any env d addrs w = (Inl es, w') \<Longrightarrow> length es = length addrs"
  by (induction addrs arbitrary: w es w') (auto split: prod.splits sum.splits)

lemma connect_any_Inr:
  "connect_any env d addrs w = (Inr s, w') \<Longrightarrow>
     \<exists>addr \<in> set addrs. \<exists>w1 w2. connect_tcp env d addr w1 = (Inr s, w2)"
  by (induction addrs arbitrary: w) (fastforce split: prod.splits sum.splits)+

lemma connect_tcp_peer:
  "connect_tcp env d dst w = (Inr s, w') \<Longrightarrow> sk_peer s = Some dst"
  by (auto simp: connect_tcp_def Let_def io_bind_Inr socket_connect_Inr)

lemma system_dns_servers_usable:
  "system_dns_servers conf = Inr servers \<Longrightarrow>
     servers \<noteq> [] \<and> (\<forall>a \<in> set servers. sa_port a = 53 \<and> \<not> is_loopback (sa_ip a) \<and> \<not> is_unspecified (sa_ip a))"
  by (auto simp: system_dns_servers_def Let_def DEFAULT_DNS_PORT_def is_loopback_def
      is_unspecified_def ipv4_is_loopback_def ipv4_of_octets_def filter_empty_conv
      split: option.splits if_splits)

text \<open>An HTTP connection leaves through the selected interface.  A connected stream talks to
  one of the resolved addresses; when that address is routable the socket was bound to the dialer's
  interface before connecting (and carries the bypass mark on Linux), and when it is not routable it
  was left unbound.  With a static override for the host the only possible peer is the pinned
  address.\<close>

theorem connect_to_egress:
  assumes "connect_to env dc d r u w = (Inr s, w')"
  shows "\<exists>a host port. parse_uri_host_port u = Inr (host, port) \<and> sk_peer s = Some a
    \<and> sk_device s = (if should_bind (sa_ip a) then map_option oi_index (dl_interface d) else None)
    \<and> (sys_platform env = Linux \<longrightarrow> sk_mark s = (if sk_device s = None then None else Some BYPASS_FWMARK))
    \<and> (\<forall>pins. rv_overrides r host = Some pins \<longrightarrow> a \<in> set pins)
    \<and> (rv_overrides r host = None \<longrightarrow> sa_port a = port)"
proof -
  from assms obtain host port addrs w1 where
    p: "parse_uri_host_port u = Inr (host, port)"
    and res: "resolve_host env dc r host port w = (Inr addrs, w1)"
    and con: "connect_any env d addrs w1 = (Inr s, w')"
    by (auto simp: connect_to_def split: sum.splits prod.splits if_splits)
  from connect_any_Inr [OF con] obtain a w2 w3 where
    a: "a \<in> set addrs" and tcp: "connect_tcp env d a w2 = (Inr s, w3)" by blast
  have "rv_overrides r host = None \<longrightarrow> sa_port a = port"
    using resolve_host_nonempty [OF res] a by blast
  moreover have "\<forall>pins. rv_overrides r host = Some pins \<longrightarrow> a \<in> set pins"
    using res a by (auto simp: resolve_host_def)
  ultimately show ?thesis
    using p connect_tcp_peer [OF tcp] tcp_factory.device_of_made [OF tcp]
      tcp_factory.marked_iff_device [OF _ tcp]
    by (intro exI [of _ a] exI [of _ host] exI [of _ port]) simp
qed

definition willing_env :: "unit sys_env" where
  "willing_env = \<lparr>sys_platform = Linux, sys_call = (\<lambda>w op. (SysOk, w)),
     sys_local_port = (\<lambda>w s. Inr 4000), sys_recv = (\<lambda>w s. (RecvTimeout, w))\<rparr>"

definition sample_codec :: dns_codec where
  "sample_codec = \<lparr>dc_name_ok = (\<lambda>_. True), dc_encode_query = (\<lambda>_ _. Some []),
     dc_decode_answers = (\<lambda>_. Some [])\<rparr>"

definition sample_pin :: socket_addr where
  "sample_pin = \<lparr>sa_ip = V4 0x0A000009, sa_port = 8443\<rparr>"

definition sample_stream :: sock where
  "sample_stream = \<lparr>sk_family = FamV4, sk_stream = True, sk_device = Some 2,
     sk_mark = Some BYPASS_FWMARK, sk_local = None, sk_peer = Some sample_pin\<rparr>"

lemma sample_connects:
  "connect_to willing_env sample_codec (dialer_new (Some sample_out))
     (with_override (resolver_new (dialer_new (Some sample_out)) []) ''vpn.corp'' sample_pin)
     \<lparr>uri_scheme = Some ''https'', uri_host = Some ''vpn.corp'', uri_port = None\<rparr> ()
   = (Inr sample_stream, ())"
proof -
  have bind: "should_bind (V4 0x0A000009)"
    by (simp add: should_bind_def ipv4_is_loopback_def ipv4_is_link_local_def ipv4_is_multicast_def
        word_le_nat_alt drop_bit_eq_div)
  show ?thesis
    by (simp add: connect_to_def parse_uri_host_port_def resolve_host_def with_override_def
        resolver_new_def dialer_new_def connect_tcp_def Let_def io_bind_def new_socket2_def sys_do_def
        willing_env_def bind_socket_to_interface_def bind_socket_to_interface_inner_def
        socket_connect_def sample_pin_def sample_stream_def sample_out_def family_from_addr_def
        is_ipv4_def bind)
qed

theorem connect_to_egress_witness:
  "\<exists>a. sk_peer sample_stream = Some a \<and> sk_device sample_stream =
     (if should_bind (sa_ip a) then map_option oi_index (Some sample_out) else None)"
  using connect_to_egress [OF sample_connects] by (auto simp: dialer_new_def)

end
