(* ===== verification/ApiClient.thy ===== *)
theory ApiClient
  imports OrderedMap ApiModels Signing Dialer
begin

text \<open>
  The HTTP API client (\<open>src/crates/api/src/client.rs\<close>, \<open>identity.rs\<close>).

  The jar of session cookies is shared by every client, so it is part of the
  state \<open>net\<close> that each request threads, together with the count of listener
  notifications and the outside world.  URL parsing, JSON, header validation,
  cookie parsing, the clock and the HTTP transport are third-party and are the
  fields of \<open>http_env\<close>.  \<open>prepare_request\<close> is the part of \<open>ApiClient::execute\<close> up
  to the transport call, \<open>execute\<close> the whole of it, \<open>send\<close> adds decoding and the
  status check.
\<close>

section \<open>Identity\<close>

record client_identity =
  id_os :: string
  id_os_version :: string
  id_app_version :: string
  id_brand :: string
  id_model :: string
  id_device_id :: string
  id_build_number :: string
  id_os_version_patch :: string
  id_client_source :: string
  id_language :: string
  id_user_agent :: string

definition identity_query_pairs :: "client_identity \<Rightarrow> int \<Rightarrow> (string \<times> string) list" where
  "identity_query_pairs i now =
     [(''os'', id_os i), (''os_version'', id_os_version i), (''app_version'', id_app_version i),
      (''brand'', id_brand i), (''model'', id_model i), (''language'', id_language i),
      (''build_number'', id_build_number i), (''os_version_patch'', id_os_version_patch i),
      (''timestamp'', int_to_string now), (''client_source'', id_client_source i)]"

section \<open>Errors\<close>

datatype api_error =
    InvalidBaseUrl string
  | BuildHttpClient
  | Encode
  | BuildRequest
  | Request
  | Decode string
  | HttpStatus nat string
  | HeaderValue string
  | HeaderName string
  | SignRequest signing_error
  | EncryptPassword password_cipher_error
  | MissingVpnDotField string
  | InvalidPort int
  | ApiStatus int string "json base_response"

section \<open>The cookie jar\<close>

type_synonym cookies = "(string \<times> string) list"

record 'w net =
  net_jar :: cookies
  net_notified :: nat
  net_world :: 'w

text \<open>\<open>CookieStore::merge\<close>: absorb the updates, report whether anything changed.\<close>

fun merge_loop :: "(string \<times> string) list \<Rightarrow> cookies \<Rightarrow> bool \<Rightarrow> cookies \<times> bool" where
  "merge_loop [] jar changed = (jar, changed)"
| "merge_loop ((name, v) # updates) jar changed =
     (if (case bt_get jar name of None \<Rightarrow> False | Some existing \<Rightarrow> existing = v)
      then merge_loop updates jar changed
      else merge_loop updates (bt_insert name v jar) True)"

definition jar_merge :: "(string \<times> string) list \<Rightarrow> 'w net \<Rightarrow> 'w net" where
  "jar_merge updates n =
     (let (jar, changed) = merge_loop updates (net_jar n) False
      in n\<lparr>net_jar := jar, net_notified := (if changed then Suc (net_notified n) else net_notified n)\<rparr>)"

lemma net_world_jar_merge [simp]: "net_world (jar_merge ups n) = net_world n"
  by (simp add: jar_merge_def split: prod.splits)

definition jar_clear :: "'w net \<Rightarrow> 'w net" where
  "jar_clear n = n\<lparr>net_jar := []\<rparr>"

section \<open>Requests and the environment\<close>

record http_client =
  hc_dialer :: dialer
  hc_resolver :: resolver

record http_request =
  hr_method :: http_method
  hr_url :: url
  hr_headers :: headers
  hr_body :: bytes

text \<open>A reply carries its status, its raw \<open>Set-Cookie\<close> values and the body, or
  \<open>None\<close> when reading the body failed.\<close>

record http_reply =
  rp_status :: nat
  rp_set_cookies :: "string list"
  rp_body :: "bytes option"

record 'w http_env =
  he_url_parse :: "string \<Rightarrow> url option"
  he_url_join :: "url \<Rightarrow> string \<Rightarrow> url option"
  he_append_pair :: "url \<Rightarrow> string \<times> string \<Rightarrow> url"
  he_uri_ok :: "string \<Rightarrow> bool"
  he_percent_encode :: "(char \<Rightarrow> bool) \<Rightarrow> string \<Rightarrow> string"
  he_header_value_ok :: "string \<Rightarrow> bool"
  he_header_to_str_ok :: "string \<Rightarrow> bool"
  he_header_name_ok :: "string \<Rightarrow> bool"
  he_encode :: "api_request \<Rightarrow> bytes option"
  he_decode_value :: "bytes \<Rightarrow> json base_response option"
  he_parse_cookie :: "string \<Rightarrow> (string \<times> string) option"
  he_cookie_to_string :: "string \<Rightarrow> string \<Rightarrow> string"
  he_from_utf8_lossy :: "bytes \<Rightarrow> string"
  he_crypto :: crypto
  he_now :: "'w \<Rightarrow> int"
  he_transport :: "http_client \<Rightarrow> http_request \<Rightarrow> 'w \<Rightarrow> http_reply option \<times> 'w"

record api_hooks =
  hk_identity :: client_identity
  hk_knock_token :: "string option"
  hk_signer :: signing_config

record api_client =
  ac_base_url :: url
  ac_client :: http_client
  ac_hooks :: api_hooks

section \<open>Endpoints\<close>

record dot_endpoint =
  de_api_base_url :: url
  de_wireguard_endpoint :: url

definition DEFAULT_MATCH_BASE_URL :: string where
  "DEFAULT_MATCH_BASE_URL = ''https://corplink.volcengine.cn''"

definition parse_base_url :: "'w http_env \<Rightarrow> string \<Rightarrow> (api_error, url) result" where
  "parse_base_url env v = ok_or (InvalidBaseUrl v) (he_url_parse env v)"

definition endpoint_url :: "'w http_env \<Rightarrow> url \<Rightarrow> string \<Rightarrow> (api_error, url) result" where
  "endpoint_url env base path = ok_or (InvalidBaseUrl path) (he_url_join env base path)"

definition url_from_host_port ::
  "'w http_env \<Rightarrow> string \<Rightarrow> string \<Rightarrow> int \<Rightarrow> (api_error, url) result" where
  "url_from_host_port env scheme host port =
     (if 0 < port \<and> port < 65536 then
        (let host = trim host in
         if host = [] then Inl (MissingVpnDotField ''host'')
         else (let authority = (if parse_ipv6 host \<noteq> None then ''['' @ host @ '']'' else host)
               in parse_base_url env (scheme @ ''://'' @ authority @ '':'' @ nat_to_string (nat port) @ ''/'')))
      else Inl (InvalidPort port))"

definition api_host :: "vpn_dot \<Rightarrow> string" where
  "api_host dot =
     unwrap_or (or_else (or_else (opt_filter (\<lambda>v. v \<noteq> []) (dot_ip4_domain dot))
                           (opt_filter (\<lambda>v. v \<noteq> []) (dot_fast_ip dot)))
                  (opt_filter (\<lambda>v. v \<noteq> []) (dot_api_ip dot)))
       (dot_ip dot)"

definition should_use_vpn_ip_for_config_api :: "vpn_dot \<Rightarrow> bool \<Rightarrow> bool" where
  "should_use_vpn_ip_for_config_api dot is_auto_location =
     (if is_auto_location \<or> dot_ip dot = [] then False
      else (case dot_ip_delay_routing_policy dot of None \<Rightarrow> False | Some p \<Rightarrow> is_operator_routing p))"

definition supports_reconnect :: "vpn_dot \<Rightarrow> bool" where
  "supports_reconnect dot \<longleftrightarrow> unwrap_or (dot_reconnect dot) False
     \<and> \<not> unwrap_or (dot_dedicated dot) False \<and> \<not> unwrap_or (dot_exclude dot) False"

definition MODE_FULL :: int where "MODE_FULL = 0"
definition MODE_SPLIT :: int where "MODE_SPLIT = 1"

definition supports_android_mode :: "vpn_dot \<Rightarrow> int \<Rightarrow> bool" where
  "supports_android_mode dot requested_mode \<longleftrightarrow>
     \<not> (dot_mode dot = Some MODE_SPLIT \<and> requested_mode = MODE_FULL)"

definition from_dot :: "'w http_env \<Rightarrow> vpn_dot \<Rightarrow> bool \<Rightarrow> (api_error, dot_endpoint) result" where
  "from_dot env dot use_vpn_ip_for_api =
     res_bind (ok_or (MissingVpnDotField ''api_port'') (dot_api_port dot)) (\<lambda>api_port.
     res_bind (ok_or (MissingVpnDotField ''vpn_port'') (dot_vpn_port dot)) (\<lambda>vpn_port.
     let host = (if use_vpn_ip_for_api then dot_ip dot else api_host dot) in
     res_bind (url_from_host_port env ''https'' host api_port) (\<lambda>api_base_url.
     res_bind (url_from_host_port env ''udp'' (dot_ip dot) vpn_port) (\<lambda>wireguard_endpoint.
     Inr \<lparr>de_api_base_url = api_base_url, de_wireguard_endpoint = wireguard_endpoint\<rparr>))))"

text \<open>The client builders: the interface is looked up by name, the servers come
  from the system configuration.\<close>

definition build_dialer_and_resolver ::
  "host_os \<Rightarrow> ip_addr list option \<Rightarrow> string option \<Rightarrow> (resolver_error, dialer \<times> resolver) result" where
  "build_dialer_and_resolver os conf outbound =
     (let interface = (case outbound of None \<Rightarrow> None | Some name \<Rightarrow> lookup_interface os name);
          d = dialer_new interface
      in res_bind (system_dns_servers conf) (\<lambda>servers. Inr (d, resolver_new d servers)))"

definition build_http_client ::
  "host_os \<Rightarrow> ip_addr list option \<Rightarrow> string option \<Rightarrow> (api_error, http_client) result" where
  "build_http_client os conf outbound =
     res_bind (map_err (\<lambda>_. BuildHttpClient) (build_dialer_and_resolver os conf outbound))
       (\<lambda>(d, r). Inr \<lparr>hc_dialer = d, hc_resolver = r\<rparr>)"

definition build_dot_http_client ::
  "host_os \<Rightarrow> ip_addr list option \<Rightarrow> string \<Rightarrow> socket_addr \<Rightarrow> string option \<Rightarrow> (api_error, http_client) result" where
  "build_dot_http_client os conf tls_host pinned_addr outbound =
     res_bind (map_err (\<lambda>_. BuildHttpClient) (build_dialer_and_resolver os conf outbound))
       (\<lambda>(d, r). Inr \<lparr>hc_dialer = d, hc_resolver = with_override r tls_host pinned_addr\<rparr>)"

section \<open>Headers\<close>

definition is_ascii_whitespace :: "char \<Rightarrow> bool" where
  "is_ascii_whitespace c \<longleftrightarrow> (of_char c :: nat) \<in> {9, 10, 12, 13, 32}"

definition device_name_cookie_value :: "client_identity \<Rightarrow> string" where
  "device_name_cookie_value i =
     (let name = filter (\<lambda>c. c \<notin> set '';,='')
            (map (\<lambda>c. if is_ascii_whitespace c then CHR ''-'' else c) (id_model i))
      in if trim name = [] then ''unknow'' else name)"

fun join_with :: "string \<Rightarrow> string list \<Rightarrow> string" where
  "join_with sep [] = []"
| "join_with sep [s] = s"
| "join_with sep (s # ss) = s @ sep @ join_with sep ss"

definition device_cookie_header :: "'w http_env \<Rightarrow> cookies \<Rightarrow> client_identity \<Rightarrow> string" where
  "device_cookie_header env jar i =
     join_with ''; '' (map (\<lambda>(n, v). he_cookie_to_string env n v)
       (jar @ [(''device_id'', id_device_id i), (''device_name'', device_name_cookie_value i)]))"

definition checked_header ::
  "'w http_env \<Rightarrow> string \<Rightarrow> string \<Rightarrow> string \<Rightarrow> headers \<Rightarrow> (api_error, headers) result" where
  "checked_header env label n v hs =
     (if he_header_value_ok env v then Inr (header_insert n v hs) else Inl (HeaderValue label))"

definition optional_header ::
  "'w http_env \<Rightarrow> string \<Rightarrow> string option \<Rightarrow> headers \<Rightarrow> (api_error, headers) result" where
  "optional_header env n v hs = (case v of None \<Rightarrow> Inr hs | Some s \<Rightarrow> checked_header env n n s hs)"

definition base_headers :: "'w http_env \<Rightarrow> api_hooks \<Rightarrow> cookies \<Rightarrow> (api_error, headers) result" where
  "base_headers env hooks jar =
     (let i = hk_identity hooks;
          accept_language = (if sublist ''zh'' (id_language i) then ''zh-CN'' else ''en-US'')
      in res_bind (checked_header env ''Accept-Language'' ''accept-language'' accept_language []) (\<lambda>hs.
         res_bind (checked_header env ''User-Agent'' ''user-agent'' (id_user_agent i) hs) (\<lambda>hs.
         res_bind (checked_header env ''Cookie'' ''cookie'' (device_cookie_header env jar i) hs) (\<lambda>hs.
         res_bind (optional_header env ''csrf-token'' (bt_get jar ''csrf-token'') hs) (\<lambda>hs.
         res_bind (optional_header env ''knock-token'' (hk_knock_token hooks) hs) (\<lambda>hs.
         optional_header env ''jwt-token''  (bt_get jar ''vpn-token'') hs))))))"

fun add_signed :: "'w http_env \<Rightarrow> signed_header list \<Rightarrow> headers \<Rightarrow> (api_error, headers) result" where
  "add_signed env [] hs = Inr hs"
| "add_signed env (s # ss) hs =
     (if \<not> he_header_name_ok env (sh_name s) then Inl (HeaderName (sh_name s))
      else if \<not> he_header_value_ok env (sh_value s) then Inl (HeaderValue (sh_name s))
      else add_signed env ss (header_insert (to_ascii_lowercase (sh_name s)) (sh_value s) hs))"

section \<open>Sending\<close>

definition method_str :: "http_method \<Rightarrow> string" where
  "method_str m = (case m of GET \<Rightarrow> ''GET'' | POST \<Rightarrow> ''POST'')"

definition prepare_request ::
  "'w http_env \<Rightarrow> api_client \<Rightarrow> api_request \<Rightarrow> cookies \<Rightarrow> int \<Rightarrow> (api_error, http_request) result" where
  "prepare_request env cl req jar now =
     res_bind (endpoint_url env (ac_base_url cl) (request_path (he_percent_encode env) req)) (\<lambda>u.
     let u = fold (\<lambda>kv u. he_append_pair env u kv) (query_pairs req) u;
         u = fold (\<lambda>kv u. he_append_pair env u kv) (identity_query_pairs (hk_identity (ac_hooks cl)) now) u
     in res_bind (if has_body req then map_err (\<lambda>_. Encode) (ok_or () (map_option Some (he_encode env req)))
                  else Inr None) (\<lambda>body_bytes.
        res_bind (base_headers env (ac_hooks cl) jar) (\<lambda>hs.
        let hs = header_insert ''accept'' ''application/json'' hs;
            hs = (if body_bytes \<noteq> None then header_insert ''content-type'' ''application/json'' hs else hs);
            body = unwrap_or body_bytes []
        in res_bind (map_err SignRequest (sign (he_crypto env) (he_header_to_str_ok env)
                       (hk_signer (ac_hooks cl)) (method_str (request_method req)) u hs body)) (\<lambda>signed.
           res_bind (add_signed env signed hs) (\<lambda>hs.
           if he_uri_ok env (u_str u)
           then Inr \<lparr>hr_method = request_method req, hr_url = u, hr_headers = hs, hr_body = body\<rparr>
           else Inl BuildRequest)))))"

definition parse_set_cookies :: "'w http_env \<Rightarrow> string list \<Rightarrow> (string \<times> string) list" where
  "parse_set_cookies env raws =
     filter_map (he_parse_cookie env) (filter (he_header_to_str_ok env) raws)"

definition MAX_ERROR_CONTENT_BYTES :: nat where "MAX_ERROR_CONTENT_BYTES = 4096"

definition response_content :: "'w http_env \<Rightarrow> bytes \<Rightarrow> string" where
  "response_content env bs =
     (if length bs \<le> MAX_ERROR_CONTENT_BYTES then he_from_utf8_lossy env bs
      else he_from_utf8_lossy env (take MAX_ERROR_CONTENT_BYTES bs) @ '' ... [truncated '' @
           nat_to_string (length bs - MAX_ERROR_CONTENT_BYTES) @ '' bytes]'')"

definition status_is_success :: "nat \<Rightarrow> bool" where
  "status_is_success n \<longleftrightarrow> 200 \<le> n \<and> n < 300"

definition execute :: "'w http_env \<Rightarrow> api_client \<Rightarrow> api_request \<Rightarrow> ('w net, api_error, bytes) io" where
  "execute env cl req n = (case prepare_request env cl req (net_jar n) (he_now env (net_world n)) of
      Inl e \<Rightarrow> (Inl e, n)
    | Inr hreq \<Rightarrow> (case he_transport env (ac_client cl) hreq (net_world n) of
        (None, w) \<Rightarrow> (Inl Request, n\<lparr>net_world := w\<rparr>)
      | (Some reply, w) \<Rightarrow>
          (let n = jar_merge (parse_set_cookies env (rp_set_cookies reply)) (n\<lparr>net_world := w\<rparr>) in
           case rp_body reply of
             None \<Rightarrow> (Inl Request, n)
           | Some bs \<Rightarrow>
               if \<not> status_is_success (rp_status reply)
               then (Inl (HttpStatus (rp_status reply) (response_content env bs)), n)
               else (Inr bs, n))))"

definition check_api_status :: "'w http_env \<Rightarrow> 'a base_response \<Rightarrow> bytes \<Rightarrow> (api_error, unit) result" where
  "check_api_status env response body =
     (if br_code response = 0 then Inr ()
      else (let message = unwrap_or (br_message response) ''unknown API error'';
                response = unwrap_or (he_decode_value env body)
                  (base_response_default\<lparr>br_code := br_code response, br_message := Some message\<rparr>)
            in Inl (ApiStatus (br_code response) message response)))"

definition decode_response ::
  "'w http_env \<Rightarrow> (bytes \<Rightarrow> 'a base_response option) \<Rightarrow> bytes \<Rightarrow> (api_error, 'a base_response) result" where
  "decode_response env decode bs = ok_or (Decode (response_content env bs)) (decode bs)"

definition send ::
  "'w http_env \<Rightarrow> (bytes \<Rightarrow> 'a base_response option) \<Rightarrow> api_client \<Rightarrow> api_request
   \<Rightarrow> ('w net, api_error, 'a base_response) io" where
  "send env decode cl req n = (case execute env cl req n of
      (Inl e, n') \<Rightarrow> (Inl e, n')
    | (Inr bs, n') \<Rightarrow>
        (res_bind (decode_response env decode bs) (\<lambda>decoded.
         res_bind (check_api_status env decoded bs) (\<lambda>_. Inr decoded)), n'))"

section \<open>A sample environment\<close>

text \<open>A concrete environment: URLs are kept as text, every header is accepted, and the
  server answers each request with the status and body held in the world.\<close>

definition plain_url :: "string \<Rightarrow> url" where
  "plain_url s = \<lparr>u_str = s, u_host = Some s, u_port = None, u_path = s, u_query = None\<rparr>"

definition sample_env :: "(nat \<times> bytes) http_env" where
  "sample_env = \<lparr>he_url_parse = (\<lambda>s. Some (plain_url s)),
     he_url_join = (\<lambda>u s. Some (plain_url s)), he_append_pair = (\<lambda>u kv. u),
     he_uri_ok = (\<lambda>_. True), he_percent_encode = (\<lambda>k s. filter k s),
     he_header_value_ok = (\<lambda>_. True), he_header_to_str_ok = (\<lambda>_. True),
     he_header_name_ok = (\<lambda>_. True), he_encode = (\<lambda>_. Some [123, 125]),
     he_decode_value = (\<lambda>_. None), he_parse_cookie = (\<lambda>s. split_once (CHR ''='') s),
     he_cookie_to_string = (\<lambda>n v. n @ ''='' @ v), he_from_utf8_lossy = (\<lambda>_. []),
     he_crypto = toy_crypto, he_now = (\<lambda>_. 0),
     he_transport = (\<lambda>c r w. (Some \<lparr>rp_status = fst w, rp_set_cookies = [''a=1''],
        rp_body = Some (snd w)\<rparr>, w))\<rparr>"

definition sample_identity :: client_identity where
  "sample_identity = \<lparr>id_os = ''Android'', id_os_version = ''35'', id_app_version = ''3.2.16'',
     id_brand = ''google'', id_model = ''Pixel 8'', id_device_id = ''d'', id_build_number = ''2008'',
     id_os_version_patch = ''p'', id_client_source = ''FeiLian'', id_language = ''en'',
     id_user_agent = ''ua''\<rparr>"

definition sample_client :: "signing_config \<Rightarrow> api_client" where
  "sample_client cfg = \<lparr>ac_base_url = plain_url ''https://t'',
     ac_client = \<lparr>hc_dialer = dialer_new None, hc_resolver = resolver_new (dialer_new None) []\<rparr>,
     ac_hooks = \<lparr>hk_identity = sample_identity, hk_knock_token = None, hk_signer = cfg\<rparr>\<rparr>"

lemma sample_env_sel [simp]:
  "he_url_parse sample_env s = Some (plain_url s)" "he_url_join sample_env u s = Some (plain_url s)"
  "he_append_pair sample_env u kv = u" "he_uri_ok sample_env s" "he_header_value_ok sample_env s"
  "he_header_to_str_ok sample_env s" "he_header_name_ok sample_env s"
  "he_encode sample_env req = Some [123, 125]"
  "he_parse_cookie sample_env = split_once (CHR ''='')" "he_crypto sample_env = toy_crypto"
  "he_transport sample_env c r w = (Some \<lparr>rp_status = fst w, rp_set_cookies = [''a=1''],
        rp_body = Some (snd w)\<rparr>, w)"
  by (simp_all add: sample_env_def)

lemmas sample_env_simps = sample_client_def prepare_request_def
  endpoint_url_def base_headers_def checked_header_def optional_header_def sign_def
  signing_config_default_def

lemma prepare_sample:
  "\<exists>r. prepare_request sample_env (sample_client signing_config_default) req jar now = Inr r"
  by (cases "bt_get jar ''csrf-token''"; cases "bt_get jar ''vpn-token''")
    (simp_all add: sample_env_simps Let_def)

lemma send_sample:
  assumes "fst (net_world n) = 200" "dec (snd (net_world n)) = Some r" "br_code r = 0"
  shows "send sample_env dec (sample_client signing_config_default) req n = (Inr r, jar_merge [(''a'', ''1'')] n)"
proof -
  obtain hreq where "prepare_request sample_env (sample_client signing_config_default) req
      (net_jar n) (he_now sample_env (net_world n)) = Inr hreq"
    using prepare_sample by blast
  moreover have "split_once CHR ''='' ''a=1'' = Some (''a'', ''1'')" by code_simp
  ultimately show ?thesis
    using assms by (simp add: send_def execute_def parse_set_cookies_def status_is_success_def
        decode_response_def check_api_status_def Let_def)
qed

section \<open>The jar is a map\<close>

lemma merge_loop_spec:
  assumes "bt_sorted jar"
  shows "bt_sorted (fst (merge_loop ups jar ch)) \<and>
    (\<forall>k. bt_get (fst (merge_loop ups jar ch)) k =
       (case map_of (rev ups) k of Some v \<Rightarrow> Some v | None \<Rightarrow> bt_get jar k))"
  using assms
proof (induction ups jar ch rule: merge_loop.induct)
  case (2 name v ups jar ch)
  show ?case
  proof (cases "bt_get jar name = Some v")
    case True
    then show ?thesis using 2
      by (auto simp: map_of_append map_add_def split: option.splits)
  next
    case False
    then have "merge_loop ((name, v) # ups) jar ch = merge_loop ups (bt_insert name v jar) True"
      by (auto split: option.splits)
    moreover have "\<not> (case bt_get jar name of None \<Rightarrow> False | Some existing \<Rightarrow> existing = v)"
      using False by (auto split: option.splits)
    ultimately show ?thesis using 2
      by (auto simp: bt_sorted_insert bt_get_insert map_of_append map_add_def split: option.splits)
  qed
qed simp

lemma merge_loop_changed:
  "snd (merge_loop ups jar ch) \<longleftrightarrow> ch \<or> (\<exists>(k, v) \<in> set ups. bt_get jar k \<noteq> Some v)"
proof (induction ups arbitrary: jar ch)
  case (Cons kv ups)
  obtain name v where kv: "kv = (name, v)" by (cases kv)
  show ?case
  proof (cases "bt_get jar name = Some v")
    case True
    then show ?thesis by (simp add: kv Cons.IH)
  next
    case False
    then have "merge_loop (kv # ups) jar ch = merge_loop ups (bt_insert name v jar) True"
      by (auto simp: kv split: option.splits)
    then show ?thesis using False by (simp add: kv Cons.IH)
  qed
qed simp

lemma merge_loop_unchanged:
  "\<forall>(k, v) \<in> set ups. bt_get jar k = Some v \<Longrightarrow> merge_loop ups jar ch = (jar, ch)"
  by (induction ups arbitrary: ch) auto

lemma jar_merge_unchanged:
  "\<forall>(k, v) \<in> set ups. bt_get (net_jar n) k = Some v \<Longrightarrow> jar_merge ups n = n"
  by (simp add: jar_merge_def merge_loop_unchanged)

text \<open>Merging \<open>Set-Cookie\<close> updates makes the shared jar the old map overridden by the
  updates, the last update of a name winning; the jar stays sorted, so the \<open>Cookie\<close> header keeps a
  fixed order; and the persistence listener is notified exactly once when some update differs from
  the jar, and not at all (with the jar untouched) when none does.\<close>

theorem jar_merge_override:
  assumes "bt_sorted (net_jar n)"
  shows "bt_sorted (net_jar (jar_merge ups n))
    \<and> (\<forall>k. bt_get (net_jar (jar_merge ups n)) k =
         (case map_of (rev ups) k of Some v \<Rightarrow> Some v | None \<Rightarrow> bt_get (net_jar n) k))
    \<and> net_notified (jar_merge ups n) = net_notified n +
         (if \<exists>(k, v) \<in> set ups. bt_get (net_jar n) k \<noteq> Some v then 1 else 0)
    \<and> ((\<forall>(k, v) \<in> set ups. bt_get (net_jar n) k = Some v) \<longrightarrow> jar_merge ups n = n)
    \<and> net_world (jar_merge ups n) = net_world n"
  using merge_loop_spec [OF assms, of ups False] merge_loop_changed [of ups "net_jar n" False]
    jar_merge_unchanged [of ups n]
  by (auto simp: jar_merge_def split: prod.splits)

theorem jar_merge_override_witness:
  "net_notified (jar_merge [(''a'', ''1''), (''b'', ''2'')]
      \<lparr>net_jar = [(''b'', ''2'')], net_notified = 0, net_world = ()\<rparr>) = 1"
  using jar_merge_override [of "\<lparr>net_jar = [(''b'', ''2'')], net_notified = 0, net_world = ()\<rparr>"
      "[(''a'', ''1''), (''b'', ''2'')]"]
  by simp

section \<open>What a request carries\<close>

lemma checked_header_Inr:
  "checked_header env l n v hs = Inr hs' \<longleftrightarrow> he_header_value_ok env v \<and> hs' = header_insert n v hs"
  by (auto simp: checked_header_def)

lemma optional_header_Inr:
  "optional_header env n v hs = Inr hs' \<Longrightarrow>
     map_of hs' = (case v of None \<Rightarrow> map_of hs | Some s \<Rightarrow> (map_of hs)(n \<mapsto> s))"
  by (auto simp: optional_header_def checked_header_Inr split: option.splits)

lemma base_headers_content:
  assumes "base_headers env hooks jar = Inr hs"
  shows "map_of hs ''cookie'' = Some (device_cookie_header env jar (hk_identity hooks))
    \<and> map_of hs ''user-agent'' = Some (id_user_agent (hk_identity hooks))
    \<and> map_of hs ''csrf-token'' = bt_get jar ''csrf-token''
    \<and> map_of hs ''knock-token'' = hk_knock_token hooks
    \<and> map_of hs ''jwt-token'' = bt_get jar ''vpn-token''
    \<and> map_of hs ''sign'' = None \<and> map_of hs ''content-type'' = None"
  using assms unfolding base_headers_def Let_def res_bind_eq_Inr
  by (auto dest!: optional_header_Inr simp: checked_header_Inr split: option.splits)

lemma add_signed_single:
  "add_signed env [s] hs = Inr hs' \<Longrightarrow>
     map_of hs' = (map_of hs)(to_ascii_lowercase (sh_name s) \<mapsto> sh_value s)"
  by (auto split: if_splits)

lemma signing_input_cong:
  assumes "\<And>k. k \<in> {''cookie'', ''csrf-token'', ''knock-token'', ''jwt-token''} \<Longrightarrow> map_of hs k = map_of hs' k"
  shows "signing_input c ok verb u hs body flags = signing_input c ok verb u hs' body flags"
  using assms by (simp add: signing_input_def header_value_def)

lemma lower_Sign: "to_ascii_lowercase ''Sign'' = ''sign''"
  by code_simp

lemma prepare_request_parts:
  assumes "prepare_request env cl req jar now = Inr r"
  obtains hs0 hs signed body where
    "base_headers env (ac_hooks cl) jar = Inr hs0"
    "hs = (let hs = header_insert ''accept'' ''application/json'' hs0 in
       if has_body req then header_insert ''content-type'' ''application/json'' hs else hs)"
    "sign (he_crypto env) (he_header_to_str_ok env) (hk_signer (ac_hooks cl))
       (method_str (request_method req)) (hr_url r) hs (hr_body r) = Inr signed"
    "add_signed env signed hs = Inr (hr_headers r)"
    "hr_method r = request_method req"
    "hr_body r = (if has_body req then body else [])" "has_body req \<Longrightarrow> he_encode env req = Some body"
proof -
  have body: "\<exists>b. (if has_body req then map_err (\<lambda>_. Encode) (ok_or () (map_option Some (he_encode env req)))
     else Inr None) = (Inr bb :: (api_error, bytes option) result) \<longrightarrow>
     (bb \<noteq> None \<longleftrightarrow> has_body req) \<and> unwrap_or bb [] = (if has_body req then b else [])
     \<and> (has_body req \<longrightarrow> he_encode env req = Some b)" for bb
    by (cases "he_encode env req") auto
  show ?thesis
    using assms that body unfolding prepare_request_def Let_def res_bind_eq_Inr map_err_def
    by (auto split: if_splits sum.splits option.splits)
qed

lemma content_type_not_multipart:
  assumes "map_of hs ''content-type'' \<in> {None, Some ''application/json''}"
  shows "\<not> is_multipart ok hs"
proof -
  have "\<not> prefix ''multipart/'' (to_ascii_lowercase ''application/json'')" by code_simp
  then show ?thesis using assms
    by (auto simp: is_multipart_def header_value_def split: option.splits if_splits)
qed

lemma method_not_put: "to_ascii_lowercase (method_str m) \<noteq> ''put''"
proof (cases m)
  case GET
  have "to_ascii_lowercase ''GET'' = ''get''" by code_simp
  then show ?thesis by (simp add: GET method_str_def)
next
  case POST
  have "to_ascii_lowercase ''POST'' = ''post''" by code_simp
  then show ?thesis by (simp add: POST method_str_def)
qed

lemma signs_prepared:
  assumes "map_of hs ''content-type'' \<in> {None, Some ''application/json''}" "sg_enabled cfg" "sg_rules cfg = []"
  shows "signs ok cfg (method_str m) u hs"
  using assms content_type_not_multipart [OF assms(1)] method_not_put by (simp add: signs_def)

text \<open>C24: the signature covers the request as sent.  With signing enabled and no URL rules, every
  prepared request carries a \<open>sign\<close> header, and its value is the version tag and the encoded HMAC,
  under the configured key, of the signing input recomputed from the method, URL, headers and body
  that are handed to the transport.\<close>

theorem prepared_request_signature:
  assumes prep: "prepare_request env cl req jar now = Inr r"
    and cfg: "cfg = hk_signer (ac_hooks cl)" "sg_enabled cfg" "sg_rules cfg = []"
  shows "\<exists>key flags. hmac_key (he_crypto env) cfg = Inr key \<and> signing_input_flags cfg (hr_url r) = Some flags
    \<and> map_of (hr_headers r) ''sign'' = Some (''v1;'' @ b64_encode (he_crypto env)
        (encode_http_sign_header (he_crypto env) (root_key_version cfg) flags
          (array_bytes (hmac_sha256 (he_crypto env) key
            (signing_input (he_crypto env) (he_header_to_str_ok env) (method_str (hr_method r))
               (hr_url r) (hr_headers r) (hr_body r) flags)))))"
proof -
  let ?c = "he_crypto env" and ?ok = "he_header_to_str_ok env"
  obtain hs0 hs signed body where
    base: "base_headers env (ac_hooks cl) jar = Inr hs0"
    and hs: "hs = (let hs = header_insert ''accept'' ''application/json'' hs0 in
       if has_body req then header_insert ''content-type'' ''application/json'' hs else hs)"
    and sg: "sign ?c ?ok cfg (method_str (request_method req)) (hr_url r) hs (hr_body r) = Inr signed"
    and add: "add_signed env signed hs = Inr (hr_headers r)"
    and m: "hr_method r = request_method req"
    using prepare_request_parts [OF prep] cfg(1) by metis
  have ct: "map_of hs ''content-type'' \<in> {None, Some ''application/json''}"
    using base_headers_content [OF base] by (simp add: hs Let_def)
  from sign_signed [OF signs_prepared [OF ct cfg(2,3)]] sg
  obtain flags key where fk: "signing_input_flags cfg (hr_url r) = Some flags" "hmac_key ?c cfg = Inr key"
    and signed: "signed = [\<lparr>sh_name = ''Sign'', sh_value = ''v1;'' @ b64_encode ?c
         (encode_sign_header ?c (root_key_version cfg) flags (array_bytes (hmac_sha256 ?c key
           (signing_input ?c ?ok (method_str (request_method req)) (hr_url r) hs (hr_body r) flags))))\<rparr>]"
    by (smt (verit) Inr_inject res_bind_eq_Inr sum.distinct(1))
  have sent: "map_of (hr_headers r) = (map_of hs)(''sign'' \<mapsto> sh_value (hd signed))"
    using add_signed_single [of env "hd signed" hs "hr_headers r"] add lower_Sign by (simp add: signed)
  have "signing_input ?c ?ok (method_str (hr_method r)) (hr_url r) (hr_headers r) (hr_body r) flags
      = signing_input ?c ?ok (method_str (request_method req)) (hr_url r) hs (hr_body r) flags"
    unfolding m by (rule signing_input_cong) (auto simp: sent)
  then show ?thesis
    using fk sent by (simp add: signed encode_http_sign_header_def)
qed

definition signing_sample :: signing_config where
  "signing_sample = signing_config_default\<lparr>sg_enabled := True, sg_shared_secret := Some ''k''\<rparr>"

theorem prepared_request_signature_witness:
  "\<exists>r v. prepare_request sample_env (sample_client signing_sample) VpnPingRequest [] 0 = Inr r
     \<and> map_of (hr_headers r) ''sign'' = Some (''v1;'' @ v)"
proof -
  have key: "hmac_key toy_crypto signing_sample = Inr (as_bytes ''k'')"
    by (simp add: hmac_key_def signing_sample_def signing_config_default_def)
  have flags: "signing_input_flags signing_sample u = Some default_signing_input_flags" for u
    by (simp add: signing_input_flags_def signing_sample_def signing_config_default_def)
  have on: "sg_enabled signing_sample"
    by (simp add: signing_sample_def)
  have nomp: "\<not> is_multipart ok (header_insert ''accept'' ''application/json''
      (header_insert ''cookie'' x (header_insert ''user-agent'' y (header_insert ''accept-language'' z []))))"
    for ok x y z
    by (rule content_type_not_multipart) simp
  have put: "to_ascii_lowercase (method_str GET) \<noteq> to_ascii_lowercase ''PUT''"
    using method_not_put [of GET] by (simp add: lower_PUT)
  have ok: "hmac_key_ok toy_crypto k" for k by (simp add: toy_crypto_def)
  have "\<exists>r. prepare_request sample_env (sample_client signing_sample) VpnPingRequest [] 0 = Inr r"
    using put by (simp add: sample_env_simps on key flags nomp ok Let_def)
  then obtain r where r: "prepare_request sample_env (sample_client signing_sample) VpnPingRequest [] 0 = Inr r"
    by blast
  have "hk_signer (ac_hooks (sample_client signing_sample)) = signing_sample"
    by (simp add: sample_client_def)
  with prepared_request_signature [OF r, of signing_sample] r show ?thesis
    by (auto simp: signing_sample_def signing_config_default_def)
qed

section \<open>What a successful call means\<close>

lemma send_cases:
  assumes "send env dec cl req n = (res, n')"
  shows "(\<exists>e. prepare_request env cl req (net_jar n) (he_now env (net_world n)) = Inl e
            \<and> res = Inl e \<and> n' = n)
    \<or> (\<exists>hreq reply w. prepare_request env cl req (net_jar n) (he_now env (net_world n)) = Inr hreq
            \<and> he_transport env (ac_client cl) hreq (net_world n) = (reply, w)
            \<and> n' = (case reply of None \<Rightarrow> n\<lparr>net_world := w\<rparr>
                | Some rp \<Rightarrow> jar_merge (parse_set_cookies env (rp_set_cookies rp)) (n\<lparr>net_world := w\<rparr>)))"
  using assms
  by (auto simp: send_def execute_def Let_def split: sum.splits prod.splits option.splits if_splits)

text \<open>C25: a call that returns \<open>Ok\<close> got an HTTP success status, a body that decodes to the value
  returned, and an API code of zero; and whatever the outcome, a request that was refused before the
  transport leaves the state untouched, while every reply's cookies are merged into the shared jar
  even when the call then fails.\<close>

theorem send_outcome:
  assumes "send env dec cl req n = (res, n')"
  shows "(\<forall>r. res = Inr r \<longrightarrow> br_code r = 0 \<and>
       (\<exists>hreq reply w bs. prepare_request env cl req (net_jar n) (he_now env (net_world n)) = Inr hreq
          \<and> he_transport env (ac_client cl) hreq (net_world n) = (Some reply, w)
          \<and> status_is_success (rp_status reply) \<and> rp_body reply = Some bs \<and> dec bs = Some r))
    \<and> ((\<exists>e. prepare_request env cl req (net_jar n) (he_now env (net_world n)) = Inl e
            \<and> res = Inl e \<and> n' = n)
      \<or> (\<exists>hreq reply w. prepare_request env cl req (net_jar n) (he_now env (net_world n)) = Inr hreq
            \<and> he_transport env (ac_client cl) hreq (net_world n) = (reply, w)
            \<and> n' = (case reply of None \<Rightarrow> n\<lparr>net_world := w\<rparr>
                | Some rp \<Rightarrow> jar_merge (parse_set_cookies env (rp_set_cookies rp)) (n\<lparr>net_world := w\<rparr>))))"
proof (intro conjI)
  show "\<forall>r. res = Inr r \<longrightarrow> br_code r = 0 \<and>
       (\<exists>hreq reply w bs. prepare_request env cl req (net_jar n) (he_now env (net_world n)) = Inr hreq
          \<and> he_transport env (ac_client cl) hreq (net_world n) = (Some reply, w)
          \<and> status_is_success (rp_status reply) \<and> rp_body reply = Some bs \<and> dec bs = Some r)"
    using assms
    by (auto simp: send_def execute_def Let_def decode_response_def res_bind_eq_Inr ok_or_eq_Inr
        check_api_status_def split: sum.splits prod.splits option.splits if_splits)
qed (rule send_cases [OF assms])

definition sample_net :: "(nat \<times> bytes) net" where
  "sample_net = \<lparr>net_jar = [], net_notified = 0, net_world = (200, [1])\<rparr>"

theorem send_outcome_witness:
  "br_code (base_response_default :: unit base_response) = 0 \<and>
   send sample_env (\<lambda>_. Some base_response_default) (sample_client signing_config_default) VpnPingRequest sample_net
     = (Inr (base_response_default :: unit base_response),
        \<lparr>net_jar = [(''a'', ''1'')], net_notified = 1, net_world = (200, [1])\<rparr>)"
proof -
  have run: "send sample_env (\<lambda>_. Some base_response_default) (sample_client signing_config_default) VpnPingRequest sample_net
     = (Inr (base_response_default :: unit base_response),
        \<lparr>net_jar = [(''a'', ''1'')], net_notified = 1, net_world = (200, [1])\<rparr>)"
    by (subst send_sample) (simp_all add: sample_net_def base_response_default_def jar_merge_def)
  from send_outcome [OF run] run show ?thesis by simp
qed

section \<open>Dot endpoints\<close>

definition authority :: "string \<Rightarrow> string" where
  "authority host = (if parse_ipv6 (trim host) \<noteq> None then ''['' @ trim host @ '']'' else trim host)"

lemma url_from_host_port_Inr:
  "url_from_host_port env scheme host port = Inr u \<longleftrightarrow>
     0 < port \<and> port < 65536 \<and> trim host \<noteq> [] \<and>
     he_url_parse env (scheme @ ''://'' @ authority host @ '':'' @ nat_to_string (nat port) @ ''/'') = Some u"
  by (auto simp: url_from_host_port_def Let_def authority_def parse_base_url_def ok_or_eq_Inr)

text \<open>The endpoint built for a dot is complete or refused.  When it exists both ports are real
  port numbers; the WireGuard endpoint is the URL of the dot's raw \<open>ip\<close> and \<open>vpn_port\<close>, whatever
  frontends the dot advertises and whichever host serves the config API; the API endpoint is the
  frontend host (first non-empty of ip4Domain, fastIp, apiIp, ip) unless the raw \<open>ip\<close> is asked for.
  A missing or blank \<open>ip\<close> is an error.\<close>

theorem from_dot_endpoints:
  assumes "from_dot env dot use_ip = Inr ep"
  shows "\<exists>api_port vpn_port. dot_api_port dot = Some api_port \<and> dot_vpn_port dot = Some vpn_port
    \<and> 0 < api_port \<and> api_port < 65536 \<and> 0 < vpn_port \<and> vpn_port < 65536 \<and> trim (dot_ip dot) \<noteq> []
    \<and> he_url_parse env (''udp://'' @ authority (dot_ip dot) @ '':'' @ nat_to_string (nat vpn_port) @ ''/'')
        = Some (de_wireguard_endpoint ep)
    \<and> he_url_parse env (''https://'' @ authority (if use_ip then dot_ip dot else api_host dot) @ '':''
        @ nat_to_string (nat api_port) @ ''/'') = Some (de_api_base_url ep)"
  using assms
  by (auto simp: from_dot_def Let_def res_bind_eq_Inr ok_or_eq_Inr url_from_host_port_Inr)

theorem from_dot_endpoints_witness:
  "\<exists>ep. from_dot sample_env (vpn_dot_default\<lparr>dot_ip := ''10.0.0.9'', dot_api_port := Some 443,
       dot_vpn_port := Some 51820, dot_fast_ip := Some ''cdn''\<rparr>) False = Inr ep
     \<and> he_url_parse sample_env (''udp://'' @ authority ''10.0.0.9'' @ '':'' @ nat_to_string 51820 @ ''/'')
         = Some (de_wireguard_endpoint ep)"
proof -
  have t: "trim ''10.0.0.9'' = ''10.0.0.9''" "trim ''cdn'' = ''cdn''" by code_simp+
  let ?dot = "vpn_dot_default\<lparr>dot_ip := ''10.0.0.9'', dot_api_port := Some 443,
       dot_vpn_port := Some 51820, dot_fast_ip := Some ''cdn''\<rparr>"
  have "\<exists>ep. from_dot sample_env ?dot False = Inr ep"
    by (simp add: from_dot_def url_from_host_port_def parse_base_url_def sample_env_def api_host_def
        vpn_dot_default_def t Let_def)
  then obtain ep where ep: "from_dot sample_env ?dot False = Inr ep" by blast
  from from_dot_endpoints [OF ep] ep show ?thesis by auto
qed

end
