(* ===== verification/CoreVpn.thy ===== *)
theory CoreVpn
  imports ApiClient
begin

text \<open>
  The VPN part of the core crate: the connection state machine
  (\<open>src/crates/core/src/state/vpn.rs\<close>) and the negotiation of a VPN
  configuration with the access points (\<open>src/crates/core/src/vpn.rs\<close>).
\<close>

section \<open>Connect modes and requests\<close>

datatype vpn_connect_mode = Full | Split

definition android_id :: "vpn_connect_mode \<Rightarrow> int" where
  "android_id m = (case m of Full \<Rightarrow> 0 | Split \<Rightarrow> 1)"

definition android_name :: "vpn_connect_mode \<Rightarrow> string" where
  "android_name m = (case m of Full \<Rightarrow> ''Full'' | Split \<Rightarrow> ''Split'')"

text \<open>\<open>EnumString\<close> with \<open>ascii_case_insensitive\<close>.\<close>

definition parse_connect_mode :: "string \<Rightarrow> vpn_connect_mode option" where
  "parse_connect_mode s =
     (if to_ascii_lowercase s = ''full'' then Some Full
      else if to_ascii_lowercase s = ''split'' then Some Split else None)"

lemma parse_android_name: "parse_connect_mode (android_name m) = Some m"
proof (cases m)
  case Full
  show ?thesis unfolding Full by code_simp
next
  case Split
  show ?thesis unfolding Split by code_simp
qed

record vpn_request =
  vr_mode :: vpn_connect_mode
  vr_location_id :: "int option"
  vr_otp :: "string option"
  vr_reconnect :: bool
  vr_protocol_mode :: protocol_mode

definition vpn_request_default :: vpn_request where
  "vpn_request_default = \<lparr>vr_mode = Full, vr_location_id = None, vr_otp = None,
     vr_reconnect = True, vr_protocol_mode = Udp\<rparr>"

record active_tunnel =
  at_dot_id :: int
  at_dot_name :: string
  at_endpoint :: string
  at_assigned_ip :: string
  at_protocol_mode :: protocol_mode

section \<open>The connection state machine\<close>

datatype vpn_state =
    Disconnected
  | Connecting vpn_request
  | Configuring vpn_request
  | Connected vpn_request active_tunnel
  | Reconnecting vpn_request u32
  | Failed vpn_request string u32
  | Disconnecting vpn_request

definition can_connect :: "vpn_state \<Rightarrow> bool" where
  "can_connect s = (case s of Disconnected \<Rightarrow> True | Failed _ _ _ \<Rightarrow> True | _ \<Rightarrow> False)"

definition attempts :: "vpn_state \<Rightarrow> u32" where
  "attempts s = (case s of Reconnecting _ n \<Rightarrow> n | Failed _ _ n \<Rightarrow> n | _ \<Rightarrow> 0)"

definition current_request :: "vpn_state \<Rightarrow> vpn_request option" where
  "current_request s = (case s of
      Connecting r \<Rightarrow> Some r | Configuring r \<Rightarrow> Some r | Connected r _ \<Rightarrow> Some r
    | Reconnecting r _ \<Rightarrow> Some r | Failed r _ _ \<Rightarrow> Some r | Disconnecting r \<Rightarrow> Some r
    | Disconnected \<Rightarrow> None)"

definition into_request :: "vpn_state \<Rightarrow> vpn_request" where
  "into_request s = (case s of
      Disconnected \<Rightarrow> vpn_request_default
    | Connecting r \<Rightarrow> r | Configuring r \<Rightarrow> r | Connected r _ \<Rightarrow> r
    | Reconnecting r _ \<Rightarrow> r | Failed r _ _ \<Rightarrow> r | Disconnecting r \<Rightarrow> r)"

definition into_connecting :: "vpn_request \<Rightarrow> vpn_state" where
  "into_connecting r = Connecting r"

definition into_configuring :: "vpn_state \<Rightarrow> vpn_state" where
  "into_configuring s = Configuring (into_request s)"

definition into_connected :: "vpn_state \<Rightarrow> active_tunnel \<Rightarrow> vpn_state" where
  "into_connected s t = Connected (into_request s) t"

definition into_reconnecting :: "vpn_state \<Rightarrow> vpn_state" where
  "into_reconnecting s = Reconnecting (into_request s) (saturating_add (attempts s) 1)"

definition into_failed :: "vpn_state \<Rightarrow> string \<Rightarrow> vpn_state" where
  "into_failed s e = Failed (into_request s) e (attempts s)"

definition into_disconnecting :: "vpn_state \<Rightarrow> vpn_state" where
  "into_disconnecting s = Disconnecting (into_request s)"

lemmas vpn_state_defs = can_connect_def attempts_def current_request_def into_request_def
  into_connecting_def into_configuring_def into_connected_def into_reconnecting_def into_failed_def
  into_disconnecting_def

lemma current_into_request: "s \<noteq> Disconnected \<Longrightarrow> current_request s = Some (into_request s)"
  by (cases s) (simp_all add: vpn_state_defs)

lemma current_request_None: "current_request s = None \<longleftrightarrow> s = Disconnected"
  by (cases s) (simp_all add: vpn_state_defs)

text \<open>Every in-flight transition keeps the request: the contract the daemon's connect loop
  relies on when it re-enters with the request it reads back.\<close>

locale keeps_request =
  fixes trans :: "vpn_state \<Rightarrow> vpn_state"
  assumes keeps: "into_request (trans s) = into_request s"
    and in_flight: "trans s \<noteq> Disconnected"
begin

lemma keeps_current: "s \<noteq> Disconnected \<Longrightarrow> current_request (trans s) = current_request s"
  using keeps [of s] in_flight [of s] by (simp add: current_into_request)

lemma keeps_iterated: "into_request ((trans ^^ n) s) = into_request s"
  by (induction n) (simp_all add: keeps)

end

interpretation configuring: keeps_request into_configuring
  by unfold_locales (simp_all add: vpn_state_defs)

interpretation connected: keeps_request "\<lambda>s. into_connected s t"
  by unfold_locales (simp_all add: vpn_state_defs)

interpretation reconnecting: keeps_request into_reconnecting
  by unfold_locales (simp_all add: vpn_state_defs)

interpretation failed: keeps_request "\<lambda>s. into_failed s e"
  by unfold_locales (simp_all add: vpn_state_defs)

interpretation disconnecting: keeps_request into_disconnecting
  by unfold_locales (simp_all add: vpn_state_defs)

section \<open>Configuration negotiation\<close>

definition MAX_DOT_ATTEMPTS :: nat where "MAX_DOT_ATTEMPTS = 3"
definition MAX_CONFIG_ATTEMPTS_PER_DOT :: nat where "MAX_CONFIG_ATTEMPTS_PER_DOT = 3"

record vpn_config_request =
  vq_mode :: vpn_connect_mode
  vq_public_key :: string
  vq_location_id :: "int option"
  vq_otp :: "string option"
  vq_sign_token :: "string option"
  vq_not_auto :: bool
  vq_reconnect :: bool

record vpn_config_result =
  vres_dot :: vpn_dot
  vres_endpoint :: dot_endpoint
  vres_response :: "vpn_conn_response base_response"

datatype vpn_error =
    VpnApi api_error
  | NoVpnDots
  | NoSupportedVpnDot string
  | MissingVpnConfigData
  | MissingVpnDotListData

definition candidate_dots :: "vpn_config_request \<Rightarrow> vpn_dot list \<Rightarrow> vpn_dot list" where
  "candidate_dots request dots =
     filter (\<lambda>dot. \<not> vq_reconnect request \<or> supports_reconnect dot)
       (filter (\<lambda>dot. supports_android_mode dot (android_id (vq_mode request)))
         (filter (\<lambda>dot. case vq_location_id request of None \<Rightarrow> True
             | Some preferred \<Rightarrow> dot_id dot = Some preferred) dots))"

datatype attempt_outcome =
    GotConfig "vpn_conn_response base_response"
  | ConfigWithoutData
  | AttemptsExhausted "api_error option"

text \<open>The loop \<open>for attempt in 1..=MAX_CONFIG_ATTEMPTS_PER_DOT\<close>; the first argument counts the
  attempts left, \<open>last_error\<close> is the variable of the source.\<close>

fun config_attempts ::
  "nat \<Rightarrow> 'w http_env \<Rightarrow> decoders \<Rightarrow> api_client \<Rightarrow> vpn_conn_request \<Rightarrow> api_error option
   \<Rightarrow> 'w net \<Rightarrow> attempt_outcome \<times> 'w net" where
  "config_attempts 0 env dec cl body last_error n = (AttemptsExhausted last_error, n)"
| "config_attempts (Suc k) env dec cl body last_error n =
     (case send env (dec_vpn_conn dec) cl (VpnConnRequest body) n of
        (Inr response, n') \<Rightarrow>
          (if br_data response = None then (ConfigWithoutData, n') else (GotConfig response, n'))
      | (Inl source, n') \<Rightarrow> config_attempts k env dec cl body (Some source) n')"

definition conn_body :: "vpn_config_request \<Rightarrow> vpn_dot \<Rightarrow> vpn_conn_request" where
  "conn_body request dot = \<lparr>vcr_mode = Some (android_name (vq_mode request)),
     vcr_public_key = vq_public_key request, vcr_otp = vq_otp request,
     vcr_export_id = unwrap_or (dot_id dot) 0, vcr_sign_token = vq_sign_token request,
     vcr_not_auto = Some (vq_not_auto request)\<rparr>"

fun try_dots ::
  "'w http_env \<Rightarrow> decoders \<Rightarrow> vpn_config_request \<Rightarrow> (dot_endpoint \<Rightarrow> api_client) \<Rightarrow> vpn_dot list
   \<Rightarrow> api_error option \<Rightarrow> ('w net, vpn_error, vpn_config_result) io" where
  "try_dots env dec request build [] last_error n =
     (case last_error of
        Some source \<Rightarrow> Inl (VpnApi source)
      | None \<Rightarrow> Inl (NoSupportedVpnDot (android_name (vq_mode request))), n)"
| "try_dots env dec request build (dot # dots) last_error n =
     (let use_vpn_ip_for_api = should_use_vpn_ip_for_config_api dot (\<not> vq_not_auto request)
      in case from_dot env dot use_vpn_ip_for_api of
           Inl e \<Rightarrow> (Inl (VpnApi e), n)
         | Inr endpoint \<Rightarrow>
             (case config_attempts MAX_CONFIG_ATTEMPTS_PER_DOT env dec (build endpoint)
                     (conn_body request dot) last_error n of
                (GotConfig response, n') \<Rightarrow>
                  (Inr \<lparr>vres_dot = dot, vres_endpoint = endpoint, vres_response = response\<rparr>, n')
              | (ConfigWithoutData, n') \<Rightarrow> (Inl MissingVpnConfigData, n')
              | (AttemptsExhausted last_error', n') \<Rightarrow>
                  try_dots env dec request build dots last_error' n'))"

definition vpn_config_from_dot_list ::
  "'w http_env \<Rightarrow> decoders \<Rightarrow> api_client \<Rightarrow> vpn_config_request \<Rightarrow> (dot_endpoint \<Rightarrow> api_client)
   \<Rightarrow> (vpn_dot list \<Rightarrow> 'w net \<Rightarrow> vpn_dot list \<times> 'w net) \<Rightarrow> ('w net, vpn_error, vpn_config_result) io" where
  "vpn_config_from_dot_list env dec tenant_client request build_dot_client rank_dots n =
     (case send env (dec_vpn_locations dec) tenant_client GetVpnLocationsRequest n of
        (Inl e, n1) \<Rightarrow> (Inl (VpnApi e), n1)
      | (Inr locations, n1) \<Rightarrow> (case br_data locations of
          None \<Rightarrow> (Inl MissingVpnDotListData, n1)
        | Some dots \<Rightarrow>
            if dots = [] then (Inl NoVpnDots, n1)
            else
              let pinned = vq_location_id request \<noteq> None;
                  candidates = candidate_dots request dots
              in if candidates = [] then (Inl (NoSupportedVpnDot (android_name (vq_mode request))), n1)
                 else
                   let (candidates, n2) = (if \<not> pinned \<and> length candidates > 1
                         then rank_dots candidates n1 else (candidates, n1))
                   in try_dots env dec request build_dot_client (take MAX_DOT_ATTEMPTS candidates) None n2))"

definition vpn_ping :: "'w http_env \<Rightarrow> decoders \<Rightarrow> api_client \<Rightarrow> ('w net, vpn_error, unit) io" where
  "vpn_ping env dec cl n = (case send env (dec_object dec) cl VpnPingRequest n of
      (Inl e, n') \<Rightarrow> (Inl (VpnApi e), n') | (Inr _, n') \<Rightarrow> (Inr (), n'))"

section \<open>Signing updates and one-time passwords\<close>

record signing_rule_update =
  sru_urls :: "string list"
  sru_enable_signing :: bool
  sru_signing_input_params :: u64
  sru_max_time_desync :: "u64 option"

record signing_config_update =
  scu_enabled :: bool
  scu_algorithms :: "string list"
  scu_rules :: "signing_rule_update list"

text \<open>\<open>u64::try_from\<close> on an \<open>i32\<close>.\<close>

definition u64_of_i32 :: "int \<Rightarrow> u64 option" where
  "u64_of_i32 v = (if v < 0 then None else Some (of_int v))"

definition extract_signing_config_update :: "bool \<Rightarrow> tenant_config \<Rightarrow> signing_config_update option" where
  "extract_signing_config_update current_enabled data = (case tc_signing_config data of
      None \<Rightarrow> None
    | Some config \<Rightarrow> Some \<lparr>scu_enabled = unwrap_or (tsc_enable config) current_enabled,
        scu_algorithms = unwrap_or (tsc_algorithms config) [],
        scu_rules = map (\<lambda>rule. \<lparr>sru_urls = unwrap_or (sr_urls rule) [],
            sru_enable_signing = unwrap_or (sr_enable_signing rule) False,
            sru_signing_input_params = unwrap_or (Option.bind (sr_signing_input_params rule) u64_of_i32) 0,
            sru_max_time_desync = Option.bind (sr_max_time_desync rule) u64_of_i32\<rparr>)
          (unwrap_or (tsc_rules config) [])\<rparr>)"

record totp_config =
  totp_url :: string
  totp_time_diff_seconds :: int

definition totp_from_provision :: "int \<Rightarrow> otp_provision \<Rightarrow> totp_config option" where
  "totp_from_provision now p =
     (if op_url p = [] then None
      else Some \<lparr>totp_url = op_url p,
        totp_time_diff_seconds = (if op_timestamp p > 0 then i64_wrap (op_timestamp p - now) else 0)\<rparr>)"

definition fetch_totp :: "'w http_env \<Rightarrow> decoders \<Rightarrow> api_client \<Rightarrow> ('w net, vpn_error, totp_config option) io" where
  "fetch_totp env dec cl n = (case send env (dec_otp dec) cl FetchOtpRequest n of
      (Inl e, n') \<Rightarrow> (Inl (VpnApi e), n')
    | (Inr response, n') \<Rightarrow>
        (Inr (Option.bind (br_data response) (totp_from_provision (he_now env (net_world n')))), n'))"

text \<open>\<open>totp\<close> is the TOTP crate: the code of a provisioning URI at a Unix time.\<close>

definition generate_totp :: "(string \<Rightarrow> u64 \<Rightarrow> string option) \<Rightarrow> totp_config \<Rightarrow> int \<Rightarrow> string option" where
  "generate_totp totp config now_unix =
     (let corrected = i64_wrap (now_unix + totp_time_diff_seconds config)
      in if corrected < 0 then None else totp (totp_url config) (of_int corrected))"

section \<open>Correctness of the negotiation\<close>

definition eligible :: "vpn_config_request \<Rightarrow> vpn_dot \<Rightarrow> bool" where
  "eligible request dot \<longleftrightarrow>
     (\<forall>loc. vq_location_id request = Some loc \<longrightarrow> dot_id dot = Some loc)
     \<and> \<not> (vq_mode request = Full \<and> dot_mode dot = Some 1)
     \<and> (vq_reconnect request \<longrightarrow> supports_reconnect dot)"

lemma set_candidate_dots: "set (candidate_dots request dots) = {d \<in> set dots. eligible request d}"
  by (auto simp: candidate_dots_def eligible_def supports_android_mode_def android_id_def
      MODE_FULL_def MODE_SPLIT_def split: option.splits vpn_connect_mode.splits)

text \<open>A configuration obtained from a dot: the dot's endpoint was built from the dot, the request
  went to that endpoint with the dot's id as export id, and the answer carries data.\<close>

definition config_from ::
  "'w http_env \<Rightarrow> decoders \<Rightarrow> vpn_config_request \<Rightarrow> (dot_endpoint \<Rightarrow> api_client) \<Rightarrow> vpn_config_result \<Rightarrow> bool" where
  "config_from env dec request build res \<longleftrightarrow>
     from_dot env (vres_dot res)
       (should_use_vpn_ip_for_config_api (vres_dot res) (\<not> vq_not_auto request)) = Inr (vres_endpoint res)
     \<and> br_data (vres_response res) \<noteq> None
     \<and> (\<exists>n1 n2. send env (dec_vpn_conn dec) (build (vres_endpoint res))
          (VpnConnRequest (conn_body request (vres_dot res))) n1 = (Inr (vres_response res), n2))"

lemma config_attempts_Got:
  "config_attempts k env dec cl body le n = (GotConfig r, n') \<Longrightarrow>
     br_data r \<noteq> None \<and> (\<exists>n1 n2. send env (dec_vpn_conn dec) cl (VpnConnRequest body) n1 = (Inr r, n2))"
  by (induction k env dec cl body le n rule: config_attempts.induct)
    (auto split: prod.splits sum.splits if_splits)

lemma try_dots_Cons:
  assumes "try_dots env dec request build (dot # dots) le n = (r, n')"
  obtains (refused) e where "r = Inl (VpnApi e)" "n' = n"
  | (attempted) ep out n1 where
      "from_dot env dot (should_use_vpn_ip_for_config_api dot (\<not> vq_not_auto request)) = Inr ep"
      "config_attempts MAX_CONFIG_ATTEMPTS_PER_DOT env dec (build ep) (conn_body request dot) le n = (out, n1)"
      "(case out of
          GotConfig resp \<Rightarrow> r = Inr \<lparr>vres_dot = dot, vres_endpoint = ep, vres_response = resp\<rparr> \<and> n' = n1
        | ConfigWithoutData \<Rightarrow> r = Inl MissingVpnConfigData \<and> n' = n1
        | AttemptsExhausted le' \<Rightarrow> try_dots env dec request build dots le' n1 = (r, n'))"
  using assms that by (fastforce simp: Let_def split: sum.splits prod.splits attempt_outcome.splits)

lemma try_dots_Inr:
  "try_dots env dec request build dots le n = (Inr res, n') \<Longrightarrow>
     vres_dot res \<in> set dots \<and> config_from env dec request build res"
proof (induction dots arbitrary: le n)
  case (Cons dot dots)
  from Cons.prems show ?case
  proof (cases rule: try_dots_Cons)
    case (attempted ep out n1)
    show ?thesis
    proof (cases out)
      case (GotConfig resp)
      with attempted(2) have got: "config_attempts MAX_CONFIG_ATTEMPTS_PER_DOT env dec (build ep)
          (conn_body request dot) le n = (GotConfig resp, n1)" by simp
      from config_attempts_Got [OF got] attempted(1,3) GotConfig show ?thesis
        by (auto simp: config_from_def)
    next
      case (AttemptsExhausted le')
      with attempted(3) Cons.IH [of le' n1] show ?thesis by simp
    qed (use attempted(3) in simp)
  qed simp
qed (simp split: option.splits)


definition sample_dot :: vpn_dot where
  "sample_dot = vpn_dot_default\<lparr>dot_id := Some 7, dot_ip := ''10.0.0.9'', dot_api_port := Some 443,
     dot_vpn_port := Some 51820, dot_reconnect := Some True\<rparr>"

definition sample_setting :: vpn_conn_setting where
  "sample_setting = \<lparr>st_vpn_mtu = 1400, st_vpn_dns = None, st_vpn_dns_backup = None,
     st_vpn_dns_domain_split = None, st_vpn_route_full = None, st_vpn_route_split = None,
     st_v6_route_full = None, st_v6_route_split = None, st_vpn_dynamic_domain_route_split = None,
     st_v6_vpn_dynamic_domain_route_split = None, st_vpn_wildcard_dynamic_domain_route_split = None,
     st_suffix_wildcard_dynamic_domain_route_split = None, st_dynamic_domain = None,
     st_central_dns = None, st_ip_nats = None\<rparr>"

definition sample_conn :: vpn_conn_response where
  "sample_conn = \<lparr>conn_ip = ''10.1.0.2'', conn_ipv6 = None, conn_ip_mask = Some 24,
     conn_public_key = ''k'', conn_preshared_key = None, conn_sign_token = None,
     conn_protocol_version = None, conn_setting = sample_setting, conn_raw = None\<rparr>"

definition ok_with :: "'a \<Rightarrow> 'a base_response" where
  "ok_with x = base_response_default\<lparr>br_data := Some x\<rparr>"

definition sample_decoders :: decoders where
  "sample_decoders = \<lparr>dec_activate = (\<lambda>_. None), dec_login_v2 = (\<lambda>_. None), dec_login_result = (\<lambda>_. None),
     dec_string_result = (\<lambda>_. None), dec_links = (\<lambda>_. None), dec_otp = (\<lambda>_. None),
     dec_login_setting = (\<lambda>_. None), dec_user_info = (\<lambda>_. None), dec_tenant_config = (\<lambda>_. None),
     dec_vpn_setting = (\<lambda>_. None), dec_vpn_locations = (\<lambda>_. Some (ok_with [sample_dot])),
     dec_vpn_conn = (\<lambda>_. Some (ok_with sample_conn)), dec_object = (\<lambda>_. None), dec_value = (\<lambda>_. None)\<rparr>"

definition sample_request :: vpn_config_request where
  "sample_request = \<lparr>vq_mode = Full, vq_public_key = ''pk'', vq_location_id = Some 7, vq_otp = None,
     vq_sign_token = None, vq_not_auto = True, vq_reconnect = True\<rparr>"

lemma ok_with_simps [simp]: "br_code (ok_with x) = 0" "br_data (ok_with x) = Some x"
  by (simp_all add: ok_with_def base_response_default_def)

lemma sample_negotiates:
  "\<exists>ep n'. vpn_config_from_dot_list sample_env sample_decoders (sample_client signing_config_default)
     sample_request (\<lambda>_. sample_client signing_config_default) (\<lambda>ds m. (ds, m)) sample_net
   = (Inr \<lparr>vres_dot = sample_dot, vres_endpoint = ep, vres_response = ok_with sample_conn\<rparr>, n')"
proof -
  have t: "trim ''10.0.0.9'' = ''10.0.0.9''" by code_simp
  obtain ep where ep: "from_dot sample_env sample_dot
      (should_use_vpn_ip_for_config_api sample_dot (\<not> vq_not_auto sample_request)) = Inr ep"
    by (simp add: from_dot_def url_from_host_port_def parse_base_url_def api_host_def sample_dot_def
        vpn_dot_default_def should_use_vpn_ip_for_config_api_def sample_request_def t Let_def)
  have cands: "candidate_dots sample_request [sample_dot] = [sample_dot]"
    by (simp add: candidate_dots_def sample_request_def sample_dot_def vpn_dot_default_def
        supports_android_mode_def supports_reconnect_def)
  show ?thesis
    by (rule exI [of _ ep])
      (simp add: vpn_config_from_dot_list_def send_sample sample_net_def sample_decoders_def cands ep
        MAX_DOT_ATTEMPTS_def MAX_CONFIG_ATTEMPTS_PER_DOT_def numeral_3_eq_3 Let_def)
qed


section \<open>The number of requests is bounded\<close>

text \<open>\<open>cnt\<close> counts the transport calls recorded in the world.\<close>

definition counts_calls :: "'w http_env \<Rightarrow> ('w \<Rightarrow> nat) \<Rightarrow> bool" where
  "counts_calls env cnt \<longleftrightarrow> (\<forall>c r w. cnt (snd (he_transport env c r w)) = Suc (cnt w))"

lemma send_counts:
  assumes "counts_calls env cnt" "send env d cl req n = (r, n')"
  shows "cnt (net_world n') \<le> Suc (cnt (net_world n))"
proof -
  have step: "cnt w = Suc (cnt (net_world n))"
    if "he_transport env (ac_client cl) hreq (net_world n) = (reply, w)" for hreq reply w
    using assms(1) that unfolding counts_calls_def by (metis snd_conv)
  from send_cases [OF assms(2)] show ?thesis
    by (auto dest!: step split: option.splits)
qed

lemma config_attempts_counts:
  "counts_calls env cnt \<Longrightarrow> config_attempts k env dec cl body le n = (r, n') \<Longrightarrow>
     cnt (net_world n') \<le> cnt (net_world n) + k"
proof (induction k env dec cl body le n rule: config_attempts.induct)
  case (2 k env dec cl body le n)
  obtain r1 n1 where s: "send env (dec_vpn_conn dec) cl (VpnConnRequest body) n = (r1, n1)"
    by (cases "send env (dec_vpn_conn dec) cl (VpnConnRequest body) n")
  note c = send_counts [OF 2(2) s]
  show ?case
  proof (cases r1)
    case (Inl e)
    then have "cnt (net_world n') \<le> cnt (net_world n1) + k"
      using 2 s by simp
    with c show ?thesis by simp
  next
    case (Inr resp)
    then show ?thesis using 2 s c by (auto split: if_splits)
  qed
qed simp

lemma try_dots_counts:
  "counts_calls env cnt \<Longrightarrow> try_dots env dec request build dots le n = (r, n') \<Longrightarrow>
     cnt (net_world n') \<le> cnt (net_world n) + 3 * length dots"
proof (induction dots arbitrary: le n)
  case (Cons dot dots)
  from Cons.prems(2) show ?case
  proof (cases rule: try_dots_Cons)
    case (attempted ep out n1)
    have c: "cnt (net_world n1) \<le> cnt (net_world n) + 3"
      using config_attempts_counts [OF Cons.prems(1) attempted(2)]
      by (simp add: MAX_CONFIG_ATTEMPTS_PER_DOT_def)
    then show ?thesis
      using attempted(3) Cons.IH [OF Cons.prems(1)]
      by (cases out) (fastforce dest: Cons.IH [OF Cons.prems(1)])+
  qed simp
qed simp

text \<open>C33: connecting is not unbounded retrying: one configuration negotiation makes at most ten
  requests (the list and three attempts at each of at most three dots), besides those the ranking
  callback makes.\<close>

theorem vpn_config_bounded:
  assumes cnt: "counts_calls env cnt"
    and rank: "\<And>ds m ds' m'. rank ds m = (ds', m') \<Longrightarrow> cnt (net_world m') \<le> cnt (net_world m) + extra"
    and res: "vpn_config_from_dot_list env dec tenant request build rank n = (r, n')"
  shows "cnt (net_world n') \<le> cnt (net_world n) + extra + 10"
proof -
  obtain r1 n1 where s: "send env (dec_vpn_locations dec) tenant GetVpnLocationsRequest n = (r1, n1)"
    by (cases "send env (dec_vpn_locations dec) tenant GetVpnLocationsRequest n")
  note c1 = send_counts [OF cnt s]
  show ?thesis
  proof (cases "\<exists>locs dots. r1 = Inr locs \<and> br_data locs = Some dots \<and> dots \<noteq> [] \<and> candidate_dots request dots \<noteq> []")
    case False
    then have "n' = n1" using res s
      by (auto simp: vpn_config_from_dot_list_def Let_def split: sum.splits option.splits if_splits prod.splits)
    with c1 show ?thesis by simp
  next
    case True
    then obtain locs dots where d: "r1 = Inr locs" "br_data locs = Some dots" "dots \<noteq> []"
      "candidate_dots request dots \<noteq> []" by blast
    let ?cs = "candidate_dots request dots"
    obtain ds n2 where ds: "(if vq_location_id request = None \<and> length ?cs > 1 then rank ?cs n1 else (?cs, n1)) = (ds, n2)"
      by (cases "if vq_location_id request = None \<and> length ?cs > 1 then rank ?cs n1 else (?cs, n1)")
    then have c2: "cnt (net_world n2) \<le> cnt (net_world n1) + extra"
      using rank by (auto split: if_splits)
    have "try_dots env dec request build (take MAX_DOT_ATTEMPTS ds) None n2 = (r, n')"
      using res ds d by (auto simp: vpn_config_from_dot_list_def s Let_def split: if_splits)
    from try_dots_counts [OF cnt this] have "cnt (net_world n') \<le> cnt (net_world n2) + 9"
      by (simp add: MAX_DOT_ATTEMPTS_def)
    with c1 c2 show ?thesis by simp
  qed
qed

definition counting_env :: "(nat \<times> bytes) http_env" where
  "counting_env = sample_env\<lparr>he_transport := (\<lambda>c r w. (Some \<lparr>rp_status = 500, rp_set_cookies = [],
     rp_body = Some []\<rparr>, (Suc (fst w), snd w)))\<rparr>"

theorem vpn_config_bounded_witness:
  "fst (net_world (snd (vpn_config_from_dot_list counting_env sample_decoders
      (sample_client signing_config_default) sample_request
      (\<lambda>_. sample_client signing_config_default) (\<lambda>ds m. (ds, m)) sample_net))) \<le> 200 + 0 + 10"
  using vpn_config_bounded [of counting_env fst "\<lambda>ds m. (ds, m)" 0 sample_decoders
      "sample_client signing_config_default" sample_request "\<lambda>_. sample_client signing_config_default" sample_net]
  by (simp add: counts_calls_def counting_env_def sample_net_def prod_eq_iff)

section \<open>One-time passwords follow the server clock\<close>

text \<open>A provisioned TOTP is evaluated at the server's time.  If the server reported its clock
  \<open>ts\<close> when the local clock read \<open>now\<close>, then a code generated \<open>dt\<close> seconds later is the code of
  server time \<open>ts + dt\<close>, whatever the local clock's error; an empty URL provisions nothing.\<close>

theorem totp_server_time:
  assumes "op_url p \<noteq> []" "op_timestamp p > 0" "0 \<le> now" "0 \<le> dt"
    and "i64_ok (op_timestamp p + dt)" "i64_ok (now + dt)"
  shows "\<exists>c. totp_from_provision now p = Some c
    \<and> generate_totp totp c (now + dt) = totp (op_url p) (of_int (op_timestamp p + dt))"
proof -
  have "i64_ok (op_timestamp p - now)" using assms by (simp add: i64_ok_def)
  then show ?thesis
    using assms i64_wrap_id [OF assms(5)]
    by (simp add: totp_from_provision_def generate_totp_def i64_wrap_id Let_def add.commute)
qed

theorem totp_server_time_witness:
  "\<exists>c. totp_from_provision 100 \<lparr>op_url = ''u'', op_timestamp = 50\<rparr> = Some c
    \<and> generate_totp (\<lambda>u t. Some u) c (100 + 5) = Some ''u''"
  using totp_server_time [of "\<lparr>op_url = ''u'', op_timestamp = 50\<rparr>" 100 5 "\<lambda>u t. Some u"]
  by (simp add: i64_ok_def)

end
