(* ===== verification/CoreAuth.thy ===== *)
theory CoreAuth
  imports CoreVpn
begin

text \<open>
  The authentication flow of the core crate (\<open>src/crates/core/src/auth.rs\<close>,
  \<open>src/crates/core/src/state/auth.rs\<close>).

  Every orchestration function takes a client, performs its API call on the
  shared network state and returns the next state or an error.  Random tokens are
  arguments.
\<close>

section \<open>Login steps\<close>

datatype login_step =
    StepAuthenticated
  | StepAwaitingMfa string "string list" bool string string
  | StepAwaitingOtp string string

definition is_mfa_action :: "string \<Rightarrow> bool" where
  "is_mfa_action action \<longleftrightarrow> to_ascii_lowercase action \<in> {''2fa'', ''mfa'', ''verify_mfa''}"

definition next_login_step :: "login_v2_result option \<Rightarrow> login_step" where
  "next_login_step result = (case result of
      None \<Rightarrow> StepAuthenticated
    | Some result \<Rightarrow> (case l2_next result of
        None \<Rightarrow> StepAuthenticated
      | Some nxt \<Rightarrow>
          let action = unwrap_or (ln_action nxt) [] in
          if is_mfa_action action then
            (let auth_list = unwrap_or (ln_auth_list nxt) [] in
             StepAwaitingMfa (case auth_list of [] \<Rightarrow> action | a # _ \<Rightarrow> a) auth_list
               (unwrap_or (ln_can_skip nxt) False)
               (unwrap_or (ln_mobile nxt) []) (unwrap_or (ln_email nxt) []))
          else if to_ascii_lowercase action \<in> {''goto_link'', ''gotolink''} then StepAuthenticated
          else if l2_result result = Some ''success'' then StepAuthenticated
          else
            (let masked_mobile = opt_filter (\<lambda>v. v \<noteq> []) (ln_mobile nxt);
                 masked_email = opt_filter (\<lambda>v. v \<noteq> []) (ln_email nxt);
                 (masked_target, login_type) = (case (masked_mobile, masked_email) of
                     (Some mobile, _) \<Rightarrow> (mobile, ''mobile'')
                   | (None, Some email) \<Rightarrow> (email, ''email'')
                   | (None, None) \<Rightarrow> ([], ''mobile''))
             in StepAwaitingOtp masked_target login_type)))"

definition first_non_empty :: "string option list \<Rightarrow> string option" where
  "first_non_empty values =
     find (\<lambda>v. v \<noteq> []) (map trim (filter_map (\<lambda>v. v) values))"

record activation_tenant_update =
  atu_base_url :: "string option"
  atu_backup_url :: "string option"
  atu_use_backup :: "bool option"
  atu_name :: "string option"

definition extract_activation_update :: "activate_info \<Rightarrow> activation_tenant_update" where
  "extract_activation_update data =
     \<lparr>atu_base_url = first_non_empty [ai_activate_host data, ai_domain data],
      atu_backup_url = ai_activate_backup_domain data,
      atu_use_backup = ai_activate_enable_backup_domain data,
      atu_name = first_non_empty [ai_tenant_name data, ai_name data, ai_zh_name data, ai_en_name data]\<rparr>"

section \<open>Auth state\<close>

datatype login_api_version = Legacy | V1

record oauth_pending =
  oap_alias_key :: string
  oap_oauth_state :: string
  oap_poll_token :: string
  oap_pkce_verifier :: string
  oap_url :: string

record device_login_pending =
  dlp_login_url :: string
  dlp_alias_key :: string
  dlp_poll_token :: string

datatype auth_state =
    Unconfigured
  | Configured
  | AwaitingOtp string string
  | AwaitingMfa string "string list" bool string string
  | AwaitingOauth
  | AwaitingDeviceLogin
  | Authenticated

datatype core_auth_error = AuthApi api_error | MissingOAuthVerifier | InvalidUrl string

datatype auth_error =
    AuthError core_auth_error
  | UnknownProvider string
  | ProviderNoLoginUrl string
  | ProviderNoDeviceLogin string

definition next_auth_state :: "login_v2_result option \<Rightarrow> auth_state" where
  "next_auth_state result = (case next_login_step result of
      StepAuthenticated \<Rightarrow> Authenticated
    | StepAwaitingMfa mfa_type auth_list can_skip masked_mobile masked_email \<Rightarrow>
        AwaitingMfa mfa_type auth_list can_skip masked_mobile masked_email
    | StepAwaitingOtp masked_target login_type \<Rightarrow> AwaitingOtp masked_target login_type)"

section \<open>Orchestration\<close>

definition auth_send ::
  "'w http_env \<Rightarrow> (bytes \<Rightarrow> 'a base_response option) \<Rightarrow> api_client \<Rightarrow> api_request
   \<Rightarrow> ('w net, auth_error, 'a base_response) io" where
  "auth_send env decode cl req = io_map_err (\<lambda>e. AuthError (AuthApi e)) (send env decode cl req)"

text \<open>\<open>PasswordCipher::generated().encrypt_aes_cbc\<close> with its error context.\<close>

definition encrypt_password :: "'w http_env \<Rightarrow> string \<Rightarrow> (api_error, string) result" where
  "encrypt_password env password =
     map_err EncryptPassword (encrypt_aes_cbc (he_crypto env) FIXED_PASSWORD_KEY password)"

definition encrypted_login_request ::
  "'w http_env \<Rightarrow> string \<Rightarrow> string \<Rightarrow> string \<Rightarrow> string \<Rightarrow> (api_error, password_login_request) result" where
  "encrypted_login_request env login_scene account_type account password =
     res_bind (encrypt_password env password) (\<lambda>password.
       Inr \<lparr>pl_login_scene = login_scene, pl_account_type = account_type, pl_account = account,
            pl_password = password\<rparr>)"

definition encrypted_mfa_request ::
  "'w http_env \<Rightarrow> string \<Rightarrow> string \<Rightarrow> string \<Rightarrow> string option \<Rightarrow> string option
   \<Rightarrow> (api_error, verify_mfa_request) result" where
  "encrypted_mfa_request env login_scene mfa_type account code password =
     res_bind (case password of None \<Rightarrow> Inr None
         | Some v \<Rightarrow> res_bind (encrypt_password env v) (\<lambda>c. Inr (Some c))) (\<lambda>password.
       Inr \<lparr>vm_login_scene = login_scene, vm_mfa_type = mfa_type, vm_account = account,
            vm_code = code, vm_password = password\<rparr>)"

text \<open>The structs of the v1 flow have the fields of the legacy ones; \<open>encrypted\<close> builds either.\<close>

definition v1_login_encrypted ::
  "'w http_env \<Rightarrow> string \<Rightarrow> string \<Rightarrow> string \<Rightarrow> string \<Rightarrow> (api_error, password_login_request) result" where
  "v1_login_encrypted env login_scene account_type account password =
     res_bind (encrypt_password env password) (\<lambda>password.
       Inr \<lparr>pl_login_scene = login_scene, pl_account_type = account_type, pl_account = account,
            pl_password = password\<rparr>)"

definition v1_mfa_verify_encrypted ::
  "'w http_env \<Rightarrow> string \<Rightarrow> string \<Rightarrow> string \<Rightarrow> string option \<Rightarrow> string option
   \<Rightarrow> (api_error, verify_mfa_request) result" where
  "v1_mfa_verify_encrypted env login_scene mfa_type account code password =
     res_bind (case password of None \<Rightarrow> Inr None
         | Some v \<Rightarrow> res_bind (encrypt_password env v) (\<lambda>c. Inr (Some c))) (\<lambda>password.
       Inr \<lparr>vm_login_scene = login_scene, vm_mfa_type = mfa_type, vm_account = account,
            vm_code = code, vm_password = password\<rparr>)"

text \<open>The calls of \<open>auth.rs\<close>; \<open>legacy_verify_mfa\<close> is its \<open>verify_mfa\<close>.\<close>

definition login_password ::
  "'w http_env \<Rightarrow> decoders \<Rightarrow> api_client \<Rightarrow> string \<Rightarrow> string \<Rightarrow> string \<Rightarrow> string
   \<Rightarrow> ('w net, core_auth_error, login_v2_result base_response) io" where
  "login_password env dec cl login_scene account_type account password =
     io_bind (io_map_err AuthApi (io_lift (encrypted_login_request env login_scene account_type account password))) (\<lambda>req.
     io_map_err AuthApi (send env (dec_login_v2 dec) cl (PasswordLoginRequest req)))"

definition legacy_verify_mfa ::
  "'w http_env \<Rightarrow> decoders \<Rightarrow> api_client \<Rightarrow> string \<Rightarrow> string \<Rightarrow> string \<Rightarrow> string option \<Rightarrow> string option
   \<Rightarrow> ('w net, core_auth_error, login_v2_result base_response) io" where
  "legacy_verify_mfa env dec cl login_scene mfa_type account code password =
     io_bind (io_map_err AuthApi (io_lift (encrypted_mfa_request env login_scene mfa_type account code password))) (\<lambda>req.
     io_map_err AuthApi (send env (dec_login_v2 dec) cl (VerifyMfaRequest req)))"

definition v1_login_password ::
  "'w http_env \<Rightarrow> decoders \<Rightarrow> api_client \<Rightarrow> string \<Rightarrow> string \<Rightarrow> string \<Rightarrow> string
   \<Rightarrow> ('w net, core_auth_error, login_v2_result base_response) io" where
  "v1_login_password env dec cl login_scene account_type account password =
     io_bind (io_map_err AuthApi (io_lift (v1_login_encrypted env login_scene account_type account password))) (\<lambda>req.
     io_map_err AuthApi (send env (dec_login_v2 dec) cl (V1LoginRequest req)))"

definition v1_mfa_verify ::
  "'w http_env \<Rightarrow> decoders \<Rightarrow> api_client \<Rightarrow> string \<Rightarrow> string \<Rightarrow> string \<Rightarrow> string option \<Rightarrow> string option
   \<Rightarrow> ('w net, core_auth_error, login_v2_result base_response) io" where
  "v1_mfa_verify env dec cl login_scene mfa_type account code password =
     io_bind (io_map_err AuthApi (io_lift (v1_mfa_verify_encrypted env login_scene mfa_type account code password))) (\<lambda>req.
     io_map_err AuthApi (send env (dec_login_v2 dec) cl (V1MfaVerifyRequest req)))"

definition login ::
  "'w http_env \<Rightarrow> decoders \<Rightarrow> api_client \<Rightarrow> login_api_version \<Rightarrow> string \<Rightarrow> string \<Rightarrow> string \<Rightarrow> string
   \<Rightarrow> ('w net, auth_error, auth_state) io" where
  "login env dec cl version login_scene account_type account password =
     io_bind (io_map_err AuthError (if version = V1
         then v1_login_password env dec cl login_scene account_type account password
         else login_password env dec cl login_scene account_type account password)) (\<lambda>response.
     io_return (next_auth_state (br_data response)))"

definition send_login_code ::
  "'w http_env \<Rightarrow> decoders \<Rightarrow> api_client \<Rightarrow> login_api_version \<Rightarrow> string \<Rightarrow> string \<Rightarrow> string \<Rightarrow> string
   \<Rightarrow> ('w net, auth_error, unit) io" where
  "send_login_code env dec cl version login_scene account_type login_type account =
     (let req = \<lparr>sc_login_scene = login_scene, sc_account_type = account_type,
                 sc_login_type = login_type, sc_account = account\<rparr>
      in io_bind (auth_send env (dec_string_result dec) cl
           (if version = V1 then V1SendCodeRequest req else SendCodeRequest req)) (\<lambda>_. io_return ()))"

definition verify_login_code ::
  "'w http_env \<Rightarrow> decoders \<Rightarrow> api_client \<Rightarrow> login_api_version \<Rightarrow> string \<Rightarrow> string \<Rightarrow> string \<Rightarrow> string \<Rightarrow> string
   \<Rightarrow> ('w net, auth_error, auth_state) io" where
  "verify_login_code env dec cl version login_scene account_type login_type account code =
     (let req = \<lparr>vc_login_scene = login_scene, vc_account_type = account_type,
                 vc_login_type = login_type, vc_account = account, vc_code = code\<rparr>
      in io_bind (auth_send env (dec_login_v2 dec) cl
           (if version = V1 then V1VerifyCodeRequest req else VerifyCodeRequest req)) (\<lambda>response.
         io_return (next_auth_state (br_data response))))"

definition send_mfa_code ::
  "'w http_env \<Rightarrow> decoders \<Rightarrow> api_client \<Rightarrow> login_api_version \<Rightarrow> string \<Rightarrow> string \<Rightarrow> string
   \<Rightarrow> ('w net, auth_error, unit) io" where
  "send_mfa_code env dec cl version login_scene mfa_type account =
     (if version \<noteq> V1 then io_return ()
      else io_bind (auth_send env (dec_string_result dec) cl
        (V1MfaSendRequest \<lparr>ms_login_scene = login_scene, ms_mfa_type = mfa_type, ms_account = account\<rparr>))
        (\<lambda>_. io_return ()))"

definition verify_mfa ::
  "'w http_env \<Rightarrow> decoders \<Rightarrow> api_client \<Rightarrow> login_api_version \<Rightarrow> string \<Rightarrow> string \<Rightarrow> string
   \<Rightarrow> string option \<Rightarrow> string option \<Rightarrow> ('w net, auth_error, auth_state) io" where
  "verify_mfa env dec cl version login_scene mfa_type account code password =
     io_bind (io_map_err AuthError (if version = V1
         then v1_mfa_verify env dec cl login_scene mfa_type account code password
         else legacy_verify_mfa env dec cl login_scene mfa_type account code password)) (\<lambda>response.
     io_return (next_auth_state (br_data response)))"

definition skip_challenge ::
  "'w http_env \<Rightarrow> decoders \<Rightarrow> api_client \<Rightarrow> string \<Rightarrow> ('w net, auth_error, auth_state) io" where
  "skip_challenge env dec cl login_scene =
     io_bind (auth_send env (dec_login_v2 dec) cl
       (V1LoginSkipRequest \<lparr>sk_login_scene = login_scene, sk_account = []\<rparr>)) (\<lambda>response.
     io_return (next_auth_state (br_data response)))"

text \<open>\<open>code_challenge\<close>: \<open>b64url\<close> is the URL-safe base64 encoder without padding.\<close>

definition code_challenge :: "'w http_env \<Rightarrow> (bytes \<Rightarrow> string) \<Rightarrow> string \<Rightarrow> string" where
  "code_challenge env b64url verifier = b64url (array_bytes (sha256 (he_crypto env) (as_bytes verifier)))"

definition random_token :: "'w http_env \<Rightarrow> bytes \<Rightarrow> string" where
  "random_token env random = hex_encode (he_crypto env) random"

definition pkce_pair :: "'w http_env \<Rightarrow> (bytes \<Rightarrow> string) \<Rightarrow> bytes \<Rightarrow> string \<times> string" where
  "pkce_pair env b64url random = (let verifier = random_token env random in (verifier, code_challenge env b64url verifier))"

text \<open>\<open>start_oauth\<close> of \<open>auth.rs\<close> builds an authorisation URL itself; the daemon uses the provider's (below).\<close>

record oauth_start =
  os_url :: string
  os_alias_key :: string
  os_state :: string
  os_code_verifier :: string

definition build_oauth_start ::
  "'w http_env \<Rightarrow> (bytes \<Rightarrow> string) \<Rightarrow> bytes \<Rightarrow> bytes \<Rightarrow> string \<Rightarrow> string \<Rightarrow> string option \<Rightarrow> string
   \<Rightarrow> (core_auth_error, oauth_start) result" where
  "build_oauth_start env b64url random_state random auth_url alias_key st redirect_uri =
     (let state_value = unwrap_or st (random_token env random_state);
          (verifier, challenge) = pkce_pair env b64url random
      in res_bind (ok_or (InvalidUrl auth_url) (he_url_parse env auth_url)) (\<lambda>u.
         let u = fold (\<lambda>kv u. he_append_pair env u kv)
               [(''code_challenge'', challenge), (''redirect_uri'', redirect_uri), (''state'', state_value)] u
         in Inr \<lparr>os_url = u_str u, os_alias_key = alias_key, os_state = state_value, os_code_verifier = verifier\<rparr>))"

definition provider_matches :: "string \<Rightarrow> third_party_login_info \<Rightarrow> bool" where
  "provider_matches alias_key info \<longleftrightarrow> tp_alias_key info = Some alias_key \<or> tp_alias info = Some alias_key"

record login_links =
  tpl_code_challenge :: string
  tpl_code_verifier :: string
  tpl_response :: "third_party_login_info list base_response"

definition third_party_login_links ::
  "'w http_env \<Rightarrow> decoders \<Rightarrow> (bytes \<Rightarrow> string) \<Rightarrow> bytes \<Rightarrow> api_client
   \<Rightarrow> ('w net, core_auth_error, login_links) io" where
  "third_party_login_links env dec b64url random cl =
     (let (verifier, challenge) = pkce_pair env b64url random
      in io_bind (io_map_err AuthApi (send env (dec_links dec) cl (GetThirdPartyLoginLinksRequest (Some challenge)))) (\<lambda>response.
         io_return \<lparr>tpl_code_challenge = challenge, tpl_code_verifier = verifier, tpl_response = response\<rparr>))"

definition start_oauth ::
  "'w http_env \<Rightarrow> decoders \<Rightarrow> (bytes \<Rightarrow> string) \<Rightarrow> bytes \<Rightarrow> api_client \<Rightarrow> string
   \<Rightarrow> ('w net, auth_error, oauth_pending) io" where
  "start_oauth env dec b64url random cl alias_key =
     io_bind (io_map_err AuthError (third_party_login_links env dec b64url random cl)) (\<lambda>links.
     case find (provider_matches alias_key) (unwrap_or (br_data (tpl_response links)) []) of
       None \<Rightarrow> io_fail (UnknownProvider alias_key)
     | Some provider \<Rightarrow> (case or_else (tp_login_url provider) (tp_url provider) of
         None \<Rightarrow> io_fail (ProviderNoLoginUrl alias_key)
       | Some login_url \<Rightarrow> io_return \<lparr>oap_alias_key = alias_key,
           oap_oauth_state = unwrap_or (tp_state provider) [],
           oap_poll_token = unwrap_or (tp_token provider) [],
           oap_pkce_verifier = tpl_code_verifier links, oap_url = login_url\<rparr>))"

definition complete_oauth ::
  "'w http_env \<Rightarrow> decoders \<Rightarrow> api_client \<Rightarrow> oauth_pending \<Rightarrow> string \<Rightarrow> string \<Rightarrow> ('w net, auth_error, unit) io" where
  "complete_oauth env dec cl pending code st =
     io_bind (auth_send env (dec_login_result dec) cl
       (OAuthCallbackRequest \<lparr>oc_alias_key = oap_alias_key pending, oc_code = code, oc_state = st,
          oc_code_verifier = oap_pkce_verifier pending\<rparr>)) (\<lambda>_. io_return ())"

definition start_device_login ::
  "'w http_env \<Rightarrow> decoders \<Rightarrow> api_client \<Rightarrow> string \<Rightarrow> ('w net, auth_error, device_login_pending) io" where
  "start_device_login env dec cl alias_key =
     io_bind (auth_send env (dec_links dec) cl (GetThirdPartyLoginLinksRequest None)) (\<lambda>response.
     case find (provider_matches alias_key) (unwrap_or (br_data response) []) of
       None \<Rightarrow> io_fail (UnknownProvider alias_key)
     | Some provider \<Rightarrow>
         (let login_url = unwrap_or (or_else (tp_login_url provider) (tp_url provider)) [];
              poll_token = unwrap_or (tp_token provider) []
          in if poll_token = [] then io_fail (ProviderNoDeviceLogin alias_key)
             else io_return \<lparr>dlp_login_url = login_url, dlp_alias_key = alias_key,
                    dlp_poll_token = poll_token\<rparr>))"

lemmas auth_calls = login_password_def v1_login_password_def legacy_verify_mfa_def v1_mfa_verify_def

section \<open>Which responses authenticate\<close>

text \<open>The follow-up action of a login response, lower-cased; \<open>None\<close> without a \<open>next\<close> object.\<close>

definition follow_up :: "login_v2_result option \<Rightarrow> string option" where
  "follow_up r = Option.bind r (\<lambda>r. map_option (\<lambda>n. to_ascii_lowercase (unwrap_or (ln_action n) [])) (l2_next r))"

definition requires_mfa :: "login_v2_result option \<Rightarrow> bool" where
  "requires_mfa r \<longleftrightarrow> follow_up r \<in> Some ` {''2fa'', ''mfa'', ''verify_mfa''}"

text \<open>The second factor cannot be skipped by a success flag.  A login response authenticates
  exactly when it has no follow-up, or its follow-up is not a second factor and is either a link or
  accompanied by an explicit success; a second-factor follow-up always yields the MFA challenge, even
  when the result says success.\<close>

theorem next_auth_state_authenticated_iff:
  "(next_auth_state r = Authenticated \<longleftrightarrow>
     follow_up r = None \<or>
     (\<not> requires_mfa r \<and> (follow_up r \<in> {Some ''goto_link'', Some ''gotolink''}
        \<or> (\<exists>res. r = Some res \<and> l2_result res = Some ''success''))))
   \<and> (requires_mfa r \<longleftrightarrow> (\<exists>t l s m e. next_auth_state r = AwaitingMfa t l s m e))
   \<and> next_auth_state r \<notin> {Unconfigured, Configured, AwaitingOauth, AwaitingDeviceLogin}"
proof (cases r)
  case None
  then show ?thesis
    by (simp add: next_auth_state_def next_login_step_def follow_up_def requires_mfa_def)
next
  case (Some res)
  show ?thesis
  proof (cases "l2_next res")
    case None
    then show ?thesis using Some
      by (simp add: next_auth_state_def next_login_step_def follow_up_def requires_mfa_def)
  next
    case nxt: (Some nxt)
    define action where "action = unwrap_or (ln_action nxt) []"
    have fu: "follow_up r = Some (to_ascii_lowercase action)"
      by (simp add: follow_up_def Some nxt action_def)
    have mfa: "requires_mfa r \<longleftrightarrow> is_mfa_action action"
      by (simp add: requires_mfa_def fu is_mfa_action_def)
    show ?thesis
    proof (cases "is_mfa_action action")
      case True
      then show ?thesis using mfa fu
        by (simp add: next_auth_state_def next_login_step_def Some nxt action_def [symmetric] Let_def)
    next
      case False
      then show ?thesis using mfa fu
        by (auto simp: next_auth_state_def next_login_step_def Some nxt action_def [symmetric] Let_def
            split: option.splits prod.splits)
    qed
  qed
qed

lemma first_non_empty_Some:
  "first_non_empty values = Some v \<Longrightarrow> v \<noteq> [] \<and> (\<exists>w. Some w \<in> set values \<and> v = trim w)"
  unfolding first_non_empty_def by (drule find_SomeD) (auto simp: set_filter_map)

end
