(* ===== verification/Bypass.thy ===== *)
theory Bypass
  imports Dialer
begin

text \<open>
  Route bypass for full-tunnel mode (\<open>src/crates/outbound/src/bypass.rs\<close> and
  its per-platform modules).

  The platform modules drive external commands (\<open>ip rule\<close>, \<open>route\<close>).  A
  command is a value; what the operating system does with it is the parameter
  \<open>run\<close>, which maps the installed entries and a command to an outcome and the
  entries left.  \<open>os_ok\<close> states the documented behaviour of those tools.  The
  private trait \<open>RouteBypassT\<close> is the locale \<open>route_bypass\<close>, interpreted for
  Linux, macOS and Windows.
\<close>

section \<open>External commands\<close>

datatype 'r route_cmd = CmdAdd 'r | CmdDel 'r

datatype cmd_out = SpawnFailed io_kind | Exited bool string

type_synonym 'r os_run = "'r set \<Rightarrow> 'r route_cmd \<Rightarrow> cmd_out \<times> 'r set"

definition file_exists :: "string \<Rightarrow> bool" where
  "file_exists stderr = sublist ''File exists'' stderr"

definition os_ok :: "'r os_run \<Rightarrow> bool" where
  "os_ok run \<longleftrightarrow>
     (\<forall>s r out s'. run s (CmdAdd r) = (out, s') \<longrightarrow> (case out of
         SpawnFailed _ \<Rightarrow> s' = s
       | Exited True _ \<Rightarrow> s' = insert r s
       | Exited False err \<Rightarrow> s' = s \<and> (file_exists err \<longrightarrow> r \<in> s)))
     \<and> (\<forall>s r out s'. run s (CmdDel r) = (out, s') \<longrightarrow> s' = s \<or> s' = s - {r})"

definition deletes_ok :: "'r os_run \<Rightarrow> bool" where
  "deletes_ok run \<longleftrightarrow> (\<forall>s r. snd (run s (CmdDel r)) = s - {r})"

section \<open>Linux: policy routing rules\<close>

definition BYPASS_TABLE :: u32 where "BYPASS_TABLE = 0x162E"
definition RULE_PRIORITY_FWMARK :: u32 where "RULE_PRIORITY_FWMARK = 9000"
definition RULE_PRIORITY_MAIN_SUPPRESS :: u32 where "RULE_PRIORITY_MAIN_SUPPRESS = 9001"

datatype ip_rule =
    NotFwmark u32 u32 u32
  | MainSuppressPrefix0 u32

datatype linux_error = AddRule string | IpCommand io_kind

definition rule_fwmark :: ip_rule where
  "rule_fwmark = NotFwmark BYPASS_FWMARK BYPASS_TABLE RULE_PRIORITY_FWMARK"

definition rule_main :: ip_rule where
  "rule_main = MainSuppressPrefix0 RULE_PRIORITY_MAIN_SUPPRESS"

definition ip_rule_add :: "ip_rule os_run \<Rightarrow> ip_rule \<Rightarrow> (ip_rule set, linux_error, unit) io" where
  "ip_rule_add run r = (\<lambda>s. case run s (CmdAdd r) of
      (SpawnFailed k, s') \<Rightarrow> (Inl (IpCommand k), s')
    | (Exited success stderr, s') \<Rightarrow>
        if \<not> success \<and> \<not> file_exists stderr then (Inl (AddRule (trim stderr)), s')
        else (Inr (), s'))"

definition ip_rule_del :: "ip_rule os_run \<Rightarrow> ip_rule \<Rightarrow> ip_rule set \<Rightarrow> ip_rule set" where
  "ip_rule_del run r s = snd (run s (CmdDel r))"

text \<open>The handle is the flag \<open>installed\<close>.\<close>

definition linux_setup ::
  "ip_rule os_run \<Rightarrow> outbound_interface \<Rightarrow> bool \<Rightarrow> (ip_rule set, linux_error, bool) io" where
  "linux_setup run i full_tunnel =
     (if \<not> full_tunnel then io_return False
      else io_bind (ip_rule_add run rule_fwmark) (\<lambda>_.
           io_bind (ip_rule_add run rule_main) (\<lambda>_. io_return True)))"

definition linux_teardown :: "ip_rule os_run \<Rightarrow> bool \<Rightarrow> ip_rule set \<Rightarrow> ip_rule set" where
  "linux_teardown run installed s =
     (if \<not> installed then s else ip_rule_del run rule_main (ip_rule_del run rule_fwmark s))"

section \<open>macOS: scoped default routes\<close>

record scoped_default =
  sd_iface :: string
  sd_gateway :: ip_addr
  sd_ipv6 :: bool

datatype macos_error = AddScopedDefault string string | RouteCommand io_kind

record macos_bypass =
  mb_interface_name :: string
  mb_gateway_v4 :: "ip_addr option"
  mb_gateway_v6 :: "ip_addr option"

definition add_scoped_default ::
  "scoped_default os_run \<Rightarrow> string \<Rightarrow> ip_addr \<Rightarrow> bool \<Rightarrow> (scoped_default set, macos_error, unit) io" where
  "add_scoped_default run iface gateway ipv6 = (\<lambda>s.
     case run s (CmdAdd \<lparr>sd_iface = iface, sd_gateway = gateway, sd_ipv6 = ipv6\<rparr>) of
      (SpawnFailed k, s') \<Rightarrow> (Inl (RouteCommand k), s')
    | (Exited success stderr, s') \<Rightarrow>
        if \<not> success \<and> \<not> file_exists stderr then (Inl (AddScopedDefault iface stderr), s')
        else (Inr (), s'))"

definition remove_scoped_default ::
  "scoped_default os_run \<Rightarrow> string \<Rightarrow> ip_addr \<Rightarrow> bool \<Rightarrow> scoped_default set \<Rightarrow> scoped_default set" where
  "remove_scoped_default run iface gateway ipv6 s =
     snd (run s (CmdDel \<lparr>sd_iface = iface, sd_gateway = gateway, sd_ipv6 = ipv6\<rparr>))"

definition macos_setup ::
  "scoped_default os_run \<Rightarrow> outbound_interface \<Rightarrow> bool \<Rightarrow> (scoped_default set, macos_error, macos_bypass) io" where
  "macos_setup run i full_tunnel =
     (if \<not> full_tunnel then
        io_return \<lparr>mb_interface_name = oi_name i, mb_gateway_v4 = None, mb_gateway_v6 = None\<rparr>
      else
        io_bind (case oi_gateway_v4 i of None \<Rightarrow> io_return ()
          | Some gw \<Rightarrow> add_scoped_default run (oi_name i) gw False) (\<lambda>_.
        io_bind (case oi_gateway_v6 i of None \<Rightarrow> io_return ()
          | Some gw \<Rightarrow> add_scoped_default run (oi_name i) gw True) (\<lambda>_.
        io_return \<lparr>mb_interface_name = oi_name i, mb_gateway_v4 = oi_gateway_v4 i,
          mb_gateway_v6 = oi_gateway_v6 i\<rparr>)))"

definition macos_teardown ::
  "scoped_default os_run \<Rightarrow> macos_bypass \<Rightarrow> scoped_default set \<Rightarrow> scoped_default set" where
  "macos_teardown run b s =
     (let s1 = (case mb_gateway_v4 b of None \<Rightarrow> s
                | Some gw \<Rightarrow> remove_scoped_default run (mb_interface_name b) gw False s)
      in case mb_gateway_v6 b of None \<Rightarrow> s1
         | Some gw \<Rightarrow> remove_scoped_default run (mb_interface_name b) gw True s1)"

section \<open>Windows and unsupported platforms\<close>

definition windows_setup :: "unit os_run \<Rightarrow> outbound_interface \<Rightarrow> bool \<Rightarrow> (unit set, unit, unit) io" where
  "windows_setup run i full_tunnel = io_return ()"

definition windows_teardown :: "unit os_run \<Rightarrow> unit \<Rightarrow> unit set \<Rightarrow> unit set" where
  "windows_teardown run h s = s"

definition unsupported_setup :: "unit os_run \<Rightarrow> outbound_interface \<Rightarrow> bool \<Rightarrow> (unit set, unit, unit) io" where
  "unsupported_setup run i full_tunnel = io_fail ()"

section \<open>The contract\<close>

locale route_bypass =
  fixes set_up :: "'r os_run \<Rightarrow> outbound_interface \<Rightarrow> bool \<Rightarrow> ('r set, 'e, 'h) io"
    and tear_down :: "'r os_run \<Rightarrow> 'h \<Rightarrow> 'r set \<Rightarrow> 'r set"
    and installs :: "outbound_interface \<Rightarrow> bool \<Rightarrow> 'r set"
  assumes setup_installs:
      "os_ok run \<Longrightarrow> set_up run i full s = (Inr h, s') \<Longrightarrow> s' = s \<union> installs i full"
    and setup_error_only_adds:
      "os_ok run \<Longrightarrow> set_up run i full s = (Inl e, s') \<Longrightarrow> s \<subseteq> s' \<and> s' \<subseteq> s \<union> installs i full"
    and teardown_removes:
      "deletes_ok run \<Longrightarrow> set_up run' i full s = (Inr h, s') \<Longrightarrow> tear_down run h t = t - installs i full"
    and split_tunnel_noop: "set_up run i False s = (r, s') \<Longrightarrow> is_ok r \<and> s' = s"
    and split_installs: "installs i False = {}"
begin

lemma setup_teardown:
  assumes "os_ok run" "deletes_ok run" "set_up run i full s = (Inr h, s')"
    and "s \<inter> installs i full = {}"
  shows "tear_down run h s' = s"
  using setup_installs [OF assms(1,3)] teardown_removes [OF assms(2,3)] assms(4) by auto

lemma teardown_frame:
  assumes "deletes_ok run" "set_up run' i full s = (Inr h, s')" "x \<in> t" "x \<notin> installs i full"
  shows "x \<in> tear_down run h t"
  using teardown_removes [OF assms(1,2)] assms(3,4) by simp

end

definition linux_installs :: "outbound_interface \<Rightarrow> bool \<Rightarrow> ip_rule set" where
  "linux_installs i full = (if full then {rule_fwmark, rule_main} else {})"

definition macos_installs :: "outbound_interface \<Rightarrow> bool \<Rightarrow> scoped_default set" where
  "macos_installs i full = (if full then
     (case oi_gateway_v4 i of None \<Rightarrow> {} | Some gw \<Rightarrow>
        {\<lparr>sd_iface = oi_name i, sd_gateway = gw, sd_ipv6 = False\<rparr>}) \<union>
     (case oi_gateway_v6 i of None \<Rightarrow> {} | Some gw \<Rightarrow>
        {\<lparr>sd_iface = oi_name i, sd_gateway = gw, sd_ipv6 = True\<rparr>}) else {})"

lemma os_ok_add:
  assumes "os_ok run" "run s (CmdAdd r) = (out, s')"
  shows "case out of SpawnFailed _ \<Rightarrow> s' = s | Exited True _ \<Rightarrow> s' = insert r s
    | Exited False err \<Rightarrow> s' = s \<and> (file_exists err \<longrightarrow> r \<in> s)"
  using assms unfolding os_ok_def by blast

lemma ip_rule_add_result:
  assumes "os_ok run" "ip_rule_add run r s = (res, s')"
  shows "s' = (case res of Inr _ \<Rightarrow> insert r s | Inl _ \<Rightarrow> s)"
proof -
  obtain out s1 where run: "run s (CmdAdd r) = (out, s1)" by (cases "run s (CmdAdd r)")
  from os_ok_add [OF assms(1) run] assms(2) run show ?thesis
    by (auto simp: ip_rule_add_def split: cmd_out.splits bool.splits if_splits)
qed

lemma add_scoped_default_result:
  assumes "os_ok run" "add_scoped_default run iface gw v6 s = (res, s')"
  shows "s' = (case res of Inr _ \<Rightarrow> insert \<lparr>sd_iface = iface, sd_gateway = gw, sd_ipv6 = v6\<rparr> s | Inl _ \<Rightarrow> s)"
proof -
  let ?r = "\<lparr>sd_iface = iface, sd_gateway = gw, sd_ipv6 = v6\<rparr>"
  obtain out s1 where run: "run s (CmdAdd ?r) = (out, s1)" by (cases "run s (CmdAdd ?r)")
  from os_ok_add [OF assms(1) run] assms(2) run show ?thesis
    by (auto simp: add_scoped_default_def split: cmd_out.splits bool.splits if_splits)
qed

lemma macos_gateway_step:
  assumes "os_ok run"
    and "(case gw of None \<Rightarrow> io_return () | Some g \<Rightarrow> add_scoped_default run n g v6) s = (res, s')"
  shows "s' = (case res of
      Inr _ \<Rightarrow> s \<union> (case gw of None \<Rightarrow> {} | Some g \<Rightarrow> {\<lparr>sd_iface = n, sd_gateway = g, sd_ipv6 = v6\<rparr>})
    | Inl _ \<Rightarrow> s)"
  using assms(2) by (cases gw; cases res) (auto dest!: add_scoped_default_result [OF assms(1)])

interpretation linux_bypass: route_bypass linux_setup linux_teardown linux_installs
proof
  fix run :: "ip_rule os_run" and i :: outbound_interface and full s h s'
  assume ok: "os_ok run"
  show "s' = s \<union> linux_installs i full" if "linux_setup run i full s = (Inr h, s')"
    using that
    by (auto simp: linux_setup_def linux_installs_def io_bind_Inr split: if_splits
        dest!: ip_rule_add_result [OF ok])
  show "s \<subseteq> s' \<and> s' \<subseteq> s \<union> linux_installs i full" if "linux_setup run i full s = (Inl e, s')" for e
    using that
    by (auto simp: linux_setup_def linux_installs_def io_bind_Inl split: if_splits
        dest!: ip_rule_add_result [OF ok])
next
  fix run run' :: "ip_rule os_run" and i :: outbound_interface and full s h s' t
  assume "deletes_ok run" "linux_setup run' i full s = (Inr h, s')"
  then show "linux_teardown run h t = t - linux_installs i full"
    by (auto simp: linux_setup_def linux_teardown_def linux_installs_def io_bind_Inr
        ip_rule_del_def deletes_ok_def split: if_splits)
qed (auto simp: linux_setup_def linux_installs_def)

interpretation macos_route_bypass: route_bypass macos_setup macos_teardown macos_installs
proof
  fix run :: "scoped_default os_run" and i :: outbound_interface and full s h s'
  assume ok: "os_ok run"
  show "s' = s \<union> macos_installs i full" if "macos_setup run i full s = (Inr h, s')"
    using that
    by (auto simp: macos_setup_def macos_installs_def io_bind_Inr split: if_splits
        dest!: macos_gateway_step [OF ok])
  show "s \<subseteq> s' \<and> s' \<subseteq> s \<union> macos_installs i full" if "macos_setup run i full s = (Inl e, s')" for e
    using that
    by (auto simp: macos_setup_def macos_installs_def io_bind_Inl split: if_splits
        dest!: macos_gateway_step [OF ok])
next
  fix run run' :: "scoped_default os_run" and i :: outbound_interface and full s h s' t
  assume "deletes_ok run" "macos_setup run' i full s = (Inr h, s')"
  then show "macos_teardown run h t = t - macos_installs i full"
    by (auto simp: macos_setup_def macos_teardown_def macos_installs_def io_bind_Inr Let_def
        remove_scoped_default_def deletes_ok_def split: if_splits option.splits)
qed (auto simp: macos_setup_def macos_installs_def)

interpretation windows_route_bypass: route_bypass windows_setup windows_teardown "\<lambda>_ _. {}"
  by unfold_locales (auto simp: windows_setup_def windows_teardown_def)

section \<open>Properties\<close>

text \<open>On Linux, tearing the bypass down after a successful setup removes exactly the two policy
  rules the setup installed, so the rule table is as before when it held neither of them; in
  split-tunnel mode the setup installs nothing.\<close>

theorem linux_bypass_round_trip:
  assumes "os_ok run" "deletes_ok run" "linux_setup run i full s = (Inr h, s')"
    and "rule_fwmark \<notin> s" "rule_main \<notin> s"
  shows "linux_teardown run h s' = s \<and> s' = (if full then s \<union> {rule_fwmark, rule_main} else s)"
  using linux_bypass.setup_teardown [OF assms(1-3)] linux_bypass.setup_installs [OF assms(1,3)] assms(4,5)
  by (auto simp: linux_installs_def)

text \<open>An \<open>ip\<close> that performs every command.\<close>

definition ideal_run :: "'r os_run" where
  "ideal_run s cmd = (case cmd of
      CmdAdd r \<Rightarrow> (Exited True [], insert r s)
    | CmdDel r \<Rightarrow> (Exited True [], s - {r}))"

lemma ideal_run_ok: "os_ok ideal_run" "deletes_ok ideal_run"
  by (auto simp: os_ok_def deletes_ok_def ideal_run_def)

theorem linux_bypass_round_trip_witness:
  "linux_teardown ideal_run True {rule_fwmark, rule_main} = {}"
proof -
  have "linux_setup ideal_run sample_out True {} = (Inr True, {rule_fwmark, rule_main})"
    by (auto simp: linux_setup_def io_bind_def ip_rule_add_def ideal_run_def)
  from linux_bypass_round_trip [OF ideal_run_ok this] show ?thesis by simp
qed

definition second_add_fails :: "ip_rule os_run" where
  "second_add_fails s cmd = (case cmd of
      CmdAdd r \<Rightarrow> if r = rule_main then (Exited False ''RTNETLINK answers: Operation not permitted'', s)
                  else (Exited True [], insert r s)
    | CmdDel r \<Rightarrow> (Exited True [], s - {r}))"

text \<open>A failed Linux setup is not rolled back.  When the second \<open>ip rule add\<close> fails, setup
  returns an error, so the caller gets no handle to tear down, while the first rule stays in the
  table: unmarked traffic is still directed to the bypass table.\<close>

theorem linux_setup_error_leaks_rule:
  "os_ok second_add_fails \<and>
   linux_setup second_add_fails i True {} =
     (Inl (AddRule ''RTNETLINK answers: Operation not permitted''), {rule_fwmark})"
proof -
  have noexist: "\<not> file_exists ''RTNETLINK answers: Operation not permitted''"
    by (simp add: file_exists_def) code_simp
  have trim: "trim ''RTNETLINK answers: Operation not permitted''
      = ''RTNETLINK answers: Operation not permitted''"
    by code_simp
  have "rule_fwmark \<noteq> rule_main" by (simp add: rule_fwmark_def rule_main_def)
  then show ?thesis
    using noexist
    by (auto simp: os_ok_def second_add_fails_def linux_setup_def io_bind_def ip_rule_add_def trim)
qed

end
