(* ===== verification/OutboundContext.thy ===== *)
theory OutboundContext
  imports Dialer
begin

text \<open>
  The outbound context of a tunnel session (\<open>src/crates/outbound/src/context.rs\<close>): the selected
  interface, the directed and the routed dialer and the resolver of the tunnel's endpoint.  The
  host's interfaces and the list of system resolvers are read once each; the attempts to find the
  TUN device see a list of views of the host.
\<close>

datatype context_error =
    CtxInterface interface_error
  | CtxDnsDiscovery resolver_error

record outbound_config =
  ocf_configured_interface :: "string option"
  ocf_excluded_tun :: string
  ocf_full_tunnel :: bool
  ocf_connect_timeout :: duration

record outbound_context =
  ctx_directed :: dialer
  ctx_routed :: dialer
  ctx_resolver :: resolver
  ctx_interface :: "outbound_interface option"

definition with_connect_timeout :: "dialer \<Rightarrow> duration \<Rightarrow> dialer" where
  "with_connect_timeout d timeout = d\<lparr>dl_connect_timeout := timeout\<rparr>"

definition build_context ::
  "host_os \<Rightarrow> host_os list \<Rightarrow> ip_addr list option \<Rightarrow> outbound_config \<Rightarrow> (context_error, outbound_context) result" where
  "build_context os tun_views sysdns cfg =
     res_bind (map_err CtxInterface (resolve_interface os (ocf_configured_interface cfg)
        (Some (ocf_excluded_tun cfg)) (ocf_full_tunnel cfg))) (\<lambda>interface.
     let tun_outbound = lookup_tun_with_retry tun_views (ocf_excluded_tun cfg);
         directed = with_connect_timeout (dialer_new interface) (ocf_connect_timeout cfg);
         routed = dialer_new tun_outbound in
     res_bind (map_err CtxDnsDiscovery (system_dns_servers sysdns)) (\<lambda>servers.
     Inr \<lparr>ctx_directed = directed, ctx_routed = routed, ctx_resolver = resolver_new directed servers,
          ctx_interface = interface\<rparr>))"

lemma build_context_Inr:
  assumes "build_context os views dns cfg = Inr ctx"
  shows "dl_interface (ctx_directed ctx) = ctx_interface ctx"
    and "rv_dialer (ctx_resolver ctx) = ctx_directed ctx"
    and "dl_interface (ctx_routed ctx) = lookup_tun_with_retry views (ocf_excluded_tun cfg)"
    and "dl_connect_timeout (ctx_directed ctx) = ocf_connect_timeout cfg"
    and "resolve_interface os (ocf_configured_interface cfg) (Some (ocf_excluded_tun cfg)) (ocf_full_tunnel cfg)
      = Inr (ctx_interface ctx)"
    and "system_dns_servers dns = Inr (rv_servers (ctx_resolver ctx))"
  using assms
  by (auto simp: build_context_def res_bind_eq_Inr Let_def with_connect_timeout_def dialer_new_def
      resolver_new_def map_err_def split: sum.splits)

lemma resolve_interface_not_tun:
  assumes "resolve_interface os configured (Some tun) full = Inr (Some out)"
  shows "oi_name out \<noteq> tun" "oi_index out \<noteq> 0"
proof -
  obtain c where "resolve_blocking os c (Some tun) full = Inr (Some out)"
    using assms by (auto simp: resolve_interface_def Let_def split: if_splits)
  then obtain i where "safe_egress i (Some tun) out" using resolve_blocking_safe by blast
  then show "oi_name out \<noteq> tun" "oi_index out \<noteq> 0"
    by (auto simp: safe_egress_def dest: is_wan_candidate_not_excluded)
qed

lemma resolve_interface_full_tunnel:
  "resolve_interface os configured (Some tun) True \<noteq> Inr None"
  using resolve_blocking_full_tunnel [of os _ "Some tun"]
  by (auto simp: resolve_interface_def Let_def split: if_splits)

text \<open>Bypass sockets of a session never use the tunnel.  In any context that is built, the dialer of
  the WireGuard and DNS bypass sockets and the dialer of the endpoint's resolver are the same one, it is
  pinned to no interface or to one with an index that is not the session's TUN device, and in full-tunnel
  mode it is pinned.\<close>

theorem context_bypass_dialer:
  assumes "build_context os views dns cfg = Inr ctx"
  shows "rv_dialer (ctx_resolver ctx) = ctx_directed ctx
    \<and> dl_interface (ctx_directed ctx) = ctx_interface ctx
    \<and> (case ctx_interface ctx of
         None \<Rightarrow> \<not> ocf_full_tunnel cfg
       | Some i \<Rightarrow> oi_name i \<noteq> ocf_excluded_tun cfg \<and> oi_index i \<noteq> 0)"
proof (cases "ctx_interface ctx")
  case None
  then have "\<not> ocf_full_tunnel cfg"
    using build_context_Inr(5) [OF assms] resolve_interface_full_tunnel by (cases "ocf_full_tunnel cfg") simp_all
  then show ?thesis using build_context_Inr(1,2) [OF assms] None by simp
next
  case (Some i)
  then show ?thesis
    using build_context_Inr(1,2,5) [OF assms] resolve_interface_not_tun by simp
qed

definition sample_ctx_config :: outbound_config where
  "sample_ctx_config = \<lparr>ocf_configured_interface = None, ocf_excluded_tun = ''utun4'', ocf_full_tunnel = True,
     ocf_connect_timeout = from_secs 3\<rparr>"

theorem context_bypass_dialer_witness:
  "\<exists>ctx. build_context sample_os [] (Some []) sample_ctx_config = Inr ctx
     \<and> dl_interface (ctx_directed ctx) = Some sample_out"
proof -
  obtain ctx where c: "build_context sample_os [] (Some []) sample_ctx_config = Inr ctx"
    by (simp add: build_context_def sample_resolves sample_ctx_config_def system_dns_servers_def Let_def)
  have "ctx_interface ctx = Some sample_out"
    using build_context_Inr(5) [OF c] sample_resolves by (simp add: sample_ctx_config_def)
  then show ?thesis using context_bypass_dialer [OF c] c by auto
qed

end
