(* ===== verification/Transport.thy ===== *)
theory Transport
  imports Dialer
begin

text \<open>
  The FeiLian TCP transport of WireGuard datagrams (\<open>src/crates/tunnel/src/transport.rs\<close>).

  A datagram travels as a frame: its length as four little-endian bytes, then its bytes.  The sender
  keeps one connection, dials a new one when the destination changes or a write failed, and the
  reader of each connection delivers the payloads of the frames it can read in full.  Dialling and
  writing are the operating system's: \<open>te_connect\<close> and \<open>te_write\<close>, where a write reports how many
  bytes went out before it failed.  The bytes handed to each dialled connection are kept in the
  order of dialling, which is what its far end reads.
\<close>

section \<open>Frames\<close>

definition MAX_FEILIAN_TCP_FRAME :: nat where "MAX_FEILIAN_TCP_FRAME = 65535"

definition to_le_bytes :: "u32 \<Rightarrow> bytes" where
  "to_le_bytes n = [ucast n, ucast (drop_bit 8 n), ucast (drop_bit 16 n), ucast (drop_bit 24 n)]"

definition from_le_bytes :: "bytes \<Rightarrow> u32" where
  "from_le_bytes bs = of_nat (foldr (\<lambda>b n. unat b + 256 * n) bs 0)"

definition frame :: "bytes \<Rightarrow> bytes" where
  "frame payload = to_le_bytes (of_nat (length payload)) @ payload"

definition frame_ok :: "bytes \<Rightarrow> bool" where
  "frame_ok payload \<longleftrightarrow> payload \<noteq> [] \<and> length payload \<le> MAX_FEILIAN_TCP_FRAME"

text \<open>\<open>read_exact\<close> on what is left of a stream that ends.\<close>

definition read_exact :: "nat \<Rightarrow> bytes \<Rightarrow> (bytes \<times> bytes) option" where
  "read_exact n bs = (if n \<le> length bs then Some (take n bs, drop n bs) else None)"

datatype read_end = HeaderError | BadLength u32 | PayloadError | ReceiverGone

text \<open>\<open>read_feilian_tcp_frames\<close>: \<open>room\<close> is the number of payloads the receiving channel takes before
  its receiver is dropped, none when it never is.\<close>

function read_feilian_tcp_frames :: "nat option \<Rightarrow> bytes \<Rightarrow> bytes list \<times> read_end" where
  "read_feilian_tcp_frames room bs = (case read_exact 4 bs of
      None \<Rightarrow> ([], HeaderError)
    | Some (header, rest) \<Rightarrow>
        (let frame_len = from_le_bytes header in
         if frame_len = 0 \<or> of_nat MAX_FEILIAN_TCP_FRAME < frame_len then ([], BadLength frame_len)
         else (case read_exact (unat frame_len) rest of
             None \<Rightarrow> ([], PayloadError)
           | Some (payload, rest') \<Rightarrow>
               if room = Some 0 then ([], ReceiverGone)
               else (let (ps, e) = read_feilian_tcp_frames (map_option (\<lambda>n. n - 1) room) rest'
                     in (payload # ps, e)))))"
  by pat_completeness auto
termination
  by (relation "measure (\<lambda>(room, bs). length bs)") (auto simp: read_exact_def split: if_splits)

declare read_feilian_tcp_frames.simps [simp del]

section \<open>The sender\<close>

datatype transport_error =
    InvalidFrame nat socket_addr
  | DialFailed socket_addr dialer_error
  | SendFailed socket_addr nat
  | RecvClosed

record 'w tcp_env =
  te_connect :: "socket_addr \<Rightarrow> 'w \<Rightarrow> (dialer_error, unit) result \<times> 'w"
  te_write :: "bytes \<Rightarrow> 'w \<Rightarrow> nat option \<times> 'w"

record 'w feilian_tcp =
  ft_state :: "socket_addr option"
  ft_streams :: "bytes list"
  ft_world :: 'w

text \<open>The connection in \<open>ft_state\<close> is the last one dialled.\<close>

definition write_stream :: "bytes \<Rightarrow> bytes list \<Rightarrow> bytes list" where
  "write_stream bs streams = (if streams = [] then [] else butlast streams @ [last streams @ bs])"

definition write_part :: "'w tcp_env \<Rightarrow> bytes \<Rightarrow> 'w feilian_tcp \<Rightarrow> bool \<times> 'w feilian_tcp" where
  "write_part env bs st = (case te_write env bs (ft_world st) of
      (None, w) \<Rightarrow> (True, st\<lparr>ft_streams := write_stream bs (ft_streams st), ft_world := w\<rparr>)
    | (Some k, w) \<Rightarrow> (False, st\<lparr>ft_streams := write_stream (take k bs) (ft_streams st), ft_world := w\<rparr>))"

definition dial :: "'w tcp_env \<Rightarrow> socket_addr \<Rightarrow> ('w feilian_tcp, transport_error, unit) io" where
  "dial env destination st =
     (if ft_state st = Some destination then (Inr (), st)
      else (case te_connect env destination (ft_world st) of
          (Inl e, w) \<Rightarrow> (Inl (DialFailed destination e), st\<lparr>ft_world := w\<rparr>)
        | (Inr _, w) \<Rightarrow> (Inr (), st\<lparr>ft_state := Some destination,
            ft_streams := ft_streams st @ [[]], ft_world := w\<rparr>)))"

definition send_to :: "'w tcp_env \<Rightarrow> bytes \<Rightarrow> socket_addr \<Rightarrow> ('w feilian_tcp, transport_error, unit) io" where
  "send_to env payload destination st =
     (if \<not> frame_ok payload then (Inl (InvalidFrame (length payload) destination), st)
      else (case dial env destination st of
          (Inl e, st1) \<Rightarrow> (Inl e, st1)
        | (Inr _, st1) \<Rightarrow>
            (case write_part env (to_le_bytes (of_nat (length payload))) st1 of
               (False, st2) \<Rightarrow> (Inl (SendFailed destination (length payload)), st2\<lparr>ft_state := None\<rparr>)
             | (True, st2) \<Rightarrow>
                 (case write_part env payload st2 of
                    (False, st3) \<Rightarrow> (Inl (SendFailed destination (length payload)), st3\<lparr>ft_state := None\<rparr>)
                  | (True, st3) \<Rightarrow> (Inr (), st3)))))"

definition tcp_pair :: "'w \<Rightarrow> 'w feilian_tcp" where
  "tcp_pair w = \<lparr>ft_state = None, ft_streams = [], ft_world = w\<rparr>"

text \<open>\<open>FeilianTcpRecv::recv_from\<close>: the next delivered payload, or an error once the channel is closed.\<close>

definition recv_from :: "(bytes \<times> socket_addr) list \<Rightarrow> (transport_error, bytes \<times> socket_addr) result \<times> (bytes \<times> socket_addr) list" where
  "recv_from incoming = (case incoming of [] \<Rightarrow> (Inl RecvClosed, []) | p # ps \<Rightarrow> (Inr p, ps))"

fun send_all :: "'w tcp_env \<Rightarrow> (bytes \<times> socket_addr) list \<Rightarrow> 'w feilian_tcp \<Rightarrow> bool list \<times> 'w feilian_tcp" where
  "send_all env [] st = ([], st)"
| "send_all env ((p, d) # ps) st =
     (let (r, st1) = send_to env p d st; (rs, st2) = send_all env ps st1 in (is_ok r # rs, st2))"

section \<open>Reading what was framed\<close>

lemma length_to_le_bytes [simp]: "length (to_le_bytes n) = 4"
  by (simp add: to_le_bytes_def)

lemma from_to_le_bytes: "from_le_bytes (to_le_bytes n) = n"
proof -
  have b: "unat (ucast (drop_bit k n) :: u8) = unat n div 2 ^ k mod 256" for k
    by (simp add: unsigned_ucast_eq unat_drop_bit_eq take_bit_eq_mod) (simp add: drop_bit_eq_div)
  have b0: "unat (ucast n :: u8) = unat n mod 256"
    by (simp add: unsigned_ucast_eq take_bit_eq_mod)
  have lt: "unat n < 2 ^ 32" using unsigned_less [of n, where ?'a = nat] by simp
  have split: "m mod 256 + 256 * (m div 256 mod 256 + 256 * (m div 65536 mod 256 + 256 * (m div 16777216 mod 256))) = m"
    if "m < 4294967296" for m :: nat
  proof -
    have d2: "m div 65536 = m div 256 div 256" and d3: "m div 16777216 = m div 256 div 256 div 256"
      by (simp_all add: div_mult2_eq [symmetric])
    have "m div 16777216 < 256" by (rule less_mult_imp_div_less) (use that in simp)
    then have "m div 256 div 256 div 256 mod 256 = m div 256 div 256 div 256"
      using d3 by simp
    then show ?thesis
      using d2 d3 mod_mult_div_eq [of m 256] mod_mult_div_eq [of "m div 256" 256]
        mod_mult_div_eq [of "m div 256 div 256" 256] by simp
  qed
  have "of_nat (unat n mod 256 + 256 * (unat n div 256 mod 256 + 256 * (unat n div 65536 mod 256
      + 256 * (unat n div 16777216 mod 256)))) = n"
    using split [of "unat n"] lt by simp
  then show ?thesis
    by (simp add: from_le_bytes_def to_le_bytes_def b b0)
qed

lemma unat_frame_len: "length p \<le> MAX_FEILIAN_TCP_FRAME \<Longrightarrow> unat (of_nat (length p) :: u32) = length p"
  by (simp add: unat_of_nat MAX_FEILIAN_TCP_FRAME_def)

lemma frame_len_ok:
  assumes "frame_ok p"
  shows "(of_nat (length p) :: u32) \<noteq> 0" "\<not> of_nat MAX_FEILIAN_TCP_FRAME < (of_nat (length p) :: u32)"
proof -
  have u: "unat (of_nat (length p) :: u32) = length p"
    using assms unat_frame_len [of p] by (simp add: frame_ok_def)
  show "(of_nat (length p) :: u32) \<noteq> 0"
    using u assms by (auto simp: frame_ok_def)
  show "\<not> of_nat MAX_FEILIAN_TCP_FRAME < (of_nat (length p) :: u32)"
    using u assms by (simp add: word_less_nat_alt frame_ok_def MAX_FEILIAN_TCP_FRAME_def)
qed

lemma read_frame:
  assumes "frame_ok p"
  shows "read_feilian_tcp_frames None (frame p @ rest) =
    (let (ps, e) = read_feilian_tcp_frames None rest in (p # ps, e))"
  using frame_len_ok [OF assms] unat_frame_len [of p] assms
  by (subst read_feilian_tcp_frames.simps)
    (simp add: read_exact_def frame_def from_to_le_bytes frame_ok_def Let_def)

lemma read_frames:
  "list_all frame_ok ps \<Longrightarrow> fst (read_feilian_tcp_frames None (concat (map frame ps) @ rest)) =
     ps @ fst (read_feilian_tcp_frames None rest)"
  by (induction ps) (simp_all add: read_frame split_beta)

lemma read_partial:
  assumes "frame_ok p" "strict_prefix part (frame p)"
  shows "fst (read_feilian_tcp_frames None part) = []"
proof -
  obtain zs where z: "frame p = part @ zs" "zs \<noteq> []"
    using assms(2) by (auto simp: strict_prefix_def prefix_def)
  have len: "length part < 4 + length p"
    using z by (metis add_lessD1 append_self_conv frame_def length_append length_greater_0_conv
        length_to_le_bytes less_add_same_cancel1)
  show ?thesis
  proof (cases "4 \<le> length part")
    case False
    then show ?thesis by (subst read_feilian_tcp_frames.simps) (simp add: read_exact_def)
  next
    case True
    have "take 4 part = take 4 (frame p)"
      using z True by simp
    also have "\<dots> = to_le_bytes (of_nat (length p))"
      by (simp add: frame_def)
    finally have hd4: "take 4 part = to_le_bytes (of_nat (length p))" .
    show ?thesis
      using frame_len_ok [OF assms(1)] unat_frame_len [of p] assms(1) len True
      by (subst read_feilian_tcp_frames.simps)
        (simp add: read_exact_def hd4 from_to_le_bytes frame_ok_def Let_def)
  qed
qed

section \<open>What the far end reads\<close>

text \<open>A stream made of whole frames, then at most a part of one more.\<close>

definition framed :: "bytes list \<Rightarrow> bytes \<Rightarrow> bool" where
  "framed ps s \<longleftrightarrow> list_all frame_ok ps \<and>
     (s = concat (map frame ps) \<or>
      (\<exists>p part. frame_ok p \<and> strict_prefix part (frame p) \<and> s = concat (map frame ps) @ part))"

definition delivered :: "bytes \<Rightarrow> bytes list" where
  "delivered s = fst (read_feilian_tcp_frames None s)"

lemma delivered_framed: "framed ps s \<Longrightarrow> delivered s = ps"
  using read_frames [of ps "[]"] read_frames [of ps] read_partial
  by (auto simp: framed_def delivered_def read_feilian_tcp_frames.simps [of None "[]"] read_exact_def)

definition delivered_all :: "bytes list \<Rightarrow> bytes list" where
  "delivered_all streams = concat (map delivered streams)"

lemma write_stream_snoc [simp]: "write_stream bs (ss @ [s]) = ss @ [s @ bs]"
  by (simp add: write_stream_def)

text \<open>While a connection is open its stream holds whole frames only.\<close>

definition sender_inv :: "'w feilian_tcp \<Rightarrow> bool" where
  "sender_inv st \<longleftrightarrow> (ft_state st \<noteq> None \<longrightarrow>
     (\<exists>ss ps. ft_streams st = ss @ [concat (map frame ps)] \<and> list_all frame_ok ps))"

lemma delivered_frames: "list_all frame_ok ps \<Longrightarrow> delivered (concat (map frame ps)) = ps"
  by (rule delivered_framed) (simp add: framed_def)

text \<open>One send: it delivers its payload when it reports success, and otherwise delivers it or nothing.\<close>

lemma dial_cases:
  assumes "dial env d st = (r, st1)" "sender_inv st"
  obtains e where "r = Inl e" "ft_streams st1 = ft_streams st" "ft_state st1 = ft_state st"
  | ss ps where "r = Inr ()" "ft_streams st1 = ss @ [concat (map frame ps)]" "list_all frame_ok ps"
      "delivered_all (ft_streams st1) = delivered_all (ft_streams st)"
proof (cases "ft_state st = Some d")
  case True
  then obtain ss ps where "ft_streams st = ss @ [concat (map frame ps)]" "list_all frame_ok ps"
    using assms(2) by (auto simp: sender_inv_def)
  then show thesis using assms(1) True that(2) by (auto simp: dial_def)
next
  case False
  show thesis
  proof (cases "fst (te_connect env d (ft_world st))")
    case (Inl e)
    then show thesis using assms(1) False that(1) by (auto simp: dial_def split: prod.splits)
  next
    case (Inr u)
    then have st1: "r = Inr ()" "ft_streams st1 = ft_streams st @ [concat (map frame [])]"
      using assms(1) False by (auto simp: dial_def split: prod.splits)
    moreover have "delivered_all (ft_streams st1) = delivered_all (ft_streams st)"
      using st1 delivered_frames [of "[]"] by (simp add: delivered_all_def)
    ultimately show thesis using that(2) by (metis list.pred_inject(1))
  qed
qed

lemma frame_prefix_cases:
  assumes "prefix part (frame p)" "frame_ok p" "list_all frame_ok ps"
  shows "delivered (concat (map frame ps) @ part) = ps @ (if part = frame p then [p] else [])"
proof (cases "part = frame p")
  case True
  then show ?thesis using delivered_frames [of "ps @ [p]"] assms by simp
next
  case False
  then have "framed ps (concat (map frame ps) @ part)"
    using assms by (auto simp: framed_def strict_prefix_def)
  then show ?thesis using False delivered_framed by auto
qed

lemma write_part_cases:
  assumes "write_part env bs st = (ok, st1)" "ft_streams st = ss @ [s]"
  obtains "ok" "ft_streams st1 = ss @ [s @ bs]"
  | k where "\<not> ok" "ft_streams st1 = ss @ [s @ take k bs]"
  using assms by (auto simp: write_part_def split: prod.splits option.splits)

lemma send_to_step:
  assumes "send_to env p d st = (r, st')" "sender_inv st"
  shows "sender_inv st' \<and>
    (\<exists>new. delivered_all (ft_streams st') = delivered_all (ft_streams st) @ new
       \<and> (new = [p] \<or> (new = [] \<and> \<not> is_ok r)))"
proof (cases "frame_ok p")
  case False
  then show ?thesis using assms by (auto simp: send_to_def)
next
  case p: True
  let ?hdr = "to_le_bytes (of_nat (length p))"
  obtain r1 st1 where dl: "dial env d st = (r1, st1)" by fastforce
  show ?thesis
    using dl assms(2)
  proof (rule dial_cases)
    fix e assume "r1 = Inl e" "ft_streams st1 = ft_streams st" "ft_state st1 = ft_state st"
    then show ?thesis using assms dl p by (auto simp: send_to_def sender_inv_def)
  next
    fix ss ps assume r1: "r1 = Inr ()" and s1: "ft_streams st1 = ss @ [concat (map frame ps)]"
      and ps: "list_all frame_ok ps" and d1: "delivered_all (ft_streams st1) = delivered_all (ft_streams st)"
    have base: "delivered_all (ft_streams st) = delivered_all ss @ ps"
      using d1 s1 delivered_frames [OF ps] by (simp add: delivered_all_def)
    have part: "delivered_all (ss @ [concat (map frame ps) @ part]) =
        delivered_all (ft_streams st) @ (if part = frame p then [p] else [])"
      if "prefix part (frame p)" for part
      using frame_prefix_cases [OF that p ps] base by (simp add: delivered_all_def)
    obtain ok2 st2 where w2: "write_part env ?hdr st1 = (ok2, st2)" by fastforce
    show ?thesis
      using w2 s1
    proof (rule write_part_cases)
      fix k assume f: "\<not> ok2" "ft_streams st2 = ss @ [concat (map frame ps) @ take k ?hdr]"
      have "r = Inl (SendFailed d (length p))" "st' = st2\<lparr>ft_state := None\<rparr>"
        using assms(1) p dl r1 w2 f(1) by (simp_all add: send_to_def)
      moreover have "prefix (take k ?hdr) (frame p)"
        unfolding frame_def by (metis prefix_prefix take_is_prefix)
      ultimately show ?thesis
        using part f(2) by (auto simp: sender_inv_def)
    next
      assume o2: "ok2" and s2: "ft_streams st2 = ss @ [concat (map frame ps) @ ?hdr]"
      obtain ok3 st3 where w3: "write_part env p st2 = (ok3, st3)" by fastforce
      show ?thesis
        using w3 s2
      proof (rule write_part_cases)
        assume o3: "ok3" and s3: "ft_streams st3 = ss @ [(concat (map frame ps) @ ?hdr) @ p]"
        have "r = Inr ()" "st' = st3"
          using assms(1) p dl r1 w2 o2 w3 o3 by (simp_all add: send_to_def)
        moreover have "ft_streams st3 = ss @ [concat (map frame (ps @ [p]))]"
          using s3 by (simp add: frame_def)
        moreover from this have "sender_inv st3"
          using ps p unfolding sender_inv_def by (metis list_all_append list.pred_inject)
        ultimately show ?thesis
          using part [of "frame p"] by (auto simp: is_ok_def)
      next
        fix k assume o3: "\<not> ok3" and s3: "ft_streams st3 = ss @ [(concat (map frame ps) @ ?hdr) @ take k p]"
        have "r = Inl (SendFailed d (length p))" "st' = st3\<lparr>ft_state := None\<rparr>"
          using assms(1) p dl r1 w2 o2 w3 o3 by (simp_all add: send_to_def)
        moreover have "prefix (?hdr @ take k p) (frame p)"
          by (simp add: frame_def take_is_prefix)
        moreover have "ft_streams st3 = ss @ [concat (map frame ps) @ (?hdr @ take k p)]"
          using s3 by simp
        ultimately show ?thesis
          using part by (auto simp: sender_inv_def)
      qed
    qed
  qed
qed

lemma send_all_step:
  "send_all env ps st = (rs, st') \<Longrightarrow> sender_inv st \<Longrightarrow>
   \<exists>new. delivered_all (ft_streams st') = delivered_all (ft_streams st) @ new
     \<and> subseq new (map fst ps)
     \<and> subseq (map fst (map fst (filter snd (zip ps rs)))) new"
proof (induction env ps st arbitrary: rs st' rule: send_all.induct)
  case (1 env st)
  then show ?case by simp
next
  case (2 env p d ps st)
  obtain r st1 where s1: "send_to env p d st = (r, st1)" by fastforce
  obtain rs2 st2 where s2: "send_all env ps st1 = (rs2, st2)" by fastforce
  have rs: "rs = is_ok r # rs2" "st' = st2" using 2(2) s1 s2 by auto
  obtain new1 where n1: "delivered_all (ft_streams st1) = delivered_all (ft_streams st) @ new1"
    and cases1: "new1 = [p] \<or> (new1 = [] \<and> \<not> is_ok r)" and inv: "sender_inv st1"
    using send_to_step [OF s1 2(3)] by blast
  obtain new2 where n2: "delivered_all (ft_streams st2) = delivered_all (ft_streams st1) @ new2"
    "subseq new2 (map fst ps)" "subseq (map fst (map fst (filter snd (zip ps rs2)))) new2"
    using 2(1) [OF s1 [symmetric] refl s2 inv] by blast
  have "subseq (new1 @ new2) (map fst ((p, d) # ps))"
    using cases1 n2(2) by auto
  moreover have "subseq (map fst (map fst (filter snd (zip ((p, d) # ps) rs)))) (new1 @ new2)"
    using cases1 n2(3) rs by auto
  ultimately show ?case using n1 n2(1) rs by (metis append.assoc)
qed

text \<open>C15: the far ends read exactly datagrams that were sent, each whole.  Whatever connections are
  dialled, dropped or cut in the middle of a frame, the payloads the readers deliver, taken over the
  connections in the order of dialling, are datagrams that were passed to \<open>send_to\<close>, in that order and
  none twice, and they include every datagram whose send reported success.\<close>

theorem feilian_tcp_delivery:
  "case send_all env ps (tcp_pair w) of (rs, st) \<Rightarrow>
     subseq (delivered_all (ft_streams st)) (map fst ps)
     \<and> subseq (map fst (map fst (filter snd (zip ps rs)))) (delivered_all (ft_streams st))"
proof -
  obtain rs st where run: "send_all env ps (tcp_pair w) = (rs, st)" by fastforce
  have "sender_inv (tcp_pair w)" "delivered_all (ft_streams (tcp_pair w)) = []"
    by (simp_all add: sender_inv_def tcp_pair_def delivered_all_def)
  with send_all_step [OF run] run show ?thesis by auto
qed

end
