(* ===== verification/Routes.thy ===== *)
theory Routes
  imports ApiModels NetAddr
begin

text \<open>
  The routes of the tunnel (\<open>src/crates/tunnel/src/route.rs\<close>): which networks of the server's answer
  are routed, and how they are installed and removed.

  The system's routing table is a list of routes without duplicates.  Every call of the route manager
  consumes one outcome of a script, an empty script being calls the system grants; adding a route that
  is present reports that it exists.  CIDR parsing is the ipnetwork crate's: the record \<open>net_lib\<close>.
\<close>

section \<open>Networks\<close>

record ip_network =
  nw_ip :: ip_addr
  nw_prefix :: nat

definition nw_is_ipv4 :: "ip_network \<Rightarrow> bool" where
  "nw_is_ipv4 n = (case nw_ip n of V4 _ \<Rightarrow> True | V6 _ \<Rightarrow> False)"

definition nw_is_ipv6 :: "ip_network \<Rightarrow> bool" where
  "nw_is_ipv6 n = (case nw_ip n of V4 _ \<Rightarrow> False | V6 _ \<Rightarrow> True)"

text \<open>\<open>IpNetwork::from(IpAddr)\<close>: the host network.\<close>

definition host_network :: "ip_addr \<Rightarrow> ip_network" where
  "host_network ip = \<lparr>nw_ip = ip, nw_prefix = (case ip of V4 _ \<Rightarrow> 32 | V6 _ \<Rightarrow> 128)\<rparr>"

record net_lib =
  nl_parse :: "string \<Rightarrow> ip_network option"
  nl_network :: "ip_network \<Rightarrow> ip_addr"

datatype vpn_route_mode = RouteFull | RouteSplit

datatype address_family = FamilyV4 | FamilyV6

definition family_name :: "address_family \<Rightarrow> string" where
  "family_name f = (case f of FamilyV4 \<Rightarrow> ''V4'' | FamilyV6 \<Rightarrow> ''V6'')"

datatype rm_error = AlreadyExists | RouteMissing | RmOther nat

record route =
  rt_destination :: ip_addr
  rt_prefix :: nat
  rt_if_name :: string

datatype route_error =
    RouteManagerFailed
  | InvalidRoute string
  | InvalidRouteFamily string string
  | AddRouteFailed route rm_error
  | DeleteRouteFailed route rm_error

definition parse_network :: "net_lib \<Rightarrow> string \<Rightarrow> address_family \<Rightarrow> (route_error, ip_network) result" where
  "parse_network lib v family =
     res_bind (ok_or (InvalidRoute v) (nl_parse lib v)) (\<lambda>network.
     if (nw_is_ipv4 network \<and> family = FamilyV4) \<or> (nw_is_ipv6 network \<and> family = FamilyV6)
     then Inr network else Inl (InvalidRouteFamily v (family_name family)))"

fun add_networks ::
  "net_lib \<Rightarrow> ip_network list \<Rightarrow> string list \<Rightarrow> address_family \<Rightarrow> (route_error, ip_network list) result" where
  "add_networks lib routes [] family = Inr routes"
| "add_networks lib routes (cidr # cidrs) family =
     res_bind (parse_network lib cidr family) (\<lambda>n. add_networks lib (routes @ [n]) cidrs family)"

definition networks_from_vpn_conn ::
  "net_lib \<Rightarrow> vpn_conn_response \<Rightarrow> vpn_route_mode \<Rightarrow> bool \<Rightarrow> (route_error, ip_network list) result" where
  "networks_from_vpn_conn lib conn route_mode ipv6_enabled =
     (let s = conn_setting conn;
          (v4_cidrs, v6_cidrs) = (case route_mode of
              RouteFull \<Rightarrow> (unwrap_or (st_vpn_route_full s) [], unwrap_or (st_v6_route_full s) [])
            | RouteSplit \<Rightarrow> (unwrap_or (st_vpn_route_split s) [], unwrap_or (st_v6_route_split s) []))
      in res_bind (add_networks lib [] v4_cidrs FamilyV4) (\<lambda>routes.
         if ipv6_enabled then add_networks lib routes v6_cidrs FamilyV6 else Inr routes))"

definition dns_host_routes :: "ip_addr list \<Rightarrow> bool \<Rightarrow> ip_network list" where
  "dns_host_routes servers ipv6_enabled =
     map host_network (filter (\<lambda>ip. ipv6_enabled \<or> is_ipv4 ip) servers)"

definition system_route :: "net_lib \<Rightarrow> string \<Rightarrow> ip_network \<Rightarrow> route" where
  "system_route lib interface_name network = \<lparr>rt_destination = nl_network lib network,
     rt_prefix = nw_prefix network, rt_if_name = interface_name\<rparr>"

definition system_routes :: "net_lib \<Rightarrow> string \<Rightarrow> ip_network list \<Rightarrow> route list" where
  "system_routes lib interface_name networks = map (system_route lib interface_name) networks"

section \<open>The routing table\<close>

datatype rm_reply = RmGrant | RmRefuse nat

record route_os =
  ro_table :: "route list"
  ro_script :: "rm_reply list"

definition rm_outcome :: "route_os \<Rightarrow> rm_reply \<times> route_os" where
  "rm_outcome w = (case ro_script w of [] \<Rightarrow> (RmGrant, w) | x # xs \<Rightarrow> (x, w\<lparr>ro_script := xs\<rparr>))"

definition rm_new :: "(route_os, route_error, unit) io" where
  "rm_new w = (case rm_outcome w of (RmRefuse n, w') \<Rightarrow> (Inl RouteManagerFailed, w') | (RmGrant, w') \<Rightarrow> (Inr (), w'))"

definition rm_add :: "route \<Rightarrow> (route_os, rm_error, unit) io" where
  "rm_add r w = (case rm_outcome w of
      (RmRefuse n, w') \<Rightarrow> (Inl (RmOther n), w')
    | (RmGrant, w') \<Rightarrow> if r \<in> set (ro_table w') then (Inl AlreadyExists, w')
                      else (Inr (), w'\<lparr>ro_table := r # ro_table w'\<rparr>))"

definition rm_delete :: "route \<Rightarrow> (route_os, rm_error, unit) io" where
  "rm_delete r w = (case rm_outcome w of
      (RmRefuse n, w') \<Rightarrow> (Inl (RmOther n), w')
    | (RmGrant, w') \<Rightarrow> if r \<in> set (ro_table w') then (Inr (), w'\<lparr>ro_table := filter (\<lambda>x. x \<noteq> r) (ro_table w')\<rparr>)
                      else (Inl RouteMissing, w'))"

record applied_routes =
  ar_interface_name :: string
  ar_routes :: "route list"

text \<open>\<open>rollback_added_routes\<close>: in reverse order, a failing deletion is logged and skipped.\<close>

definition rollback_added_routes :: "route list \<Rightarrow> route_os \<Rightarrow> route_os" where
  "rollback_added_routes routes w = fold (\<lambda>r w. snd (rm_delete r w)) (rev routes) w"

fun apply_loop :: "route list \<Rightarrow> route list \<Rightarrow> (route_os, route_error, route list) io" where
  "apply_loop [] added w = (Inr added, w)"
| "apply_loop (r # rs) added w = (case rm_add r w of
      (Inr _, w') \<Rightarrow> apply_loop rs (added @ [r]) w'
    | (Inl AlreadyExists, w') \<Rightarrow> apply_loop rs added w'
    | (Inl e, w') \<Rightarrow> (Inl (AddRouteFailed r e), rollback_added_routes added w'))"

definition apply_routes :: "net_lib \<Rightarrow> string \<Rightarrow> ip_network list \<Rightarrow> (route_os, route_error, applied_routes) io" where
  "apply_routes lib interface_name networks =
     io_bind rm_new (\<lambda>_.
     io_bind (apply_loop (system_routes lib interface_name networks) []) (\<lambda>added.
     io_return \<lparr>ar_interface_name = interface_name, ar_routes = added\<rparr>))"

fun delete_loop :: "route list \<Rightarrow> (route_os, route_error, unit) io" where
  "delete_loop [] w = (Inr (), w)"
| "delete_loop (r # rs) w = (case rm_delete r w of
      (Inr _, w') \<Rightarrow> delete_loop rs w'
    | (Inl e, w') \<Rightarrow> (Inl (DeleteRouteFailed r e), w'))"

definition remove_routes :: "applied_routes \<Rightarrow> (route_os, route_error, unit) io" where
  "remove_routes a = io_bind rm_new (\<lambda>_. delete_loop (rev (ar_routes a)))"

section \<open>Selection\<close>

lemma add_networks_spec:
  "add_networks lib routes cidrs family = Inr ns \<longleftrightarrow>
     (\<exists>new. ns = routes @ new \<and> list_all2 (\<lambda>c n. nl_parse lib c = Some n
        \<and> (if family = FamilyV4 then nw_is_ipv4 n else nw_is_ipv6 n)) cidrs new)"
proof (induction lib routes cidrs family rule: add_networks.induct)
  case (1 lib routes family)
  then show ?case by auto
next
  case (2 lib routes cidr cidrs family)
  have step: "parse_network lib cidr family = Inr n \<longleftrightarrow> nl_parse lib cidr = Some n
      \<and> (if family = FamilyV4 then nw_is_ipv4 n else nw_is_ipv6 n)" for n
    by (cases family) (auto simp: parse_network_def res_bind_eq_Inr ok_or_eq_Inr)
  have "add_networks lib routes (cidr # cidrs) family = Inr ns \<longleftrightarrow>
      (\<exists>n. parse_network lib cidr family = Inr n \<and> add_networks lib (routes @ [n]) cidrs family = Inr ns)"
    by (simp add: res_bind_eq_Inr)
  also have "\<dots> \<longleftrightarrow> (\<exists>n. nl_parse lib cidr = Some n
      \<and> (if family = FamilyV4 then nw_is_ipv4 n else nw_is_ipv6 n)
      \<and> (\<exists>new. ns = (routes @ [n]) @ new \<and> list_all2 (\<lambda>c n. nl_parse lib c = Some n
          \<and> (if family = FamilyV4 then nw_is_ipv4 n else nw_is_ipv6 n)) cidrs new))"
    using 2 step by blast
  also have "\<dots> \<longleftrightarrow> (\<exists>new. ns = routes @ new \<and> list_all2 (\<lambda>c n. nl_parse lib c = Some n
        \<and> (if family = FamilyV4 then nw_is_ipv4 n else nw_is_ipv6 n)) (cidr # cidrs) new)"
    by (auto simp: list_all2_Cons1)
  finally show ?case .
qed

lemma list_all2_set: "list_all2 P xs ys \<Longrightarrow> y \<in> set ys \<Longrightarrow> \<exists>x. P x y"
  by (metis in_set_conv_nth list_all2_conv_all_nth)

text \<open>The families never mix.  When the selection succeeds it holds exactly the parsed lists of the
  requested mode, IPv4 first; no IPv6 network is routed unless the tunnel has an IPv6 address.\<close>

theorem networks_selected:
  assumes "networks_from_vpn_conn lib conn mode ipv6_enabled = Inr ns"
  defines "s \<equiv> conn_setting conn"
  defines "v4 \<equiv> unwrap_or (if mode = RouteFull then st_vpn_route_full s else st_vpn_route_split s) []"
    and "v6 \<equiv> unwrap_or (if mode = RouteFull then st_v6_route_full s else st_v6_route_split s) []"
  shows "map Some ns = map (nl_parse lib) (v4 @ (if ipv6_enabled then v6 else []))
    \<and> filter nw_is_ipv4 ns = take (length v4) ns
    \<and> (ipv6_enabled \<or> list_all nw_is_ipv4 ns)"
proof -
  have fam: "nw_is_ipv6 n \<longleftrightarrow> \<not> nw_is_ipv4 n" for n
    by (simp add: nw_is_ipv4_def nw_is_ipv6_def split: ip_addr.split)
  obtain ns4 where four: "add_networks lib [] v4 FamilyV4 = Inr ns4"
    and rest: "(if ipv6_enabled then add_networks lib ns4 v6 FamilyV6 else Inr ns4) = Inr ns"
    using assms(1) unfolding networks_from_vpn_conn_def v4_def v6_def s_def
    by (cases mode; cases ipv6_enabled) (auto simp: res_bind_eq_Inr Let_def)
  have l4: "list_all2 (\<lambda>c n. nl_parse lib c = Some n \<and> nw_is_ipv4 n) v4 ns4"
    using four by (simp add: add_networks_spec)
  obtain ns6 where l6: "list_all2 (\<lambda>c n. nl_parse lib c = Some n \<and> nw_is_ipv6 n) (if ipv6_enabled then v6 else []) ns6"
    and ns: "ns = ns4 @ ns6"
    using rest by (auto simp: add_networks_spec split: if_splits)
  have all4: "\<forall>n\<in>set ns4. nw_is_ipv4 n" and all6: "\<forall>n\<in>set ns6. \<not> nw_is_ipv4 n"
    using list_all2_set [OF l4] list_all2_set [OF l6] fam by blast+
  have "map Some ns4 = map (nl_parse lib) v4"
    "map Some ns6 = map (nl_parse lib) (if ipv6_enabled then v6 else [])"
    using l4 l6 by (auto simp: list_all2_conv_all_nth intro!: nth_equalityI)
  moreover have "filter nw_is_ipv4 ns = ns4" using ns all4 all6 by simp
  moreover have "length ns4 = length v4" using l4 by (simp add: list_all2_lengthD)
  moreover have "ipv6_enabled \<or> ns6 = []" using l6 by (auto split: if_splits)
  ultimately show ?thesis using ns all4 by (auto simp: list_all_iff)
qed

section \<open>Installing is transactional\<close>

text \<open>A route manager that grants every call from here on.\<close>

definition granting :: "route_os \<Rightarrow> bool" where
  "granting w \<longleftrightarrow> set (ro_script w) \<subseteq> {RmGrant}"

lemma rm_outcome_frame: "rm_outcome w = (x, w') \<Longrightarrow> ro_table w' = ro_table w"
  by (auto simp: rm_outcome_def split: list.splits)

lemma rm_outcome_granting: "granting w \<Longrightarrow> rm_outcome w = (x, w') \<Longrightarrow> x = RmGrant \<and> granting w'"
  by (auto simp: rm_outcome_def granting_def split: list.splits)

lemma rm_outcome_grants: "granting w \<Longrightarrow> \<exists>w'. rm_outcome w = (RmGrant, w') \<and> granting w' \<and> ro_table w' = ro_table w"
  by (metis rm_outcome_frame rm_outcome_granting surj_pair)

lemma rm_delete_table:
  "set (ro_table (snd (rm_delete r w))) = set (ro_table w) - {r} \<or>
   ro_table (snd (rm_delete r w)) = ro_table w"
  by (auto simp: rm_delete_def dest: rm_outcome_frame split: prod.splits rm_reply.splits)

lemma rm_delete_granting:
  "granting w \<Longrightarrow> set (ro_table (snd (rm_delete r w))) = set (ro_table w) - {r} \<and> granting (snd (rm_delete r w))"
proof -
  assume "granting w"
  then obtain w' where "rm_outcome w = (RmGrant, w')" "granting w'" "ro_table w' = ro_table w"
    using rm_outcome_grants by blast
  then show ?thesis
    by (cases "r \<in> set (ro_table w)") (auto simp: rm_delete_def granting_def)
qed

lemma rollback_table:
  "set (ro_table (rollback_added_routes rs w)) \<subseteq> set (ro_table w)
   \<and> set (ro_table w) - set rs \<subseteq> set (ro_table (rollback_added_routes rs w))"
proof -
  have "set (ro_table (fold (\<lambda>r w. snd (rm_delete r w)) rs w)) \<subseteq> set (ro_table w)
      \<and> set (ro_table w) - set rs \<subseteq> set (ro_table (fold (\<lambda>r w. snd (rm_delete r w)) rs w))" for rs w
  proof (induction rs arbitrary: w)
    case (Cons r rs)
    from Cons [of "snd (rm_delete r w)"] rm_delete_table [of r w] show ?case by auto
  qed simp
  from this [of "rev rs"] show ?thesis by (simp add: rollback_added_routes_def)
qed

lemma rollback_granting:
  assumes "granting w"
  shows "set (ro_table (rollback_added_routes rs w)) = set (ro_table w) - set rs"
proof -
  have "granting w \<Longrightarrow> set (ro_table (fold (\<lambda>r w. snd (rm_delete r w)) rs w)) = set (ro_table w) - set rs" for rs w
  proof (induction rs arbitrary: w)
    case (Cons r rs)
    then show ?case using rm_delete_granting [of w r] by auto
  qed simp
  from this [OF assms, of "rev rs"] show ?thesis by (simp add: rollback_added_routes_def)
qed

lemma rm_add_cases:
  assumes "rm_add r w = (x, w')"
  obtains "x = Inr ()" "r \<notin> set (ro_table w)" "set (ro_table w') = insert r (set (ro_table w))"
  | "x = Inl AlreadyExists" "r \<in> set (ro_table w)" "ro_table w' = ro_table w"
  | n where "x = Inl (RmOther n)" "ro_table w' = ro_table w"
  using assms
  by (auto simp: rm_add_def dest!: rm_outcome_frame split: prod.splits rm_reply.splits if_splits)

lemma apply_loop_spec:
  assumes "apply_loop rs added w = (res, w')" "set added \<subseteq> set (ro_table w)"
  shows "(\<forall>out. res = Inr out \<longrightarrow> (\<exists>new. out = added @ new \<and> set new = set rs - set (ro_table w)
            \<and> set (ro_table w') = set (ro_table w) \<union> set rs))
    \<and> (\<forall>e. res = Inl e \<longrightarrow> set (ro_table w) - set added \<subseteq> set (ro_table w')
            \<and> set (ro_table w') \<subseteq> set (ro_table w) \<union> set rs)"
  using assms
proof (induction rs added w rule: apply_loop.induct)
  case (1 added w)
  then show ?case by auto
next
  case (2 r rs added w)
  obtain x w1 where a: "rm_add r w = (x, w1)" by fastforce
  from a show ?case
  proof (rule rm_add_cases)
    assume x: "x = Inr ()" "r \<notin> set (ro_table w)" "set (ro_table w1) = insert r (set (ro_table w))"
    have run: "apply_loop rs (added @ [r]) w1 = (res, w')" using 2(3) a x by simp
    have "set (added @ [r]) \<subseteq> set (ro_table w1)" using 2(4) x by auto
    from 2(2) [OF a [symmetric] x(1) run this] x show ?case by fastforce
  next
    assume x: "x = Inl AlreadyExists" "r \<in> set (ro_table w)" "ro_table w1 = ro_table w"
    have run: "apply_loop rs added w1 = (res, w')" using 2(3) a x by simp
    from 2(1) [OF a [symmetric] x(1) refl run] 2(4) x show ?case by fastforce
  next
    fix n assume x: "x = Inl (RmOther n)" "ro_table w1 = ro_table w"
    then have "res = Inl (AddRouteFailed r (RmOther n))" "w' = rollback_added_routes added w1"
      using 2(3) a by auto
    then show ?case using rollback_table [of added w1] x by auto
  qed
qed

text \<open>A script with at most one refusal.\<close>

definition one_refusal :: "route_os \<Rightarrow> bool" where
  "one_refusal w \<longleftrightarrow> (\<exists>n gs hs. ro_script w = gs @ RmRefuse n # hs \<and> set gs \<subseteq> {RmGrant} \<and> set hs \<subseteq> {RmGrant})"

lemma rm_outcome_one_refusal:
  assumes "rm_outcome w = (x, w')" "one_refusal w"
  shows "ro_table w' = ro_table w \<and> ((x = RmGrant \<and> one_refusal w') \<or> (x \<noteq> RmGrant \<and> granting w'))"
proof -
  obtain n gs hs where s: "ro_script w = gs @ RmRefuse n # hs" "set gs \<subseteq> {RmGrant}" "set hs \<subseteq> {RmGrant}"
    using assms(2) by (auto simp: one_refusal_def)
  show ?thesis
  proof (cases gs)
    case Nil
    then show ?thesis using assms(1) s by (auto simp: rm_outcome_def granting_def)
  next
    case (Cons g gs')
    then have "x = RmGrant" "w' = w\<lparr>ro_script := gs' @ RmRefuse n # hs\<rparr>"
      using assms(1) s by (auto simp: rm_outcome_def)
    then show ?thesis using s Cons by (auto simp: one_refusal_def)
  qed
qed

lemma rm_add_table_upd [simp]: "one_refusal (w\<lparr>ro_table := t\<rparr>) = one_refusal w"
  by (simp add: one_refusal_def)

lemma apply_loop_one_refusal:
  "apply_loop rs added w = (Inl e, w') \<Longrightarrow> one_refusal w \<Longrightarrow> set added \<subseteq> set (ro_table w) \<Longrightarrow>
   set (ro_table w') = set (ro_table w) - set added"
proof (induction rs added w rule: apply_loop.induct)
  case (2 r rs added w)
  obtain x w1 where a: "rm_add r w = (x, w1)" by fastforce
  obtain o1 w0 where o: "rm_outcome w = (o1, w0)" by fastforce
  note o' = rm_outcome_one_refusal [OF o 2(4)]
  from a show ?case
  proof (rule rm_add_cases)
    assume x: "x = Inr ()" "r \<notin> set (ro_table w)" "set (ro_table w1) = insert r (set (ro_table w))"
    have "one_refusal w1" using a o o' x(1)
      by (auto simp: rm_add_def split: rm_reply.splits if_splits)
    moreover have "apply_loop rs (added @ [r]) w1 = (Inl e, w')" using 2(3) a x by simp
    moreover have "set (added @ [r]) \<subseteq> set (ro_table w1)" using 2(5) x by auto
    ultimately have "set (ro_table w') = set (ro_table w1) - set (added @ [r])"
      using 2(2) [OF a [symmetric] x(1)] by blast
    then show ?case using x by auto
  next
    assume x: "x = Inl AlreadyExists" "r \<in> set (ro_table w)" "ro_table w1 = ro_table w"
    have "one_refusal w1" using a o o' x(1)
      by (auto simp: rm_add_def split: rm_reply.splits if_splits)
    moreover have "apply_loop rs added w1 = (Inl e, w')" using 2(3) a x by simp
    ultimately show ?case using 2(1) [OF a [symmetric] x(1) refl] 2(5) x by simp
  next
    fix n assume x: "x = Inl (RmOther n)" "ro_table w1 = ro_table w"
    have "granting w1" using a o o' x(1)
      by (auto simp: rm_add_def split: rm_reply.splits if_splits)
    moreover have "w' = rollback_added_routes added w1" using 2(3) a x by simp
    ultimately show ?case using rollback_granting x by simp
  qed
qed simp

lemma delete_loop_granting:
  "granting w \<Longrightarrow> set rs \<subseteq> set (ro_table w) \<Longrightarrow> distinct rs \<Longrightarrow>
   \<exists>w'. delete_loop rs w = (Inr (), w') \<and> set (ro_table w') = set (ro_table w) - set rs"
proof (induction rs arbitrary: w)
  case (Cons r rs)
  obtain w1 where o1: "rm_outcome w = (RmGrant, w1)" "granting w1" "ro_table w1 = ro_table w"
    using rm_outcome_grants [OF Cons(2)] by blast
  then have d: "rm_delete r w = (Inr (), w1\<lparr>ro_table := filter (\<lambda>x. x \<noteq> r) (ro_table w)\<rparr>)"
    using Cons(3) by (simp add: rm_delete_def)
  have "\<exists>w'. delete_loop rs (w1\<lparr>ro_table := filter (\<lambda>x. x \<noteq> r) (ro_table w)\<rparr>) = (Inr (), w')
      \<and> set (ro_table w') = set (ro_table w) - {r} - set rs"
    using Cons.IH [of "w1\<lparr>ro_table := filter (\<lambda>x. x \<noteq> r) (ro_table w)\<rparr>"] Cons(3,4) o1
    by (auto simp: granting_def set_diff_eq)
  then show ?case using d by auto
qed simp

lemma apply_loop_distinct:
  "apply_loop rs added w = (Inr out, w') \<Longrightarrow> distinct added \<Longrightarrow> set added \<subseteq> set (ro_table w) \<Longrightarrow> distinct out"
proof (induction rs added w rule: apply_loop.induct)
  case (2 r rs added w)
  obtain x w1 where a: "rm_add r w = (x, w1)" by fastforce
  from a show ?case
    by (rule rm_add_cases) (use 2 a in auto)
qed simp

lemma apply_routes_spec:
  assumes "apply_routes lib iface networks w = (res, w1)"
  shows "(\<forall>applied. res = Inr applied \<longrightarrow>
      set (ro_table w1) = set (ro_table w) \<union> set (system_routes lib iface networks)
      \<and> set (ar_routes applied) = set (system_routes lib iface networks) - set (ro_table w)
      \<and> (granting w1 \<longrightarrow> (\<exists>w2. remove_routes applied w1 = (Inr (), w2) \<and> set (ro_table w2) = set (ro_table w))))
    \<and> (\<forall>e. res = Inl e \<longrightarrow> set (ro_table w) \<subseteq> set (ro_table w1)
      \<and> set (ro_table w1) \<subseteq> set (ro_table w) \<union> set (system_routes lib iface networks)
      \<and> (one_refusal w \<longrightarrow> set (ro_table w1) = set (ro_table w)))"
  using assms unfolding apply_routes_def
proof (elim io_bind_cases)
  fix e assume "rm_new w = (Inl e, w1)" "res = Inl e"
  then show ?thesis
    by (auto simp: rm_new_def dest!: rm_outcome_frame split: prod.splits rm_reply.splits)
next
  fix u w0 e assume n: "rm_new w = (Inr u, w0)"
    and a: "apply_loop (system_routes lib iface networks) [] w0 = (Inl e, w1)" "res = Inl e"
  have t: "ro_table w0 = ro_table w"
    using n by (auto simp: rm_new_def dest!: rm_outcome_frame split: prod.splits rm_reply.splits)
  have "one_refusal w \<Longrightarrow> one_refusal w0"
    using n rm_outcome_one_refusal [of w] by (auto simp: rm_new_def split: prod.splits rm_reply.splits)
  then show ?thesis using apply_loop_spec [OF a(1)] apply_loop_one_refusal [OF a(1)] t a(2) by auto
next
  fix u w0 added w1' assume n: "rm_new w = (Inr u, w0)"
    and a: "apply_loop (system_routes lib iface networks) [] w0 = (Inr added, w1')"
    and r: "io_return \<lparr>ar_interface_name = iface, ar_routes = added\<rparr> w1' = (res, w1)"
  have t: "ro_table w0 = ro_table w"
    using n by (auto simp: rm_new_def dest!: rm_outcome_frame split: prod.splits rm_reply.splits)
  have added: "set added = set (system_routes lib iface networks) - set (ro_table w)"
    and table: "set (ro_table w1) = set (ro_table w) \<union> set (system_routes lib iface networks)"
    using apply_loop_spec [OF a] t r by auto
  have dist: "distinct added" using apply_loop_distinct [OF a] by simp
  have undo: "\<exists>w2. remove_routes \<lparr>ar_interface_name = iface, ar_routes = added\<rparr> w1 = (Inr (), w2)
      \<and> set (ro_table w2) = set (ro_table w)" if g: "granting w1"
  proof -
    obtain w1a where w1a: "rm_outcome w1 = (RmGrant, w1a)" "granting w1a" "ro_table w1a = ro_table w1"
      using rm_outcome_grants [OF g] by blast
    obtain w2 where "delete_loop (rev added) w1a = (Inr (), w2)"
      "set (ro_table w2) = set (ro_table w1a) - set added"
      using delete_loop_granting [OF w1a(2), of "rev added"] added table w1a(3) dist by auto
    then show ?thesis using w1a added table
      by (auto simp: remove_routes_def io_bind_def rm_new_def)
  qed
  show ?thesis using r added table undo by auto
qed

lemma rm_new_granting: "granting w \<Longrightarrow> rm_new w = (r, w') \<Longrightarrow> r = Inr () \<and> granting w' \<and> ro_table w' = ro_table w"
  by (auto simp: rm_new_def dest: rm_outcome_granting rm_outcome_frame split: prod.splits rm_reply.splits)

lemma rm_add_granting: "granting w \<Longrightarrow> rm_add r w = (x, w') \<Longrightarrow> (x = Inr () \<or> x = Inl AlreadyExists) \<and> granting w'"
  using rm_outcome_grants [of w] by (auto simp: rm_add_def granting_def subset_iff split: if_splits)

lemma apply_loop_granting:
  "apply_loop rs added w = (x, w') \<Longrightarrow> granting w \<Longrightarrow> (\<exists>out. x = Inr out) \<and> granting w'"
proof (induction rs added w rule: apply_loop.induct)
  case (2 r rs added w)
  obtain y w1 where a: "rm_add r w = (y, w1)" by fastforce
  from rm_add_granting [OF 2(4) a] have g: "granting w1" and y: "y = Inr () \<or> y = Inl AlreadyExists" by auto
  from y show ?case
  proof
    assume y: "y = Inr ()"
    then have "apply_loop rs (added @ [r]) w1 = (x, w')" using 2(3) a by simp
    from 2(2) [OF a [symmetric] y this g] show ?case .
  next
    assume y: "y = Inl AlreadyExists"
    then have "apply_loop rs added w1 = (x, w')" using 2(3) a by simp
    from 2(1) [OF a [symmetric] y refl this g] show ?case .
  qed
qed auto

lemma apply_routes_granting:
  assumes g: "granting w" and run: "apply_routes lib iface networks w = (x, w')"
  shows "(\<exists>out. x = Inr out) \<and> granting w'"
proof -
  obtain u w0 where n: "rm_new w = (u, w0)" by fastforce
  from rm_new_granting [OF g n] have u: "u = Inr ()" "granting w0" by auto
  obtain y w1 where a: "apply_loop (system_routes lib iface networks) [] w0 = (y, w1)" by fastforce
  from apply_loop_granting [OF a u(2)] obtain out where "y = Inr out" "granting w1" by auto
  then show ?thesis using run n u a by (auto simp: apply_routes_def io_bind_def io_return_def)
qed


definition sample_lib :: net_lib where
  "sample_lib = \<lparr>nl_parse = (\<lambda>s. map_option host_network (parse_ip s)), nl_network = nw_ip\<rparr>"

definition sample_table :: route_os where
  "sample_table = \<lparr>ro_table = [\<lparr>rt_destination = V4 1, rt_prefix = 32, rt_if_name = ''wg0''\<rparr>], ro_script = []\<rparr>"


definition route_conn :: vpn_conn_response where
  "route_conn = \<lparr>conn_ip = ''10.0.0.2'', conn_ipv6 = None, conn_ip_mask = None, conn_public_key = [],
     conn_preshared_key = None, conn_sign_token = None, conn_protocol_version = None,
     conn_setting = \<lparr>st_vpn_mtu = 1360, st_vpn_dns = None, st_vpn_dns_backup = None,
       st_vpn_dns_domain_split = None, st_vpn_route_full = Some [''10.0.0.1''], st_vpn_route_split = None,
       st_v6_route_full = Some [''::1''], st_v6_route_split = None,
       st_vpn_dynamic_domain_route_split = None, st_v6_vpn_dynamic_domain_route_split = None,
       st_vpn_wildcard_dynamic_domain_route_split = None, st_suffix_wildcard_dynamic_domain_route_split = None,
       st_dynamic_domain = None, st_central_dns = None, st_ip_nats = None\<rparr>, conn_raw = None\<rparr>"

theorem networks_selected_witness:
  "\<exists>ns. networks_from_vpn_conn (sample_lib\<lparr>nl_parse := (\<lambda>s. Some (host_network (V4 7)))\<rparr>) route_conn RouteFull False = Inr ns
     \<and> filter nw_is_ipv4 ns = take 1 ns"
proof -
  obtain ns where run: "networks_from_vpn_conn (sample_lib\<lparr>nl_parse := (\<lambda>s. Some (host_network (V4 7)))\<rparr>)
      route_conn RouteFull False = Inr ns"
    by (simp add: networks_from_vpn_conn_def route_conn_def parse_network_def nw_is_ipv4_def host_network_def)
  from networks_selected [OF run] run show ?thesis
    by (auto simp: route_conn_def)
qed

end
