(* ===== verification/Reconnect.thy ===== *)
theory Reconnect
  imports Prelude
begin

text \<open>
  The reconnect policy (\<open>src/crates/tunnel/src/reconnect.rs\<close>): an attempt counter
  with saturating increments, exponential back-off clamped to a maximum, a switch
  to another node after some attempts, and a stop after the last one.
\<close>

section \<open>Policy and controller\<close>

datatype reconnect_event =
    HandshakeTimeout | IdleTimeout | ServerKickOutEvent | NetworkChanged | TransportFailed

datatype reconnect_decision =
    Retry duration u32
  | SwitchNode duration u32
  | Stop

record reconnect_policy =
  max_attempts :: u32
  base_delay :: duration
  max_delay :: duration
  switch_node_after :: u32

record reconnect_controller =
  rc_policy :: reconnect_policy
  rc_attempts :: u32

definition android_compatible_default :: reconnect_policy where
  "android_compatible_default = \<lparr>max_attempts = 8, base_delay = from_secs 2,
     max_delay = from_mins 1, switch_node_after = 3\<rparr>"

definition controller_new :: "reconnect_policy \<Rightarrow> reconnect_controller" where
  "controller_new p = \<lparr>rc_policy = p, rc_attempts = 0\<rparr>"

text \<open>\<open>u32::saturating_pow\<close> at base 2.\<close>

definition saturating_pow2 :: "u32 \<Rightarrow> u32" where
  "saturating_pow2 e = (if unat e < 32 then 2 ^ unat e else - 1)"

definition delay_for_attempt :: "reconnect_controller \<Rightarrow> u32 \<Rightarrow> duration" where
  "delay_for_attempt c attempt =
     (let exponent = min (saturating_sub attempt 1) 5;
          factor = saturating_pow2 exponent
      in min (duration_saturating_mul (base_delay (rc_policy c)) factor) (max_delay (rc_policy c)))"

definition record_event ::
  "reconnect_event \<Rightarrow> reconnect_controller \<Rightarrow> reconnect_decision \<times> reconnect_controller" where
  "record_event event c =
     (let c = c\<lparr>rc_attempts := saturating_add (rc_attempts c) 1\<rparr> in
      if rc_attempts c > max_attempts (rc_policy c) then (Stop, c)
      else (let delay = delay_for_attempt c (rc_attempts c) in
            if event = ServerKickOutEvent \<or> rc_attempts c \<ge> switch_node_after (rc_policy c)
            then (SwitchNode delay (rc_attempts c), c)
            else (Retry delay (rc_attempts c), c)))"

definition controller_reset :: "reconnect_controller \<Rightarrow> reconnect_controller" where
  "controller_reset c = c\<lparr>rc_attempts := 0\<rparr>"

section \<open>Back-off\<close>

definition decision_delay :: "reconnect_decision \<Rightarrow> duration option" where
  "decision_delay d = (case d of Retry t _ \<Rightarrow> Some t | SwitchNode t _ \<Rightarrow> Some t | Stop \<Rightarrow> None)"

definition decision_attempt :: "reconnect_decision \<Rightarrow> u32 option" where
  "decision_attempt d = (case d of Retry _ k \<Rightarrow> Some k | SwitchNode _ k \<Rightarrow> Some k | Stop \<Rightarrow> None)"

lemma unat_min_word: "unat (min a b) = min (unat a) (unat b)" for a b :: "'a::len word"
  by (simp add: min_def word_le_nat_alt)

lemma unat_pow2_word: "n < 32 \<Longrightarrow> unat ((2 :: u32) ^ n) = 2 ^ n"
proof -
  assume n: "n < 32"
  have "(2 :: u32) ^ n = of_nat (2 ^ n)" by simp
  moreover have "take_bit 32 (2 ^ n :: nat) = 2 ^ n"
    using n by (simp add: take_bit_nat_eq_self_iff)
  ultimately show ?thesis by (simp only: unsigned_of_nat) simp
qed

lemma delay_for_attempt_eq:
  "delay_for_attempt c k = min (min (base_delay (rc_policy c) * 2 ^ min (unat k - 1) 5) duration_max)
     (max_delay (rc_policy c))"
proof -
  have e: "unat (min (saturating_sub k 1) 5) = min (unat k - 1) 5"
    by (simp add: unat_min_word unat_saturating_sub)
  have "unat (saturating_pow2 (min (saturating_sub k 1) 5)) = 2 ^ min (unat k - 1) 5"
    using unat_pow2_word [of "min (unat k - 1) 5"] by (simp add: saturating_pow2_def e min_less_iff_disj)
  then show ?thesis
    by (simp add: delay_for_attempt_def Let_def duration_saturating_mul_min)
qed

lemma record_event_attempts:
  "rc_attempts (snd (record_event ev c)) = saturating_add (rc_attempts c) 1"
  "rc_policy (snd (record_event ev c)) = rc_policy c"
  by (simp_all add: record_event_def Let_def)

lemma unat_succ_attempts:
  assumes "unat (a :: u32) < 2 ^ 32 - 1" shows "unat (saturating_add a 1) = unat a + 1"
  using assms by (simp add: unat_saturating_add)

text \<open>C22: one call of \<open>record\<close>, on every branch.  With \<open>k\<close> the incremented counter: past the
  limit the answer is \<open>Stop\<close>; otherwise the delay is the base delay doubled per previous attempt (at
  most five times), clamped to the maximum delay, the attempt number is \<open>k\<close>, and the node is
  switched exactly on a kick-out or from the configured attempt on.  The counter never exceeds its
  width.\<close>

theorem record_event_spec:
  assumes k: "k = min (unat (rc_attempts c) + 1) (2 ^ 32 - 1)"
  shows "unat (rc_attempts (snd (record_event ev c))) = k
    \<and> fst (record_event ev c) =
      (if k > unat (max_attempts (rc_policy c)) then Stop
       else let d = min (min (base_delay (rc_policy c) * 2 ^ min (k - 1) 5) duration_max)
                       (max_delay (rc_policy c))
            in if ev = ServerKickOutEvent \<or> unat (switch_node_after (rc_policy c)) \<le> k
               then SwitchNode d (of_nat k) else Retry d (of_nat k))"
proof -
  let ?a = "saturating_add (rc_attempts c) 1"
  have a: "unat ?a = k" by (simp add: k unat_saturating_add)
  then have ak: "?a = of_nat k" by (simp flip: a)
  have gt: "?a > max_attempts (rc_policy c) \<longleftrightarrow> k > unat (max_attempts (rc_policy c))"
    by (simp add: word_less_nat_alt a)
  have ge: "?a \<ge> switch_node_after (rc_policy c) \<longleftrightarrow> unat (switch_node_after (rc_policy c)) \<le> k"
    by (simp add: word_le_nat_alt a)
  show ?thesis
    using a gt ge by (simp add: record_event_def Let_def delay_for_attempt_eq ak)
qed

theorem record_event_spec_witness:
  "fst (record_event TransportFailed (controller_new android_compatible_default)) = Retry (from_secs 2) 1"
  using record_event_spec [of 1 "controller_new android_compatible_default" TransportFailed]
  by (simp add: controller_new_def android_compatible_default_def from_secs_def from_mins_def
      duration_max_def)

section \<open>A run of failures\<close>

text \<open>The decisions for a sequence of events with no reset in between.\<close>

fun record_all :: "reconnect_event list \<Rightarrow> reconnect_controller \<Rightarrow> reconnect_decision list" where
  "record_all [] c = []"
| "record_all (e # es) c = (let (d, c') = record_event e c in d # record_all es c')"

lemma length_record_all [simp]: "length (record_all es c) = length es"
  by (induction es arbitrary: c) (simp_all add: Let_def split: prod.splits)

lemma record_all_nth:
  assumes "i < length es" "unat (rc_attempts c) + length es < 2 ^ 32"
  shows "record_all es c ! i = Stop \<longleftrightarrow>
    unat (rc_attempts c) + i + 1 > unat (max_attempts (rc_policy c))"
  using assms
proof (induction es arbitrary: c i)
  case (Cons e es)
  obtain d c' where r: "record_event e c = (d, c')" by (cases "record_event e c")
  have c': "unat (rc_attempts c') = unat (rc_attempts c) + 1" "rc_policy c' = rc_policy c"
    using record_event_attempts [of e c] Cons.prems r
    by (simp_all add: unat_saturating_add)
  have d: "d = Stop \<longleftrightarrow> unat (rc_attempts c) + 1 > unat (max_attempts (rc_policy c))"
    using record_event_spec [OF refl, of e c] Cons.prems r by (auto simp: Let_def)
  show ?case
    using Cons.IH [of "i - 1" c'] Cons.prems d by (cases i) (simp_all add: r c')
qed simp

text \<open>A run of failures is retried exactly \<open>max_attempts\<close> times.  From a fresh or reset
  controller the first \<open>max_attempts\<close> failures are each answered by a retry or a node switch, and
  every later one by \<open>Stop\<close>.\<close>

theorem record_all_stops_after_max:
  assumes "rc_attempts c = 0" "i < length es" "length es < 2 ^ 32"
  shows "record_all es c ! i = Stop \<longleftrightarrow> unat (max_attempts (rc_policy c)) \<le> i"
  using record_all_nth [of i es c] assms by auto

theorem record_all_stops_after_max_witness:
  "record_all (replicate 9 TransportFailed) (controller_new android_compatible_default) ! 8 = Stop
   \<and> record_all (replicate 9 TransportFailed) (controller_new android_compatible_default) ! 7 \<noteq> Stop"
  using record_all_stops_after_max [of "controller_new android_compatible_default" 8 "replicate 9 TransportFailed"]
    record_all_stops_after_max [of "controller_new android_compatible_default" 7 "replicate 9 TransportFailed"]
  by (simp add: controller_new_def android_compatible_default_def)

lemma record_event_not_stop_le:
  assumes "fst (record_event ev c) \<noteq> Stop"
  shows "unat (rc_attempts (snd (record_event ev c))) \<le> unat (max_attempts (rc_policy c))"
proof (rule ccontr)
  assume "\<not> ?thesis"
  with record_event_spec [OF refl, of ev c] have "fst (record_event ev c) = Stop" by simp
  with assms show False by simp
qed

lemma record_event_delay_le:
  "decision_delay (fst (record_event ev c)) = Some d \<Longrightarrow> d \<le> max_delay (rc_policy c)"
  by (auto simp: record_event_def Let_def decision_delay_def delay_for_attempt_def split: if_splits)

end
