(* ===== verification/Supervisor.thy ===== *)
theory Supervisor
  imports Reconnect Outbound
begin

text \<open>
  The tunnel supervisor (\<open>src/crates/daemon/src/supervisor.rs\<close>).

  The \<open>select!\<close> loop handles one event at a time, in whatever order they become
  ready, so a run is a list of events and the loop returns at the first one that
  decides.  An event carries what the handler reads: the age of the last probe
  reply, the session's age, the pinned interface's presence, a network snapshot,
  the answer of the report call.
\<close>

definition LIVENESS_POLL :: duration where "LIVENESS_POLL = from_secs 3"
definition NETWORK_POLL :: duration where "NETWORK_POLL = from_secs 5"
definition REPORT_INTERVAL :: duration where "REPORT_INTERVAL = from_mins 1"
definition CONNECT_TIMEOUT :: duration where "CONNECT_TIMEOUT = from_secs 15"
definition LIVENESS_TIMEOUT :: duration where "LIVENESS_TIMEOUT = from_secs 30"

datatype supervisor_outcome =
    Trigger reconnect_event bool
  | ServerKickOut bool
  | Cancelled

datatype liveness_state = Healthy | LivenessConnectTimeout | Stalled

definition liveness_status :: "duration option \<Rightarrow> duration \<Rightarrow> liveness_state" where
  "liveness_status probe_age session_age = (case probe_age of
      None \<Rightarrow> if session_age > CONNECT_TIMEOUT then LivenessConnectTimeout else Healthy
    | Some age \<Rightarrow> if age > LIVENESS_TIMEOUT then Stalled else Healthy)"

text \<open>A snapshot read is \<open>None\<close> when the capture failed; the presence of the pinned
  interface is \<open>None\<close> when it could not be read.\<close>

datatype supervisor_event =
    CancelRequested
  | DeviceStopped "duration option"
  | LivenessTick "duration option" duration
  | NetworkTick "duration option" "bool option" "network_snapshot option"
  | ReportTick bool "duration option"

definition supervise_step ::
  "string option \<Rightarrow> network_snapshot \<Rightarrow> supervisor_event \<Rightarrow> supervisor_outcome option" where
  "supervise_step outbound last_net ev = (case ev of
      CancelRequested \<Rightarrow> Some Cancelled
    | DeviceStopped probe_age \<Rightarrow> Some (Trigger TransportFailed (probe_age \<noteq> None))
    | LivenessTick probe_age session_age \<Rightarrow>
        if liveness_status probe_age session_age \<noteq> Healthy
        then Some (Trigger HandshakeTimeout (probe_age \<noteq> None)) else None
    | NetworkTick probe_age present snapshot \<Rightarrow>
        (case outbound of
           Some name \<Rightarrow> if \<not> unwrap_or present False
             then Some (Trigger NetworkChanged (probe_age \<noteq> None)) else None
         | None \<Rightarrow> (case snapshot of
             None \<Rightarrow> None
           | Some now \<Rightarrow> if now \<noteq> last_net
               then Some (Trigger NetworkChanged (probe_age \<noteq> None)) else None))
    | ReportTick kicked probe_age \<Rightarrow>
        if kicked then Some (ServerKickOut (probe_age \<noteq> None)) else None)"

text \<open>\<open>run\<close>: the initial snapshot defaults to the empty one when its capture failed.\<close>

definition supervise ::
  "string option \<Rightarrow> network_snapshot option \<Rightarrow> supervisor_event list \<Rightarrow> supervisor_outcome option" where
  "supervise outbound initial events =
     find_map (supervise_step outbound (unwrap_or initial None)) events"

section \<open>When the supervisor stops a tunnel\<close>

text \<open>What an event must show for the tunnel to be given up.\<close>

definition event_probe :: "supervisor_event \<Rightarrow> duration option" where
  "event_probe ev = (case ev of DeviceStopped p \<Rightarrow> p | LivenessTick p _ \<Rightarrow> p
    | NetworkTick p _ _ \<Rightarrow> p | ReportTick _ p \<Rightarrow> p | CancelRequested \<Rightarrow> None)"

definition dead_evidence :: "string option \<Rightarrow> network_snapshot \<Rightarrow> supervisor_event \<Rightarrow> bool" where
  "dead_evidence outbound last_net ev = (case ev of
      CancelRequested \<Rightarrow> True
    | DeviceStopped _ \<Rightarrow> True
    | LivenessTick None age \<Rightarrow> age > from_secs 15
    | LivenessTick (Some gap) _ \<Rightarrow> gap > from_secs 30
    | NetworkTick _ present snapshot \<Rightarrow>
        (if outbound = None then snapshot \<notin> {None, Some last_net} else present \<noteq> Some True)
    | ReportTick kicked _ \<Rightarrow> kicked)"

lemma supervise_step_None:
  "supervise_step outbound last_net ev = None \<longleftrightarrow> \<not> dead_evidence outbound last_net ev"
  by (cases ev)
    (auto simp: supervise_step_def dead_evidence_def liveness_status_def CONNECT_TIMEOUT_def
      LIVENESS_TIMEOUT_def unwrap_or_def split: option.splits)

lemma supervise_step_healthy:
  "supervise_step outbound last_net ev = Some (Trigger e h) \<Longrightarrow> h = (event_probe ev \<noteq> None)"
  "supervise_step outbound last_net ev = Some (ServerKickOut h) \<Longrightarrow> h = (event_probe ev \<noteq> None)"
  by (cases ev; auto simp: supervise_step_def event_probe_def split: option.splits if_splits)+

text \<open>The supervisor gives a tunnel up exactly on evidence.  It keeps running as long as every
  event so far was harmless (a probe reply within 30 seconds, or none yet within the first 15 seconds;
  the pinned interface present, or the default network unchanged; no kick-out) and returns at the
  first event that is not; the outcome is that event's, and \<open>was_healthy\<close> says whether a probe reply
  had been received.\<close>

theorem supervise_first_evidence:
  "(supervise outbound initial es = None \<longleftrightarrow>
      (\<forall>ev \<in> set es. \<not> dead_evidence outbound (unwrap_or initial None) ev))
   \<and> (\<forall>out. supervise outbound initial es = Some out \<longrightarrow>
      (\<exists>us ev vs. es = us @ ev # vs
        \<and> (\<forall>u \<in> set us. \<not> dead_evidence outbound (unwrap_or initial None) u)
        \<and> dead_evidence outbound (unwrap_or initial None) ev
        \<and> supervise_step outbound (unwrap_or initial None) ev = Some out
        \<and> (\<forall>e h. out = Trigger e h \<longrightarrow> h = (event_probe ev \<noteq> None))))"
proof (intro conjI allI impI)
  show "supervise outbound initial es = None \<longleftrightarrow>
      (\<forall>ev \<in> set es. \<not> dead_evidence outbound (unwrap_or initial None) ev)"
    by (simp add: supervise_def find_map_eq_None supervise_step_None)
  fix out assume "supervise outbound initial es = Some out"
  then have "find_map (supervise_step outbound (unwrap_or initial None)) es = Some out"
    by (simp add: supervise_def)
  then obtain us ev vs where "es = us @ ev # vs"
    and ev: "supervise_step outbound (unwrap_or initial None) ev = Some out"
    and "\<forall>u \<in> set us. supervise_step outbound (unwrap_or initial None) u = None"
    by (rule find_map_SomeE)
  moreover have "dead_evidence outbound (unwrap_or initial None) ev"
    using ev supervise_step_None [of outbound "unwrap_or initial None" ev] by auto
  ultimately show "\<exists>us ev vs. es = us @ ev # vs
        \<and> (\<forall>u \<in> set us. \<not> dead_evidence outbound (unwrap_or initial None) u)
        \<and> dead_evidence outbound (unwrap_or initial None) ev
        \<and> supervise_step outbound (unwrap_or initial None) ev = Some out
        \<and> (\<forall>e h. out = Trigger e h \<longrightarrow> h = (event_probe ev \<noteq> None))"
    using supervise_step_healthy(1) [of outbound _ ev]
    by (rule_tac exI [of _ us], rule_tac exI [of _ ev], rule_tac exI [of _ vs])
      (auto simp: supervise_step_None)
qed

theorem supervise_first_evidence_witness:
  "supervise None (Some None) [LivenessTick None (from_secs 12), LivenessTick (Some (from_secs 3)) (from_secs 18)]
     = None"
  using supervise_first_evidence [of None "Some None"
      "[LivenessTick None (from_secs 12), LivenessTick (Some (from_secs 3)) (from_secs 18)]"]
  by (simp add: dead_evidence_def from_secs_def)

text \<open>A tunnel that never comes up is detected.  If no probe reply ever arrives, the liveness
  tick of the first multiple of the poll interval past the connect window ends the run: with the
  three-second poll, within eighteen seconds of the start.\<close>

theorem silent_tunnel_detected:
  assumes "CancelRequested \<notin> set es" "LivenessTick None (6 * LIVENESS_POLL) \<in> set es"
  shows "\<exists>out. supervise outbound initial es = Some out \<and> out \<noteq> Cancelled"
proof -
  have "dead_evidence outbound (unwrap_or initial None) (LivenessTick None (6 * LIVENESS_POLL))"
    by (simp add: dead_evidence_def LIVENESS_POLL_def from_secs_def)
  with assms(2) have "supervise outbound initial es \<noteq> None"
    by (auto simp: supervise_def find_map_eq_None supervise_step_None)
  then obtain out where out: "supervise outbound initial es = Some out" by blast
  obtain us ev vs where "es = us @ ev # vs"
    "supervise_step outbound (unwrap_or initial None) ev = Some out"
    by (rule find_map_SomeE [OF out [unfolded supervise_def]])
  with assms(1) have "out \<noteq> Cancelled"
    by (auto simp: supervise_step_def split: supervisor_event.splits option.splits if_splits)
  with out show ?thesis by blast
qed

theorem silent_tunnel_detected_witness:
  "\<exists>out. supervise None None [LivenessTick None 0, LivenessTick None (6 * LIVENESS_POLL)] = Some out
     \<and> out \<noteq> Cancelled"
  by (rule silent_tunnel_detected) simp_all

end
