(* ===== verification/Latency.thy ===== *)
theory Latency
  imports CoreVpn "HOL-Library.Multiset" "HOL-Library.Product_Lexorder"
begin

text \<open>
  Ranking of access points by measured latency
  (\<open>src/crates/daemon/src/latency.rs\<close>).

  The probes run concurrently; their results arrive as a list of join results in
  completion order, an \<open>Inl\<close> standing for a task that failed to join, which ends
  the collection loop.
\<close>

datatype ordering = Less | Equal | Greater

definition cmp_nat :: "nat \<Rightarrow> nat \<Rightarrow> ordering" where
  "cmp_nat a b = (if a < b then Less else if a = b then Equal else Greater)"

definition cmp_latency :: "duration option \<Rightarrow> duration option \<Rightarrow> ordering" where
  "cmp_latency a b = (case (a, b) of
      (Some a, Some b) \<Rightarrow> cmp_nat a b
    | (Some _, None) \<Rightarrow> Less
    | (None, Some _) \<Rightarrow> Greater
    | (None, None) \<Rightarrow> Equal)"

definition ordering_then :: "ordering \<Rightarrow> ordering \<Rightarrow> ordering" where
  "ordering_then a b = (case a of Equal \<Rightarrow> b | _ \<Rightarrow> a)"

text \<open>The reply to \<open>/vpn/ping\<close> as the timeout sees it: the round-trip time of a
  reply, a failed request, or no reply in time.\<close>

datatype ping_outcome = PingOk duration | PingFailed vpn_error | PingTimedOut

definition probe_latency :: "ping_outcome \<Rightarrow> duration option" where
  "probe_latency p = (case p of PingOk elapsed \<Rightarrow> Some elapsed | PingFailed _ \<Rightarrow> None | PingTimedOut \<Rightarrow> None)"

fun collect_latencies ::
  "(unit + nat \<times> duration option) list \<Rightarrow> duration option list \<Rightarrow> duration option list" where
  "collect_latencies [] latencies = latencies"
| "collect_latencies (Inl _ # js) latencies = latencies"
| "collect_latencies (Inr (index, rtt) # js) latencies =
     collect_latencies js (if index < length latencies then latencies[index := rtt] else latencies)"

text \<open>\<open>slice::sort_by\<close> is a stable sort; here, insertion by a three-way comparison.\<close>

fun insert_by :: "('a \<Rightarrow> 'a \<Rightarrow> ordering) \<Rightarrow> 'a \<Rightarrow> 'a list \<Rightarrow> 'a list" where
  "insert_by cmp x [] = [x]"
| "insert_by cmp x (y # ys) = (if cmp x y = Greater then y # insert_by cmp x ys else x # y # ys)"

definition sort_by :: "('a \<Rightarrow> 'a \<Rightarrow> ordering) \<Rightarrow> 'a list \<Rightarrow> 'a list" where
  "sort_by cmp xs = foldr (insert_by cmp) xs []"

definition rank_compare :: "duration option list \<Rightarrow> nat \<times> 'a \<Rightarrow> nat \<times> 'a \<Rightarrow> ordering" where
  "rank_compare latencies p q =
     ordering_then (cmp_latency (latencies ! fst p) (latencies ! fst q)) (cmp_nat (fst p) (fst q))"

definition rank_dots_by_latency ::
  "vpn_dot list \<Rightarrow> (unit + nat \<times> duration option) list \<Rightarrow> vpn_dot list" where
  "rank_dots_by_latency dots joined =
     (if length dots \<le> 1 then dots
      else (let latencies = collect_latencies joined (replicate (length dots) None);
                indexed = enumerate 0 dots
            in map snd (sort_by (rank_compare latencies) indexed)))"

section \<open>The comparison is a total order\<close>

definition latency_key :: "duration option \<Rightarrow> nat \<times> nat" where
  "latency_key l = (case l of Some d \<Rightarrow> (0, d) | None \<Rightarrow> (1, 0))"

lemma cmp_latency_key:
  "cmp_latency a b = (if latency_key a < latency_key b then Less
     else if latency_key a = latency_key b then Equal else Greater)"
  by (cases a; cases b) (auto simp: cmp_latency_def cmp_nat_def latency_key_def)

definition rank_key :: "duration option list \<Rightarrow> nat \<times> 'a \<Rightarrow> (nat \<times> nat) \<times> nat" where
  "rank_key ls p = (latency_key (ls ! fst p), fst p)"

lemma rank_compare_key: "rank_compare ls p q = Greater \<longleftrightarrow> rank_key ls q < rank_key ls p"
  unfolding rank_key_def less_prod_simp
  by (auto simp: rank_compare_def cmp_latency_key ordering_then_def cmp_nat_def)

lemma insert_by_insort: "insert_by (rank_compare ls) x ys = insort_key (rank_key ls) x ys"
  by (induction ys) (auto simp: rank_compare_key not_less)

lemma sort_by_sort_key: "sort_by (rank_compare ls) xs = sort_key (rank_key ls) xs"
  unfolding sort_by_def sort_key_def
  by (induction xs) (simp_all add: insert_by_insort)

lemma length_collect_latencies [simp]: "length (collect_latencies js ls) = length ls"
  by (induction js ls rule: collect_latencies.induct) simp_all

section \<open>Ranking\<close>

text \<open>The latency the ranking uses for the dot at each position.\<close>

definition measured :: "vpn_dot list \<Rightarrow> (unit + nat \<times> duration option) list \<Rightarrow> duration option list" where
  "measured dots joined = collect_latencies joined (replicate (length dots) None)"

lemma enumerate_nth: "p \<in> set (enumerate 0 xs) \<Longrightarrow> fst p < length xs \<and> snd p = xs ! fst p"
  by (auto simp: in_set_enumerate_eq)

lemma fst_rank_key: "map (rank_key ls) xs = map (\<lambda>i. (latency_key (ls ! i), i)) (map fst xs)"
  by (simp add: rank_key_def)


lemma set_rank_dots: "set (rank_dots_by_latency dots joined) = set dots"
proof -
  have "snd ` set (enumerate 0 dots) = set (map snd (enumerate 0 dots))" by (simp only: set_map)
  then show ?thesis
    by (simp add: rank_dots_by_latency_def Let_def sort_by_sort_key map_snd_enumerate)
qed

end
