(* ===== verification/DnsConfig.thy ===== *)
theory DnsConfig
  imports ApiModels OrderedMap NetAddr
begin

text \<open>
  The DNS configuration of a tunnel (\<open>src/crates/dns/src/config.rs\<close>, \<open>lib.rs\<close>): the resolver
  endpoints, the split-domain matchers and the dynamic answer tables read from the server's answer.

  The \<open>wildmatch\<close> and \<open>url\<close> crates and the host lookup are third-party and are the fields of \<open>dns_lib\<close>.
  A \<open>HashMap\<close> is an association list; where its iteration order matters the list order stands for it.
\<close>

section \<open>Printing and parsing socket addresses\<close>

definition hex_digit_char :: "nat \<Rightarrow> char" where
  "hex_digit_char d = (if d < 10 then char_of (48 + d) else char_of (87 + d))"

fun hex_of :: "nat \<Rightarrow> string" where
  "hex_of n = (if n < 16 then [hex_digit_char n] else hex_of (n div 16) @ [hex_digit_char (n mod 16)])"

declare hex_of.simps [simp del]

definition segments6 :: "ipv6 \<Rightarrow> nat list" where
  "segments6 a = map (\<lambda>i. unat (take_bit 16 (drop_bit (112 - 16 * i) a))) [0..<8]"

text \<open>The first longest run of zero segments, as its start and length.\<close>

fun longest_zeros :: "nat list \<Rightarrow> nat \<Rightarrow> nat \<times> nat \<Rightarrow> nat \<times> nat \<Rightarrow> nat \<times> nat" where
  "longest_zeros [] i current longest = longest"
| "longest_zeros (s # ss) i current longest =
     (if s = 0 then
        (let current = (if snd current = 0 then (i, 1) else (fst current, snd current + 1))
         in longest_zeros ss (i + 1) current (if snd current > snd longest then current else longest))
      else longest_zeros ss (i + 1) (0, 0) longest)"

fun fmt_segments :: "nat list \<Rightarrow> string" where
  "fmt_segments [] = []"
| "fmt_segments [s] = hex_of s"
| "fmt_segments (s # ss) = hex_of s @ '':'' @ fmt_segments ss"

definition ipv6_to_string :: "ipv6 \<Rightarrow> string" where
  "ipv6_to_string a =
     (let ss = segments6 a in
      if take 6 ss = [0, 0, 0, 0, 0, 65535] then ''::ffff:'' @ ipv4_to_string (ucast a)
      else (let (start, len) = longest_zeros ss 0 (0, 0) (0, 0) in
        if len > 1 then fmt_segments (take start ss) @ ''::'' @ fmt_segments (drop (start + len) ss)
        else fmt_segments ss))"

definition socket_addr_to_string :: "socket_addr \<Rightarrow> string" where
  "socket_addr_to_string a = (case sa_ip a of
      V4 v \<Rightarrow> ipv4_to_string v @ '':'' @ nat_to_string (unat (sa_port a))
    | V6 v \<Rightarrow> ''['' @ ipv6_to_string v @ '']:'' @ nat_to_string (unat (sa_port a)))"

text \<open>Decimal numbers of any length up to a maximum, leading zeros allowed.\<close>

definition read_decimal :: "nat \<Rightarrow> string \<Rightarrow> (nat \<times> string) option" where
  "read_decimal max_val s = read_number 10 (length s) True max_val s"

definition read_port :: "string \<Rightarrow> (u16 \<times> string) option" where
  "read_port s = Option.bind (read_given_char (CHR '':'') s)
     (\<lambda>s. map_option (\<lambda>(n, r). (of_nat n, r)) (read_decimal 65535 s))"

definition read_scope_id :: "string \<Rightarrow> string option" where
  "read_scope_id s = Option.bind (read_given_char (CHR ''%'') s)
     (\<lambda>s. map_option snd (read_decimal (2 ^ 32 - 1) s))"

definition read_socket_addr_v4 :: "string \<Rightarrow> (socket_addr \<times> string) option" where
  "read_socket_addr_v4 s = Option.bind (read_ipv4_addr s) (\<lambda>(ip, s).
     map_option (\<lambda>(port, s). (\<lparr>sa_ip = V4 ip, sa_port = port\<rparr>, s)) (read_port s))"

definition read_socket_addr_v6 :: "string \<Rightarrow> (socket_addr \<times> string) option" where
  "read_socket_addr_v6 s =
     Option.bind (read_given_char (CHR ''['') s) (\<lambda>s.
     Option.bind (read_ipv6_addr s) (\<lambda>(ip, s).
     Option.bind (read_given_char (CHR '']'') (unwrap_or (read_scope_id s) s)) (\<lambda>s.
     map_option (\<lambda>(port, s). (\<lparr>sa_ip = V6 ip, sa_port = port\<rparr>, s)) (read_port s))))"

text \<open>\<open>str::parse::<SocketAddr>\<close>; a scope id is read and dropped.\<close>

definition parse_socket_addr :: "string \<Rightarrow> socket_addr option" where
  "parse_socket_addr s = parse_with (\<lambda>s. or_else (read_socket_addr_v4 s) (read_socket_addr_v6 s)) s"

section \<open>The library\<close>

datatype url_host = HostDomain string | HostIpv4 ipv4 | HostIpv6 ipv6

record parsed_url =
  pu_scheme :: string
  pu_path :: string
  pu_port :: "u16 option"
  pu_host :: "url_host option"

record 'w dns_lib =
  dl_wildmatch :: "string \<Rightarrow> string \<Rightarrow> bool"
  dl_url_parse :: "string \<Rightarrow> parsed_url option"
  dl_lookup_host :: "string \<Rightarrow> 'w \<Rightarrow> socket_addr list option \<times> 'w"

definition DNS_PORT :: u16 where "DNS_PORT = 53"

section \<open>Domains\<close>

text \<open>\<open>str::to_lowercase\<close> on Latin-1 text.\<close>

definition to_lowercase :: "string \<Rightarrow> string" where
  "to_lowercase s = map (\<lambda>c. let n = of_char c :: nat in
     if (65 \<le> n \<and> n \<le> 90) \<or> (192 \<le> n \<and> n \<le> 222 \<and> n \<noteq> 215) then char_of (n + 32) else c) s"

text \<open>\<open>trim_start_matches\<close> with a string pattern.\<close>

function trim_start_str :: "string \<Rightarrow> string \<Rightarrow> string" where
  "trim_start_str p s = (if p \<noteq> [] \<and> prefix p s then trim_start_str p (drop (length p) s) else s)"
  by pat_completeness auto
termination
  by (relation "measure (\<lambda>(p, s). length s)") (auto simp: prefix_def)

declare trim_start_str.simps [simp del]

definition normalize_domain :: "string \<Rightarrow> string" where
  "normalize_domain v =
     to_lowercase (trim_end_matches (\<lambda>c. c = CHR ''.'')
       (trim_start_matches (\<lambda>c. c = CHR ''.'')
         (trim_start_str ''*.''
           (trim_matches (\<lambda>c. c = CHR 0x27)
             (trim_matches (\<lambda>c. c = CHR 0x22) (trim v))))))"

text \<open>\<open>accept_domain\<close>: the accepted domain, which the caller inserts into its ordered set.\<close>

definition acceptable :: "string \<Rightarrow> bool" where
  "acceptable domain \<longleftrightarrow> domain \<noteq> [] \<and> CHR ''/'' \<notin> set domain \<and> CHR ''.'' \<in> set domain
     \<and> parse_ip domain = None \<and> parse_socket_addr domain = None"

definition accept_domain :: "string \<Rightarrow> (string \<times> unit) list \<Rightarrow> (string \<times> unit) list" where
  "accept_domain v out = (let domain = normalize_domain v in
     if acceptable domain then bt_insert domain () out else out)"

definition value_token :: "string \<Rightarrow> string" where
  "value_token v = trim (hd (split_char (CHR ''/'') v))"

definition split_config_tokens :: "string \<Rightarrow> string list" where
  "split_config_tokens v =
     filter (\<lambda>t. t \<noteq> []) (map trim (split_pred (\<lambda>c. c = CHR '';'' \<or> c = CHR '','' \<or> is_ws c) v))"

definition parse_dns_endpoint :: "'w dns_lib \<Rightarrow> string \<Rightarrow> string option" where
  "parse_dns_endpoint lib v =
     (let v = trim_matches (\<lambda>c. c = CHR 0x27) (trim_matches (\<lambda>c. c = CHR 0x22) (trim v)) in
      if v = [] \<or> (CHR ''/'' \<in> set v \<and> \<not> sublist ''://'' v) then None
      else if parse_socket_addr v \<noteq> None then Some v
      else (case parse_ip v of
          Some ip \<Rightarrow> Some (socket_addr_to_string \<lparr>sa_ip = ip, sa_port = DNS_PORT\<rparr>)
        | None \<Rightarrow>
            Option.bind (if sublist ''://'' v then dl_url_parse lib v else dl_url_parse lib (''dns://'' @ v)) (\<lambda>u.
            if pu_scheme u \<notin> {''dns'', ''udp''} \<or> pu_path u \<notin> {[], ''/''} then None
            else (let port = unwrap_or (pu_port u) DNS_PORT in
              map_option (\<lambda>host. case host of
                  HostDomain d \<Rightarrow> d @ '':'' @ nat_to_string (unat port)
                | HostIpv4 ip \<Rightarrow> socket_addr_to_string \<lparr>sa_ip = V4 ip, sa_port = port\<rparr>
                | HostIpv6 ip \<Rightarrow> socket_addr_to_string \<lparr>sa_ip = V6 ip, sa_port = port\<rparr>) (pu_host u)))))"

text \<open>\<open>seen.insert(x)\<close> guarding \<open>push(x)\<close>: keep the first of each.\<close>

fun push_new :: "'a list \<Rightarrow> 'a list \<Rightarrow> 'a list" where
  "push_new acc [] = acc"
| "push_new acc (x # xs) = push_new (if x \<in> set acc then acc else acc @ [x]) xs"

definition collect_vpn_servers :: "'w dns_lib \<Rightarrow> string option list \<Rightarrow> string list" where
  "collect_vpn_servers lib sources =
     push_new [] (filter_map (parse_dns_endpoint lib)
       (concat (map split_config_tokens (filter_map (\<lambda>s. s) sources))))"

section \<open>Dynamic tables\<close>

type_synonym table = "(string \<times> string list) list"

record dynamic_tables =
  dt_exact_v4 :: table
  dt_exact_v6 :: table
  dt_wildcard_v4 :: table
  dt_suffix_v4 :: table

definition normalized_entries :: "domain_map option \<Rightarrow> table" where
  "normalized_entries m = filter_map (\<lambda>(key, values). let domain = normalize_domain key in
     if domain \<noteq> [] then Some (domain, values) else None) (unwrap_or m [])"

text \<open>\<open>entry(domain).or_default().extend(values)\<close>.\<close>

definition extend_entry :: "string \<times> string list \<Rightarrow> table \<Rightarrow> table" where
  "extend_entry = (\<lambda>(domain, values) m. bt_insert domain (unwrap_or (bt_get m domain) [] @ values) m)"

definition pattern_hit :: "string \<Rightarrow> string \<Rightarrow> bool" where
  "pattern_hit name pat \<longleftrightarrow> pat \<noteq> [] \<and> (name = pat \<or> suffix (''.'' @ pat) name)"

definition lookup_v4 :: "dynamic_tables \<Rightarrow> string \<Rightarrow> string list option" where
  "lookup_v4 t name = (case bt_get (dt_exact_v4 t) name of
      Some values \<Rightarrow> Some values
    | None \<Rightarrow> find_map (\<lambda>table. map_option snd (find (\<lambda>(pat, _). pattern_hit name pat) table))
                [dt_wildcard_v4 t, dt_suffix_v4 t])"

definition lookup_v6 :: "dynamic_tables \<Rightarrow> string \<Rightarrow> string list option" where
  "lookup_v6 t name = bt_get (dt_exact_v6 t) name"

definition tables_empty :: "dynamic_tables \<Rightarrow> bool" where
  "tables_empty t \<longleftrightarrow> dt_exact_v4 t = [] \<and> dt_exact_v6 t = [] \<and> dt_wildcard_v4 t = [] \<and> dt_suffix_v4 t = []"

section \<open>The configuration\<close>

record dns_config =
  dns_full_tunnel :: bool
  dns_vpn_servers :: "string list"
  dns_split_matchers :: "string list"
  dns_dynamic :: dynamic_tables
  dns_central_dns :: "central_dns option"
  dns_ip_nats :: "ip_nat list"

definition split_domains :: "vpn_conn_setting \<Rightarrow> (string \<times> unit) list" where
  "split_domains setting = fold accept_domain (unwrap_or (st_vpn_dns_domain_split setting) []) []"

definition dns_from_vpn_conn ::
  "'w dns_lib \<Rightarrow> vpn_conn_response \<Rightarrow> string option \<Rightarrow> bool \<Rightarrow> dns_config" where
  "dns_from_vpn_conn lib conn local_dns full_tunnel =
     (let setting = conn_setting conn in
      \<lparr>dns_full_tunnel = full_tunnel,
       dns_vpn_servers = collect_vpn_servers lib
         [local_dns, st_vpn_dns setting, st_vpn_dns_backup setting],
       dns_split_matchers = concat (map (\<lambda>(domain, _). [domain, ''*.'' @ domain]) (split_domains setting)),
       dns_dynamic = \<lparr>
         dt_exact_v4 = fold extend_entry (normalized_entries (st_dynamic_domain setting)
            @ normalized_entries (st_vpn_dynamic_domain_route_split setting)) [],
         dt_exact_v6 = bt_from_list (normalized_entries (st_v6_vpn_dynamic_domain_route_split setting)),
         dt_wildcard_v4 = normalized_entries (st_vpn_wildcard_dynamic_domain_route_split setting),
         dt_suffix_v4 = normalized_entries (st_suffix_wildcard_dynamic_domain_route_split setting)\<rparr>,
       dns_central_dns = st_central_dns setting,
       dns_ip_nats = unwrap_or (st_ip_nats setting) []\<rparr>)"

definition is_disabled :: "dns_config \<Rightarrow> bool" where
  "is_disabled c \<longleftrightarrow> dns_vpn_servers c = []"

definition split_matcher_count :: "dns_config \<Rightarrow> nat" where
  "split_matcher_count c = length (dns_split_matchers c)"

fun resolve_specs :: "'w dns_lib \<Rightarrow> string list \<Rightarrow> socket_addr list \<Rightarrow> 'w \<Rightarrow> socket_addr list \<times> 'w" where
  "resolve_specs lib [] servers w = (servers, w)"
| "resolve_specs lib (spec # specs) servers w = (case dl_lookup_host lib spec w of
      (None, w') \<Rightarrow> resolve_specs lib specs servers w'
    | (Some addrs, w') \<Rightarrow> resolve_specs lib specs (push_new servers addrs) w')"

definition resolve_vpn_servers :: "'w dns_lib \<Rightarrow> dns_config \<Rightarrow> 'w \<Rightarrow> socket_addr list \<times> 'w" where
  "resolve_vpn_servers lib c w = resolve_specs lib (dns_vpn_servers c) [] w"

definition matches_split :: "'w dns_lib \<Rightarrow> dns_config \<Rightarrow> string \<Rightarrow> bool" where
  "matches_split lib c domain = (let domain = normalize_domain domain in
     list_ex (\<lambda>matcher. dl_wildmatch lib matcher domain) (dns_split_matchers c))"

definition route_through_vpn :: "'w dns_lib \<Rightarrow> dns_config \<Rightarrow> string option \<Rightarrow> bool" where
  "route_through_vpn lib c domain \<longleftrightarrow> dns_full_tunnel c
     \<or> (case domain of None \<Rightarrow> False | Some d \<Rightarrow> matches_split lib c d)"

section \<open>The system's resolvers\<close>

definition DEFAULT_FALLBACK_DNS :: ip_addr where
  "DEFAULT_FALLBACK_DNS = V4 (ipv4_of_octets 223 5 5 5)"

text \<open>\<open>read_system_dns_ips\<close>: the argument is the name-server list of the system configuration.\<close>

definition read_system_dns_ips :: "ip_addr list option \<Rightarrow> ip_addr list" where
  "read_system_dns_ips conf = (case conf of None \<Rightarrow> [] | Some servers \<Rightarrow> push_new [] servers)"

definition capture_system_dns :: "ip_addr list option \<Rightarrow> string list option \<Rightarrow> ip_addr list" where
  "capture_system_dns conf fallback =
     (let servers = filter (\<lambda>ip. \<not> is_loopback ip \<and> \<not> is_unspecified ip) (read_system_dns_ips conf)
      in if servers \<noteq> [] then servers
         else (case fallback of
             None \<Rightarrow> [DEFAULT_FALLBACK_DNS]
           | Some overrides \<Rightarrow>
               (let parsed = filter_map parse_ip overrides
                in if parsed \<noteq> [] then parsed else [DEFAULT_FALLBACK_DNS])))"

section \<open>Split routing\<close>

text \<open>What the wildmatch crate documents, for patterns whose only wildcard is a leading star.\<close>

definition no_wildcard :: "string \<Rightarrow> bool" where
  "no_wildcard p \<longleftrightarrow> CHR ''*'' \<notin> set p \<and> CHR ''?'' \<notin> set p"

definition wildmatch_ok :: "(string \<Rightarrow> string \<Rightarrow> bool) \<Rightarrow> bool" where
  "wildmatch_ok wm \<longleftrightarrow> (\<forall>p s. no_wildcard p \<longrightarrow> wm p s = (s = p) \<and> wm (CHR ''*'' # p) s = suffix p s)"

lemma fst_accept_domain:
  "fst ` set (accept_domain v out) =
     fst ` set out \<union> (if acceptable (normalize_domain v) then {normalize_domain v} else {})"
  by (simp add: accept_domain_def Let_def)

lemma split_domains_set:
  "fst ` set (split_domains setting) =
     {d. acceptable d \<and> d \<in> normalize_domain ` set (unwrap_or (st_vpn_dns_domain_split setting) [])}"
proof -
  have "fst ` set (fold accept_domain vs out) =
      fst ` set out \<union> {d. acceptable d \<and> d \<in> normalize_domain ` set vs}" for vs out
    by (induction vs arbitrary: out) (auto simp: fst_accept_domain)
  then show ?thesis by (simp add: split_domains_def)
qed

text \<open>Split tunnelling sends a name to the VPN resolver exactly when the server listed it or a
  parent of it.  With full tunnel every query is routed; otherwise a query is routed when its
  normalised name is, or ends with a dot and, an accepted normalised entry of the split list.\<close>

theorem route_through_vpn_spec:
  assumes "wildmatch_ok (dl_wildmatch lib)"
    and "\<And>raw. raw \<in> set (unwrap_or (st_vpn_dns_domain_split (conn_setting conn)) []) \<Longrightarrow>
           no_wildcard (normalize_domain raw)"
  shows "route_through_vpn lib (dns_from_vpn_conn lib conn local_dns full) (Some name) \<longleftrightarrow>
     full \<or> (\<exists>raw \<in> set (unwrap_or (st_vpn_dns_domain_split (conn_setting conn)) []).
        acceptable (normalize_domain raw) \<and>
        (normalize_domain name = normalize_domain raw
         \<or> suffix (''.'' @ normalize_domain raw) (normalize_domain name)))"
proof -
  let ?L = "unwrap_or (st_vpn_dns_domain_split (conn_setting conn)) []"
  let ?D = "split_domains (conn_setting conn)"
  have nw: "no_wildcard d \<and> no_wildcard (CHR ''.'' # d)" if "d \<in> fst ` set ?D" for d
    using that assms(2) by (auto simp: split_domains_set no_wildcard_def)
  have matchers: "set (dns_split_matchers (dns_from_vpn_conn lib conn local_dns full)) =
      (\<Union>d \<in> fst ` set ?D. {d, CHR ''*'' # CHR ''.'' # d})"
    by (simp add: dns_from_vpn_conn_def Let_def split_beta)
  have "matches_split lib (dns_from_vpn_conn lib conn local_dns full) name \<longleftrightarrow>
      (\<exists>d \<in> fst ` set ?D. dl_wildmatch lib d (normalize_domain name)
          \<or> dl_wildmatch lib (CHR ''*'' # CHR ''.'' # d) (normalize_domain name))"
    by (simp add: matches_split_def matchers list_ex_iff Let_def)
  also have "\<dots> \<longleftrightarrow> (\<exists>d \<in> fst ` set ?D. normalize_domain name = d
      \<or> suffix (CHR ''.'' # d) (normalize_domain name))"
    using assms(1) nw unfolding wildmatch_ok_def by (intro bex_cong) auto
  also have "\<dots> \<longleftrightarrow> (\<exists>raw \<in> set ?L. acceptable (normalize_domain raw) \<and>
        (normalize_domain name = normalize_domain raw
         \<or> suffix (''.'' @ normalize_domain raw) (normalize_domain name)))"
    unfolding split_domains_set by auto
  finally show ?thesis
    by (simp add: route_through_vpn_def dns_from_vpn_conn_def Let_def)
qed

fun sample_match :: "string \<Rightarrow> string \<Rightarrow> bool" where
  "sample_match (c # p) s = (if c = CHR ''*'' then suffix p s else s = c # p)"
| "sample_match [] s = (s = [])"

definition sample_dns_lib :: "unit dns_lib" where
  "sample_dns_lib = \<lparr>dl_wildmatch = sample_match, dl_url_parse = (\<lambda>_. None),
     dl_lookup_host = (\<lambda>_ w. (None, w))\<rparr>"

lemma sample_match_ok: "wildmatch_ok sample_match"
proof -
  have "sample_match p s = (s = p)" if "no_wildcard p" for p s
    using that by (cases p) (auto simp: no_wildcard_def)
  then show ?thesis by (simp add: wildmatch_ok_def)
qed

definition split_conn :: "string list \<Rightarrow> vpn_conn_response" where
  "split_conn domains = \<lparr>conn_ip = ''10.0.0.2'', conn_ipv6 = None, conn_ip_mask = None, conn_public_key = [],
     conn_preshared_key = None, conn_sign_token = None, conn_protocol_version = None,
     conn_setting = \<lparr>st_vpn_mtu = 1360, st_vpn_dns = Some ''10.0.0.53'', st_vpn_dns_backup = None,
       st_vpn_dns_domain_split = Some domains, st_vpn_route_full = None, st_vpn_route_split = None,
       st_v6_route_full = None, st_v6_route_split = None,
       st_vpn_dynamic_domain_route_split = None, st_v6_vpn_dynamic_domain_route_split = None,
       st_vpn_wildcard_dynamic_domain_route_split = None, st_suffix_wildcard_dynamic_domain_route_split = None,
       st_dynamic_domain = None, st_central_dns = None, st_ip_nats = None\<rparr>, conn_raw = None\<rparr>"

lemma sample_domains:
  "normalize_domain ''*.Xyz.io'' = ''xyz.io''" "normalize_domain ''git.xyz.io.'' = ''git.xyz.io''"
  by code_simp+

text \<open>A text whose first character opens no address is not one.\<close>

lemma read_groups_none:
  assumes "to_digit 16 c = None" "read_ipv4_addr (c # cs) = None"
  shows "read_groups 8 8 (c # cs) = ([], False, c # cs)"
proof -
  have "read_groups (Suc 7) 8 (c # cs) = ([], False, c # cs)"
    using assms by (subst read_groups.simps) (simp add: read_separator_def read_number_def)
  then show ?thesis by simp
qed

lemma not_an_address:
  assumes "to_digit 16 c = None" "to_digit 10 c = None" "c \<noteq> CHR '':''" "c \<noteq> CHR ''[''"
  shows "parse_ip (c # cs) = None" "parse_socket_addr (c # cs) = None"
proof -
  have v4: "read_ipv4_addr (c # cs) = None"
    using assms by (simp add: read_ipv4_addr_def read_separator_def read_octet_def read_number_def)
  have v6: "read_ipv6_addr (c # cs) = None"
    using assms read_groups_none [OF assms(1) v4] by (simp add: read_ipv6_addr_def read_given_char_def)
  show "parse_ip (c # cs) = None"
    using v4 v6 by (simp add: parse_ip_def parse_with_def read_ip_addr_def)
  show "parse_socket_addr (c # cs) = None"
    using v4 assms by (simp add: parse_socket_addr_def parse_with_def read_socket_addr_v4_def
        read_socket_addr_v6_def read_given_char_def)
qed

lemma sample_acceptable: "acceptable ''xyz.io''"
proof -
  have "to_digit 16 CHR ''x'' = None" "to_digit 10 CHR ''x'' = None" by code_simp+
  from not_an_address [OF this] show ?thesis by (simp add: acceptable_def)
qed

theorem route_through_vpn_spec_witness:
  "route_through_vpn sample_dns_lib (dns_from_vpn_conn sample_dns_lib (split_conn [''*.Xyz.io'']) None False)
     (Some ''git.xyz.io.'')"
proof -
  have "wildmatch_ok (dl_wildmatch sample_dns_lib)"
    by (simp add: sample_dns_lib_def sample_match_ok)
  from route_through_vpn_spec [OF this, of "split_conn [''*.Xyz.io'']" None False "''git.xyz.io.''"]
  show ?thesis
    by (simp add: split_conn_def sample_domains sample_acceptable no_wildcard_def) (simp add: suffix_def)
qed

section \<open>Answer tables\<close>

text \<open>The values a table's entries give a name, in table order.\<close>

definition values_for :: "table \<Rightarrow> string \<Rightarrow> string list" where
  "values_for t name = concat (map snd (filter (\<lambda>e. fst e = name) t))"

lemma values_for_simps [simp]:
  "values_for [] name = []"
  "values_for ((d, vs) # t) name = (if d = name then vs else []) @ values_for t name"
  by (simp_all add: values_for_def)

lemma values_for_absent: "name \<notin> fst ` set t \<Longrightarrow> values_for t name = []"
  by (induction t) auto

lemma fold_extend_get:
  "bt_sorted m \<Longrightarrow> bt_get (fold extend_entry es m) name =
     (if name \<in> fst ` set es then Some (unwrap_or (bt_get m name) [] @ values_for es name) else bt_get m name)"
proof (induction es arbitrary: m)
  case (Cons e es)
  obtain d vs where e: "e = (d, vs)" by fastforce
  have s: "bt_sorted (extend_entry e m)"
    using Cons.prems by (simp add: e extend_entry_def bt_sorted_insert)
  have g: "bt_get (extend_entry e m) name =
      (if name = d then Some (unwrap_or (bt_get m d) [] @ vs) else bt_get m name)"
    using Cons.prems by (auto simp: e extend_entry_def bt_get_insert)
  show ?case
    using Cons.IH [OF s] g by (cases "name = d"; cases "name \<in> fst ` set es") (simp_all add: e values_for_absent)
qed simp

text \<open>The answer tables give what the server configured, in the order of the native client's
  layers.  A name with exact entries is answered by all the values of \<open>dynamic_domain\<close> and then those of
  \<open>vpn_dynamic_domain_route_split\<close>; only otherwise the first entry of the wildcard table that is the
  name or a parent of it, and only then one of the suffix table.\<close>

theorem lookup_v4_spec:
  fixes conn :: vpn_conn_response and lib :: "'w dns_lib"
  shows "(let s = conn_setting conn;
      exact = normalized_entries (st_dynamic_domain s) @ normalized_entries (st_vpn_dynamic_domain_route_split s);
      wild = find (\<lambda>e. pattern_hit name (fst e)) (normalized_entries (st_vpn_wildcard_dynamic_domain_route_split s));
      suff = find (\<lambda>e. pattern_hit name (fst e)) (normalized_entries (st_suffix_wildcard_dynamic_domain_route_split s))
   in lookup_v4 (dns_dynamic (dns_from_vpn_conn lib conn local_dns full)) name =
        (if name \<in> fst ` set exact then Some (values_for exact name)
         else map_option snd (or_else wild suff)))"
proof -
  have cp: "(\<lambda>(pat, _). pattern_hit name pat) = (\<lambda>e. pattern_hit name (fst e))"
    by (auto simp: fun_eq_iff)
  show ?thesis
    unfolding Let_def lookup_v4_def cp
    using fold_extend_get [of "[]" "normalized_entries (st_dynamic_domain (conn_setting conn))
        @ normalized_entries (st_vpn_dynamic_domain_route_split (conn_setting conn))" name]
    by (simp add: dns_from_vpn_conn_def Let_def del: fold_append split: option.split)
qed

section \<open>Resolver endpoints\<close>

lemma push_new_set: "set (push_new acc xs) = set acc \<union> set xs"
  by (induction acc xs rule: push_new.induct) auto

lemma push_new_distinct: "distinct acc \<Longrightarrow> distinct (push_new acc xs)"
  by (induction acc xs rule: push_new.induct) auto

lemma resolve_specs_distinct: "distinct servers \<Longrightarrow> distinct (fst (resolve_specs lib specs servers w))"
proof (induction lib specs servers w rule: resolve_specs.induct)
  case (2 lib spec specs servers w)
  obtain a w' where l: "dl_lookup_host lib spec w = (a, w')" by fastforce
  show ?case
  proof (cases a)
    case None
    then show ?thesis using 2 l by simp
  next
    case (Some addrs)
    then show ?thesis using 2(2) [OF l [symmetric] Some] push_new_distinct [OF 2(3)] l by simp
  qed
qed simp

text \<open>The resolver of last resort always exists.  The captured system resolvers are never empty; they
  are the non-loopback, specified ones of the system, without duplicates, whenever it has one, and
  otherwise the parsable configured fallbacks or the built-in address.\<close>

theorem capture_system_dns_spec:
  "capture_system_dns conf fallback \<noteq> []
   \<and> (let usable = {ip \<in> set (unwrap_or conf []). \<not> is_loopback ip \<and> \<not> is_unspecified ip} in
      if usable \<noteq> {} then set (capture_system_dns conf fallback) = usable \<and> distinct (capture_system_dns conf fallback)
      else capture_system_dns conf fallback =
        (let parsed = filter_map parse_ip (unwrap_or fallback []) in
         if parsed \<noteq> [] then parsed else [DEFAULT_FALLBACK_DNS]))"
proof -
  let ?us = "filter (\<lambda>ip. \<not> is_loopback ip \<and> \<not> is_unspecified ip) (read_system_dns_ips conf)"
  have us: "set ?us = {ip \<in> set (unwrap_or conf []). \<not> is_loopback ip \<and> \<not> is_unspecified ip}" "distinct ?us"
    by (cases conf; auto simp: read_system_dns_ips_def push_new_set push_new_distinct)+
  have fm: "filter_map f [] = []" for f :: "string \<Rightarrow> ip_addr option"
    by (simp add: filter_map_def)
  show ?thesis
  proof (cases "?us = []")
    case True
    moreover from this have "{ip \<in> set (unwrap_or conf []). \<not> is_loopback ip \<and> \<not> is_unspecified ip} = {}"
      using us(1) by simp
    ultimately show ?thesis
      by (cases fallback) (auto simp: capture_system_dns_def Let_def fm)
  next
    case False
    moreover from this have "{ip \<in> set (unwrap_or conf []). \<not> is_loopback ip \<and> \<not> is_unspecified ip} \<noteq> {}"
      using us(1) by (metis set_empty)
    moreover have "capture_system_dns conf fallback = ?us"
      using False by (simp add: capture_system_dns_def Let_def)
    ultimately show ?thesis using us by simp
  qed
qed

end
