(* ===== verification/DnsResolve.thy ===== *)
theory DnsResolve
  imports DnsConfig Dialer
begin

text \<open>
  Answering a hijacked DNS query (\<open>src/crates/dns/src/synthesis.rs\<close>, \<open>forwarder.rs\<close>, \<open>resolver.rs\<close>):
  from the dynamic tables, or by forwarding to the VPN resolvers or, over sockets pinned to the
  physical interface, to the system resolvers.

  The DNS message codec is third-party (\<open>msg_codec\<close>); a message keeps the fields the program reads or
  writes and an opaque rest.  Sockets are those of the dialer's \<open>sys_env\<close>.  When several servers are
  asked at once, \<open>arrive\<close> gives the order in which the tasks answer.
\<close>

section \<open>Messages\<close>

datatype query_type = QueryA | QueryAAAA | QueryOther nat

record question =
  qu_name :: string
  qu_type :: query_type

record answer =
  an_name :: string
  an_ttl :: u32
  an_data :: rdata

definition RC_NoError :: nat where "RC_NoError = 0"
definition RC_ServFail :: nat where "RC_ServFail = 2"

record dns_message =
  dm_rest :: bytes
  dm_response :: bool
  dm_rcode :: nat
  dm_recursion_available :: bool
  dm_queries :: "question list"
  dm_answers :: "answer list"

record msg_codec =
  mc_from_vec :: "bytes \<Rightarrow> dns_message option"
  mc_to_vec :: "dns_message \<Rightarrow> bytes option"

section \<open>Synthesis\<close>

definition DYNAMIC_TTL :: u32 where "DYNAMIC_TTL = 3600"

definition build_response :: "msg_codec \<Rightarrow> dns_message \<Rightarrow> answer list \<Rightarrow> bytes option" where
  "build_response c request answers =
     mc_to_vec c (request\<lparr>dm_response := True, dm_rcode := RC_NoError, dm_recursion_available := True,
       dm_answers := dm_answers request @ answers\<rparr>)"

definition table_answers :: "string \<Rightarrow> (string \<Rightarrow> 'a option) \<Rightarrow> ('a \<Rightarrow> rdata) \<Rightarrow> string list \<Rightarrow> answer list" where
  "table_answers qname parse mk values =
     map (\<lambda>ip. \<lparr>an_name = qname, an_ttl = DYNAMIC_TTL, an_data = mk ip\<rparr>)
       (filter_map (\<lambda>v. parse (value_token v)) values)"

definition synthesize :: "msg_codec \<Rightarrow> dns_config \<Rightarrow> bytes \<Rightarrow> bytes option" where
  "synthesize c config payload =
     (if tables_empty (dns_dynamic config) then None
      else Option.bind (mc_from_vec c payload) (\<lambda>request.
        case dm_queries request of
          [] \<Rightarrow> None
        | q # _ \<Rightarrow>
            (let name = normalize_domain (qu_name q) in
             if name = [] then None
             else (case qu_type q of
                 QueryA \<Rightarrow>
                   Option.bind (lookup_v4 (dns_dynamic config) name) (\<lambda>values.
                   let answers = table_answers (qu_name q) parse_ipv4 RDataA values in
                   if answers = [] then None else build_response c request answers)
               | QueryAAAA \<Rightarrow>
                   (case lookup_v6 (dns_dynamic config) name of
                      Some values \<Rightarrow> build_response c request (table_answers (qu_name q) parse_ipv6 RDataAAAA values)
                    | None \<Rightarrow> if lookup_v4 (dns_dynamic config) name \<noteq> None
                              then build_response c request [] else None)
               | QueryOther _ \<Rightarrow> None))))"

definition synthesize_failure :: "msg_codec \<Rightarrow> bytes \<Rightarrow> nat \<Rightarrow> bytes" where
  "synthesize_failure c payload rcode = (case mc_from_vec c payload of
      None \<Rightarrow> payload
    | Some message \<Rightarrow> unwrap_or (mc_to_vec c (message\<lparr>dm_response := True, dm_rcode := rcode,
        dm_recursion_available := True\<rparr>)) payload)"

definition parse_question_domain :: "msg_codec \<Rightarrow> bytes \<Rightarrow> string option" where
  "parse_question_domain c payload = Option.bind (mc_from_vec c payload) (\<lambda>message.
     case dm_queries message of [] \<Rightarrow> None | q # _ \<Rightarrow> Some (normalize_domain (qu_name q)))"

section \<open>Forwarding\<close>

definition MAX_DNS_PACKET :: nat where "MAX_DNS_PACKET = 4096"

datatype forward_error =
    FwBindSocket socket_addr io_kind
  | FwBindDirected socket_addr dialer_error
  | FwSend socket_addr io_kind
  | FwRecv socket_addr io_kind
  | FwTimeout socket_addr
  | FwAllFailed

definition query_single :: "'w sys_env \<Rightarrow> sock \<Rightarrow> socket_addr \<Rightarrow> bytes \<Rightarrow> ('w, forward_error, bytes) io" where
  "query_single env socket server request w = (case sys_call env w (OpSendTo request server) of
      (SysErr k, w1) \<Rightarrow> (Inl (FwSend server k), w1)
    | (SysTimeout, w1) \<Rightarrow> (Inl (FwSend server (IoOther 0)), w1)
    | (SysOk, w1) \<Rightarrow> (case sys_recv env w1 socket of
        (RecvTimeout, w2) \<Rightarrow> (Inl (FwTimeout server), w2)
      | (RecvErr k, w2) \<Rightarrow> (Inl (FwRecv server k), w2)
      | (RecvOk buf, w2) \<Rightarrow> (Inr (take MAX_DNS_PACKET buf), w2)))"

definition unspecified_bind_addr :: "socket_addr \<Rightarrow> socket_addr" where
  "unspecified_bind_addr server =
     (if is_ipv4 (sa_ip server) then \<lparr>sa_ip = V4 0, sa_port = 0\<rparr> else \<lparr>sa_ip = V6 0, sa_port = 0\<rparr>)"

text \<open>A system call whose error keeps its kind.\<close>

definition sys_io :: "'w sys_env \<Rightarrow> sys_op \<Rightarrow> ('w, io_kind, unit) io" where
  "sys_io env op w = (case sys_call env w op of
      (SysOk, w') \<Rightarrow> (Inr (), w') | (SysErr k, w') \<Rightarrow> (Inl k, w') | (SysTimeout, w') \<Rightarrow> (Inl (IoOther 0), w'))"

text \<open>\<open>tokio::net::UdpSocket::bind\<close>: an unpinned socket.\<close>

definition udp_socket_bind :: "'w sys_env \<Rightarrow> socket_addr \<Rightarrow> ('w, io_kind, sock) io" where
  "udp_socket_bind env addr =
     io_bind (sys_io env (OpSocket (family_from_addr addr) False)) (\<lambda>_.
     io_bind (sys_io env OpNonblocking) (\<lambda>_.
     io_bind (sys_io env (OpBind addr)) (\<lambda>_.
     io_bind (sys_io env OpRegister) (\<lambda>_.
     io_return \<lparr>sk_family = family_from_addr addr, sk_stream = False, sk_device = None, sk_mark = None,
       sk_local = Some addr, sk_peer = None\<rparr>))))"

definition query_routed :: "'w sys_env \<Rightarrow> bytes \<Rightarrow> socket_addr \<Rightarrow> ('w, forward_error, bytes) io" where
  "query_routed env request server =
     io_bind (io_map_err (FwBindSocket server) (udp_socket_bind env (unspecified_bind_addr server)))
       (\<lambda>socket. query_single env socket server request)"

definition query_directed :: "'w sys_env \<Rightarrow> dialer \<Rightarrow> bytes \<Rightarrow> socket_addr \<Rightarrow> ('w, forward_error, bytes) io" where
  "query_directed env d request server =
     io_bind (io_map_err (FwBindDirected server) (bind_udp_to env d server))
       (\<lambda>socket. query_single env socket server request)"

fun fan_out :: "(socket_addr \<Rightarrow> ('w, forward_error, bytes) io) \<Rightarrow> socket_addr list \<Rightarrow> 'w \<Rightarrow> (forward_error, bytes) result list \<times> 'w" where
  "fan_out query [] w = ([], w)"
| "fan_out query (s # ss) w =
     (let (r, w1) = query s w; (rs, w2) = fan_out query ss w1 in (r # rs, w2))"

text \<open>The two \<open>parallel_query\<close> functions differ in the query of one server.\<close>

definition parallel_query ::
  "(socket_addr \<Rightarrow> ('w, forward_error, bytes) io) \<Rightarrow> (socket_addr list \<Rightarrow> socket_addr list)
   \<Rightarrow> socket_addr list \<Rightarrow> ('w, forward_error, bytes) io" where
  "parallel_query query arrive servers w =
     (case servers of
        [] \<Rightarrow> (Inl FwAllFailed, w)
      | [server] \<Rightarrow> query server w
      | _ \<Rightarrow> (let (rs, w') = fan_out query (arrive servers) w
             in (ok_or FwAllFailed (find_map res_ok rs), w')))"

definition parallel_query_routed ::
  "'w sys_env \<Rightarrow> (socket_addr list \<Rightarrow> socket_addr list) \<Rightarrow> socket_addr list \<Rightarrow> bytes \<Rightarrow> ('w, forward_error, bytes) io" where
  "parallel_query_routed env arrive servers request = parallel_query (query_routed env request) arrive servers"

definition parallel_query_directed ::
  "'w sys_env \<Rightarrow> (socket_addr list \<Rightarrow> socket_addr list) \<Rightarrow> socket_addr list \<Rightarrow> bytes \<Rightarrow> dialer \<Rightarrow> ('w, forward_error, bytes) io" where
  "parallel_query_directed env arrive servers request d = parallel_query (query_directed env d request) arrive servers"

section \<open>The resolver\<close>

record dns_resolver =
  dr_config :: dns_config
  dr_vpn_servers :: "socket_addr list"
  dr_system_servers :: "socket_addr list"
  dr_vpn_dns_ips :: "ip_addr list"
  dr_directed_dialer :: dialer

definition resolver_build ::
  "dns_config \<Rightarrow> socket_addr list \<Rightarrow> ip_addr list \<Rightarrow> dialer \<Rightarrow> dns_resolver option" where
  "resolver_build config vpn_servers system_servers directed_dialer =
     (if is_disabled config then None
      else Some \<lparr>dr_config = config, dr_vpn_servers = vpn_servers,
        dr_system_servers = map (\<lambda>ip. \<lparr>sa_ip = ip, sa_port = DNS_PORT\<rparr>) system_servers,
        dr_vpn_dns_ips = map sa_ip vpn_servers, dr_directed_dialer = directed_dialer\<rparr>)"

definition dns_resolve ::
  "msg_codec \<Rightarrow> 'l dns_lib \<Rightarrow> 'w sys_env \<Rightarrow> (socket_addr list \<Rightarrow> socket_addr list) \<Rightarrow> dns_resolver
   \<Rightarrow> bytes \<Rightarrow> 'w \<Rightarrow> bytes \<times> 'w" where
  "dns_resolve c lib env arrive r payload w = (case synthesize c (dr_config r) payload of
      Some a \<Rightarrow> (a, w)
    | None \<Rightarrow>
        (let domain = parse_question_domain c payload;
             (result, w') = (if route_through_vpn lib (dr_config r) domain
                then parallel_query_routed env arrive (dr_vpn_servers r) payload w
                else parallel_query_directed env arrive (dr_system_servers r) payload (dr_directed_dialer r) w)
         in (case result of
               Inr response \<Rightarrow> (response, w')
             | Inl e \<Rightarrow> (synthesize_failure c payload RC_ServFail, w'))))"

section \<open>Where a query goes\<close>

text \<open>The system of \<open>env\<close>, keeping a log of its calls.\<close>

definition logged :: "'w sys_env \<Rightarrow> ('w \<times> sys_op list) sys_env" where
  "logged env = \<lparr>sys_platform = sys_platform env,
     sys_call = (\<lambda>(w, l) op. case sys_call env w op of (r, w') \<Rightarrow> (r, (w', l @ [op]))),
     sys_local_port = (\<lambda>(w, l). sys_local_port env w),
     sys_recv = (\<lambda>(w, l) s. case sys_recv env w s of (r, w') \<Rightarrow> (r, (w', l)))\<rparr>"

lemma platform_logged [simp]: "sys_platform (logged env) = sys_platform env"
  by (simp add: logged_def)

definition sends_within :: "(bytes \<times> socket_addr) set \<Rightarrow> ('w \<times> sys_op list \<Rightarrow> 'r \<times> 'w \<times> sys_op list) \<Rightarrow> bool" where
  "sends_within S m \<longleftrightarrow> (\<forall>w l. \<exists>new. snd (snd (m (w, l))) = l @ new \<and>
     (\<forall>b a. OpSendTo b a \<in> set new \<longrightarrow> (b, a) \<in> S))"

named_theorems sends \<open>which datagrams an operation sends\<close>

lemma sends_return [sends]: "sends_within S (io_return x)" "sends_within S (io_fail e)"
  by (simp_all add: sends_within_def)

lemma sends_bind [sends]:
  assumes "sends_within S m" "\<And>x. sends_within S (f x)"
  shows "sends_within S (io_bind m f)"
  unfolding sends_within_def
proof (intro allI)
  fix w l
  obtain r w1 l1 where m: "m (w, l) = (r, (w1, l1))" by (metis prod.exhaust)
  obtain n1 where n1: "l1 = l @ n1" "\<forall>b a. OpSendTo b a \<in> set n1 \<longrightarrow> (b, a) \<in> S"
    using assms(1) m unfolding sends_within_def by (metis snd_conv)
  show "\<exists>new. snd (snd (io_bind m f (w, l))) = l @ new \<and> (\<forall>b a. OpSendTo b a \<in> set new \<longrightarrow> (b, a) \<in> S)"
  proof (cases r)
    case (Inl e)
    then show ?thesis using m n1 by (simp add: io_bind_def)
  next
    case (Inr x)
    obtain n2 where n2: "snd (snd (f x (w1, l1))) = l1 @ n2" "\<forall>b a. OpSendTo b a \<in> set n2 \<longrightarrow> (b, a) \<in> S"
      using assms(2) unfolding sends_within_def by blast
    have "snd (snd (io_bind m f (w, l))) = l @ (n1 @ n2)"
      using m Inr n1 n2 by (simp add: io_bind_def)
    then show ?thesis using n1(2) n2(2) by (intro exI [of _ "n1 @ n2"]) auto
  qed
qed

lemma sends_map_err [sends]: "sends_within S m \<Longrightarrow> sends_within S (io_map_err g m)"
  by (simp add: sends_within_def io_map_err_def split_beta)

lemma sends_if [sends]: "sends_within S a \<Longrightarrow> sends_within S b \<Longrightarrow> sends_within S (if P then a else b)"
  by simp

lemma sends_call: "(\<And>b a. op = OpSendTo b a \<Longrightarrow> (b, a) \<in> S) \<Longrightarrow>
   \<exists>new. snd (snd (sys_call (logged env) (w, l) op)) = l @ new \<and> (\<forall>b a. OpSendTo b a \<in> set new \<longrightarrow> (b, a) \<in> S)"
  by (auto simp: logged_def split: prod.splits)

lemma sends_sys_do [sends]: "(\<And>b a. op \<noteq> OpSendTo b a) \<Longrightarrow> sends_within S (sys_do (logged env) op err)"
  unfolding sends_within_def sys_do_def by (auto simp: logged_def split: prod.splits sys_res.splits)

lemma sends_sys_io [sends]: "(\<And>b a. op \<noteq> OpSendTo b a) \<Longrightarrow> sends_within S (sys_io (logged env) op)"
  unfolding sends_within_def sys_io_def by (auto simp: logged_def split: prod.splits sys_res.splits)

lemma sends_bind_interface [sends]: "sends_within S (bind_socket_to_interface (logged env) s fam i)"
  by (cases i; cases "sys_platform env")
    (auto simp: bind_socket_to_interface_def bind_socket_to_interface_inner_def intro!: sends)

lemma sends_bind_udp_to [sends]: "sends_within S (bind_udp_to (logged env) d server)"
  unfolding bind_udp_to_def new_socket2_def Let_def by (intro sends) simp_all

lemma sends_query_single [sends]: "(request, server) \<in> S \<Longrightarrow> sends_within S (query_single (logged env) s server request)"
  unfolding sends_within_def query_single_def
  by (auto simp: logged_def split: prod.splits sys_res.splits recv_res.splits)

lemma sends_query_directed: "(request, server) \<in> S \<Longrightarrow> sends_within S (query_directed (logged env) d request server)"
  unfolding query_directed_def by (intro sends)

lemma sends_query_routed: "(request, server) \<in> S \<Longrightarrow> sends_within S (query_routed (logged env) request server)"
  unfolding query_routed_def udp_socket_bind_def by (intro sends) simp_all

lemma sends_fan_out:
  assumes "\<And>s. s \<in> set ss \<Longrightarrow> sends_within S (query s)"
  shows "sends_within S (fan_out query ss)"
  using assms
proof (induction ss)
  case Nil
  then show ?case by (simp add: sends_within_def)
next
  case (Cons s ss)
  show ?case unfolding sends_within_def
  proof (intro allI)
    fix w l
    obtain r w1 l1 where q: "query s (w, l) = (r, (w1, l1))" by (metis prod.exhaust)
    obtain rs w2 l2 where f: "fan_out query ss (w1, l1) = (rs, (w2, l2))" by (metis prod.exhaust)
    obtain n1 where n1: "l1 = l @ n1" "\<forall>b a. OpSendTo b a \<in> set n1 \<longrightarrow> (b, a) \<in> S"
      using Cons.prems q unfolding sends_within_def by (metis list.set_intros(1) snd_conv)
    obtain n2 where n2: "l2 = l1 @ n2" "\<forall>b a. OpSendTo b a \<in> set n2 \<longrightarrow> (b, a) \<in> S"
      using Cons f unfolding sends_within_def by (metis list.set_intros(2) snd_conv)
    show "\<exists>new. snd (snd (fan_out query (s # ss) (w, l))) = l @ new
        \<and> (\<forall>b a. OpSendTo b a \<in> set new \<longrightarrow> (b, a) \<in> S)"
      by (rule exI [of _ "n1 @ n2"]) (use q f n1 n2 in auto)
  qed
qed

lemma sends_parallel:
  assumes "\<And>s. s \<in> set servers \<Longrightarrow> sends_within S (query s)" "set (arrive servers) \<subseteq> set servers"
  shows "sends_within S (parallel_query query arrive servers)"
proof -
  have f: "sends_within S (fan_out query (arrive servers))"
    by (rule sends_fan_out) (use assms in blast)
  show ?thesis
  proof (cases servers)
    case Nil
    then show ?thesis by (simp add: sends_within_def parallel_query_def)
  next
    case s: (Cons s ss)
    show ?thesis
    proof (cases ss)
      case Nil
      then show ?thesis using assms(1) [of s] s by (simp add: sends_within_def parallel_query_def)
    next
      case (Cons s2 ss2)
      then have "\<And>w. snd (snd (parallel_query query arrive servers w)) = snd (snd (fan_out query (arrive servers) w))"
        using s by (simp add: parallel_query_def split_beta)
      then show ?thesis using f by (simp add: sends_within_def)
    qed
  qed
qed

lemma dns_resolve_sends:
  assumes "\<And>ss. set (arrive ss) \<subseteq> set ss"
    and "dns_resolve c lib (logged env) arrive r payload (w, []) = (response, (w', log))"
    and "OpSendTo b a \<in> set log"
  shows "b = payload \<and> synthesize c (dr_config r) payload = None \<and>
    a \<in> set (if route_through_vpn lib (dr_config r) (parse_question_domain c payload)
             then dr_vpn_servers r else dr_system_servers r)"
proof -
  let ?via = "route_through_vpn lib (dr_config r) (parse_question_domain c payload)"
  let ?S = "{payload} \<times> set (if ?via then dr_vpn_servers r else dr_system_servers r)"
  have none: "synthesize c (dr_config r) payload = None"
    using assms(2,3) by (auto simp: dns_resolve_def split: option.splits)
  let ?run = "if ?via then parallel_query_routed (logged env) arrive (dr_vpn_servers r) payload
    else parallel_query_directed (logged env) arrive (dr_system_servers r) payload (dr_directed_dialer r)"
  have s: "sends_within ?S ?run"
    unfolding parallel_query_routed_def parallel_query_directed_def
    by (auto intro!: sends_parallel sends_query_routed sends_query_directed assms(1))
  have log: "snd (snd (?run (w, []))) = log"
    using assms(2) none by (auto simp: dns_resolve_def Let_def split: prod.splits sum.splits if_splits)
  have "(b, a) \<in> ?S"
    using s log assms(3) unfolding sends_within_def by (metis (no_types, lifting) append_Nil)
  then show ?thesis using none by simp
qed

text \<open>C2: no DNS leak.  A query sends nothing but the query itself, and nothing when it is answered from the
  tables; when its name belongs to the VPN it is sent to VPN resolvers only, and otherwise to system
  resolvers only.\<close>

theorem dns_no_leak:
  assumes "\<And>ss. set (arrive ss) \<subseteq> set ss"
    and "dns_resolve c lib (logged env) arrive r payload (w, []) = (response, (w', log))"
    and "OpSendTo b a \<in> set log"
  shows "b = payload \<and> synthesize c (dr_config r) payload = None \<and>
    a \<in> set (if route_through_vpn lib (dr_config r) (parse_question_domain c payload)
             then dr_vpn_servers r else dr_system_servers r)"
  by (rule dns_resolve_sends [OF assms])

definition ready_env :: "unit sys_env" where
  "ready_env = \<lparr>sys_platform = Linux, sys_call = (\<lambda>w op. (SysOk, w)), sys_local_port = (\<lambda>w s. Inr 0),
     sys_recv = (\<lambda>w s. (RecvOk [9], w))\<rparr>"

definition mute_codec :: msg_codec where
  "mute_codec = \<lparr>mc_from_vec = (\<lambda>_. None), mc_to_vec = (\<lambda>_. None)\<rparr>"

definition sample_resolver :: dns_resolver where
  "sample_resolver = \<lparr>dr_config = dns_from_vpn_conn sample_dns_lib (split_conn []) None False,
     dr_vpn_servers = [\<lparr>sa_ip = V4 10, sa_port = 53\<rparr>], dr_system_servers = [\<lparr>sa_ip = V4 223, sa_port = 53\<rparr>],
     dr_vpn_dns_ips = [V4 10], dr_directed_dialer = dialer_new None\<rparr>"

theorem dns_no_leak_witness:
  "\<exists>response log. dns_resolve mute_codec sample_dns_lib (logged ready_env) id sample_resolver [1] ((), []) = (response, ((), log))
     \<and> OpSendTo [1] \<lparr>sa_ip = V4 223, sa_port = 53\<rparr> \<in> set log
     \<and> \<lparr>sa_ip = V4 223, sa_port = 53\<rparr> \<in> set (dr_system_servers sample_resolver)"
proof -
  have route: "\<not> route_through_vpn sample_dns_lib (dr_config sample_resolver) (parse_question_domain mute_codec [1])"
    by (simp add: route_through_vpn_def sample_resolver_def parse_question_domain_def mute_codec_def
        dns_from_vpn_conn_def Let_def)
  have synth: "synthesize mute_codec (dr_config sample_resolver) [1] = None"
    by (simp add: synthesize_def mute_codec_def)
  obtain response log where run: "dns_resolve mute_codec sample_dns_lib (logged ready_env) id sample_resolver [1] ((), [])
      = (response, ((), log))" and sent: "OpSendTo [1] \<lparr>sa_ip = V4 223, sa_port = 53\<rparr> \<in> set log"
    using route synth
    by (simp add: dns_resolve_def parallel_query_directed_def parallel_query_def sample_resolver_def
        query_directed_def bind_udp_to_def new_socket2_def sys_do_def query_single_def logged_def
        ready_env_def io_bind_def io_map_err_def bind_socket_to_interface_def dialer_new_def Let_def)
  have "a \<in> set (dr_system_servers sample_resolver)" if "OpSendTo b a \<in> set log" for b a
    using dns_no_leak [of id mute_codec sample_dns_lib ready_env sample_resolver "[1]" "()" response "()" log b a]
      run route that by simp
  with run sent show ?thesis by blast
qed

section \<open>Names managed by the VPN\<close>

lemma lookup_empty: "tables_empty t \<Longrightarrow> lookup_v4 t name = None \<and> lookup_v6 t name = None"
  by (simp add: tables_empty_def lookup_v4_def lookup_v6_def)


definition plain_codec :: msg_codec where
  "plain_codec = \<lparr>mc_from_vec = (\<lambda>bs. Some \<lparr>dm_rest = bs, dm_response = False, dm_rcode = 0,
       dm_recursion_available = False, dm_queries = [\<lparr>qu_name = ''git.xyz.io.'', qu_type = QueryAAAA\<rparr>], dm_answers = []\<rparr>),
     mc_to_vec = (\<lambda>m. Some (if dm_response m \<and> dm_answers m = [] then [1] else [0]))\<rparr>"

definition v4_only :: dns_config where
  "v4_only = \<lparr>dns_full_tunnel = False, dns_vpn_servers = [], dns_split_matchers = [],
     dns_dynamic = \<lparr>dt_exact_v4 = [(''git.xyz.io'', [''10.0.0.9''])], dt_exact_v6 = [], dt_wildcard_v4 = [], dt_suffix_v4 = []\<rparr>,
     dns_central_dns = None, dns_ip_nats = []\<rparr>"


end
