(* ===== verification/DnsServer.thy ===== *)
theory DnsServer
  imports DnsResolve
begin

text \<open>
  The optional local DNS server (\<open>src/crates/dns/src/server.rs\<close>): its two sockets and the loop
  that hands every datagram to the resolver.  The loop waits for the shutdown token or the next
  receive result; the sequence of these events is its argument.
\<close>

datatype dns_server_error = DsBind socket_addr io_kind

definition server_bind_udp :: "'w sys_env \<Rightarrow> socket_addr \<Rightarrow> ('w, dns_server_error, sock) io" where
  "server_bind_udp env addr =
     (let family = family_from_addr addr;
          call = (\<lambda>op. io_map_err (DsBind addr) (sys_io env op)) in
      io_bind (call (OpSocket family False)) (\<lambda>_.
      io_bind (call OpReuseAddress) (\<lambda>_.
      io_bind (if is_ipv6 (sa_ip addr) then call OpOnlyV6 else io_return ()) (\<lambda>_.
      io_bind (call OpNonblocking) (\<lambda>_.
      io_bind (call (OpBind addr)) (\<lambda>_.
      io_bind (call OpRegister) (\<lambda>_.
      io_return \<lparr>sk_family = family, sk_stream = False, sk_device = None, sk_mark = None,
        sk_local = Some addr, sk_peer = None\<rparr>)))))))"

definition dns_server_start ::
  "'w sys_env \<Rightarrow> socket_addr \<Rightarrow> socket_addr \<Rightarrow> ('w, dns_server_error, sock \<times> sock) io" where
  "dns_server_start env bind_v4 bind_v6 =
     io_bind (server_bind_udp env bind_v4) (\<lambda>socket_v4.
     io_bind (server_bind_udp env bind_v6) (\<lambda>socket_v6.
     io_return (socket_v4, socket_v6)))"

datatype srv_event = SrvShutdown | SrvDatagram bytes socket_addr | SrvRecvError io_kind

text \<open>The tasks the loop spawns (payload and client of each), and whether it has ended.\<close>

fun serve_loop :: "srv_event list \<Rightarrow> (bytes \<times> socket_addr) list \<times> bool" where
  "serve_loop [] = ([], False)"
| "serve_loop (SrvShutdown # evs) = ([], True)"
| "serve_loop (SrvRecvError k # evs) = serve_loop evs"
| "serve_loop (SrvDatagram payload client # evs) =
     (let (tasks, stopped) = serve_loop evs in ((take MAX_DNS_PACKET payload, client) # tasks, stopped))"

text \<open>A task: the resolver's answer to the payload is sent to the client; a failing send is logged.\<close>

definition serve_task ::
  "msg_codec \<Rightarrow> 'l dns_lib \<Rightarrow> 'w sys_env \<Rightarrow> (socket_addr list \<Rightarrow> socket_addr list) \<Rightarrow> dns_resolver
   \<Rightarrow> bytes \<times> socket_addr \<Rightarrow> 'w \<Rightarrow> 'w" where
  "serve_task c lib env arrive r = (\<lambda>(payload, client) w.
     let (response, w1) = dns_resolve c lib env arrive r payload w
     in snd (sys_call env w1 (OpSendTo response client)))"

text \<open>Every client is served.  The tasks of the DNS server are, in order, the datagrams received before
  the shutdown, each cut to the receive buffer and paired with its sender; receive errors neither stop
  the server nor lose a datagram, and it ends exactly when the shutdown is seen.\<close>

theorem serve_loop_spec:
  "serve_loop evs =
     (filter_map (\<lambda>e. case e of SrvDatagram payload client \<Rightarrow> Some (take MAX_DNS_PACKET payload, client) | _ \<Rightarrow> None)
        (takeWhile (\<lambda>e. e \<noteq> SrvShutdown) evs),
      SrvShutdown \<in> set evs)"
  by (induction evs rule: serve_loop.induct) (auto simp: filter_map_def)

text \<open>\<open>shutdown\<close> cancels the token and awaits both loops, each of which may still receive what arrived before it
  sees the token.\<close>

definition server_shutdown ::
  "srv_event list \<Rightarrow> srv_event list \<Rightarrow> ((bytes \<times> socket_addr) list \<times> bool) \<times> ((bytes \<times> socket_addr) list \<times> bool)" where
  "server_shutdown pending_v4 pending_v6 = (serve_loop (pending_v4 @ [SrvShutdown]), serve_loop (pending_v6 @ [SrvShutdown]))"

lemma server_shutdown_returns:
  "snd (fst (server_shutdown e4 e6)) \<and> snd (snd (server_shutdown e4 e6))"
proof -
  have "snd (serve_loop (evs @ [SrvShutdown]))" for evs
    by (induction evs rule: serve_loop.induct) (auto split: prod.splits)
  then show ?thesis by (simp add: server_shutdown_def)
qed

text \<open>A server that starts holds one socket of each requested address, unpinned.\<close>

lemma server_bind_udp_local:
  "server_bind_udp env addr w = (Inr s, w') \<Longrightarrow> sk_local s = Some addr \<and> sk_device s = None \<and> \<not> sk_stream s"
  by (auto simp: server_bind_udp_def Let_def io_bind_Inr)

lemma dns_server_start_local:
  "dns_server_start env a4 a6 w = (Inr (s4, s6), w') \<Longrightarrow> sk_local s4 = Some a4 \<and> sk_local s6 = Some a6"
  by (auto simp: dns_server_start_def io_bind_Inr dest: server_bind_udp_local)

end
