(* ===== verification/TunDns.thy ===== *)
theory TunDns
  imports DnsResolve
begin

text \<open>
  The DNS side of the TUN device (\<open>src/crates/tunnel/src/dns.rs\<close>): the query transport of the
  liveness probe, the probe itself, the recognition of DNS packets, the reply packets, and the
  receive loop of the device that answers them.

  Slicing and building IP packets (etherparse) and the check of the packet type (gotatun) are
  third-party and gathered in \<open>pkt_lib\<close>.  The device delivers a script of receive results;
  the tasks the loop spawns are returned in order.
\<close>

section \<open>Query transport\<close>

datatype tun_dns_error =
    TdBindSocket dialer_error
  | TdSendQuery socket_addr io_kind
  | TdRecvReply socket_addr io_kind
  | TdQueryTimeout socket_addr
  | TdBuildResponse
  | TdAddressFamilyMismatch
  | TdInvalidIpPacket string

definition transport_query ::
  "'w sys_env \<Rightarrow> dialer \<Rightarrow> socket_addr \<Rightarrow> bytes \<Rightarrow> ('w, tun_dns_error, bytes) io" where
  "transport_query env d server request =
     io_bind (io_map_err TdBindSocket (bind_udp_to env d server)) (\<lambda>socket w.
       case sys_call env w (OpSendTo request server) of
         (SysErr k, w1) \<Rightarrow> (Inl (TdSendQuery server k), w1)
       | (SysTimeout, w1) \<Rightarrow> (Inl (TdSendQuery server (IoOther 0)), w1)
       | (SysOk, w1) \<Rightarrow> (case sys_recv env w1 socket of
           (RecvTimeout, w2) \<Rightarrow> (Inl (TdQueryTimeout server), w2)
         | (RecvErr k, w2) \<Rightarrow> (Inl (TdRecvReply server k), w2)
         | (RecvOk buf, w2) \<Rightarrow> (Inr (take MAX_DNS_PACKET buf), w2)))"

section \<open>Liveness probe\<close>

definition PROBE_INTERVAL :: duration where "PROBE_INTERVAL = from_secs 3"

definition DNS_TIMEOUT :: duration where "DNS_TIMEOUT = from_secs 3"

text \<open>\<open>liveness_probe_query\<close>: a fixed question; its encoding succeeds.\<close>

definition liveness_probe_query :: "msg_codec \<Rightarrow> bytes" where
  "liveness_probe_query c = the (mc_to_vec c \<lparr>dm_rest = [0, 0], dm_response = False, dm_rcode = RC_NoError,
     dm_recursion_available = False, dm_queries = [\<lparr>qu_name = ''localhost.'', qu_type = QueryA\<rparr>], dm_answers = []\<rparr>)"

text \<open>One tick of \<open>run_probe\<close>: the servers in order, up to the first that answers; the time of
  the answer, which is stored in \<open>last_rx\<close>, is read after it arrived.\<close>

fun probe_round ::
  "(socket_addr \<Rightarrow> ('w, 'e, bytes) io) \<Rightarrow> ('w \<Rightarrow> nat) \<Rightarrow> socket_addr list \<Rightarrow> 'w \<Rightarrow> nat option \<times> 'w" where
  "probe_round query clock [] w = (None, w)"
| "probe_round query clock (server # servers) w = (case query server w of
      (Inr _, w') \<Rightarrow> (Some (clock w'), w')
    | (Inl _, w') \<Rightarrow> probe_round query clock servers w')"

text \<open>The endless loop, from its \<open>k\<close>-th tick on and for the next \<open>ticks\<close> ticks: the times it stores in \<open>last_rx\<close>, in
  order.  \<open>sleep t\<close> waits until \<open>t\<close>, and not at all when \<open>t\<close> has passed; the interval's ticks are \<open>PROBE_INTERVAL\<close> apart,
  counted from the start, the first at once.\<close>

fun run_probe ::
  "(socket_addr \<Rightarrow> ('w, 'e, bytes) io) \<Rightarrow> ('w \<Rightarrow> nat) \<Rightarrow> (nat \<Rightarrow> 'w \<Rightarrow> 'w) \<Rightarrow> socket_addr list \<Rightarrow> nat \<Rightarrow> nat \<Rightarrow> nat
   \<Rightarrow> 'w \<Rightarrow> nat list \<times> 'w" where
  "run_probe query clock sleep servers start k 0 w = ([], w)"
| "run_probe query clock sleep servers start k (Suc ticks) w =
     (let (reply, w1) = probe_round query clock servers (sleep (start + k * PROBE_INTERVAL) w);
          (replies, w2) = run_probe query clock sleep servers start (Suc k) ticks w1
      in (case reply of None \<Rightarrow> replies | Some t \<Rightarrow> t # replies, w2))"

text \<open>What \<open>last_rx\<close> holds at a time, and the age of the last reply.\<close>

fun last_rx_at :: "nat list \<Rightarrow> nat \<Rightarrow> nat option" where
  "last_rx_at [] now = None"
| "last_rx_at (r # rs) now = (case last_rx_at rs now of
      Some r' \<Rightarrow> Some r' | None \<Rightarrow> if r \<le> now then Some r else None)"

definition last_rx_elapsed :: "nat \<Rightarrow> nat option \<Rightarrow> duration option" where
  "last_rx_elapsed now last_rx = map_option (\<lambda>rx. now - rx) last_rx"

section \<open>Packets\<close>

datatype transport_slice = SliceUdp u16 u16 bytes | SliceOther
datatype net_slice = NetIpv4 ipv4 ipv4 | NetIpv6 ipv6 ipv6 | NetArp

record sliced_packet =
  sl_net :: "net_slice option"
  sl_transport :: "transport_slice option"

record pkt_lib =
  pk_from_ip :: "bytes \<Rightarrow> sliced_packet option"
  pk_build :: "net_slice \<Rightarrow> u8 \<Rightarrow> u16 \<Rightarrow> u16 \<Rightarrow> bytes \<Rightarrow> bytes option"
  pk_ip_error :: "bytes \<Rightarrow> string option"

record dns_wire_query =
  dq_source :: ip_addr
  dq_destination :: ip_addr
  dq_source_port :: u16
  dq_destination_port :: u16
  dq_payload :: bytes

definition DNS_RESPONSE_HOP_LIMIT :: u8 where "DNS_RESPONSE_HOP_LIMIT = 64"

definition from_ip_packet :: "pkt_lib \<Rightarrow> bytes \<Rightarrow> dns_wire_query option" where
  "from_ip_packet lib packet =
     Option.bind (pk_from_ip lib packet) (\<lambda>sliced.
       case sl_transport sliced of
         Some (SliceUdp source_port destination_port payload) \<Rightarrow>
           if destination_port \<noteq> DNS_PORT then None
           else map_option (\<lambda>(source, destination). \<lparr>dq_source = source, dq_destination = destination,
                    dq_source_port = source_port, dq_destination_port = destination_port,
                    dq_payload = payload\<rparr>)
                  (case sl_net sliced of
                     Some (NetIpv4 s d) \<Rightarrow> Some (V4 s, V4 d)
                   | Some (NetIpv6 s d) \<Rightarrow> Some (V6 s, V6 d)
                   | _ \<Rightarrow> None)
       | _ \<Rightarrow> None)"

definition write_udp_packet :: "pkt_lib \<Rightarrow> net_slice \<Rightarrow> u16 \<Rightarrow> u16 \<Rightarrow> bytes \<Rightarrow> (tun_dns_error, bytes) result" where
  "write_udp_packet lib net source_port destination_port payload =
     ok_or TdBuildResponse (pk_build lib net DNS_RESPONSE_HOP_LIMIT source_port destination_port payload)"

definition response_packet :: "pkt_lib \<Rightarrow> dns_wire_query \<Rightarrow> bytes \<Rightarrow> (tun_dns_error, bytes) result" where
  "response_packet lib q dns_payload = (case (dq_source q, dq_destination q) of
      (V4 source, V4 destination) \<Rightarrow>
        write_udp_packet lib (NetIpv4 destination source) (dq_destination_port q) (dq_source_port q) dns_payload
    | (V6 source, V6 destination) \<Rightarrow>
        write_udp_packet lib (NetIpv6 destination source) (dq_destination_port q) (dq_source_port q) dns_payload
    | _ \<Rightarrow> Inl TdAddressFamilyMismatch)"

section \<open>The TUN device\<close>

text \<open>The query a packet is hijacked for, if it is.\<close>

definition hijacked :: "pkt_lib \<Rightarrow> dns_resolver option \<Rightarrow> bytes \<Rightarrow> dns_wire_query option" where
  "hijacked lib resolver packet = (case resolver of
      None \<Rightarrow> None
    | Some r \<Rightarrow> opt_filter (\<lambda>q. dq_destination q \<notin> set (dr_vpn_dns_ips r)) (from_ip_packet lib packet))"

datatype tun_recv_error = DeviceRecv io_kind | RecvInvalid tun_dns_error

text \<open>\<open>VpnTun::recv\<close> over the receive results of the device: the outcome (\<open>None\<close> while it still
  waits), the queries whose tasks were spawned, and the results not consumed.\<close>

fun tun_recv ::
  "pkt_lib \<Rightarrow> dns_resolver option \<Rightarrow> (io_kind, bytes) result list
   \<Rightarrow> (tun_recv_error, bytes) result option \<times> dns_wire_query list \<times> (io_kind, bytes) result list" where
  "tun_recv lib resolver [] = (None, [], [])"
| "tun_recv lib resolver (Inl k # script) = (Some (Inl (DeviceRecv k)), [], script)"
| "tun_recv lib resolver (Inr packet # script) = (case hijacked lib resolver packet of
      Some q \<Rightarrow> (let (out, spawned, rest) = tun_recv lib resolver script in (out, q # spawned, rest))
    | None \<Rightarrow> (case pk_ip_error lib packet of
          Some reason \<Rightarrow> (Some (Inl (RecvInvalid (TdInvalidIpPacket reason))), [], script)
        | None \<Rightarrow> (Some (Inr packet), [], script)))"

text \<open>The spawned task: the packet it writes back into the device, if it builds one.\<close>

definition hijack_task ::
  "pkt_lib \<Rightarrow> msg_codec \<Rightarrow> 'l dns_lib \<Rightarrow> 'w sys_env \<Rightarrow> (socket_addr list \<Rightarrow> socket_addr list)
   \<Rightarrow> dns_resolver \<Rightarrow> dns_wire_query \<Rightarrow> 'w \<Rightarrow> bytes option \<times> 'w" where
  "hijack_task lib c dlib env arrive r q w =
     (let (response, w') = dns_resolve c dlib env arrive r (dq_payload q) w
      in (res_ok (response_packet lib q response), w'))"

section \<open>Facts\<close>

lemma hijacked_eq_Some:
  "hijacked lib resolver p = Some q \<longleftrightarrow> (\<exists>r. resolver = Some r \<and> from_ip_packet lib p = Some q
     \<and> dq_destination q \<notin> set (dr_vpn_dns_ips r))"
  by (cases resolver) (auto simp: hijacked_def opt_filter_eq_Some)

lemma tun_recv_hijacks:
  assumes "map (hijacked lib resolver) pre = map Some spawned"
  shows "tun_recv lib resolver (map Inr pre @ script) =
    (case tun_recv lib resolver script of (out, qs, rest) \<Rightarrow> (out, spawned @ qs, rest))"
  using assms
proof (induction pre arbitrary: spawned)
  case Nil
  then show ?case by (simp split: prod.split)
next
  case (Cons p pre)
  then obtain q qs where "spawned = q # qs" and "hijacked lib resolver p = Some q"
    "map (hijacked lib resolver) pre = map Some qs" by (cases spawned) auto
  with Cons.IH show ?case by (simp split: prod.split)
qed

lemma tun_recv_returns:
  assumes "tun_recv lib resolver script = (Some (Inr p), spawned, rest)"
  obtains pre where "script = map Inr pre @ Inr p # rest" "map (hijacked lib resolver) pre = map Some spawned"
    "hijacked lib resolver p = None" "pk_ip_error lib p = None"
  using assms
proof (induction lib resolver script arbitrary: spawned thesis rule: tun_recv.induct)
  case (3 lib resolver packet script)
  show ?case
  proof (cases "hijacked lib resolver packet")
    case None
    then have "p = packet" "spawned = []" "rest = script" "pk_ip_error lib p = None"
      using "3.prems"(2) by (auto split: option.splits)
    then show ?thesis using None by (intro "3.prems"(1) [of "[]"]) simp_all
  next
    case (Some q)
    then obtain qs where "tun_recv lib resolver script = (Some (Inr p), qs, rest)" "spawned = q # qs"
      using "3.prems"(2) by (auto split: prod.splits)
    note qs = this
    show ?thesis
    proof (rule "3.IH" [OF Some _ qs(1)])
      fix pre assume "script = map Inr pre @ Inr p # rest" "map (hijacked lib resolver) pre = map Some qs"
        "hijacked lib resolver p = None" "pk_ip_error lib p = None"
      then show thesis using Some qs(2) by (intro "3.prems"(1) [of "packet # pre"]) simp_all
    qed
  qed
qed auto

text \<open>What the WireGuard side receives.  The receive loop returns a packet exactly when it is the first
  of the device's packets that is not hijacked and is a valid IP packet; each packet before it is a DNS
  query that does not go to a VPN resolver, and one task is spawned for each, in order.\<close>

theorem tun_recv_spec:
  "tun_recv lib resolver script = (Some (Inr p), spawned, rest) \<longleftrightarrow>
   (\<exists>pre. script = map Inr pre @ Inr p # rest \<and> map (hijacked lib resolver) pre = map Some spawned
      \<and> hijacked lib resolver p = None \<and> pk_ip_error lib p = None)"
proof
  assume "tun_recv lib resolver script = (Some (Inr p), spawned, rest)"
  then show "\<exists>pre. script = map Inr pre @ Inr p # rest \<and> map (hijacked lib resolver) pre = map Some spawned
      \<and> hijacked lib resolver p = None \<and> pk_ip_error lib p = None"
    by (rule tun_recv_returns) blast
next
  assume "\<exists>pre. script = map Inr pre @ Inr p # rest \<and> map (hijacked lib resolver) pre = map Some spawned
      \<and> hijacked lib resolver p = None \<and> pk_ip_error lib p = None"
  then obtain pre where "script = map Inr pre @ Inr p # rest" "map (hijacked lib resolver) pre = map Some spawned"
    "hijacked lib resolver p = None" "pk_ip_error lib p = None" by blast
  then show "tun_recv lib resolver script = (Some (Inr p), spawned, rest)"
    by (simp add: tun_recv_hijacks)
qed

text \<open>C19: the hijacker never intercepts its own resolver's queries.  A datagram the resolver sends for a
  name of the VPN, seen again on the TUN device, is addressed to a VPN resolver and is passed on to
  WireGuard instead of being answered once more.\<close>

theorem resolver_queries_not_hijacked:
  assumes "resolver_build config vpn_servers system_servers d = Some r"
    and "\<And>ss. set (arrive ss) \<subseteq> set ss"
    and "dns_resolve c lib (logged env) arrive r payload (w, []) = (response, (w', log))"
    and "route_through_vpn lib config (parse_question_domain c payload)"
    and "OpSendTo b a \<in> set log"
    and "from_ip_packet plib p = Some q" "dq_destination q = sa_ip a"
  shows "hijacked plib (Some r) p = None"
proof -
  have r: "dr_config r = config" "dr_vpn_servers r = vpn_servers" "dr_vpn_dns_ips r = map sa_ip vpn_servers"
    using assms(1) by (auto simp: resolver_build_def split: if_splits)
  have "a \<in> set vpn_servers"
    using dns_resolve_sends [OF assms(2,3,5)] assms(4) r by simp
  then show ?thesis
    using assms(6,7) r by (simp add: hijacked_def)
qed

definition sample_pkt_lib :: pkt_lib where
  "sample_pkt_lib = \<lparr>pk_from_ip = (\<lambda>p. Some \<lparr>sl_net = Some (NetIpv4 7 10),
       sl_transport = Some (SliceUdp 4000 53 p)\<rparr>), pk_build = (\<lambda>net hop sp dp payload. Some payload),
     pk_ip_error = (\<lambda>_. None)\<rparr>"

definition sample_wire_query :: dns_wire_query where
  "sample_wire_query = \<lparr>dq_source = V4 7, dq_destination = V4 10, dq_source_port = 4000,
     dq_destination_port = 53, dq_payload = [1]\<rparr>"

lemma sample_query_parsed: "from_ip_packet sample_pkt_lib [1] = Some sample_wire_query"
  by (simp add: from_ip_packet_def sample_pkt_lib_def sample_wire_query_def DNS_PORT_def)

definition full_dns :: dns_config where
  "full_dns = v4_only\<lparr>dns_full_tunnel := True, dns_vpn_servers := [''10.0.0.1:53'']\<rparr>"

definition full_resolver :: dns_resolver where
  "full_resolver = \<lparr>dr_config = full_dns, dr_vpn_servers = [\<lparr>sa_ip = V4 10, sa_port = 53\<rparr>],
     dr_system_servers = [], dr_vpn_dns_ips = [V4 10], dr_directed_dialer = dialer_new None\<rparr>"

theorem resolver_queries_not_hijacked_witness:
  "hijacked sample_pkt_lib (Some full_resolver) [1] = None
   \<and> (\<exists>out log. dns_resolve mute_codec sample_dns_lib (logged ready_env) id full_resolver [1] ((), []) = (out, ((), log))
       \<and> OpSendTo [1] \<lparr>sa_ip = V4 10, sa_port = 53\<rparr> \<in> set log)"
proof -
  have b: "resolver_build full_dns [\<lparr>sa_ip = V4 10, sa_port = 53\<rparr>] [] (dialer_new None) = Some full_resolver"
    by (simp add: resolver_build_def full_resolver_def full_dns_def is_disabled_def)
  have route: "route_through_vpn sample_dns_lib full_dns dom" for dom
    by (simp add: route_through_vpn_def full_dns_def)
  have synth: "synthesize mute_codec full_dns [1] = None"
    by (simp add: synthesize_def mute_codec_def)
  obtain out log where run: "dns_resolve mute_codec sample_dns_lib (logged ready_env) id full_resolver [1] ((), [])
      = (out, ((), log))" and sent: "OpSendTo [1] \<lparr>sa_ip = V4 10, sa_port = 53\<rparr> \<in> set log"
    using route synth
    by (simp add: dns_resolve_def parallel_query_routed_def parallel_query_def full_resolver_def
        query_routed_def udp_socket_bind_def sys_io_def query_single_def logged_def
        ready_env_def io_bind_def io_map_err_def Let_def)
  have "hijacked sample_pkt_lib (Some full_resolver) [1] = None"
    using resolver_queries_not_hijacked [OF b, of id mute_codec sample_dns_lib ready_env "[1]" "()" out "()" log
        "[1]" "\<lparr>sa_ip = V4 10, sa_port = 53\<rparr>" sample_pkt_lib "[1]" sample_wire_query]
      run sent route sample_query_parsed by (simp add: sample_wire_query_def)
  with run sent show ?thesis by blast
qed

text \<open>The addresses of a packet, the other way round.\<close>

fun reverse_net :: "net_slice \<Rightarrow> net_slice" where
  "reverse_net (NetIpv4 s d) = NetIpv4 d s"
| "reverse_net (NetIpv6 s d) = NetIpv6 d s"
| "reverse_net NetArp = NetArp"

text \<open>The answer goes back to the client.  For a packet recognised as a DNS query the task builds one
  packet, from the queried address and port 53 to the address and port the query came from, and its
  payload is the resolver's answer to the payload of the query; the address families never mismatch.\<close>

theorem hijack_reply_addressed:
  assumes "from_ip_packet lib p = Some q"
  shows "\<exists>net sport payload.
    pk_from_ip lib p = Some \<lparr>sl_net = Some net, sl_transport = Some (SliceUdp sport DNS_PORT payload)\<rparr>
    \<and> fst (hijack_task lib c dlib env arrive r q w)
      = pk_build lib (reverse_net net) DNS_RESPONSE_HOP_LIMIT DNS_PORT sport
          (fst (dns_resolve c dlib env arrive r payload w))"
proof -
  obtain s where s: "pk_from_ip lib p = Some s" using assms by (auto simp: from_ip_packet_def bind_eq_Some_conv)
  then show ?thesis
    using assms
    by (cases s) (auto simp: from_ip_packet_def hijack_task_def response_packet_def write_udp_packet_def
        ok_or_def split: transport_slice.splits option.splits if_splits net_slice.splits prod.splits)
qed

theorem hijack_reply_addressed_witness:
  "\<exists>net sport payload. pk_from_ip sample_pkt_lib [1]
       = Some \<lparr>sl_net = Some net, sl_transport = Some (SliceUdp sport DNS_PORT payload)\<rparr>
     \<and> fst (hijack_task sample_pkt_lib mute_codec sample_dns_lib ready_env id sample_resolver sample_wire_query ())
       = pk_build sample_pkt_lib (reverse_net net) DNS_RESPONSE_HOP_LIMIT DNS_PORT sport
           (fst (dns_resolve mute_codec sample_dns_lib ready_env id sample_resolver payload ()))"
  by (rule hijack_reply_addressed [OF sample_query_parsed])

end
