(* ===== verification/Session.thy ===== *)
theory Session
  imports Signing TunDns DnsServer OutboundContext Routes Bypass
begin

text \<open>
  The tunnel session (\<open>src/crates/tunnel/src/session.rs\<close>): its configuration, the TUN device it
  opens, the peer it configures, and its start and stop over the resources of the operating system
  (\<open>session_os\<close>): the routing table, the bypass rules, the open TUN devices and the sockets of the
  DNS server.  A value owned by a local variable of the source is released when the function returns
  early; \<open>owning_tun\<close> is that release for the TUN device.

  Third-party or platform parts are the fields of \<open>session_env\<close>: the TUN builder, the WireGuard device
  builder, key codecs, URL parts and the platform's route bypass.
\<close>

section \<open>Keys and local parameters\<close>

record key_lib =
  kl_b64_decode :: "string \<Rightarrow> bytes option"
  kl_b64_encode :: "bytes \<Rightarrow> string"
  kl_hex_decode :: "string \<Rightarrow> bytes option"
  kl_public_key :: "bytes \<Rightarrow> bytes"

datatype session_error =
    InvalidConfig string
  | InvalidIpv4Address string
  | InvalidIpv4Prefix int
  | InvalidMtu int
  | InvalidIpv6Address string
  | InvalidIpv6Network string
  | InvalidIpv6NetworkFamily string
  | SeRoute route_error
  | TunCreate io_kind
  | SeOutbound context_error
  | SeDevice nat
  | ResolveEndpoint string resolver_error
  | EmptyEndpointResolution string
  | InvalidKey string
  | SeDnsServer dns_server_error

definition decode_key :: "key_lib \<Rightarrow> string \<Rightarrow> string \<Rightarrow> (session_error, bytes) result" where
  "decode_key kl name v =
     (let trimmed = trim v in
      res_bind (ok_or (InvalidKey name) (or_else (kl_b64_decode kl trimmed) (kl_hex_decode kl trimmed)))
        (\<lambda>bs. if length bs = 32 then Inr bs else Inl (InvalidKey name)))"

definition ANDROID_LOCAL_PORT_START :: nat where "ANDROID_LOCAL_PORT_START = 12912"

text \<open>\<open>choose_local_port\<close>: \<open>free\<close> tells for which ports the trial bind succeeds.\<close>

definition choose_local_port :: "(u16 \<Rightarrow> bool) \<Rightarrow> u16" where
  "choose_local_port free =
     unwrap_or (find free (map of_nat [ANDROID_LOCAL_PORT_START..<65535])) 0"

record local_tunnel_params =
  ltp_local_private_key :: string
  ltp_local_public_key :: string
  ltp_local_port :: u16
  ltp_local_dns :: "string option"

definition params_from_secret :: "key_lib \<Rightarrow> (u16 \<Rightarrow> bool) \<Rightarrow> bytes \<Rightarrow> local_tunnel_params" where
  "params_from_secret kl free secret = \<lparr>ltp_local_private_key = kl_b64_encode kl secret,
     ltp_local_public_key = kl_b64_encode kl (kl_public_key kl secret),
     ltp_local_port = choose_local_port free, ltp_local_dns = None\<rparr>"

definition params_generate :: "key_lib \<Rightarrow> (u16 \<Rightarrow> bool) \<Rightarrow> bytes \<Rightarrow> local_tunnel_params" where
  "params_generate kl free random = params_from_secret kl free random"

definition params_from_private_key ::
  "key_lib \<Rightarrow> (u16 \<Rightarrow> bool) \<Rightarrow> string \<Rightarrow> (session_error, local_tunnel_params) result" where
  "params_from_private_key kl free v =
     res_bind (decode_key kl ''local_private_key'' v) (\<lambda>secret. Inr (params_from_secret kl free secret))"

section \<open>Configuration\<close>

record tunnel_config =
  tcf_interface_name :: string
  tcf_local_addr :: string
  tcf_local_addr_v6 :: "string option"
  tcf_local_prefix :: "int option"
  tcf_mtu :: int
  tcf_local_private_key :: string
  tcf_local_public_key :: string
  tcf_local_port :: u16
  tcf_server_public_key :: string
  tcf_server_preshared_key :: "string option"
  tcf_endpoint :: url
  tcf_protocol_mode :: protocol_mode
  tcf_protocol_version :: "string option"
  tcf_outbound_interface :: "string option"
  tcf_routes :: "ip_network list"
  tcf_full_tunnel :: bool
  tcf_ipv6_enabled :: bool
  tcf_dns :: dns_config
  tcf_route_system_dns :: bool
  tcf_dns_listen_port :: u16
  tcf_dns_listen_host :: "string option"
  tcf_fallback_dns :: "string list option"

definition default_interface_name :: "platform \<Rightarrow> string" where
  "default_interface_name p = (if p = MacOS then ''utun'' else ''wg0'')"

definition config_from_vpn_conn ::
  "platform \<Rightarrow> net_lib \<Rightarrow> 'l dns_lib \<Rightarrow> vpn_conn_response \<Rightarrow> local_tunnel_params \<Rightarrow> url \<Rightarrow> protocol_mode
   \<Rightarrow> vpn_route_mode \<Rightarrow> (session_error, tunnel_config) result" where
  "config_from_vpn_conn p nl dlib conn params endpoint mode route_mode =
     (if st_vpn_mtu (conn_setting conn) \<le> 0 then Inl (InvalidConfig ''vpn_mtu must be positive'')
      else
        (let ipv6_enabled = (case conn_ipv6 conn of None \<Rightarrow> False | Some v \<Rightarrow> trim v \<noteq> []);
             full_tunnel = (route_mode = RouteFull);
             dns = dns_from_vpn_conn dlib conn (ltp_local_dns params) full_tunnel in
         res_bind (map_err SeRoute (networks_from_vpn_conn nl conn route_mode ipv6_enabled)) (\<lambda>routes.
         Inr \<lparr>tcf_interface_name = default_interface_name p, tcf_local_addr = conn_ip conn,
              tcf_local_addr_v6 = conn_ipv6 conn, tcf_local_prefix = conn_ip_mask conn,
              tcf_mtu = st_vpn_mtu (conn_setting conn),
              tcf_local_private_key = ltp_local_private_key params,
              tcf_local_public_key = ltp_local_public_key params, tcf_local_port = ltp_local_port params,
              tcf_server_public_key = conn_public_key conn,
              tcf_server_preshared_key = conn_preshared_key conn, tcf_endpoint = endpoint,
              tcf_protocol_mode = mode, tcf_protocol_version = conn_protocol_version conn,
              tcf_outbound_interface = None, tcf_routes = routes, tcf_full_tunnel = full_tunnel,
              tcf_ipv6_enabled = ipv6_enabled, tcf_dns = dns, tcf_route_system_dns = True,
              tcf_dns_listen_port = 0, tcf_dns_listen_host = None, tcf_fallback_dns = None\<rparr>)))"

section \<open>The environment and the operating system\<close>

record tun_request =
  trq_ipv4 :: "ipv4 \<times> nat"
  trq_mtu :: nat
  trq_ipv6 :: "(ipv6 \<times> nat) option"
  trq_name :: "string option"

record wg_peer =
  pe_public_key :: bytes
  pe_endpoint :: socket_addr
  pe_allowed_ips :: "ip_network list"
  pe_keepalive :: "nat option"
  pe_preshared_key :: "bytes option"

record device_config =
  dvc_mode :: protocol_mode
  dvc_dialer :: dialer
  dvc_private_key :: bytes
  dvc_listen_port :: u16
  dvc_peer :: wg_peer
  dvc_identifier :: "(bytes \<times> bytes) option"
  dvc_tun :: string
  dvc_resolver :: "dns_resolver option"

record ('r, 'e, 'h) bypass_impl =
  bi_setup :: "outbound_interface \<Rightarrow> bool \<Rightarrow> ('r set, 'e, 'h) io"
  bi_teardown :: "'h \<Rightarrow> 'r set \<Rightarrow> 'r set"

record ('w, 'r, 'e, 'h) session_env =
  se_host :: host_os
  se_tun_views :: "host_os list"
  se_dns_conf :: "ip_addr list option"
  se_net :: net_lib
  se_dns_lib :: "'w dns_lib"
  se_sys :: "'w sys_env"
  se_codec :: dns_codec
  se_keys :: key_lib
  se_tun_build :: "tun_request \<Rightarrow> (io_kind, string) result"
  se_tun_wrap :: "string \<Rightarrow> io_kind option"
  se_device_build :: "device_config \<Rightarrow> nat option"
  se_url_host :: "url \<Rightarrow> url_host option"
  se_url_port :: "url \<Rightarrow> u16 option"
  se_bypass :: "('r, 'e, 'h) bypass_impl"

record ('w, 'r) session_os =
  so_world :: 'w
  so_routes :: route_os
  so_rules :: "'r set"
  so_tuns :: "string list"
  so_servers :: "(sock \<times> sock) list"

datatype tunnel_status = Created | RoutesApplied | Running | Stopped

record 'h tunnel_session =
  ts_config :: tunnel_config
  ts_status :: tunnel_status
  ts_device :: "device_config option"
  ts_routes :: "applied_routes option"
  ts_bypass :: "'h option"
  ts_probe :: "socket_addr list option"
  ts_dns_server :: "(sock \<times> sock) option"

definition session_new :: "tunnel_config \<Rightarrow> 'h tunnel_session" where
  "session_new config = \<lparr>ts_config = config, ts_status = Created, ts_device = None, ts_routes = None,
     ts_bypass = None, ts_probe = None, ts_dns_server = None\<rparr>"

type_synonym ('w, 'r, 'h, 'a) session_io = "('h tunnel_session \<times> ('w, 'r) session_os, session_error, 'a) io"

text \<open>Reading and updating the session, and running a part of the operating system.\<close>

definition asks :: "('h tunnel_session \<Rightarrow> (session_error, 'a) result) \<Rightarrow> ('w, 'r, 'h, 'a) session_io" where
  "asks f = (\<lambda>(ts, os). (f ts, (ts, os)))"

definition modifies :: "('h tunnel_session \<Rightarrow> 'h tunnel_session) \<Rightarrow> ('w, 'r, 'h, unit) session_io" where
  "modifies f = (\<lambda>(ts, os). (Inr (), (f ts, os)))"

definition on_world :: "('f \<Rightarrow> session_error) \<Rightarrow> ('w, 'f, 'a) io \<Rightarrow> ('w, 'r, 'h, 'a) session_io" where
  "on_world g m = (\<lambda>(ts, os). case m (so_world os) of (r, w) \<Rightarrow> (map_err g r, (ts, os\<lparr>so_world := w\<rparr>)))"

definition on_routes :: "(route_os, route_error, 'a) io \<Rightarrow> ('w, 'r, 'h, 'a) session_io" where
  "on_routes m = (\<lambda>(ts, os). case m (so_routes os) of (r, w) \<Rightarrow> (map_err SeRoute r, (ts, os\<lparr>so_routes := w\<rparr>)))"

definition close_tun :: "string \<Rightarrow> ('w, 'r) session_os \<Rightarrow> ('w, 'r) session_os" where
  "close_tun name os = os\<lparr>so_tuns := remove1 name (so_tuns os)\<rparr>"

text \<open>Run \<open>m\<close> while holding the device; it is released when \<open>m\<close> fails.\<close>

definition owning_tun :: "string \<Rightarrow> ('w, 'r, 'h, 'a) session_io \<Rightarrow> ('w, 'r, 'h, 'a) session_io" where
  "owning_tun name m = (\<lambda>s. case m s of
      (Inl e, (ts, os)) \<Rightarrow> (Inl e, (ts, close_tun name os))
    | (Inr x, s') \<Rightarrow> (Inr x, s'))"

section \<open>Opening the TUN device\<close>

definition ipv6_network :: "net_lib \<Rightarrow> string \<Rightarrow> (session_error, ipv6 \<times> nat) result" where
  "ipv6_network nl a =
     (if CHR ''/'' \<in> set a then
        res_bind (ok_or (InvalidIpv6Network a) (nl_parse nl a)) (\<lambda>n. case nw_ip n of
            V6 ip \<Rightarrow> Inr (ip, nw_prefix n)
          | V4 _ \<Rightarrow> Inl (InvalidIpv6NetworkFamily a))
      else res_bind (ok_or (InvalidIpv6Address a) (parse_ipv6 a)) (\<lambda>ip. Inr (ip, 64)))"

definition tun_request_of :: "platform \<Rightarrow> net_lib \<Rightarrow> tunnel_config \<Rightarrow> (session_error, tun_request) result" where
  "tun_request_of p nl c =
     res_bind (ok_or (InvalidIpv4Address (tcf_local_addr c)) (parse_ipv4 (tcf_local_addr c))) (\<lambda>local_addr.
     let prefix = unwrap_or (tcf_local_prefix c) 32 in
     res_bind (if 0 \<le> prefix \<and> prefix \<le> 32 then Inr (nat prefix) else Inl (InvalidIpv4Prefix prefix)) (\<lambda>local_prefix.
     res_bind (if 0 < tcf_mtu c \<and> tcf_mtu c \<le> 65535 then Inr (nat (tcf_mtu c)) else Inl (InvalidMtu (tcf_mtu c))) (\<lambda>mtu.
     res_bind (case opt_filter (\<lambda>v. v \<noteq> []) (map_option trim (tcf_local_addr_v6 c)) of
         None \<Rightarrow> Inr None
       | Some a \<Rightarrow> res_bind (ipv6_network nl a) (\<lambda>n. Inr (Some n))) (\<lambda>v6.
     Inr \<lparr>trq_ipv4 = (local_addr, local_prefix), trq_mtu = mtu, trq_ipv6 = v6,
          trq_name = (if p \<noteq> MacOS \<or> tcf_interface_name c \<noteq> ''utun'' then Some (tcf_interface_name c)
                      else None)\<rparr>))))"

text \<open>The device the system hands out is closed again when its name is not the requested one.\<close>

definition open_tun :: "('w, 'r, 'e, 'h) session_env \<Rightarrow> ('w, 'r, 'h, string) session_io" where
  "open_tun E =
     io_bind (asks (\<lambda>ts. tun_request_of (sys_platform (se_sys E)) (se_net E) (ts_config ts))) (\<lambda>req (ts, os).
     case se_tun_build E req of
       Inl k \<Rightarrow> (Inl (TunCreate k), (ts, os))
     | Inr actual \<Rightarrow>
         (let requested = tcf_interface_name (ts_config ts);
              os1 = os\<lparr>so_tuns := actual # so_tuns os\<rparr> in
          if actual = requested then (Inr actual, (ts, os1))
          else if sys_platform (se_sys E) \<noteq> MacOS \<or> requested \<noteq> ''utun''
          then (Inl (InvalidConfig (''requested TUN interface `'' @ requested @ ''` but OS assigned `'' @ actual @ ''`'')),
                (ts, close_tun actual os1))
          else (Inr actual, (ts\<lparr>ts_config := (ts_config ts)\<lparr>tcf_interface_name := actual\<rparr>\<rparr>, os1))))"

section \<open>Peer and endpoint\<close>

definition WIREGUARD_KEEPALIVE_SECS :: nat where "WIREGUARD_KEEPALIVE_SECS = 25"

definition STANDARD_NOISE_CONSTRUCTION :: bytes where
  "STANDARD_NOISE_CONSTRUCTION = as_bytes ''Noise_IKpsk2_25519_ChaChaPoly_BLAKE2s''"

definition FEILIAN_V2_PROTOCOL_IDENTIFIER :: bytes where
  "FEILIAN_V2_PROTOCOL_IDENTIFIER = as_bytes ''CorpLink v1 vpn@feilian-----------''"

definition feilian_protocol_identifier :: "tunnel_config \<Rightarrow> (bytes \<times> bytes) option" where
  "feilian_protocol_identifier c = (case map_option trim (tcf_protocol_version c) of
      Some v \<Rightarrow> if v = ''v2'' then Some (STANDARD_NOISE_CONSTRUCTION, FEILIAN_V2_PROTOCOL_IDENTIFIER) else None
    | None \<Rightarrow> None)"

definition resolve_endpoint ::
  "('w, 'r, 'e, 'h) session_env \<Rightarrow> url \<Rightarrow> resolver \<Rightarrow> ('w, session_error, socket_addr) io" where
  "resolve_endpoint E endpoint rv =
     (case se_url_host E endpoint of
        None \<Rightarrow> io_fail (InvalidConfig ''WireGuard endpoint URL must include a host'')
      | Some host \<Rightarrow> (case se_url_port E endpoint of
          None \<Rightarrow> io_fail (InvalidConfig ''WireGuard endpoint URL must include a port'')
        | Some port \<Rightarrow>
            (let host_str = (case host of HostDomain d \<Rightarrow> d | HostIpv4 a \<Rightarrow> ipv4_to_string a
                              | HostIpv6 a \<Rightarrow> ipv6_to_string a) in
             io_bind (io_map_err (ResolveEndpoint (u_str endpoint))
                 (resolve_host (se_sys E) (se_codec E) rv host_str port)) (\<lambda>addrs.
             case addrs of
               [] \<Rightarrow> io_fail (EmptyEndpointResolution (u_str endpoint))
             | a # _ \<Rightarrow> io_return a))))"

definition tunnel_peer :: "key_lib \<Rightarrow> tunnel_config \<Rightarrow> socket_addr \<Rightarrow> (session_error, wg_peer) result" where
  "tunnel_peer kl c endpoint =
     res_bind (decode_key kl ''server_public_key'' (tcf_server_public_key c)) (\<lambda>server_public_key.
     let peer = \<lparr>pe_public_key = server_public_key, pe_endpoint = endpoint, pe_allowed_ips = tcf_routes c,
           pe_keepalive = Some WIREGUARD_KEEPALIVE_SECS, pe_preshared_key = None\<rparr> in
     case opt_filter (\<lambda>v. v \<noteq> []) (tcf_server_preshared_key c) of
       None \<Rightarrow> Inr peer
     | Some preshared_key \<Rightarrow>
         res_bind (decode_key kl ''server_preshared_key'' preshared_key) (\<lambda>k.
         Inr (peer\<lparr>pe_preshared_key := Some k\<rparr>)))"

section \<open>Start\<close>

definition TCP_DIAL_TIMEOUT :: duration where "TCP_DIAL_TIMEOUT = from_secs 3"

definition route_system_dns_into_tunnel :: "ip_addr list \<Rightarrow> tunnel_config \<Rightarrow> tunnel_config" where
  "route_system_dns_into_tunnel system_servers c =
     (if tcf_full_tunnel c \<or> \<not> tcf_route_system_dns c then c
      else c\<lparr>tcf_routes := tcf_routes c @ dns_host_routes system_servers (tcf_ipv6_enabled c)\<rparr>)"

text \<open>A failing bypass setup is logged; what it did to the rules stays.\<close>

definition setup_bypass ::
  "('w, 'r, 'e, 'h) session_env \<Rightarrow> outbound_interface option \<Rightarrow> ('w, 'r, 'h, unit) session_io" where
  "setup_bypass E interface = (\<lambda>(ts, os). case interface of
      None \<Rightarrow> (Inr (), (ts, os))
    | Some iface \<Rightarrow> (case bi_setup (se_bypass E) iface (tcf_full_tunnel (ts_config ts)) (so_rules os) of
        (Inr h, rules) \<Rightarrow> (Inr (), (ts\<lparr>ts_bypass := Some h\<rparr>, os\<lparr>so_rules := rules\<rparr>))
      | (Inl _, rules) \<Rightarrow> (Inr (), (ts, os\<lparr>so_rules := rules\<rparr>))))"

definition install_routes :: "('w, 'r, 'e, 'h) session_env \<Rightarrow> string \<Rightarrow> ('w, 'r, 'h, unit) session_io" where
  "install_routes E actual =
     (\<lambda>(ts, os). io_bind (on_routes (apply_routes (se_net E) actual (tcf_routes (ts_config ts)))) (\<lambda>applied.
        modifies (\<lambda>ts. ts\<lparr>ts_routes := Some applied, ts_status := RoutesApplied\<rparr>)) (ts, os))"

definition build_vpn_tun ::
  "('w, 'r, 'e, 'h) session_env \<Rightarrow> string \<Rightarrow> dialer \<Rightarrow> ip_addr list
   \<Rightarrow> ('w, 'r, 'h, dns_resolver option \<times> socket_addr list) session_io" where
  "build_vpn_tun E actual directed system_servers = (\<lambda>(ts, os).
     let (vpn_servers, w) = resolve_vpn_servers (se_dns_lib E) (tcf_dns (ts_config ts)) (so_world os);
         resolver = resolver_build (tcf_dns (ts_config ts)) vpn_servers system_servers directed;
         s = (ts, os\<lparr>so_world := w\<rparr>)
     in case se_tun_wrap E actual of
          Some k \<Rightarrow> (Inl (TunCreate k), s)
        | None \<Rightarrow> (Inr (resolver, vpn_servers), s))"

definition start_dns_server ::
  "('w, 'r, 'e, 'h) session_env \<Rightarrow> dialer \<Rightarrow> ip_addr list \<Rightarrow> socket_addr list \<Rightarrow> ('w, 'r, 'h, unit) session_io" where
  "start_dns_server E directed system_servers vpn_servers = (\<lambda>(ts, os).
     let c = ts_config ts; port = tcf_dns_listen_port c in
     if port > 0 \<and> resolver_build (tcf_dns c) vpn_servers system_servers directed \<noteq> None then
       (let host = unwrap_or (tcf_dns_listen_host c) ''127.0.0.1'';
            bind_v4 = unwrap_or (parse_socket_addr (host @ '':'' @ nat_to_string (unat port)))
                        \<lparr>sa_ip = V4 (ipv4_of_octets 127 0 0 1), sa_port = port\<rparr>;
            bind_v6 = \<lparr>sa_ip = V6 1, sa_port = port\<rparr> in
        case dns_server_start (se_sys E) bind_v4 bind_v6 (so_world os) of
          (Inl e, w) \<Rightarrow> (Inl (SeDnsServer e), (ts, os\<lparr>so_world := w\<rparr>))
        | (Inr server, w) \<Rightarrow> (Inr (), (ts\<lparr>ts_dns_server := Some server\<rparr>,
              os\<lparr>so_world := w, so_servers := server # so_servers os\<rparr>)))
     else (Inr (), (ts, os)))"

definition build_device ::
  "('w, 'r, 'e, 'h) session_env \<Rightarrow> device_config \<Rightarrow> socket_addr list \<Rightarrow> ('w, 'r, 'h, unit) session_io" where
  "build_device E dvc vpn_servers = (\<lambda>(ts, os). case se_device_build E dvc of
      Some e \<Rightarrow> (Inl (SeDevice e), (ts, os))
    | None \<Rightarrow> (Inr (), (ts\<lparr>ts_device := Some dvc, ts_probe := Some vpn_servers, ts_status := Running\<rparr>, os)))"

definition session_context ::
  "('w, 'r, 'e, 'h) session_env \<Rightarrow> string \<Rightarrow> ('w, 'r, 'h, outbound_context) session_io" where
  "session_context E actual = asks (\<lambda>ts. map_err SeOutbound (build_context (se_host E) (se_tun_views E) (se_dns_conf E)
     \<lparr>ocf_configured_interface = tcf_outbound_interface (ts_config ts), ocf_excluded_tun = actual,
      ocf_full_tunnel = tcf_full_tunnel (ts_config ts), ocf_connect_timeout = TCP_DIAL_TIMEOUT\<rparr>))"

definition start_inner :: "('w, 'r, 'e, 'h) session_env \<Rightarrow> ('w, 'r, 'h, unit) session_io" where
  "start_inner E =
     io_bind (asks (\<lambda>ts. decode_key (se_keys E) ''local_private_key'' (tcf_local_private_key (ts_config ts)))) (\<lambda>private_key.
     io_bind (open_tun E) (\<lambda>actual. owning_tun actual (
     io_bind (session_context E actual) (\<lambda>ctx.
     io_bind (asks (\<lambda>ts. Inr (capture_system_dns (se_dns_conf E) (tcf_fallback_dns (ts_config ts))))) (\<lambda>system_servers.
     io_bind (modifies (\<lambda>ts. ts\<lparr>ts_config := route_system_dns_into_tunnel system_servers (ts_config ts)\<rparr>)) (\<lambda>_.
     io_bind (asks (\<lambda>ts. Inr (ts_config ts))) (\<lambda>c.
     io_bind (on_world id (resolve_endpoint E (tcf_endpoint c) (ctx_resolver ctx))) (\<lambda>endpoint.
     io_bind (asks (\<lambda>ts. tunnel_peer (se_keys E) c endpoint)) (\<lambda>peer.
     io_bind (setup_bypass E (ctx_interface ctx)) (\<lambda>_.
     io_bind (install_routes E actual) (\<lambda>_.
     io_bind (build_vpn_tun E actual (ctx_directed ctx) system_servers) (\<lambda>(resolver, vpn_servers).
     io_bind (start_dns_server E (ctx_directed ctx) system_servers vpn_servers) (\<lambda>_.
     build_device E \<lparr>dvc_mode = tcf_protocol_mode c, dvc_dialer = ctx_directed ctx, dvc_private_key = private_key,
         dvc_listen_port = tcf_local_port c, dvc_peer = peer, dvc_identifier = feilian_protocol_identifier c,
         dvc_tun = actual, dvc_resolver = resolver\<rparr> vpn_servers)))))))))))))"

section \<open>Stop\<close>

text \<open>\<open>stop\<close>: the routes are taken before they are removed, and a failing removal returns at once.\<close>

definition stop_probe_and_server :: "('w, 'r, 'h, unit) session_io" where
  "stop_probe_and_server = (\<lambda>(ts, os). (Inr (), (ts\<lparr>ts_probe := None, ts_dns_server := None\<rparr>,
     case ts_dns_server ts of None \<Rightarrow> os | Some server \<Rightarrow> os\<lparr>so_servers := remove1 server (so_servers os)\<rparr>)))"

definition stop_routes :: "('w, 'r, 'h, unit) session_io" where
  "stop_routes = (\<lambda>(ts, os). case ts_routes ts of
      None \<Rightarrow> (Inr (), (ts, os))
    | Some routes \<Rightarrow> on_routes (remove_routes routes) (ts\<lparr>ts_routes := None\<rparr>, os))"

definition stop_bypass_and_device :: "('w, 'r, 'e, 'h) session_env \<Rightarrow> ('w, 'r, 'h, unit) session_io" where
  "stop_bypass_and_device E = (\<lambda>(ts, os).
     let os1 = (case ts_bypass ts of None \<Rightarrow> os | Some h \<Rightarrow> os\<lparr>so_rules := bi_teardown (se_bypass E) h (so_rules os)\<rparr>);
         os2 = (case ts_device ts of None \<Rightarrow> os1 | Some dvc \<Rightarrow> close_tun (dvc_tun dvc) os1)
     in (Inr (), (ts\<lparr>ts_bypass := None, ts_device := None, ts_status := Stopped\<rparr>, os2)))"

definition stop_session :: "('w, 'r, 'e, 'h) session_env \<Rightarrow> ('w, 'r, 'h, unit) session_io" where
  "stop_session E =
     io_bind stop_probe_and_server (\<lambda>_. io_bind stop_routes (\<lambda>_. stop_bypass_and_device E))"

definition start_session :: "('w, 'r, 'e, 'h) session_env \<Rightarrow> ('w, 'r, 'h, unit) session_io" where
  "start_session E s = (case start_inner E s of
      (Inr u, s') \<Rightarrow> (Inr u, s')
    | (Inl e, s') \<Rightarrow> (Inl e, snd (stop_session E s')))"

definition session_wait :: "'h tunnel_session \<Rightarrow> 'h tunnel_session" where
  "session_wait ts = (case ts_device ts of None \<Rightarrow> ts | Some _ \<Rightarrow> ts\<lparr>ts_status := Stopped\<rparr>)"

definition session_probe_elapsed :: "nat \<Rightarrow> nat option \<Rightarrow> 'h tunnel_session \<Rightarrow> duration option" where
  "session_probe_elapsed now last_rx ts = Option.bind (ts_probe ts) (\<lambda>_. last_rx_elapsed now last_rx)"

text \<open>\<open>peer_last_handshake\<close>: the most recent of the peers' handshakes.\<close>

definition peer_last_handshake :: "duration option list \<Rightarrow> duration option" where
  "peer_last_handshake peers = (case filter_map (\<lambda>p. p) peers of [] \<Rightarrow> None | d # ds \<Rightarrow> Some (fold min ds d))"

definition session_last_handshake :: "duration option list \<Rightarrow> 'h tunnel_session \<Rightarrow> duration option" where
  "session_last_handshake peers ts = Option.bind (ts_device ts) (\<lambda>_. peer_last_handshake peers)"

text \<open>The statistics of the peers, as the device reports them.\<close>

definition session_peer_stats :: "'p list \<Rightarrow> 'h tunnel_session \<Rightarrow> 'p list" where
  "session_peer_stats peers ts = (case ts_device ts of Some _ \<Rightarrow> peers | None \<Rightarrow> [])"

section \<open>What a session holds\<close>

text \<open>\<open>undoes\<close>: from the rules \<open>rules0\<close> a successful setup can be torn down, and what is left is accepted by \<open>Q\<close>;
  a failed setup leaves rules that \<open>Q\<close> accepts.\<close>

definition undoes :: "('r, 'e, 'h) bypass_impl \<Rightarrow> bool \<Rightarrow> 'r set \<Rightarrow> ('r set \<Rightarrow> bool) \<Rightarrow> bool" where
  "undoes bi full rules0 Q \<longleftrightarrow> Q rules0 \<and> (\<forall>i r rules. bi_setup bi i full rules0 = (r, rules) \<longrightarrow>
     (case r of Inl _ \<Rightarrow> Q rules | Inr h \<Rightarrow> Q (bi_teardown bi h rules)))"

definition left_by_setup :: "(outbound_interface \<Rightarrow> bool \<Rightarrow> ('r set, 'e, 'h) io) \<Rightarrow> bool \<Rightarrow> 'r set \<Rightarrow> 'r set \<Rightarrow> bool" where
  "left_by_setup su full rules0 rules \<longleftrightarrow> rules = rules0 \<or> (\<exists>i e. su i full rules0 = (Inl e, rules))"

context route_bypass
begin

lemma undoes_setup:
  assumes "os_ok run" "deletes_ok run" "\<And>i. s \<inter> installs i full = {}"
  shows "undoes \<lparr>bi_setup = set_up run, bi_teardown = tear_down run\<rparr> full s (left_by_setup (set_up run) full s)"
proof -
  have "tear_down run h rules = s" if "set_up run i full s = (Inr h, rules)" for i h rules
    using setup_teardown [OF assms(1,2) that assms(3)] .
  then show ?thesis
    by (auto simp: undoes_def left_by_setup_def split: sum.split)
qed

end

definition routes_held :: "applied_routes option \<Rightarrow> route_os \<Rightarrow> route_os \<Rightarrow> bool" where
  "routes_held ro w w0 \<longleftrightarrow> granting w \<and> (case ro of
      None \<Rightarrow> set (ro_table w) = set (ro_table w0)
    | Some a \<Rightarrow> (\<exists>w2. remove_routes a w = (Inr (), w2) \<and> set (ro_table w2) = set (ro_table w0) \<and> granting w2))"

lemma rm_delete_granting_step: "granting w \<Longrightarrow> rm_delete r w = (x, w') \<Longrightarrow> granting w'"
  using rm_delete_granting [of w r] by simp

lemma delete_loop_granting_step: "granting w \<Longrightarrow> delete_loop rs w = (x, w') \<Longrightarrow> granting w'"
  by (induction rs arbitrary: w) (auto dest: rm_delete_granting_step split: prod.splits sum.splits)

lemma remove_routes_granting: "granting w \<Longrightarrow> remove_routes a w = (x, w') \<Longrightarrow> granting w'"
  by (auto simp: remove_routes_def elim!: io_bind_cases dest: rm_new_granting delete_loop_granting_step)

definition rules_held :: "('r, 'e, 'h) bypass_impl \<Rightarrow> ('r set \<Rightarrow> bool) \<Rightarrow> 'h option \<Rightarrow> 'r set \<Rightarrow> bool" where
  "rules_held bi Q bo rules \<longleftrightarrow> (case bo of None \<Rightarrow> Q rules | Some h \<Rightarrow> Q (bi_teardown bi h rules))"

text \<open>\<open>held\<close>: undoing what the session holds gives the operating system back.\<close>

definition held ::
  "('w, 'r, 'e, 'h) session_env \<Rightarrow> ('r set \<Rightarrow> bool) \<Rightarrow> ('w, 'r) session_os \<Rightarrow> string list
   \<Rightarrow> 'h tunnel_session \<times> ('w, 'r) session_os \<Rightarrow> bool" where
  "held E Q os0 tuns = (\<lambda>(ts, os). so_tuns os = tuns @ so_tuns os0
     \<and> so_servers os = (case ts_dns_server ts of None \<Rightarrow> [] | Some sv \<Rightarrow> [sv]) @ so_servers os0
     \<and> routes_held (ts_routes ts) (so_routes os) (so_routes os0)
     \<and> rules_held (se_bypass E) Q (ts_bypass ts) (so_rules os))"

text \<open>\<open>untouched\<close>: nothing but the TUN device has been opened yet.\<close>

definition untouched ::
  "bool \<Rightarrow> ('w, 'r) session_os \<Rightarrow> string list \<Rightarrow> 'h tunnel_session \<times> ('w, 'r) session_os \<Rightarrow> bool" where
  "untouched full os0 tuns = (\<lambda>(ts, os). so_tuns os = tuns @ so_tuns os0 \<and> so_servers os = so_servers os0
     \<and> so_routes os = so_routes os0 \<and> so_rules os = so_rules os0 \<and> tcf_full_tunnel (ts_config ts) = full
     \<and> ts_device ts = None \<and> ts_routes ts = None \<and> ts_bypass ts = None \<and> ts_dns_server ts = None)"

lemma untouched_held:
  assumes "granting (so_routes os0)" "undoes (se_bypass E) full (so_rules os0) Q" "untouched full os0 tuns s"
  shows "held E Q os0 tuns s"
  using assms by (auto simp: held_def untouched_def routes_held_def rules_held_def undoes_def split: prod.splits)

section \<open>Reasoning about the steps of a session\<close>

definition triple ::
  "('s \<Rightarrow> bool) \<Rightarrow> ('s, 'e, 'a) io \<Rightarrow> ('a \<Rightarrow> 's \<Rightarrow> bool) \<Rightarrow> ('s \<Rightarrow> bool) \<Rightarrow> bool" where
  "triple P m Q F \<longleftrightarrow> (\<forall>s r s'. P s \<longrightarrow> m s = (r, s') \<longrightarrow> (case r of Inr x \<Rightarrow> Q x s' | Inl e \<Rightarrow> F s'))"

lemma triple_bind:
  assumes "triple P m R F" "\<And>x. triple (R x) (f x) Q F"
  shows "triple P (io_bind m f) Q F"
  unfolding triple_def
proof (intro allI impI)
  fix s r s' assume P: "P s" and run: "io_bind m f s = (r, s')"
  from run show "case r of Inl e \<Rightarrow> F s' | Inr x \<Rightarrow> Q x s'"
  proof (cases rule: io_bind_cases)
    case (1 e)
    then show ?thesis using assms(1) P unfolding triple_def by fastforce
  next
    case (2 x s1)
    then have "R x s1" using assms(1) P unfolding triple_def by fastforce
    with 2(2) assms(2) [of x] show ?thesis unfolding triple_def by blast
  qed
qed

lemma triple_consequence:
  assumes "triple P' m Q' F'" "\<And>s. P s \<Longrightarrow> P' s" "\<And>x s. Q' x s \<Longrightarrow> Q x s" "\<And>s. F' s \<Longrightarrow> F s"
  shows "triple P m Q F"
  using assms unfolding triple_def by (fastforce split: sum.splits)

lemma triple_asks: "(\<And>s. P s \<Longrightarrow> F s) \<Longrightarrow> triple P (asks f) (\<lambda>_. P) F"
  by (auto simp: triple_def asks_def split: sum.splits)

lemma triple_modifies: "(\<And>ts os. P (ts, os) \<Longrightarrow> Q (f ts, os)) \<Longrightarrow> triple P (modifies f) (\<lambda>_. Q) F"
  by (auto simp: triple_def modifies_def)

lemma triple_on_world:
  assumes "\<And>ts os w. P (ts, os) \<Longrightarrow> P (ts, os\<lparr>so_world := w\<rparr>)" "\<And>s. P s \<Longrightarrow> F s"
  shows "triple P (on_world g m) (\<lambda>_. P) F"
  using assms by (auto simp: triple_def on_world_def map_err_def split: sum.splits prod.splits)

lemma triple_owning_tun:
  assumes "triple P m Q (\<lambda>(ts, os). F (ts, close_tun name os))"
  shows "triple P (owning_tun name m) Q F"
  using assms by (fastforce simp: triple_def owning_tun_def split: sum.splits prod.splits)

lemma untouched_world: "untouched full os0 tuns (ts, os) \<Longrightarrow> untouched full os0 tuns (ts, os\<lparr>so_world := w\<rparr>)"
  by (simp add: untouched_def)

lemma held_world: "held E Q os0 tuns (ts, os) \<Longrightarrow> held E Q os0 tuns (ts, os\<lparr>so_world := w\<rparr>)"
  by (simp add: held_def)

definition idle :: "'h tunnel_session \<times> ('w, 'r) session_os \<Rightarrow> bool" where
  "idle = (\<lambda>(ts, os). ts_device ts = None)"

lemma open_tun_triple:
  "triple (untouched full os0 []) (open_tun E) (\<lambda>actual. untouched full os0 [actual]) (untouched full os0 [])"
  unfolding open_tun_def
  by (rule triple_bind [OF triple_asks])
    (auto simp: triple_def untouched_def close_tun_def Let_def split: sum.splits if_splits)

lemma setup_bypass_triple:
  assumes "granting (so_routes os0)" "undoes (se_bypass E) full (so_rules os0) Q"
  shows "triple (untouched full os0 tuns) (setup_bypass E i)
    (\<lambda>_ s. held E Q os0 tuns s \<and> idle s \<and> ts_routes (fst s) = None \<and> ts_dns_server (fst s) = None) F"
  unfolding triple_def
proof (intro allI impI)
  fix s r s' assume u: "untouched full os0 tuns s" and run: "setup_bypass E i s = (r, s')"
  note h = untouched_held [OF assms u]
  show "case r of Inl e \<Rightarrow> F s' | Inr x \<Rightarrow> held E Q os0 tuns s' \<and> idle s' \<and> ts_routes (fst s') = None
      \<and> ts_dns_server (fst s') = None"
  proof (cases i)
    case None
    then show ?thesis using run u h by (auto simp: setup_bypass_def untouched_def idle_def split: prod.splits)
  next
    case (Some iface)
    obtain b rules where b: "bi_setup (se_bypass E) iface full (so_rules os0) = (b, rules)" by fastforce
    then have "case b of Inl _ \<Rightarrow> Q rules | Inr h \<Rightarrow> Q (bi_teardown (se_bypass E) h rules)"
      using assms(2) unfolding undoes_def by blast
    then show ?thesis using run u h b Some
      by (auto simp: setup_bypass_def untouched_def idle_def held_def rules_held_def split: prod.splits sum.splits)
  qed
qed

lemma install_routes_triple:
  "triple (\<lambda>s. held E Q os0 tuns s \<and> idle s \<and> ts_routes (fst s) = None \<and> ts_dns_server (fst s) = None)
     (install_routes E actual) (\<lambda>_ s. held E Q os0 tuns s \<and> idle s \<and> ts_dns_server (fst s) = None) F"
  unfolding triple_def
proof (intro allI impI)
  fix s r s'
  assume h: "held E Q os0 tuns s \<and> idle s \<and> ts_routes (fst s) = None \<and> ts_dns_server (fst s) = None"
    and run: "install_routes E actual s = (r, s')"
  obtain ts os where s: "s = (ts, os)" by fastforce
  obtain b w where a: "apply_routes (se_net E) actual (tcf_routes (ts_config ts)) (so_routes os) = (b, w)" by fastforce
  have g: "granting (so_routes os)" "set (ro_table (so_routes os)) = set (ro_table (so_routes os0))"
    using h s by (auto simp: held_def routes_held_def)
  obtain applied where b: "b = Inr applied" "granting w" using apply_routes_granting [OF g(1) a] by auto
  obtain w2 where "remove_routes applied w = (Inr (), w2)" "set (ro_table w2) = set (ro_table (so_routes os0))"
    using apply_routes_spec [OF a] b g(2) by auto
  then show "case r of Inl e \<Rightarrow> F s' | Inr x \<Rightarrow> held E Q os0 tuns s' \<and> idle s' \<and> ts_dns_server (fst s') = None"
    using run h s a b remove_routes_granting [OF b(2)]
    by (auto simp: install_routes_def io_bind_def on_routes_def modifies_def held_def idle_def routes_held_def)
qed

lemma build_vpn_tun_triple:
  "triple (\<lambda>s. held E Q os0 tuns s \<and> idle s \<and> ts_dns_server (fst s) = None)
     (build_vpn_tun E actual directed system_servers)
     (\<lambda>_ s. held E Q os0 tuns s \<and> idle s \<and> ts_dns_server (fst s) = None) (\<lambda>s. held E Q os0 tuns s \<and> idle s)"
  by (auto simp: triple_def build_vpn_tun_def idle_def Let_def intro: held_world split: prod.splits option.splits)

lemma start_dns_server_triple:
  "triple (\<lambda>s. held E Q os0 tuns s \<and> idle s \<and> ts_dns_server (fst s) = None)
     (start_dns_server E directed system_servers vpn_servers)
     (\<lambda>_ s. held E Q os0 tuns s \<and> idle s) (\<lambda>s. held E Q os0 tuns s \<and> idle s)"
  unfolding triple_def
proof (intro allI impI)
  fix s r s'
  assume h: "held E Q os0 tuns s \<and> idle s \<and> ts_dns_server (fst s) = None"
    and run: "start_dns_server E directed system_servers vpn_servers s = (r, s')"
  obtain ts os where s: "s = (ts, os)" by fastforce
  have "(r = Inr () \<and> s' = (ts, os)) \<or> (\<exists>e w. r = Inl e \<and> s' = (ts, os\<lparr>so_world := w\<rparr>))
      \<or> (\<exists>sv w. r = Inr () \<and> s' = (ts\<lparr>ts_dns_server := Some sv\<rparr>, os\<lparr>so_world := w, so_servers := sv # so_servers os\<rparr>))"
    using run s by (auto simp: start_dns_server_def Let_def split: if_splits prod.splits sum.splits)
  then show "case r of Inl e \<Rightarrow> held E Q os0 tuns s' \<and> idle s' | Inr x \<Rightarrow> held E Q os0 tuns s' \<and> idle s'"
    using h s by (auto simp: held_def idle_def)
qed

definition running_on :: "string \<Rightarrow> 'h tunnel_session \<times> ('w, 'r) session_os \<Rightarrow> bool" where
  "running_on name = (\<lambda>(ts, os). ts_status ts = Running \<and> (\<exists>dvc. ts_device ts = Some dvc \<and> dvc_tun dvc = name))"

lemma build_device_triple:
  "triple (\<lambda>s. held E Q os0 tuns s \<and> idle s) (build_device E dvc vpn_servers)
     (\<lambda>_ s. held E Q os0 tuns s \<and> running_on (dvc_tun dvc) s) (\<lambda>s. held E Q os0 tuns s \<and> idle s)"
  by (auto simp: triple_def build_device_def held_def idle_def running_on_def split: prod.splits option.splits)

lemma route_dns_triple:
  "triple (untouched full os0 tuns)
     (modifies (\<lambda>ts. ts\<lparr>ts_config := route_system_dns_into_tunnel system_servers (ts_config ts)\<rparr>))
     (\<lambda>_. untouched full os0 tuns) F"
  by (rule triple_modifies) (simp add: untouched_def route_system_dns_into_tunnel_def)

lemma start_inner_triple:
  assumes "granting (so_routes os0)" "undoes (se_bypass E) full (so_rules os0) Q"
  shows "triple (untouched full os0 []) (start_inner E)
     (\<lambda>_ s. \<exists>actual. held E Q os0 [actual] s \<and> running_on actual s) (\<lambda>s. held E Q os0 [] s \<and> idle s)"
proof -
  let ?U = "untouched full os0"
  let ?F = "\<lambda>actual. (\<lambda>(ts, os). held E Q os0 [] (ts, close_tun actual os) \<and> idle (ts, close_tun actual os))"
  have err: "?F actual s" if "held E Q os0 [actual] s \<and> idle s" for actual s
    using that by (auto simp: held_def idle_def close_tun_def)
  have uerr: "?F actual s" if "?U [actual] s" for actual s
  proof -
    from that have "idle s" by (auto simp: untouched_def idle_def)
    then show ?thesis using untouched_held [OF assms that] err by blast
  qed
  have zero: "held E Q os0 [] s \<and> idle s" if "?U [] s" for s
    using untouched_held [OF assms that] that by (auto simp: untouched_def idle_def)
  show ?thesis
    unfolding start_inner_def
    apply (rule triple_bind [OF triple_asks])
     apply (erule zero)
    apply (rule triple_bind)
     apply (rule triple_consequence [OF open_tun_triple])
       apply assumption
      apply assumption
     apply (erule zero)
    apply (rule triple_owning_tun)
    unfolding session_context_def
    apply (rule triple_bind [OF triple_asks])
     apply (erule uerr)
    apply (rule triple_bind [OF triple_asks])
     apply (erule uerr)
    apply (rule triple_bind)
     apply (rule route_dns_triple)
    apply (rule triple_bind [OF triple_asks])
     apply (erule uerr)
    apply (rule triple_bind [OF triple_on_world])
      apply (erule untouched_world)
     apply (erule uerr)
    apply (rule triple_bind [OF triple_asks])
     apply (erule uerr)
    apply (rule triple_bind [OF setup_bypass_triple [OF assms]])
    apply (rule triple_bind [OF install_routes_triple])
    apply (rule triple_bind)
     apply (rule triple_consequence [OF build_vpn_tun_triple])
       apply assumption
      apply assumption
     apply (erule err)
    apply (simp only: split_beta)
    apply (rule triple_bind)
     apply (rule triple_consequence [OF start_dns_server_triple])
       apply assumption
      apply assumption
     apply (erule err)
    apply (rule triple_consequence [OF build_device_triple])
      apply assumption
     apply (rule exI, simp)
    apply (erule err)
    done
qed

section \<open>Stopping gives everything back\<close>

text \<open>\<open>same_os\<close>: the operating system is as in \<open>os0\<close>, the rules as \<open>Q\<close> accepts them; \<open>empty_handed\<close>: the session
  holds no handle any more.\<close>

definition same_os :: "('r set \<Rightarrow> bool) \<Rightarrow> ('w, 'r) session_os \<Rightarrow> ('w, 'r) session_os \<Rightarrow> bool" where
  "same_os Q os0 os \<longleftrightarrow> so_tuns os = so_tuns os0 \<and> so_servers os = so_servers os0
     \<and> set (ro_table (so_routes os)) = set (ro_table (so_routes os0)) \<and> granting (so_routes os) \<and> Q (so_rules os)"

definition empty_handed :: "'h tunnel_session \<Rightarrow> bool" where
  "empty_handed ts \<longleftrightarrow> ts_status ts = Stopped \<and> ts_device ts = None \<and> ts_routes ts = None \<and> ts_bypass ts = None
     \<and> ts_probe ts = None \<and> ts_dns_server ts = None"

lemma stop_routes_held:
  assumes "routes_held ro w w0" "ts_routes ts = ro" "so_routes os = w"
  shows "\<exists>w2. stop_routes (ts, os) = (Inr (), (ts\<lparr>ts_routes := None\<rparr>, os\<lparr>so_routes := w2\<rparr>))
    \<and> set (ro_table w2) = set (ro_table w0) \<and> granting w2"
proof (cases ro)
  case None
  then show ?thesis using assms
    by (intro exI [of _ w]) (auto simp: stop_routes_def routes_held_def)
next
  case (Some a)
  then show ?thesis using assms by (auto simp: stop_routes_def on_routes_def routes_held_def)
qed

lemma stop_session_held:
  assumes "held E Q os0 tuns (ts, os)"
    and "tuns = (case ts_device ts of None \<Rightarrow> [] | Some dvc \<Rightarrow> [dvc_tun dvc])"
  shows "\<exists>ts' os'. stop_session E (ts, os) = (Inr (), (ts', os')) \<and> same_os Q os0 os' \<and> empty_handed ts'"
proof -
  obtain ts1 os1 where one: "stop_probe_and_server (ts, os) = (Inr (), (ts1, os1))"
    "so_servers os1 = so_servers os0" "ts1 = ts\<lparr>ts_probe := None, ts_dns_server := None\<rparr>"
    "so_tuns os1 = so_tuns os" "so_routes os1 = so_routes os" "so_rules os1 = so_rules os"
    using assms(1) by (auto simp: stop_probe_and_server_def held_def split: option.splits)
  obtain w2 where two: "stop_routes (ts1, os1) = (Inr (), (ts1\<lparr>ts_routes := None\<rparr>, os1\<lparr>so_routes := w2\<rparr>))"
    "set (ro_table w2) = set (ro_table (so_routes os0))" "granting w2"
    using stop_routes_held [of "ts_routes ts" "so_routes os" "so_routes os0" ts1 os1] assms(1) one
    by (auto simp: held_def)
  then show ?thesis using assms one
    by (auto simp: stop_session_def io_bind_def stop_bypass_and_device_def Let_def same_os_def empty_handed_def
        held_def rules_held_def close_tun_def split: option.splits)
qed

lemma start_session_restores:
  assumes "granting (so_routes os)" "undoes (se_bypass E) (tcf_full_tunnel c) (so_rules os) Q"
    and "start_session E (session_new c, os) = (r, (ts1, os1))"
  shows "case r of
      Inl _ \<Rightarrow> same_os Q os os1 \<and> empty_handed ts1
    | Inr _ \<Rightarrow> ts_status ts1 = Running
        \<and> (\<exists>ts2 os2. stop_session E (ts1, os1) = (Inr (), (ts2, os2)) \<and> same_os Q os os2 \<and> empty_handed ts2)"
proof -
  obtain r0 ts0 os0 where run: "start_inner E (session_new c, os) = (r0, (ts0, os0))" by (metis prod_cases3)
  have "untouched (tcf_full_tunnel c) os [] (session_new c, os)" by (simp add: untouched_def session_new_def)
  with start_inner_triple [OF assms(1,2)] run
  have res: "case r0 of Inr x \<Rightarrow> \<exists>actual. held E Q os [actual] (ts0, os0) \<and> running_on actual (ts0, os0)
      | Inl e \<Rightarrow> held E Q os [] (ts0, os0) \<and> idle (ts0, os0)"
    unfolding triple_def by blast
  show ?thesis
  proof (cases r0)
    case (Inl e)
    then obtain ts' os' where "stop_session E (ts0, os0) = (Inr (), (ts', os'))" "same_os Q os os'" "empty_handed ts'"
      using res stop_session_held [of E Q os "[]" ts0 os0] by (auto simp: idle_def)
    then show ?thesis using assms(3) run Inl by (auto simp: start_session_def)
  next
    case (Inr u)
    then obtain actual where h: "held E Q os [actual] (ts0, os0)" and "running_on actual (ts0, os0)" using res by auto
    then obtain dvc where d: "ts_status ts0 = Running" "ts_device ts0 = Some dvc" "dvc_tun dvc = actual"
      unfolding running_on_def by blast
    have "\<exists>ts2 os2. stop_session E (ts0, os0) = (Inr (), (ts2, os2)) \<and> same_os Q os os2 \<and> empty_handed ts2"
      by (rule stop_session_held [OF h]) (simp add: d)
    moreover note d(1)
    moreover have "r = Inr u" "ts1 = ts0" "os1 = os0" using assms(3) run Inr by (simp_all add: start_session_def)
    ultimately show ?thesis by simp
  qed
qed

section \<open>Properties\<close>

definition linux_bypass_impl :: "ip_rule os_run \<Rightarrow> (ip_rule, linux_error, bool) bypass_impl" where
  "linux_bypass_impl run = \<lparr>bi_setup = linux_setup run, bi_teardown = linux_teardown run\<rparr>"

lemma linux_undoes:
  assumes "os_ok run" "deletes_ok run" "rule_fwmark \<notin> s" "rule_main \<notin> s"
  shows "undoes (linux_bypass_impl run) full s (left_by_setup (linux_setup run) full s)"
  unfolding linux_bypass_impl_def
  by (rule linux_bypass.undoes_setup [OF assms(1,2)]) (use assms(3,4) in \<open>auto simp: linux_installs_def\<close>)


definition sample_session_env :: "nat option \<Rightarrow> (unit, ip_rule, linux_error, bool) session_env" where
  "sample_session_env device = \<lparr>se_host = sample_os, se_tun_views = [], se_dns_conf = Some [],
     se_net = \<lparr>nl_parse = (\<lambda>s. map_option host_network (parse_ip s)), nl_network = nw_ip\<rparr>,
     se_dns_lib = sample_dns_lib, se_sys = willing_env, se_codec = sample_codec,
     se_keys = \<lparr>kl_b64_decode = (\<lambda>s. Some (replicate 32 (of_nat (length s)))), kl_b64_encode = (\<lambda>b. replicate (length b) (CHR ''A'')),
       kl_hex_decode = (\<lambda>s. None), kl_public_key = (\<lambda>b. b)\<rparr>,
     se_tun_build = (\<lambda>req. Inr (unwrap_or (trq_name req) ''utun9'')), se_tun_wrap = (\<lambda>_. None),
     se_device_build = (\<lambda>_. device), se_url_host = (\<lambda>_. Some (HostIpv4 0xC0000201)),
     se_url_port = u_port, se_bypass = linux_bypass_impl ideal_run\<rparr>"

definition sample_tunnel_config :: tunnel_config where
  "sample_tunnel_config = \<lparr>tcf_interface_name = ''utun4'', tcf_local_addr = ipv4_to_string 0x0A090002, tcf_local_addr_v6 = None,
     tcf_local_prefix = Some 24, tcf_mtu = 1360, tcf_local_private_key = ''k'', tcf_local_public_key = ''p'',
     tcf_local_port = 12912, tcf_server_public_key = ''s'', tcf_server_preshared_key = None,
     tcf_endpoint = \<lparr>u_str = ''udp://192.0.2.1:443'', u_host = Some ''192.0.2.1'', u_port = Some 443,
       u_path = [], u_query = None\<rparr>,
     tcf_protocol_mode = Udp, tcf_protocol_version = Some ''v2'', tcf_outbound_interface = None,
     tcf_routes = [host_network (V4 0x0A090001)], tcf_full_tunnel = True, tcf_ipv6_enabled = False,
     tcf_dns = \<lparr>dns_full_tunnel = True, dns_vpn_servers = [], dns_split_matchers = [],
       dns_dynamic = \<lparr>dt_exact_v4 = [], dt_exact_v6 = [], dt_wildcard_v4 = [], dt_suffix_v4 = []\<rparr>,
       dns_central_dns = None, dns_ip_nats = []\<rparr>,
     tcf_route_system_dns = True, tcf_dns_listen_port = 0, tcf_dns_listen_host = None, tcf_fallback_dns = None\<rparr>"

definition sample_session_os :: "(unit, ip_rule) session_os" where
  "sample_session_os = \<lparr>so_world = (), so_routes = \<lparr>ro_table = [], ro_script = []\<rparr>, so_rules = {},
     so_tuns = [''wg1''], so_servers = []\<rparr>"

lemma sample_context:
  obtains ctx where "build_context sample_os [] (Some []) sample_ctx_config = Inr ctx" "ctx_interface ctx = Some sample_out"
    "rv_overrides (ctx_resolver ctx) = (\<lambda>_. None)"
proof -
  obtain ctx where c: "build_context sample_os [] (Some []) sample_ctx_config = Inr ctx"
    "rv_overrides (ctx_resolver ctx) = (\<lambda>_. None)"
    by (simp add: build_context_def sample_resolves sample_ctx_config_def system_dns_servers_def resolver_new_def Let_def)
  moreover have "ctx_interface ctx = Some sample_out"
    using build_context_Inr(5) [OF c(1)] sample_resolves by (simp add: sample_ctx_config_def)
  ultimately show ?thesis using that by blast
qed

lemma sample_linux_setup: "linux_setup ideal_run sample_out True {} = (Inr True, {rule_fwmark, rule_main})"
  by (auto simp: linux_setup_def io_bind_def ip_rule_add_def ideal_run_def)

lemma sample_decode_key: "decode_key (se_keys (sample_session_env device)) name v = Inr (replicate 32 (of_nat (length (trim v))))"
  by (simp add: decode_key_def sample_session_env_def)

lemma sample_open_tun:
  "open_tun (sample_session_env device) (session_new sample_tunnel_config, sample_session_os)
     = (Inr ''utun4'', (session_new sample_tunnel_config, sample_session_os\<lparr>so_tuns := [''utun4'', ''wg1'']\<rparr>))"
  by (simp add: open_tun_def io_bind_def asks_def tun_request_of_def sample_session_env_def willing_env_def
      session_new_def sample_tunnel_config_def parse_ipv4_to_string sample_session_os_def Let_def)

lemma sample_resolve:
  assumes "rv_overrides rv = (\<lambda>_. None)"
  shows "resolve_endpoint (sample_session_env device) (tcf_endpoint sample_tunnel_config) rv w
     = (Inr \<lparr>sa_ip = V4 0xC0000201, sa_port = 443\<rparr>, w)"
  using assms by (simp add: resolve_endpoint_def resolve_host_def sample_session_env_def parse_ip_of_ipv4
      sample_tunnel_config_def io_bind_def io_map_err_def)

lemma sample_routes:
  "\<exists>a w. apply_routes (se_net (sample_session_env device)) name (tcf_routes sample_tunnel_config)
     (so_routes sample_session_os) = (Inr a, w)"
  using apply_routes_granting [of "so_routes sample_session_os"]
  by (metis granting_def sample_session_os_def empty_subsetI empty_set surj_pair route_os.select_convs(2) session_os.select_convs(2))

lemma sample_inner:
  "fst (start_inner (sample_session_env device) (session_new sample_tunnel_config, sample_session_os))
     = (case device of None \<Rightarrow> Inr () | Some n \<Rightarrow> Inl (SeDevice n))"
proof -
  obtain ctx where ctx: "build_context sample_os [] (Some []) \<lparr>ocf_configured_interface = None,
      ocf_excluded_tun = ''utun4'', ocf_full_tunnel = True, ocf_connect_timeout = TCP_DIAL_TIMEOUT\<rparr> = Inr ctx"
    and i: "ctx_interface ctx = Some sample_out" and o: "rv_overrides (ctx_resolver ctx) = (\<lambda>_. None)"
    using sample_context by (metis sample_ctx_config_def TCP_DIAL_TIMEOUT_def)
  obtain a w where r: "apply_routes (se_net (sample_session_env device)) ''utun4'' (tcf_routes sample_tunnel_config)
     (so_routes sample_session_os) = (Inr a, w)" using sample_routes by blast
  note env = sample_session_env_def [of device]
  have sel: "se_host (sample_session_env device) = sample_os" "se_tun_views (sample_session_env device) = []"
    "se_dns_conf (sample_session_env device) = Some []" "se_bypass (sample_session_env device) = linux_bypass_impl ideal_run"
    "se_tun_wrap (sample_session_env device) = (\<lambda>_. None)" "se_device_build (sample_session_env device) = (\<lambda>_. device)"
    by (simp_all add: env)
  have servers: "resolve_vpn_servers (se_dns_lib (sample_session_env device)) (tcf_dns sample_tunnel_config) u = ([], u)" for u
    by (simp add: resolve_vpn_servers_def sample_tunnel_config_def)
  have cfg: "tcf_full_tunnel sample_tunnel_config" "tcf_outbound_interface sample_tunnel_config = None"
    "tcf_dns_listen_port sample_tunnel_config = 0" "tcf_server_preshared_key sample_tunnel_config = None"
    "so_rules sample_session_os = {}"
    by (simp_all add: sample_tunnel_config_def sample_session_os_def)
  show ?thesis
    by (simp add: start_inner_def io_bind_def asks_def session_new_def [of sample_tunnel_config] sample_decode_key
        sample_open_tun [unfolded session_new_def] owning_tun_def session_context_def sel cfg ctx i
        modifies_def route_system_dns_into_tunnel_def on_world_def sample_resolve [OF o] tunnel_peer_def
        setup_bypass_def linux_bypass_impl_def sample_linux_setup install_routes_def on_routes_def r
        build_vpn_tun_def servers start_dns_server_def build_device_def Let_def
        split: option.split)
qed

lemma sample_start:
  "\<exists>ts os. start_session (sample_session_env device) (session_new sample_tunnel_config, sample_session_os)
     = (case device of None \<Rightarrow> Inr () | Some n \<Rightarrow> Inl (SeDevice n), (ts, os))"
  using sample_inner [of device] by (auto simp: start_session_def split: prod.splits sum.splits option.splits)

lemma sample_env_ok:
  "se_bypass (sample_session_env device) = linux_bypass_impl ideal_run" "granting (so_routes sample_session_os)"
  "rule_fwmark \<notin> so_rules sample_session_os" "rule_main \<notin> so_rules sample_session_os"
  by (simp_all add: sample_session_env_def sample_session_os_def granting_def)




text \<open>C38: a refused route removal makes a stop leak.  When removing the routes fails, \<open>stop\<close> returns the
  error before the bypass rules and the WireGuard device are torn down; the routes are no longer held then,
  so that a second \<open>stop\<close> reports success while the routes that were not removed stay in the table.\<close>

theorem refused_stop_leaks:
  assumes "ts_routes ts = Some routes" "remove_routes routes (so_routes os) = (Inl e, w)"
  shows "\<exists>ts1 os1. stop_session E (ts, os) = (Inl (SeRoute e), (ts1, os1))
    \<and> so_rules os1 = so_rules os \<and> so_tuns os1 = so_tuns os \<and> so_routes os1 = w
    \<and> ts_bypass ts1 = ts_bypass ts \<and> ts_device ts1 = ts_device ts \<and> ts_status ts1 = ts_status ts
    \<and> (\<exists>ts2 os2. stop_session E (ts1, os1) = (Inr (), (ts2, os2)) \<and> empty_handed ts2 \<and> so_routes os2 = w)"
  using assms
  by (auto simp: stop_session_def io_bind_def stop_probe_and_server_def stop_routes_def on_routes_def
      stop_bypass_and_device_def Let_def empty_handed_def close_tun_def split: option.splits)

definition stuck_routes :: route_os where
  "stuck_routes = \<lparr>ro_table = [\<lparr>rt_destination = V4 0, rt_prefix = 1, rt_if_name = ''utun4''\<rparr>], ro_script = [RmGrant, RmRefuse 1]\<rparr>"

definition stuck_session :: "bool tunnel_session" where
  "stuck_session = (session_new sample_tunnel_config)
     \<lparr>ts_status := Running, ts_routes := Some \<lparr>ar_interface_name = ''utun4'', ar_routes = ro_table stuck_routes\<rparr>,
      ts_bypass := Some True\<rparr>"

lemma stuck_removal:
  "remove_routes \<lparr>ar_interface_name = ''utun4'', ar_routes = ro_table stuck_routes\<rparr> stuck_routes
    = (Inl (DeleteRouteFailed (hd (ro_table stuck_routes)) (RmOther 1)), stuck_routes\<lparr>ro_script := []\<rparr>)"
  by (simp add: remove_routes_def io_bind_def rm_new_def rm_delete_def rm_outcome_def stuck_routes_def)

theorem refused_stop_leaks_witness:
  "\<exists>ts1 os1. stop_session (sample_session_env None) (stuck_session, sample_session_os\<lparr>so_routes := stuck_routes\<rparr>)
      = (Inl (SeRoute (DeleteRouteFailed (hd (ro_table stuck_routes)) (RmOther 1))), (ts1, os1))
    \<and> ts_bypass ts1 = Some True"
proof -
  have "ts_routes stuck_session = Some \<lparr>ar_interface_name = ''utun4'', ar_routes = ro_table stuck_routes\<rparr>"
    "ts_bypass stuck_session = Some True"
    by (simp_all add: stuck_session_def)
  with refused_stop_leaks [OF this(1), of "sample_session_os\<lparr>so_routes := stuck_routes\<rparr>"] stuck_removal
  show ?thesis by fastforce
qed

section \<open>Bounds and keys\<close>

text \<open>The TUN device is only ever requested within range.  A request is made exactly when the local address
  parses, the prefix (32 by default) lies in 0..32, the MTU in 1..65535 and a non-blank IPv6 address parses as
  an address or an IPv6 network; it then carries those numbers, and the IPv6 prefix is 64 unless given.\<close>

theorem tun_request_spec:
  "tun_request_of p nl c = Inr r \<longleftrightarrow>
     (\<exists>a v6. parse_ipv4 (tcf_local_addr c) = Some a
       \<and> 0 \<le> unwrap_or (tcf_local_prefix c) 32 \<and> unwrap_or (tcf_local_prefix c) 32 \<le> 32
       \<and> 0 < tcf_mtu c \<and> tcf_mtu c \<le> 65535
       \<and> r = \<lparr>trq_ipv4 = (a, nat (unwrap_or (tcf_local_prefix c) 32)), trq_mtu = nat (tcf_mtu c), trq_ipv6 = v6,
              trq_name = (if p = MacOS \<and> tcf_interface_name c = ''utun'' then None else Some (tcf_interface_name c))\<rparr>
       \<and> (case map_option trim (tcf_local_addr_v6 c) of
            None \<Rightarrow> v6 = None
          | Some s \<Rightarrow> if s = [] then v6 = None
             else if CHR ''/'' \<in> set s then (\<exists>n ip. nl_parse nl s = Some n \<and> nw_ip n = V6 ip \<and> v6 = Some (ip, nw_prefix n))
             else (\<exists>ip. parse_ipv6 s = Some ip \<and> v6 = Some (ip, 64))))"
proof -
  have net: "ipv6_network nl s = Inr n6 \<longleftrightarrow>
      (if CHR ''/'' \<in> set s then (\<exists>n ip. nl_parse nl s = Some n \<and> nw_ip n = V6 ip \<and> n6 = (ip, nw_prefix n))
       else (\<exists>ip. parse_ipv6 s = Some ip \<and> n6 = (ip, 64)))" for s n6
  proof (cases "nl_parse nl s")
    case (Some n)
    then show ?thesis by (cases "nw_ip n") (auto simp: ipv6_network_def res_bind_eq_Inr ok_or_eq_Inr)
  qed (auto simp: ipv6_network_def res_bind_eq_Inr ok_or_eq_Inr)
  show ?thesis
    by (cases "tcf_local_addr_v6 c")
      (auto simp: tun_request_of_def res_bind_eq_Inr ok_or_eq_Inr Let_def net opt_filter_def split: if_splits)
qed

lemma decode_key_eq_Inr:
  "decode_key kl name v = Inr k \<longleftrightarrow>
     length k = 32 \<and> or_else (kl_b64_decode kl (trim v)) (kl_hex_decode kl (trim v)) = Some k"
  by (auto simp: decode_key_def Let_def res_bind_eq_Inr ok_or_eq_Inr split: if_splits)

lemma decode_key_error: "decode_key kl name v = Inl e \<Longrightarrow> e = InvalidKey name"
  by (auto simp: decode_key_def Let_def res_bind_def ok_or_def split: if_splits sum.splits option.splits)

text \<open>What the base64 crate documents of the standard alphabet: groups of four characters without padding
  decode to three bytes each.\<close>

definition b64_groups_ok :: "key_lib \<Rightarrow> bool" where
  "b64_groups_ok kl \<longleftrightarrow> (\<forall>s. 4 dvd length s
     \<and> set s \<subseteq> set ''ABCDEFGHIJKLMNOPQRSTUVWXYZabcdefghijklmnopqrstuvwxyz0123456789+/''
     \<longrightarrow> (\<exists>bs. kl_b64_decode kl s = Some bs \<and> length bs = length s div 4 * 3))"

lemma trim_digits: "set v \<subseteq> set ''0123456789abcdef'' \<Longrightarrow> trim v = v"
proof -
  assume v: "set v \<subseteq> set ''0123456789abcdef''"
  have "\<forall>c\<in>set ''0123456789abcdef''. \<not> is_ws c" by code_simp
  with v have "\<forall>c\<in>set v. \<not> is_ws c" by blast
  then have "v = [] \<or> \<not> is_ws (hd v) \<and> \<not> is_ws (last v)"
    by (metis hd_in_set last_in_set)
  then have "dropWhile is_ws v = v" "dropWhile is_ws (rev v) = rev v"
    by (auto simp: dropWhile_eq_self_iff hd_rev)
  then show ?thesis by (simp add: trim_def trim_matches_def trim_start_matches_def trim_end_matches_def)
qed

text \<open>A 32-byte key written in hexadecimal is rejected.  The decoder falls back to hexadecimal only when
  the text is not base64, but 64 hexadecimal digits are valid base64 (of 48 bytes), so the fallback is
  never taken for them and the key fails the length check, whatever its digits are.\<close>

theorem hex_keys_rejected:
  assumes "b64_groups_ok kl" "length v = 64" "set v \<subseteq> set ''0123456789abcdef''"
  shows "decode_key kl name v = Inl (InvalidKey name)"
proof -
  have "set ''0123456789abcdef'' \<subseteq> set ''ABCDEFGHIJKLMNOPQRSTUVWXYZabcdefghijklmnopqrstuvwxyz0123456789+/''"
    by code_simp
  then obtain bs where "kl_b64_decode kl v = Some bs" "length bs = 48"
    using assms unfolding b64_groups_ok_def by (fastforce dest: spec [of _ v])
  then show ?thesis using trim_digits [OF assms(3)] by (simp add: decode_key_def)
qed

definition group_keys :: key_lib where
  "group_keys = \<lparr>kl_b64_decode = (\<lambda>s. Some (replicate (length s div 4 * 3) 0)), kl_b64_encode = (\<lambda>b. []),
     kl_hex_decode = (\<lambda>s. Some (replicate (length s div 2) 0)), kl_public_key = (\<lambda>b. b)\<rparr>"

theorem hex_keys_rejected_witness:
  "decode_key group_keys ''server_public_key'' (replicate 64 (CHR ''a'')) = Inl (InvalidKey ''server_public_key'')"
  by (rule hex_keys_rejected) (auto simp: b64_groups_ok_def group_keys_def)

end
