(* ===== verification/Persist.thy ===== *)
theory Persist
  imports CoreAuth
begin

text \<open>
  On-disk persistence (\<open>src/crates/daemon/src/persist.rs\<close>) and the default
  device identity it merges (\<open>src/crates/api/src/identity.rs\<close>).

  The file system is a map of paths to nodes; a node remembers whether its content
  has been synced.  Every system call consumes one outcome of a script (an empty
  script is a call that succeeds) and appends the file system it leaves behind to a
  history, so that a crash at any point is a choice of an entry of the history.
  Writes may be short.  JSON encoding is third-party and is a parameter.
\<close>

section \<open>Paths\<close>

text \<open>A path as its components; \<open>Path::with_extension\<close> replaces what follows the last dot
  of the file name, unless that dot is the first character.\<close>

type_synonym path = "string list"

definition file_stem :: "string \<Rightarrow> string" where
  "file_stem n = (case rsplit_once (CHR ''.'') n of
      None \<Rightarrow> n | Some (before, after) \<Rightarrow> if before = [] then n else before)"

definition with_extension :: "string \<Rightarrow> path \<Rightarrow> path" where
  "with_extension ext p =
     (if p = [] then p else butlast p @ [file_stem (last p) @ ''.'' @ ext])"

definition parent :: "path \<Rightarrow> path option" where
  "parent p = (if p = [] then None else Some (butlast p))"

section \<open>The file system\<close>

datatype fs_kind = NotFound | FsOther nat

datatype fs_outcome = Done | Short nat | Fails fs_kind

record node =
  nd_content :: bytes
  nd_mode :: nat
  nd_synced :: bool

type_synonym files = "path \<rightharpoonup> node"

record fs =
  fs_files :: files
  fs_dirs :: "path list"
  fs_script :: "fs_outcome list"
  fs_history :: "files list"

definition next_outcome :: "fs \<Rightarrow> fs_outcome \<times> fs" where
  "next_outcome w = (case fs_script w of [] \<Rightarrow> (Done, w) | o1 # os \<Rightarrow> (o1, w\<lparr>fs_script := os\<rparr>))"

definition put_files :: "files \<Rightarrow> fs \<Rightarrow> fs" where
  "put_files f w = w\<lparr>fs_files := f, fs_history := fs_history w @ [f]\<rparr>"

text \<open>A call whose only outcomes are success and failure.\<close>

definition fs_call :: "(files \<Rightarrow> files) \<Rightarrow> (fs, fs_kind, unit) io" where
  "fs_call upd w = (case next_outcome w of
      (Fails k, w') \<Rightarrow> (Inl k, w')
    | (_, w') \<Rightarrow> (Inr (), put_files (upd (fs_files w')) w'))"

definition create_dir_all :: "path \<Rightarrow> (fs, fs_kind, unit) io" where
  "create_dir_all p w = (case next_outcome w of
      (Fails k, w') \<Rightarrow> (Inl k, w')
    | (_, w') \<Rightarrow> (Inr (), w'\<lparr>fs_dirs := p # fs_dirs w'\<rparr>))"

text \<open>\<open>open\<close> with write, create, truncate: an existing file keeps its mode.\<close>

definition open_truncate :: "path \<Rightarrow> nat \<Rightarrow> (fs, fs_kind, unit) io" where
  "open_truncate p mode = fs_call (\<lambda>f. f(p \<mapsto> \<lparr>nd_content = [],
     nd_mode = (case f p of None \<Rightarrow> mode | Some n \<Rightarrow> nd_mode n), nd_synced = False\<rparr>))"

definition append_bytes :: "path \<Rightarrow> bytes \<Rightarrow> files \<Rightarrow> files" where
  "append_bytes p bs f = (case f p of None \<Rightarrow> f
     | Some n \<Rightarrow> f(p \<mapsto> n\<lparr>nd_content := nd_content n @ bs, nd_synced := False\<rparr>))"

text \<open>\<open>write_all\<close>: repeat short writes until the data is out; a write of no bytes is an error.\<close>

function write_all :: "path \<Rightarrow> bytes \<Rightarrow> (fs, fs_kind, unit) io" where
  "write_all p data w =
     (if data = [] then (Inr (), w)
      else (case next_outcome w of
          (Fails k, w') \<Rightarrow> (Inl k, w')
        | (Done, w') \<Rightarrow> (Inr (), put_files (append_bytes p data (fs_files w')) w')
        | (Short n, w') \<Rightarrow>
            if n = 0 then (Inl (FsOther 0), w')
            else write_all p (drop n data)
                   (put_files (append_bytes p (take n data) (fs_files w')) w')))"
  by pat_completeness auto
termination by (relation "measure (\<lambda>(p, data, w). length data)") auto

declare write_all.simps [simp del]

definition sync_all :: "path \<Rightarrow> (fs, fs_kind, unit) io" where
  "sync_all p = fs_call (\<lambda>f. f(p := map_option (\<lambda>n. n\<lparr>nd_synced := True\<rparr>) (f p)))"

definition set_permissions :: "path \<Rightarrow> nat \<Rightarrow> (fs, fs_kind, unit) io" where
  "set_permissions p mode = fs_call (\<lambda>f. f(p := map_option (\<lambda>n. n\<lparr>nd_mode := mode\<rparr>) (f p)))"

definition rename :: "path \<Rightarrow> path \<Rightarrow> (fs, fs_kind, unit) io" where
  "rename src dst = fs_call (\<lambda>f. f(dst := f src, src := None))"

definition remove_file :: "path \<Rightarrow> (fs, fs_kind, unit) io" where
  "remove_file p w = (case next_outcome w of
      (Fails k, w') \<Rightarrow> (Inl k, w')
    | (_, w') \<Rightarrow> if fs_files w' p = None then (Inl NotFound, w')
                else (Inr (), put_files ((fs_files w')(p := None)) w'))"

definition read_file :: "path \<Rightarrow> (fs, fs_kind, bytes) io" where
  "read_file p w = (case next_outcome w of
      (Fails k, w') \<Rightarrow> (Inl k, w')
    | (_, w') \<Rightarrow> (case fs_files w' p of None \<Rightarrow> (Inl NotFound, w') | Some n \<Rightarrow> (Inr (nd_content n), w')))"

section \<open>Errors and data\<close>

datatype persist_error =
    Read path fs_kind
  | Write path fs_kind
  | CreateDir path fs_kind
  | Parse path
  | Serialize
  | Delete path fs_kind

record device_identity_config =
  dic_device_id :: string
  dic_os :: "string option"
  dic_os_version :: "string option"
  dic_app_version :: "string option"
  dic_brand :: "string option"
  dic_model :: "string option"
  dic_build_number :: "string option"
  dic_os_version_patch :: "string option"
  dic_client_source :: "string option"
  dic_language :: "string option"
  dic_user_agent :: "string option"

definition device_identity_config_default :: device_identity_config where
  "device_identity_config_default = \<lparr>dic_device_id = [], dic_os = None, dic_os_version = None,
     dic_app_version = None, dic_brand = None, dic_model = None, dic_build_number = None,
     dic_os_version_patch = None, dic_client_source = None, dic_language = None, dic_user_agent = None\<rparr>"

record daemon_config =
  dc_identity :: device_identity_config
  dc_outbound_interface :: "string option"
  dc_fallback_dns :: "string list option"
  dc_tun_interface :: "string option"
  dc_auto_reconnect :: bool
  dc_dns_listen_port :: "u32 option"
  dc_dns_listen_host :: "string option"
  dc_route_system_dns :: "bool option"

definition daemon_config_default :: daemon_config where
  "daemon_config_default = \<lparr>dc_identity = device_identity_config_default,
     dc_outbound_interface = None, dc_fallback_dns = None, dc_tun_interface = None,
     dc_auto_reconnect = False, dc_dns_listen_port = None, dc_dns_listen_host = None,
     dc_route_system_dns = None\<rparr>"

record tenant_cfg =
  tn_base_url :: string
  tn_backup_url :: "string option"
  tn_use_backup :: bool
  tn_name :: string

record persisted_signing_config =
  psc_enabled :: bool
  psc_activation_code :: string
  psc_device_id :: string

record persisted_vpn_request =
  pvr_mode :: string
  pvr_location_id :: "int option"
  pvr_protocol_mode :: protocol_mode
  pvr_reconnect :: bool

text \<open>\<open>PersistedTotpConfig\<close> has the fields of \<^typ>\<open>totp_config\<close>.\<close>

record persisted_credentials =
  pc_tenant :: tenant_cfg
  pc_signing :: persisted_signing_config
  pc_cookies :: cookies
  pc_knock_token :: "string option"
  pc_totp :: "totp_config option"
  pc_login_api_version :: login_api_version
  pc_last_vpn_request :: "persisted_vpn_request option"
  pc_saved_at :: string

section \<open>The device identity\<close>

text \<open>\<open>DEFAULT_DEVICE_ID\<close>: \<open>uid\<close> is the machine UID, or none when it cannot be read.\<close>

definition DEFAULT_DEVICE_ID :: "crypto \<Rightarrow> string option \<Rightarrow> string" where
  "DEFAULT_DEVICE_ID c uid =
     take 32 (hex_encode c (array_bytes (sha256 c
       (as_bytes ''device-id-v1'' @ as_bytes (trim (unwrap_or uid []))))))"

definition client_identity_default :: "crypto \<Rightarrow> string option \<Rightarrow> client_identity" where
  "client_identity_default c uid = \<lparr>id_os = ''Android'', id_os_version = ''35'',
     id_app_version = ''3.2.16'', id_brand = ''google'', id_model = ''Pixel 8'',
     id_device_id = DEFAULT_DEVICE_ID c uid, id_build_number = ''2008'',
     id_os_version_patch = ''2025-05-05'', id_client_source = ''FeiLian'', id_language = ''en'',
     id_user_agent = ''CorpLink/3.2.16 (googlePixel 8; Android 15; en)''\<rparr>"

definition field_set :: "string option \<Rightarrow> bool" where
  "field_set field = (case field of None \<Rightarrow> False | Some v \<Rightarrow> trim v \<noteq> [])"

definition is_full :: "device_identity_config \<Rightarrow> bool" where
  "is_full d \<longleftrightarrow> trim (dic_device_id d) \<noteq> [] \<and>
     list_all field_set [dic_os d, dic_os_version d, dic_app_version d, dic_brand d, dic_model d,
       dic_build_number d, dic_os_version_patch d, dic_client_source d, dic_language d, dic_user_agent d]"

definition merge_field :: "string option \<Rightarrow> string \<Rightarrow> string option" where
  "merge_field slot def = (if \<not> field_set slot then Some def else slot)"

definition ensure_full :: "client_identity \<Rightarrow> device_identity_config \<Rightarrow> bool \<times> device_identity_config" where
  "ensure_full def d =
     (if is_full d then (False, d)
      else (True, \<lparr>dic_device_id = (if trim (dic_device_id d) = [] then id_device_id def else dic_device_id d),
        dic_os = merge_field (dic_os d) (id_os def),
        dic_os_version = merge_field (dic_os_version d) (id_os_version def),
        dic_app_version = merge_field (dic_app_version d) (id_app_version def),
        dic_brand = merge_field (dic_brand d) (id_brand def),
        dic_model = merge_field (dic_model d) (id_model def),
        dic_build_number = merge_field (dic_build_number d) (id_build_number def),
        dic_os_version_patch = merge_field (dic_os_version_patch d) (id_os_version_patch def),
        dic_client_source = merge_field (dic_client_source d) (id_client_source def),
        dic_language = merge_field (dic_language d) (id_language def),
        dic_user_agent = merge_field (dic_user_agent d) (id_user_agent def)\<rparr>))"

definition or_default :: "string option \<Rightarrow> string \<Rightarrow> string" where
  "or_default v fallback = unwrap_or (opt_filter (\<lambda>v. trim v \<noteq> []) v) fallback"

text \<open>\<open>DaemonConfig::to_client_identity\<close>.\<close>

definition to_client_identity :: "client_identity \<Rightarrow> daemon_config \<Rightarrow> client_identity" where
  "to_client_identity def config = (let d = dc_identity config in
     \<lparr>id_os = or_default (dic_os d) (id_os def),
      id_os_version = or_default (dic_os_version d) (id_os_version def),
      id_app_version = or_default (dic_app_version d) (id_app_version def),
      id_brand = or_default (dic_brand d) (id_brand def),
      id_model = or_default (dic_model d) (id_model def),
      id_device_id = (if trim (dic_device_id d) = [] then id_device_id def else dic_device_id d),
      id_build_number = or_default (dic_build_number d) (id_build_number def),
      id_os_version_patch = or_default (dic_os_version_patch d) (id_os_version_patch def),
      id_client_source = or_default (dic_client_source d) (id_client_source def),
      id_language = or_default (dic_language d) (id_language def),
      id_user_agent = or_default (dic_user_agent d) (id_user_agent def)\<rparr>)"

section \<open>Load, save, delete\<close>

text \<open>The JSON codec of a persisted type: \<open>serde_json::from_slice\<close> and \<open>to_vec_pretty\<close>.\<close>

record 'a json_codec =
  jc_from_slice :: "bytes \<Rightarrow> 'a option"
  jc_to_vec_pretty :: "'a \<Rightarrow> bytes option"

definition atomic_write :: "path \<Rightarrow> bytes \<Rightarrow> (fs, persist_error, unit) io" where
  "atomic_write p data =
     io_bind (case parent p of None \<Rightarrow> io_return ()
              | Some d \<Rightarrow> io_map_err (CreateDir d) (create_dir_all d)) (\<lambda>_.
     let tmp = with_extension ''tmp'' p in
     io_bind (io_map_err (Write tmp) (open_truncate tmp 384)) (\<lambda>_.
     io_bind (io_map_err (Write tmp) (write_all tmp data)) (\<lambda>_.
     io_bind (io_map_err (Write tmp) (sync_all tmp)) (\<lambda>_.
     io_bind (io_map_err (Write tmp) (set_permissions tmp 384)) (\<lambda>_.
     io_map_err (Write p) (rename tmp p))))))"

definition config_load_or_default :: "daemon_config json_codec \<Rightarrow> path \<Rightarrow> (fs, persist_error, daemon_config) io" where
  "config_load_or_default codec p w = (case read_file p w of
      (Inr bytes, w') \<Rightarrow> (ok_or (Parse p) (jc_from_slice codec bytes), w')
    | (Inl NotFound, w') \<Rightarrow> (Inr daemon_config_default, w')
    | (Inl k, w') \<Rightarrow> (Inl (Read p k), w'))"

definition persist_save :: "'a json_codec \<Rightarrow> 'a \<Rightarrow> path \<Rightarrow> (fs, persist_error, unit) io" where
  "persist_save codec x p = (case jc_to_vec_pretty codec x of
      None \<Rightarrow> io_fail Serialize
    | Some data \<Rightarrow> atomic_write p data)"

definition credentials_load ::
  "persisted_credentials json_codec \<Rightarrow> path \<Rightarrow> (fs, persist_error, persisted_credentials option) io" where
  "credentials_load codec p w = (case read_file p w of
      (Inr bytes, w') \<Rightarrow> (res_bind (ok_or (Parse p) (jc_from_slice codec bytes)) (\<lambda>c. Inr (Some c)), w')
    | (Inl NotFound, w') \<Rightarrow> (Inr None, w')
    | (Inl k, w') \<Rightarrow> (Inl (Read p k), w'))"

definition credentials_delete :: "path \<Rightarrow> (fs, persist_error, unit) io" where
  "credentials_delete p w = (case remove_file p w of
      (Inr _, w') \<Rightarrow> (Inr (), w')
    | (Inl NotFound, w') \<Rightarrow> (Inr (), w')
    | (Inl k, w') \<Rightarrow> (Inl (Delete p k), w'))"

section \<open>Crash safety of the atomic write\<close>

text \<open>\<open>leaves q w w'\<close>: going from \<open>w\<close> to \<open>w'\<close>, no file system passed through touched \<open>q\<close>.\<close>

definition leaves :: "path \<Rightarrow> fs \<Rightarrow> fs \<Rightarrow> bool" where
  "leaves q w w' \<longleftrightarrow> fs_files w' q = fs_files w q \<and>
     (\<exists>h. fs_history w' = fs_history w @ h \<and> (\<forall>f\<in>set h. f q = fs_files w q))"

lemma leaves_refl [intro, simp]: "leaves q w w"
  by (simp add: leaves_def)

lemma leaves_trans [trans]: "leaves q w w' \<Longrightarrow> leaves q w' w'' \<Longrightarrow> leaves q w w''"
  unfolding leaves_def by (metis (no_types, lifting) Un_iff append_assoc set_append)

lemma leaves_put: "f q = fs_files w q \<Longrightarrow> leaves q w (put_files f w)"
  by (simp add: leaves_def put_files_def)

lemma next_outcome_frame:
  "next_outcome w = (x, w') \<Longrightarrow> fs_files w' = fs_files w \<and> fs_history w' = fs_history w"
  by (auto simp: next_outcome_def split: list.splits)

lemma next_outcome_leaves: "next_outcome w = (x, w') \<Longrightarrow> leaves q w w'"
  using next_outcome_frame [of w x w'] by (simp add: leaves_def)

text \<open>The contract of the calls made on the temporary file: they leave every other path alone.\<close>

locale confined =
  fixes call :: "path \<Rightarrow> (fs, fs_kind, unit) io"
  assumes frame: "call p w = (r, w') \<Longrightarrow> q \<noteq> p \<Longrightarrow> leaves q w w'"
begin

lemma frame_err: "io_map_err g (call p) w = (r, w') \<Longrightarrow> q \<noteq> p \<Longrightarrow> leaves q w w'"
  by (auto simp: io_map_err_def split: prod.splits intro: frame)

end

lemma fs_call_cases:
  assumes "fs_call upd w = (r, w')"
  obtains k where "r = Inl k" "fs_files w' = fs_files w" "fs_history w' = fs_history w"
  | "r = Inr ()" "fs_files w' = upd (fs_files w)" "fs_history w' = fs_history w @ [upd (fs_files w)]"
  using assms
  by (auto simp: fs_call_def put_files_def dest!: next_outcome_frame split: prod.splits fs_outcome.splits)

lemma fs_call_leaves:
  assumes "fs_call upd w = (r, w')" "\<And>f. upd f q = f q"
  shows "leaves q w w'"
  using assms(1) by (rule fs_call_cases) (simp_all add: leaves_def assms(2))

lemma create_dir_all_leaves: "create_dir_all d w = (r, w') \<Longrightarrow> leaves q w w'"
  by (auto simp: create_dir_all_def leaves_def dest!: next_outcome_frame
      split: prod.splits fs_outcome.splits)

lemma append_bytes_other: "q \<noteq> p \<Longrightarrow> append_bytes p bs f q = f q"
  by (simp add: append_bytes_def split: option.split)

lemma write_all_leaves: "write_all p data w = (r, w') \<Longrightarrow> q \<noteq> p \<Longrightarrow> leaves q w w'"
proof (induction p data w rule: write_all.induct)
  case (1 p data w)
  show ?case
  proof (cases "data = []")
    case True
    then show ?thesis using 1(2) by (simp add: write_all.simps [of p "[]"])
  next
    case False
    obtain x w1 where out: "next_outcome w = (x, w1)" by fastforce
    have put: "leaves q w (put_files (append_bytes p bs (fs_files w1)) w1)" for bs
      by (rule leaves_trans [OF next_outcome_leaves [OF out] leaves_put])
        (rule append_bytes_other [OF 1(3)])
    show ?thesis
    proof (cases x)
      case Done
      then show ?thesis using 1(2) False out put
        by (auto simp: write_all.simps [of p data w])
    next
      case (Fails k)
      then show ?thesis using 1(2) False out next_outcome_leaves [OF out]
        by (auto simp: write_all.simps [of p data w])
    next
      case (Short n)
      show ?thesis
      proof (cases "n = 0")
        case True
        then show ?thesis using Short 1(2) False out next_outcome_leaves [OF out]
          by (auto simp: write_all.simps [of p data w])
      next
        case n: False
        then have "write_all p (drop n data)
            (put_files (append_bytes p (take n data) (fs_files w1)) w1) = (r, w')"
          using Short 1(2) False out by (auto simp: write_all.simps [of p data w])
        from 1(1) [OF False out [symmetric] Short n this 1(3)] show ?thesis
          by (rule leaves_trans [OF put])
      qed
    qed
  qed
qed

interpretation open_tmp: confined "\<lambda>p. open_truncate p mode"
  by unfold_locales (auto simp: open_truncate_def intro: fs_call_leaves)

interpretation write_tmp: confined "\<lambda>p. write_all p data"
  by unfold_locales (rule write_all_leaves)

interpretation sync_tmp: confined sync_all
  by unfold_locales (auto simp: sync_all_def intro: fs_call_leaves)

interpretation chmod_tmp: confined "\<lambda>p. set_permissions p mode"
  by unfold_locales (auto simp: set_permissions_def intro: fs_call_leaves)

lemma write_all_content:
  "write_all p data w = (Inr (), w') \<Longrightarrow> fs_files w p = Some n \<Longrightarrow>
   \<exists>n'. fs_files w' p = Some n' \<and> nd_content n' = nd_content n @ data \<and> nd_mode n' = nd_mode n"
proof (induction p data w arbitrary: n rule: write_all.induct)
  case (1 p data w)
  show ?case
  proof (cases "data = []")
    case True
    then show ?thesis using 1(2,3) by (simp add: write_all.simps [of p "[]"])
  next
    case False
    obtain x w1 where out: "next_outcome w = (x, w1)" by fastforce
    have fr: "fs_files w1 p = Some n" using next_outcome_frame [OF out] 1(3) by simp
    show ?thesis
    proof (cases x)
      case Done
      then show ?thesis using 1(2) False out fr
        by (auto simp: write_all.simps [of p data w] put_files_def append_bytes_def)
    next
      case (Fails k)
      then show ?thesis using 1(2) False out
        by (simp add: write_all.simps [of p data w])
    next
      case (Short m)
      let ?w2 = "put_files (append_bytes p (take m data) (fs_files w1)) w1"
      have m: "m \<noteq> 0" and rest: "write_all p (drop m data) ?w2 = (Inr (), w')"
        using 1(2) False out Short
        by (auto simp: write_all.simps [of p data w] split: if_splits)
      have at2: "fs_files ?w2 p = Some (n\<lparr>nd_content := nd_content n @ take m data, nd_synced := False\<rparr>)"
        by (simp add: put_files_def append_bytes_def fr)
      show ?thesis
        using 1(1) [OF False out [symmetric] Short m rest at2] by simp
    qed
  qed
qed

text \<open>The calls before the rename: everything but the temporary file is untouched, and on success
  the temporary file holds exactly the data, synced and private.\<close>

definition stage_tmp :: "path \<Rightarrow> bytes \<Rightarrow> (fs, persist_error, unit) io" where
  "stage_tmp tmp data =
     io_bind (io_map_err (Write tmp) (open_truncate tmp 384)) (\<lambda>_.
     io_bind (io_map_err (Write tmp) (write_all tmp data)) (\<lambda>_.
     io_bind (io_map_err (Write tmp) (sync_all tmp)) (\<lambda>_.
     io_map_err (Write tmp) (set_permissions tmp 384))))"

lemma io_bind_assoc: "io_bind (io_bind m f) g = io_bind m (\<lambda>x. io_bind (f x) g)"
  by (auto simp: io_bind_def fun_eq_iff split: prod.splits sum.splits)

lemma stage_tmp_leaves: "stage_tmp tmp data w = (r, w') \<Longrightarrow> q \<noteq> tmp \<Longrightarrow> leaves q w w'"
  unfolding stage_tmp_def
  by (elim io_bind_cases)
    (blast intro: leaves_trans open_tmp.frame_err write_tmp.frame_err sync_tmp.frame_err
      chmod_tmp.frame_err)+

lemma stage_tmp_content:
  assumes "stage_tmp tmp data w = (Inr u, w')"
  shows "fs_files w' tmp = Some \<lparr>nd_content = data, nd_mode = 384, nd_synced = True\<rparr>"
proof -
  obtain w1 w2 w3 where o: "open_truncate tmp 384 w = (Inr (), w1)"
    and wr: "write_all tmp data w1 = (Inr (), w2)"
    and sy: "sync_all tmp w2 = (Inr (), w3)" and ch: "set_permissions tmp 384 w3 = (Inr u, w')"
    using assms unfolding stage_tmp_def by (auto simp: io_bind_Inr io_map_err_Inr)
  obtain n1 where n1: "fs_files w1 tmp = Some n1" "nd_content n1 = []"
    using o unfolding open_truncate_def by (auto elim!: fs_call_cases)
  obtain n2 where n2: "fs_files w2 tmp = Some n2" "nd_content n2 = data"
    using write_all_content [OF wr n1(1)] n1(2) by auto
  have "fs_files w3 tmp = Some (n2\<lparr>nd_synced := True\<rparr>)"
    using sy n2(1) unfolding sync_all_def by (auto elim!: fs_call_cases)
  then show ?thesis
    using ch n2(2) unfolding set_permissions_def by (auto elim!: fs_call_cases)
qed

lemma atomic_write_alt:
  "atomic_write p data =
     io_bind (case parent p of None \<Rightarrow> io_return ()
              | Some d \<Rightarrow> io_map_err (CreateDir d) (create_dir_all d)) (\<lambda>_.
     io_bind (stage_tmp (with_extension ''tmp'' p) data) (\<lambda>_.
     io_map_err (Write p) (rename (with_extension ''tmp'' p) p)))"
  by (simp add: atomic_write_def stage_tmp_def io_bind_assoc Let_def)

text \<open>What a read may find at \<open>p\<close> after a crash in file system \<open>f\<close>: the content of a synced file, or
  anything at all in place of an unsynced one.\<close>

definition after_crash :: "files \<Rightarrow> path \<Rightarrow> bytes option \<Rightarrow> bool" where
  "after_crash f p c = (case f p of
      None \<Rightarrow> c = None
    | Some n \<Rightarrow> if nd_synced n then c = Some (nd_content n) else c \<noteq> None)"

lemma atomic_write_cases:
  assumes "atomic_write p data w = (r, w')" "with_extension ''tmp'' p \<noteq> p"
  obtains e where "r = Inl e" "leaves p w w'"
  | w1 where "r = Inr ()" "leaves p w w1"
    "fs_files w1 (with_extension ''tmp'' p) = Some \<lparr>nd_content = data, nd_mode = 384, nd_synced = True\<rparr>"
    "fs_files w' = (fs_files w1)(p := fs_files w1 (with_extension ''tmp'' p), with_extension ''tmp'' p := None)"
    "fs_history w' = fs_history w1 @ [fs_files w']"
proof -
  let ?tmp = "with_extension ''tmp'' p"
  let ?dir = "case parent p of None \<Rightarrow> io_return ()
              | Some d \<Rightarrow> io_map_err (CreateDir d) (create_dir_all d)"
  have dir: "leaves p w w1" if "?dir w = (x, w1)" for x w1
    using that create_dir_all_leaves
    by (auto simp: io_map_err_def split: option.splits prod.splits)
  show thesis
    using assms(1) unfolding atomic_write_alt
  proof (elim io_bind_cases)
    fix e assume "?dir w = (Inl e, w')" "r = Inl e"
    then show thesis using dir that(1) by blast
  next
    fix x w0 e assume "?dir w = (Inr x, w0)" "stage_tmp ?tmp data w0 = (Inl e, w')" "r = Inl e"
    then show thesis using dir stage_tmp_leaves assms(2) leaves_trans that(1) by metis
  next
    fix x w0 u w1
    assume d: "?dir w = (Inr x, w0)" and s: "stage_tmp ?tmp data w0 = (Inr u, w1)"
      and rn: "io_map_err (Write p) (rename ?tmp p) w1 = (r, w')"
    have l: "leaves p w w1" using d s dir stage_tmp_leaves assms(2) leaves_trans by metis
    from rn obtain r' where rn': "rename ?tmp p w1 = (r', w')" and r: "r = map_err (Write p) r'"
      by (auto simp: io_map_err_def split: prod.splits)
    from rn' [unfolded rename_def] show thesis
    proof (rule fs_call_cases)
      fix k assume "r' = Inl k" "fs_files w' = fs_files w1" "fs_history w' = fs_history w1"
      then show thesis using l r that(1) by (simp add: leaves_def)
    next
      assume "r' = Inr ()"
        "fs_files w' = (fs_files w1)(p := fs_files w1 ?tmp, ?tmp := None)"
        "fs_history w' = fs_history w1 @ [(fs_files w1)(p := fs_files w1 ?tmp, ?tmp := None)]"
      then show thesis using l r stage_tmp_content [OF s] that(2) by simp
    qed
  qed
qed

text \<open>C10: an atomic write never leaves a corrupt file.  Whatever the outcomes of the system calls
  and however short the writes, a crash in any file system the call passes through leaves at the path
  the old content or the new one; success leaves exactly the new data, synced and readable by the
  owner only, with no temporary file; an error leaves the target as it was.\<close>

theorem atomic_write_crash_safe:
  assumes "with_extension ''tmp'' p \<noteq> p"
    and "\<And>n. fs_files w p = Some n \<Longrightarrow> nd_synced n"
    and "atomic_write p data w = (r, w')"
  shows "(\<exists>h. fs_history w' = fs_history w @ h \<and>
            (\<forall>f\<in>set h. \<forall>c. after_crash f p c \<longrightarrow>
               c = map_option nd_content (fs_files w p) \<or> c = Some data))
    \<and> (r = Inr () \<longrightarrow> fs_files w' p = Some \<lparr>nd_content = data, nd_mode = 384, nd_synced = True\<rparr>
         \<and> fs_files w' (with_extension ''tmp'' p) = None)
    \<and> (\<forall>e. r = Inl e \<longrightarrow> fs_files w' p = fs_files w p)"
proof -
  have old: "c = map_option nd_content (fs_files w p)" if "f p = fs_files w p" "after_crash f p c" for f c
    using that assms(2) by (auto simp: after_crash_def split: option.splits if_splits)
  show ?thesis
    using assms(3,1)
  proof (rule atomic_write_cases)
    fix e assume "r = Inl e" "leaves p w w'"
    then show ?thesis using old by (auto simp: leaves_def)
  next
    fix w1 assume r: "r = Inr ()" and l: "leaves p w w1"
      and t: "fs_files w1 (with_extension ''tmp'' p) = Some \<lparr>nd_content = data, nd_mode = 384, nd_synced = True\<rparr>"
      and f: "fs_files w' = (fs_files w1)(p := fs_files w1 (with_extension ''tmp'' p), with_extension ''tmp'' p := None)"
      and h: "fs_history w' = fs_history w1 @ [fs_files w']"
    obtain h1 where h1: "fs_history w1 = fs_history w @ h1" "\<forall>g\<in>set h1. g p = fs_files w p"
      using l by (auto simp: leaves_def)
    have new: "fs_files w' p = Some \<lparr>nd_content = data, nd_mode = 384, nd_synced = True\<rparr>"
      using f t assms(1) by simp
    have "\<forall>g\<in>set (h1 @ [fs_files w']). \<forall>c. after_crash g p c \<longrightarrow>
        c = map_option nd_content (fs_files w p) \<or> c = Some data"
      using old h1(2) new by (auto simp: after_crash_def)
    then show ?thesis using h h1(1) r new f by auto
  qed
qed

definition sample_fs :: fs where
  "sample_fs = \<lparr>fs_files = [[''etc'', ''config.json''] \<mapsto> \<lparr>nd_content = [1], nd_mode = 384, nd_synced = True\<rparr>],
     fs_dirs = [], fs_script = [Done, Done, Short 1, Done], fs_history = []\<rparr>"

lemma sample_tmp: "with_extension ''tmp'' [''etc'', ''config.json''] = [''etc'', ''config.tmp'']"
  by code_simp

theorem atomic_write_crash_safe_witness:
  "fst (atomic_write [''etc'', ''config.json''] [7, 8] sample_fs) = Inr () \<and>
   fs_files (snd (atomic_write [''etc'', ''config.json''] [7, 8] sample_fs)) [''etc'', ''config.json'']
     = Some \<lparr>nd_content = [7, 8], nd_mode = 384, nd_synced = True\<rparr>"
proof -
  have ok: "fst (atomic_write [''etc'', ''config.json''] [7, 8] sample_fs) = Inr ()"
    by (simp add: atomic_write_def sample_tmp parent_def io_bind_def io_map_err_def create_dir_all_def
        open_truncate_def fs_call_def next_outcome_def put_files_def write_all.simps append_bytes_def
        sync_all_def set_permissions_def rename_def sample_fs_def Let_def)
  have synced: "nd_synced n" if "fs_files sample_fs [''etc'', ''config.json''] = Some n" for n
    using that by (auto simp: sample_fs_def)
  have tmp: "with_extension ''tmp'' [''etc'', ''config.json''] \<noteq> [''etc'', ''config.json'']"
    by (simp add: sample_tmp)
  have "atomic_write [''etc'', ''config.json''] [7, 8] sample_fs =
      (Inr (), snd (atomic_write [''etc'', ''config.json''] [7, 8] sample_fs))"
    using ok by (simp add: prod_eq_iff)
  from atomic_write_crash_safe [OF tmp synced this] ok show ?thesis by simp
qed

section \<open>Round trips\<close>

lemma read_file_found:
  "fs_files w p = Some n \<Longrightarrow> fs_script w = [] \<Longrightarrow> read_file p w = (Inr (nd_content n), w)"
  by (simp add: read_file_def next_outcome_def)

text \<open>After a successful save, loading gives the saved credentials back, provided the decoder inverts the encoder on them;
  after a successful delete, loading finds none.\<close>

lemma credentials_round_trip:
  assumes serde: "\<And>bs. jc_to_vec_pretty codec creds = Some bs \<Longrightarrow> jc_from_slice codec bs = Some creds"
    and tmp: "with_extension ''tmp'' p \<noteq> p"
    and saved: "persist_save codec creds p w = (Inr (), w1)"
    and quiet: "fs_script w1 = []"
  shows "credentials_load codec p w1 = (Inr (Some creds), w1)
    \<and> (\<exists>w2. credentials_delete p w1 = (Inr (), w2) \<and> credentials_load codec p w2 = (Inr None, w2))"
proof -
  obtain bs where bs: "jc_to_vec_pretty codec creds = Some bs" "atomic_write p bs w = (Inr (), w1)"
    using saved by (auto simp: persist_save_def split: option.splits)
  have at: "fs_files w1 p = Some \<lparr>nd_content = bs, nd_mode = 384, nd_synced = True\<rparr>"
    using bs(2) tmp by (rule atomic_write_cases) (use tmp in simp_all)
  have "credentials_load codec p w1 = (Inr (Some creds), w1)"
    using read_file_found [OF at quiet] serde [OF bs(1)] by (simp add: credentials_load_def)
  moreover have "credentials_delete p w1 = (Inr (), put_files ((fs_files w1)(p := None)) w1)"
    using at quiet by (simp add: credentials_delete_def remove_file_def next_outcome_def)
  moreover have "credentials_load codec p (put_files ((fs_files w1)(p := None)) w1)
      = (Inr None, put_files ((fs_files w1)(p := None)) w1)"
    using quiet by (simp add: credentials_load_def read_file_def next_outcome_def put_files_def)
  ultimately show ?thesis by auto
qed

definition sample_credentials :: persisted_credentials where
  "sample_credentials = \<lparr>pc_tenant = \<lparr>tn_base_url = ''https://t'', tn_backup_url = None,
       tn_use_backup = False, tn_name = ''T''\<rparr>,
     pc_signing = \<lparr>psc_enabled = False, psc_activation_code = ''c'', psc_device_id = ''d''\<rparr>,
     pc_cookies = [(''csrf-token'', ''x'')], pc_knock_token = None, pc_totp = None,
     pc_login_api_version = V1, pc_last_vpn_request = None, pc_saved_at = ''now''\<rparr>"

section \<open>A complete identity\<close>

text \<open>What \<open>hex::encode\<close> documents: two hexadecimal digits per byte.\<close>

definition hex_digits :: string where "hex_digits = ''0123456789abcdef''"

definition hex_ok :: "(bytes \<Rightarrow> string) \<Rightarrow> bool" where
  "hex_ok hex \<longleftrightarrow> (\<forall>bs. length (hex bs) = 2 * length bs \<and> set (hex bs) \<subseteq> set hex_digits)"

lemma trim_id: "(\<And>c. c \<in> set s \<Longrightarrow> \<not> is_ws c) \<Longrightarrow> trim s = s"
proof -
  assume nw: "\<And>c. c \<in> set s \<Longrightarrow> \<not> is_ws c"
  have "dropWhile is_ws t = t" if "set t \<subseteq> set s" for t
    using that nw by (cases t) auto
  from this [of s] this [of "rev s"] show ?thesis
    by (simp add: trim_def trim_matches_def trim_start_matches_def trim_end_matches_def)
qed

lemma hex_not_ws: "c \<in> set hex_digits \<Longrightarrow> \<not> is_ws c"
  by (auto simp: is_ws_def hex_digits_def)

lemma device_id_not_blank:
  assumes "hex_ok (hex_encode c)"
  shows "trim (DEFAULT_DEVICE_ID c uid) = DEFAULT_DEVICE_ID c uid" "length (DEFAULT_DEVICE_ID c uid) = 32"
proof -
  show "length (DEFAULT_DEVICE_ID c uid) = 32"
    using assms by (simp add: DEFAULT_DEVICE_ID_def hex_ok_def)
  show "trim (DEFAULT_DEVICE_ID c uid) = DEFAULT_DEVICE_ID c uid"
    by (rule trim_id) (use assms in \<open>auto simp: DEFAULT_DEVICE_ID_def hex_ok_def
        dest!: in_set_takeD intro!: hex_not_ws intro: subsetD\<close>)
qed

lemma merge_field_set: "trim d \<noteq> [] \<Longrightarrow> field_set (merge_field slot d)"
  by (simp add: merge_field_def field_set_def)

lemma merge_field_keeps: "field_set slot \<Longrightarrow> merge_field slot d = slot"
  by (simp add: merge_field_def)

lemma or_default_merge: "or_default (merge_field slot d) d = or_default slot d"
  by (cases slot) (auto simp: merge_field_def field_set_def or_default_def)

lemma default_literals_not_blank:
  "trim ''Android'' \<noteq> []" "trim ''35'' \<noteq> []" "trim ''3.2.16'' \<noteq> []" "trim ''google'' \<noteq> []"
  "trim ''Pixel 8'' \<noteq> []" "trim ''2008'' \<noteq> []" "trim ''2025-05-05'' \<noteq> []" "trim ''FeiLian'' \<noteq> []"
  "trim ''en'' \<noteq> []" "trim ''CorpLink/3.2.16 (googlePixel 8; Android 15; en)'' \<noteq> []"
  by code_simp+

lemma device_id_set: "hex_ok (hex_encode c) \<Longrightarrow> trim (DEFAULT_DEVICE_ID c uid) \<noteq> []"
  using device_id_not_blank [of c uid] by (metis list.size(3) zero_neq_numeral)

lemma ensure_full_is_full:
  "hex_ok (hex_encode c) \<Longrightarrow> is_full (snd (ensure_full (client_identity_default c uid) d))"
  by (simp add: ensure_full_def is_full_def client_identity_default_def merge_field_set
      default_literals_not_blank device_id_set)

text \<open>Completing the identity on startup is safe to repeat and changes nothing the server sees.
  The completed identity is full, whatever was missing; completing it again reports no change; a field
  that was set is kept; and the identity sent with requests is the same before and after.\<close>

theorem ensure_full_completes:
  fixes uid :: "string option"
  assumes "hex_ok (hex_encode c)"
  defines "def \<equiv> client_identity_default c uid"
  shows "is_full (snd (ensure_full def (dc_identity config)))
    \<and> fst (ensure_full def (dc_identity config)) = (\<not> is_full (dc_identity config))
    \<and> ensure_full def (snd (ensure_full def (dc_identity config)))
        = (False, snd (ensure_full def (dc_identity config)))
    \<and> to_client_identity def (config\<lparr>dc_identity := snd (ensure_full def (dc_identity config))\<rparr>)
        = to_client_identity def config"
proof (intro conjI)
  show full: "is_full (snd (ensure_full def (dc_identity config)))"
    unfolding def_def using assms(1) by (rule ensure_full_is_full)
  show "fst (ensure_full def (dc_identity config)) = (\<not> is_full (dc_identity config))"
    by (simp add: ensure_full_def)
  show "ensure_full def (snd (ensure_full def (dc_identity config)))
      = (False, snd (ensure_full def (dc_identity config)))"
    unfolding ensure_full_def [of def "snd _"] using full by simp
  show "to_client_identity def (config\<lparr>dc_identity := snd (ensure_full def (dc_identity config))\<rparr>)
      = to_client_identity def config"
    using device_id_set [OF assms(1), of uid]
    by (simp add: to_client_identity_def ensure_full_def or_default_merge Let_def)
qed

definition hex_digit :: "u8 \<Rightarrow> string" where
  "hex_digit b = (let d = (\<lambda>n. hex_digits ! (n mod 16)) in [d (unat b div 16), d (unat b)])"

theorem ensure_full_completes_witness:
  "is_full (snd (ensure_full (client_identity_default (toy_crypto\<lparr>hex_encode := concat \<circ> map hex_digit\<rparr>) None)
     (dc_identity daemon_config_default)))"
proof -
  have len: "length hex_digits = 16" by (simp add: hex_digits_def)
  have "hex_digits ! (n mod 16) \<in> set hex_digits" for n
    by (rule nth_mem) (simp add: len)
  then have "set (hex_digit b) \<subseteq> set hex_digits \<and> length (hex_digit b) = 2" for b
    by (simp add: hex_digit_def Let_def)
  moreover have "length (concat (map hex_digit bs)) = 2 * length bs
      \<and> set (concat (map hex_digit bs)) \<subseteq> set hex_digits" for bs
    using calculation by (induction bs) auto
  ultimately have "hex_ok (hex_encode (toy_crypto\<lparr>hex_encode := concat \<circ> map hex_digit\<rparr>))"
    by (simp add: hex_ok_def)
  from ensure_full_completes [OF this, where config = daemon_config_default and uid = None]
  show ?thesis by blast
qed

end
