(* ===== verification/DaemonError.thy ===== *)
theory DaemonError
  imports Persist
begin

text \<open>
  The daemon's error types and what a client sees of them
  (\<open>src/crates/daemon/src/error.rs\<close>).

  An expected outcome is an \<open>rpc_fault\<close> with a code and a message; anything else is
  an \<open>internal_error\<close>, which the client sees only as an opaque text.  The text of an
  API error contains the text of third-party errors, so its \<open>Display\<close> is the
  parameter \<open>disp\<close>.
\<close>

section \<open>Error types\<close>

datatype rpc_fault =
    InvalidArgument string
  | NotConfigured
  | NotAuthenticated
  | Unauthenticated string
  | Unavailable string

datatype error_code =
    CodeInvalidArgument | CodeFailedPrecondition | CodeUnauthenticated | CodeUnavailable | CodeInternal

datatype internal_error =
    InternalTunnel string
  | InternalPersist persist_error
  | InternalAuth core_auth_error
  | InternalVpn vpn_error

datatype daemon_error = Fault rpc_fault | Internal internal_error

text \<open>\<open>connectrpc::ConnectError\<close>: a code and a message.\<close>

record connect_error =
  ce_code :: error_code
  ce_message :: string

definition fault_code :: "rpc_fault \<Rightarrow> error_code" where
  "fault_code f = (case f of
      InvalidArgument _ \<Rightarrow> CodeInvalidArgument
    | NotConfigured \<Rightarrow> CodeFailedPrecondition
    | NotAuthenticated \<Rightarrow> CodeFailedPrecondition
    | Unauthenticated _ \<Rightarrow> CodeUnauthenticated
    | Unavailable _ \<Rightarrow> CodeUnavailable)"

definition fault_to_string :: "rpc_fault \<Rightarrow> string" where
  "fault_to_string f = (case f of
      InvalidArgument m \<Rightarrow> ''invalid argument: '' @ m
    | NotConfigured \<Rightarrow> ''no tenant configured; call Activate first''
    | NotAuthenticated \<Rightarrow> ''not authenticated; complete login first''
    | Unauthenticated m \<Rightarrow> ''upstream authentication failed: '' @ m
    | Unavailable m \<Rightarrow> ''upstream temporarily unavailable: '' @ m)"

section \<open>Classification\<close>

definition classify_api :: "(api_error \<Rightarrow> string) \<Rightarrow> api_error \<Rightarrow> rpc_fault option" where
  "classify_api disp error = (case error of
      Request \<Rightarrow> Some (Unavailable (disp error))
    | BuildHttpClient \<Rightarrow> Some (Unavailable (disp error))
    | HttpStatus status _ \<Rightarrow>
        if status = 401 \<or> status = 403 then Some (Unauthenticated (disp error)) else None
    | ApiStatus code _ _ \<Rightarrow> if code < 0 then Some (Unauthenticated (disp error)) else None
    | _ \<Rightarrow> None)"

definition auth_api :: "core_auth_error \<Rightarrow> api_error option" where
  "auth_api error = (case error of AuthApi source \<Rightarrow> Some source | _ \<Rightarrow> None)"

definition vpn_api :: "vpn_error \<Rightarrow> api_error option" where
  "vpn_api error = (case error of VpnApi source \<Rightarrow> Some source | _ \<Rightarrow> None)"

definition from_persist_error :: "persist_error \<Rightarrow> daemon_error" where
  "from_persist_error e = Internal (InternalPersist e)"

definition from_core_auth_error :: "(api_error \<Rightarrow> string) \<Rightarrow> core_auth_error \<Rightarrow> daemon_error" where
  "from_core_auth_error disp error =
     (case Option.bind (auth_api error) (classify_api disp) of
        None \<Rightarrow> Internal (InternalAuth error)
      | Some fault \<Rightarrow> Fault fault)"

definition provider_error_to_string :: "(core_auth_error \<Rightarrow> string) \<Rightarrow> auth_error \<Rightarrow> string" where
  "provider_error_to_string disp_auth e = (case e of
      AuthError source \<Rightarrow> disp_auth source
    | UnknownProvider a \<Rightarrow> ''unknown provider alias `'' @ a @ ''`''
    | ProviderNoLoginUrl a \<Rightarrow> ''provider `'' @ a @ ''` has no login url''
    | ProviderNoDeviceLogin a \<Rightarrow> ''provider `'' @ a @ ''` does not support device login'')"

text \<open>The wrapped API error never reaches the textual branch, so its text there is left empty.\<close>

definition from_auth_error :: "(api_error \<Rightarrow> string) \<Rightarrow> auth_error \<Rightarrow> daemon_error" where
  "from_auth_error disp error = (case error of
      AuthError source \<Rightarrow> from_core_auth_error disp source
    | other \<Rightarrow> Fault (InvalidArgument (provider_error_to_string (\<lambda>_. []) other)))"

definition from_vpn_error :: "(api_error \<Rightarrow> string) \<Rightarrow> vpn_error \<Rightarrow> daemon_error" where
  "from_vpn_error disp error =
     (case Option.bind (vpn_api error) (classify_api disp) of
        None \<Rightarrow> Internal (InternalVpn error)
      | Some fault \<Rightarrow> Fault fault)"

definition to_connect_error :: "daemon_error \<Rightarrow> connect_error" where
  "to_connect_error error = (case error of
      Fault fault \<Rightarrow> \<lparr>ce_code = fault_code fault, ce_message = fault_to_string fault\<rparr>
    | Internal _ \<Rightarrow> \<lparr>ce_code = CodeInternal, ce_message = ''internal error''\<rparr>)"

section \<open>What a client learns\<close>

text \<open>The upstream failures the client can act on.\<close>

definition upstream_auth_failure :: "api_error \<Rightarrow> bool" where
  "upstream_auth_failure e \<longleftrightarrow>
     (\<exists>b. e = HttpStatus 401 b) \<or> (\<exists>b. e = HttpStatus 403 b) \<or> (\<exists>c m r. e = ApiStatus c m r \<and> c < 0)"

definition upstream_transport_failure :: "api_error \<Rightarrow> bool" where
  "upstream_transport_failure e \<longleftrightarrow> e = Request \<or> e = BuildHttpClient"

lemma classify_api_cases:
  "classify_api disp e = (if upstream_transport_failure e then Some (Unavailable (disp e))
     else if upstream_auth_failure e then Some (Unauthenticated (disp e)) else None)"
  by (cases e) (auto simp: classify_api_def upstream_transport_failure_def upstream_auth_failure_def)

lemma fault_code_not_internal: "fault_code f \<noteq> CodeInternal"
  by (cases f) (simp_all add: fault_code_def)

definition of_auth :: "(api_error \<Rightarrow> string) \<Rightarrow> api_error \<Rightarrow> connect_error" where
  "of_auth disp e = to_connect_error (from_auth_error disp (AuthError (AuthApi e)))"

definition of_vpn :: "(api_error \<Rightarrow> string) \<Rightarrow> api_error \<Rightarrow> connect_error" where
  "of_vpn disp e = to_connect_error (from_vpn_error disp (VpnApi e))"

text \<open>The same upstream failure is reported the same way whichever flow met it.  A login-flow
  and a VPN-flow error wrapping one API error give the same code: unauthenticated exactly for HTTP
  401 and 403 and negative API codes, unavailable exactly for transport failures, internal otherwise;
  and an internal error carries no text of its cause.\<close>

theorem connect_error_of_upstream:
  "of_auth disp e = of_vpn disp e
    \<and> (ce_code (of_auth disp e) = CodeUnauthenticated \<longleftrightarrow> upstream_auth_failure e)
    \<and> (ce_code (of_auth disp e) = CodeUnavailable \<longleftrightarrow> upstream_transport_failure e)
    \<and> (ce_code (of_auth disp e) = CodeInternal \<longleftrightarrow> of_auth disp e = \<lparr>ce_code = CodeInternal, ce_message = ''internal error''\<rparr>)
    \<and> (ce_code (to_connect_error d) = CodeInternal \<longleftrightarrow> (\<exists>i. d = Internal i))"
proof (intro conjI)
  note defs = of_auth_def of_vpn_def from_auth_error_def from_core_auth_error_def from_vpn_error_def
    auth_api_def vpn_api_def to_connect_error_def classify_api_cases
  show "of_auth disp e = of_vpn disp e"
    by (simp add: defs)
  show "ce_code (of_auth disp e) = CodeUnauthenticated \<longleftrightarrow> upstream_auth_failure e"
    by (auto simp: defs fault_code_def upstream_transport_failure_def upstream_auth_failure_def)
  show "ce_code (of_auth disp e) = CodeUnavailable \<longleftrightarrow> upstream_transport_failure e"
    by (simp add: defs fault_code_def)
  show "ce_code (of_auth disp e) = CodeInternal \<longleftrightarrow> of_auth disp e = \<lparr>ce_code = CodeInternal, ce_message = ''internal error''\<rparr>"
    by (simp add: defs fault_code_def)
  show "ce_code (to_connect_error d) = CodeInternal \<longleftrightarrow> (\<exists>i. d = Internal i)"
    by (cases d) (simp_all add: to_connect_error_def fault_code_not_internal)
qed

end
