(* ===== verification/Machines.thy ===== *)
theory Machines
  imports DaemonError
begin

text \<open>
  The daemon's coordinators (\<open>src/crates/daemon/src/state.rs\<close>): the auth machine with its
  operations, snapshots and session projection, and the VPN machine with its tunnel projection.

  The cookie jar is shared with every client, so it is part of \<^typ>\<open>'w net\<close>; an operation of the
  auth machine takes the machine and the network and leaves both behind, also when it fails.
  What an operation needs from outside is gathered in \<open>daemon_env\<close>.  The wire types of the RPC
  interface are the datatypes and records with the prefix \<open>pb\<close>.
\<close>

section \<open>Wire types\<close>

datatype pb_vpn_mode = PbModeUnspecified | PbFull | PbSplit
datatype pb_protocol_mode = PbProtocolUnspecified | PbUdp | PbTcp
datatype login_code_type = CodeTypeUnspecified | CodeTypeMobile | CodeTypeEmail

definition login_code_type_wire :: "login_code_type \<Rightarrow> string" where
  "login_code_type_wire t = (case t of CodeTypeEmail \<Rightarrow> ''email'' | _ \<Rightarrow> ''mobile'')"

definition login_code_type_from :: "string \<Rightarrow> login_code_type" where
  "login_code_type_from v = (if v = ''email'' then CodeTypeEmail else CodeTypeMobile)"

lemma login_code_type_round_trip:
  "t \<noteq> CodeTypeUnspecified \<Longrightarrow> login_code_type_from (login_code_type_wire t) = t"
  by (cases t) (simp_all add: login_code_type_from_def login_code_type_wire_def)

datatype pb_session_state =
    SsUnspecified | SsUnconfigured | SsConfigured | SsAwaitingOtp | SsAwaitingMfa | SsAwaitingOauth
  | SsAwaitingDeviceLogin | SsAuthenticated

record otp_challenge =
  och_masked_target :: string
  och_login_type :: login_code_type

record mfa_challenge =
  mch_mfa_type :: string
  mch_auth_list :: "string list"
  mch_can_skip :: bool
  mch_masked_mobile :: string
  mch_masked_email :: string

record oauth_challenge =
  ach_alias_key :: string
  ach_state :: string
  ach_poll_token :: string

record device_login_challenge =
  dch_login_url :: string
  dch_alias_key :: string
  dch_poll_token :: string

record pb_session =
  ps_state :: pb_session_state
  ps_tenant_name :: string
  ps_base_url :: string
  ps_otp_challenge :: "otp_challenge option"
  ps_mfa_challenge :: "mfa_challenge option"
  ps_oauth_challenge :: "oauth_challenge option"
  ps_device_login_challenge :: "device_login_challenge option"

datatype pb_tunnel_state =
    TsUnspecified | TsDisconnected | TsConnecting | TsConfiguring | TsConnected | TsReconnecting
  | TsDisconnecting | TsFailed

record pb_tunnel =
  pt_state :: pb_tunnel_state
  pt_mode :: pb_vpn_mode
  pt_protocol_mode :: pb_protocol_mode
  pt_dot_id :: int
  pt_dot_name :: string
  pt_endpoint :: string
  pt_assigned_ip :: string
  pt_reconnect_attempts :: u32
  pt_error :: string

definition pb_tunnel_default :: pb_tunnel where
  "pb_tunnel_default = \<lparr>pt_state = TsUnspecified, pt_mode = PbModeUnspecified,
     pt_protocol_mode = PbProtocolUnspecified, pt_dot_id = 0, pt_dot_name = [], pt_endpoint = [],
     pt_assigned_ip = [], pt_reconnect_attempts = 0, pt_error = []\<rparr>"

section \<open>The environment\<close>

text \<open>\<open>dn_disp\<close> is \<open>Display\<close> of an API error, \<open>dn_b64url\<close> the URL-safe base64 encoder,
  \<open>dn_random\<close> the random bytes of a PKCE verifier, \<open>dn_timestamp\<close> the printed current time, \<open>dn_totp\<close> the TOTP
  crate, \<open>dn_match_default\<close> the parsed literal \<open>DEFAULT_MATCH_BASE_URL\<close>.\<close>

record 'w daemon_env =
  dn_http :: "'w http_env"
  dn_dec :: decoders
  dn_disp :: "api_error \<Rightarrow> string"
  dn_b64url :: "bytes \<Rightarrow> string"
  dn_random :: "'w \<Rightarrow> bytes"
  dn_timestamp :: "'w \<Rightarrow> string"
  dn_totp :: "string \<Rightarrow> u64 \<Rightarrow> string option"
  dn_match_default :: url

section \<open>The auth machine\<close>

record auth_machine =
  am_state :: auth_state
  am_http_pool :: http_client
  am_identity :: client_identity
  am_tenant :: "tenant_cfg option"
  am_signing :: "persisted_signing_config option"
  am_knock_token :: "string option"
  am_totp :: "totp_config option"
  am_login_api_version :: login_api_version
  am_oauth_pending :: "oauth_pending option"
  am_device_login_pending :: "device_login_pending option"

type_synonym ('w, 'a) am_io = "(auth_machine \<times> 'w net, daemon_error, 'a) io"

definition for_endpoint :: "url \<Rightarrow> http_client \<Rightarrow> api_hooks \<Rightarrow> api_client" where
  "for_endpoint base pool hooks = \<lparr>ac_base_url = base, ac_client = pool, ac_hooks = hooks\<rparr>"

definition build_hooks :: "auth_machine \<Rightarrow> api_hooks" where
  "build_hooks m = \<lparr>hk_identity = am_identity m, hk_knock_token = am_knock_token m,
     hk_signer = (case am_signing m of
        None \<Rightarrow> signing_config_default
      | Some s \<Rightarrow> signing_config_default\<lparr>sg_enabled := psc_enabled s,
          sg_activation_code := Some (psc_activation_code s), sg_device_id := Some (psc_device_id s)\<rparr>)\<rparr>"

definition build_tenant_client :: "'w http_env \<Rightarrow> auth_machine \<Rightarrow> api_client option" where
  "build_tenant_client env m =
     Option.bind (am_tenant m) (\<lambda>tenant.
     map_option (\<lambda>u. for_endpoint u (am_http_pool m) (build_hooks m))
       (res_ok (parse_base_url env (tn_base_url tenant))))"

definition build_match_client :: "'w daemon_env \<Rightarrow> auth_machine \<Rightarrow> string option \<Rightarrow> api_client" where
  "build_match_client E m match_url =
     for_endpoint (case match_url of
         None \<Rightarrow> dn_match_default E
       | Some u \<Rightarrow> unwrap_or (res_ok (parse_base_url (dn_http E) u)) (dn_match_default E))
       (am_http_pool m) (build_hooks m)"

text \<open>\<open>tenant_client()?\<close> followed by a call of the core crate whose error is converted.\<close>

definition with_client ::
  "'w daemon_env \<Rightarrow> (auth_machine \<Rightarrow> api_client \<Rightarrow> ('w net, auth_error, 'a) io) \<Rightarrow> ('w, 'a) am_io" where
  "with_client E f = (\<lambda>(m, n). case build_tenant_client (dn_http E) m of
      None \<Rightarrow> (Inl (Fault NotConfigured), (m, n))
    | Some cl \<Rightarrow> (case f m cl n of (r, n') \<Rightarrow> (map_err (from_auth_error (dn_disp E)) r, (m, n'))))"

definition update_machine :: "(auth_machine \<Rightarrow> auth_machine) \<Rightarrow> ('w, unit) am_io" where
  "update_machine f = (\<lambda>(m, n). (Inr (), (f m, n)))"

definition set_auth_state :: "auth_state \<Rightarrow> ('w, unit) am_io" where
  "set_auth_state s = update_machine (\<lambda>m. m\<lparr>am_state := s\<rparr>)"

definition am_activate ::
  "'w daemon_env \<Rightarrow> string \<Rightarrow> string option \<Rightarrow> string option \<Rightarrow> string option \<Rightarrow> ('w, unit) am_io" where
  "am_activate E activation base_url backup_url match_base_url = (\<lambda>(m, n).
     case send (dn_http E) (dec_activate (dn_dec E)) (build_match_client E m match_base_url)
            (ActivateRequest activation) n of
       (Inl e, n') \<Rightarrow> (Inl (from_core_auth_error (dn_disp E) (AuthApi e)), (m, n'))
     | (Inr response, n') \<Rightarrow>
         (let m1 = (case br_data response of
              None \<Rightarrow> m
            | Some data \<Rightarrow> (let update = extract_activation_update data in
                m\<lparr>am_tenant := Some \<lparr>
                    tn_base_url = unwrap_or (or_else (atu_base_url update) base_url) [],
                    tn_backup_url = or_else (atu_backup_url update) backup_url,
                    tn_use_backup = unwrap_or (atu_use_backup update) False,
                    tn_name = unwrap_or (atu_name update) []\<rparr>,
                  am_signing := Some \<lparr>psc_enabled = False, psc_activation_code = activation,
                    psc_device_id = id_device_id (am_identity m)\<rparr>\<rparr>))
          in (Inr (), (m1\<lparr>am_state := Configured\<rparr>, n'))))"

definition refresh_login_api_version :: "'w daemon_env \<Rightarrow> ('w, unit) am_io" where
  "refresh_login_api_version E = (\<lambda>(m, n). case build_tenant_client (dn_http E) m of
      None \<Rightarrow> (Inr (), (m, n))
    | Some cl \<Rightarrow> (case send (dn_http E) (dec_login_setting (dn_dec E)) cl GetLoginSettingRequest n of
        (Inl _, n') \<Rightarrow> (Inr (), (m, n'))
      | (Inr setting, n') \<Rightarrow> (case br_data setting of
          None \<Rightarrow> (Inr (), (m, n'))
        | Some data \<Rightarrow> (Inr (), (if is_v1 data then m\<lparr>am_login_api_version := V1\<rparr> else m, n')))))"

definition am_login :: "'w daemon_env \<Rightarrow> string \<Rightarrow> string \<Rightarrow> string \<Rightarrow> string \<Rightarrow> ('w, unit) am_io" where
  "am_login E account password login_scene account_type =
     io_bind (with_client E (\<lambda>m cl. login (dn_http E) (dn_dec E) cl (am_login_api_version m)
       login_scene account_type account password)) set_auth_state"

definition am_send_login_code :: "'w daemon_env \<Rightarrow> string \<Rightarrow> string \<Rightarrow> string \<Rightarrow> string \<Rightarrow> ('w, unit) am_io" where
  "am_send_login_code E account login_type login_scene account_type =
     with_client E (\<lambda>m cl. send_login_code (dn_http E) (dn_dec E) cl (am_login_api_version m)
       login_scene account_type login_type account)"

definition am_verify_login_code ::
  "'w daemon_env \<Rightarrow> string \<Rightarrow> string \<Rightarrow> string \<Rightarrow> string \<Rightarrow> string \<Rightarrow> ('w, unit) am_io" where
  "am_verify_login_code E account otp_code login_type login_scene account_type =
     io_bind (with_client E (\<lambda>m cl. verify_login_code (dn_http E) (dn_dec E) cl (am_login_api_version m)
       login_scene account_type login_type account otp_code)) set_auth_state"

definition am_send_mfa_code :: "'w daemon_env \<Rightarrow> string \<Rightarrow> string \<Rightarrow> string \<Rightarrow> ('w, unit) am_io" where
  "am_send_mfa_code E mfa_type account login_scene =
     with_client E (\<lambda>m cl. send_mfa_code (dn_http E) (dn_dec E) cl (am_login_api_version m)
       login_scene mfa_type account)"

definition am_verify_mfa ::
  "'w daemon_env \<Rightarrow> string \<Rightarrow> string \<Rightarrow> string option \<Rightarrow> string option \<Rightarrow> string \<Rightarrow> ('w, unit) am_io" where
  "am_verify_mfa E mfa_type account mfa_code password login_scene =
     io_bind (with_client E (\<lambda>m cl. verify_mfa (dn_http E) (dn_dec E) cl (am_login_api_version m)
       login_scene mfa_type account mfa_code password)) set_auth_state"

definition am_skip_challenge :: "'w daemon_env \<Rightarrow> string \<Rightarrow> ('w, unit) am_io" where
  "am_skip_challenge E login_scene =
     io_bind (with_client E (\<lambda>m cl. skip_challenge (dn_http E) (dn_dec E) cl login_scene)) set_auth_state"

definition am_start_oauth :: "'w daemon_env \<Rightarrow> string \<Rightarrow> ('w, unit) am_io" where
  "am_start_oauth E alias_key =
     io_bind (with_client E (\<lambda>m cl n. start_oauth (dn_http E) (dn_dec E) (dn_b64url E)
         (dn_random E (net_world n)) cl alias_key n)) (\<lambda>pending.
     update_machine (\<lambda>m. m\<lparr>am_oauth_pending := Some pending, am_state := AwaitingOauth\<rparr>))"

text \<open>\<open>complete_oauth\<close>: the pending flow is taken before anything that can fail.\<close>

definition take_oauth_pending :: "('w, oauth_pending) am_io" where
  "take_oauth_pending = (\<lambda>(m, n). (ok_or (Fault (InvalidArgument ''no pending OAuth flow'')) (am_oauth_pending m),
     (m\<lparr>am_oauth_pending := None\<rparr>, n)))"

definition am_complete_oauth :: "'w daemon_env \<Rightarrow> string \<Rightarrow> string \<Rightarrow> ('w, unit) am_io" where
  "am_complete_oauth E auth_code st =
     io_bind take_oauth_pending (\<lambda>pending.
     io_bind (with_client E (\<lambda>m cl. complete_oauth (dn_http E) (dn_dec E) cl pending auth_code st)) (\<lambda>_.
     set_auth_state Authenticated))"

definition am_start_device_login :: "'w daemon_env \<Rightarrow> string \<Rightarrow> ('w, unit) am_io" where
  "am_start_device_login E alias_key =
     io_bind (with_client E (\<lambda>m cl. start_device_login (dn_http E) (dn_dec E) cl alias_key)) (\<lambda>pending.
     update_machine (\<lambda>m. m\<lparr>am_device_login_pending := Some pending, am_state := AwaitingDeviceLogin\<rparr>))"

definition complete_device_login :: "('w, unit) am_io" where
  "complete_device_login =
     update_machine (\<lambda>m. m\<lparr>am_device_login_pending := None, am_state := Authenticated\<rparr>)"

definition clear_session :: "auth_machine \<times> 'w net \<Rightarrow> auth_machine \<times> 'w net" where
  "clear_session = (\<lambda>(m, n). (m\<lparr>am_knock_token := None, am_totp := None\<rparr>, jar_clear n))"

definition am_logout :: "'w daemon_env \<Rightarrow> bool \<Rightarrow> ('w, unit) am_io" where
  "am_logout E logout_all = (\<lambda>(m, n).
     let n1 = (case build_tenant_client (dn_http E) m of
           None \<Rightarrow> n
         | Some cl \<Rightarrow> snd (send (dn_http E) (dec_value (dn_dec E)) cl (LogoutRequest logout_all) n));
         (m2, n2) = clear_session (m, n1)
     in (Inr (), (m2\<lparr>am_oauth_pending := None, am_device_login_pending := None, am_state := Configured\<rparr>, n2)))"

definition restore_session :: "('w, unit) am_io" where
  "restore_session = (\<lambda>(m, n).
     if am_tenant m = None then (Inr (), (m, n))
     else (Inr (), (m\<lparr>am_state := (if net_jar n = [] then Configured else Authenticated)\<rparr>, n)))"

definition set_totp :: "totp_config option \<Rightarrow> ('w, unit) am_io" where
  "set_totp config = update_machine (\<lambda>m. m\<lparr>am_totp := config\<rparr>)"

section \<open>Snapshots\<close>

definition to_credentials :: "'w daemon_env \<Rightarrow> auth_machine \<Rightarrow> 'w net \<Rightarrow> persisted_credentials option" where
  "to_credentials E m n =
     Option.bind (am_tenant m) (\<lambda>tenant.
     map_option (\<lambda>signing. \<lparr>pc_tenant = tenant, pc_signing = signing, pc_cookies = net_jar n,
       pc_knock_token = am_knock_token m, pc_totp = am_totp m,
       pc_login_api_version = am_login_api_version m, pc_last_vpn_request = None,
       pc_saved_at = dn_timestamp E (net_world n)\<rparr>) (am_signing m))"

definition to_credentials_with_vpn ::
  "'w daemon_env \<Rightarrow> auth_machine \<Rightarrow> 'w net \<Rightarrow> persisted_vpn_request option \<Rightarrow> persisted_credentials option" where
  "to_credentials_with_vpn E m n vpn_request =
     map_option (\<lambda>creds. creds\<lparr>pc_last_vpn_request := vpn_request\<rparr>) (to_credentials E m n)"

text \<open>\<open>restore_from_credentials\<close>; the jar of the network is seeded with the persisted cookies.\<close>

definition restore_from_credentials ::
  "persisted_credentials \<Rightarrow> http_client \<Rightarrow> client_identity \<Rightarrow> 'w net \<Rightarrow> auth_machine \<times> 'w net" where
  "restore_from_credentials creds pool identity n =
     (\<lparr>am_state = Unconfigured, am_http_pool = pool, am_identity = identity,
       am_tenant = Some (pc_tenant creds), am_signing = Some (pc_signing creds),
       am_knock_token = pc_knock_token creds, am_totp = pc_totp creds,
       am_login_api_version = pc_login_api_version creds, am_oauth_pending = None,
       am_device_login_pending = None\<rparr>, n\<lparr>net_jar := pc_cookies creds\<rparr>)"

definition session_status :: "auth_state \<Rightarrow> pb_session_state" where
  "session_status s = (case s of
      Unconfigured \<Rightarrow> SsUnconfigured | Configured \<Rightarrow> SsConfigured | AwaitingOtp _ _ \<Rightarrow> SsAwaitingOtp
    | AwaitingMfa _ _ _ _ _ \<Rightarrow> SsAwaitingMfa | AwaitingOauth \<Rightarrow> SsAwaitingOauth
    | AwaitingDeviceLogin \<Rightarrow> SsAwaitingDeviceLogin | Authenticated \<Rightarrow> SsAuthenticated)"

definition to_session_proto :: "auth_machine \<Rightarrow> pb_session" where
  "to_session_proto m =
     (let session = \<lparr>ps_state = session_status (am_state m),
        ps_tenant_name = (case am_tenant m of None \<Rightarrow> [] | Some t \<Rightarrow> tn_name t),
        ps_base_url = (case am_tenant m of None \<Rightarrow> [] | Some t \<Rightarrow> tn_base_url t),
        ps_otp_challenge = None, ps_mfa_challenge = None, ps_oauth_challenge = None,
        ps_device_login_challenge = None\<rparr>
      in case am_state m of
           AwaitingOtp masked_target login_type \<Rightarrow>
             session\<lparr>ps_otp_challenge := Some \<lparr>och_masked_target = masked_target,
               och_login_type = login_code_type_from login_type\<rparr>\<rparr>
         | AwaitingMfa mfa_type auth_list can_skip masked_mobile masked_email \<Rightarrow>
             session\<lparr>ps_mfa_challenge := Some \<lparr>mch_mfa_type = mfa_type, mch_auth_list = auth_list,
               mch_can_skip = can_skip, mch_masked_mobile = masked_mobile,
               mch_masked_email = masked_email\<rparr>\<rparr>
         | AwaitingOauth \<Rightarrow> (case am_oauth_pending m of
               None \<Rightarrow> session
             | Some p \<Rightarrow> session\<lparr>ps_oauth_challenge := Some \<lparr>ach_alias_key = oap_alias_key p,
                 ach_state = oap_oauth_state p, ach_poll_token = oap_poll_token p\<rparr>\<rparr>)
         | AwaitingDeviceLogin \<Rightarrow> (case am_device_login_pending m of
               None \<Rightarrow> session
             | Some p \<Rightarrow> session\<lparr>ps_device_login_challenge := Some \<lparr>dch_login_url = dlp_login_url p,
                 dch_alias_key = dlp_alias_key p, dch_poll_token = dlp_poll_token p\<rparr>\<rparr>)
         | _ \<Rightarrow> session)"

section \<open>The VPN machine\<close>

text \<open>A cancellation token is a number; cancelled tokens are kept by the daemon.  The field
  \<open>tunnel_session\<close> of the source is never set, only its presence is modelled.\<close>

record vpn_machine =
  vm_state :: vpn_state
  vm_api_client :: api_client
  vm_tunnel_session :: "unit option"
  vm_cancel_token :: nat

definition vpn_machine_new :: "nat \<Rightarrow> api_client \<Rightarrow> vpn_machine" where
  "vpn_machine_new token cl = \<lparr>vm_state = Disconnected, vm_api_client = cl, vm_tunnel_session = None,
     vm_cancel_token = token\<rparr>"

definition current_persisted_request :: "vpn_machine \<Rightarrow> persisted_vpn_request option" where
  "current_persisted_request vm = map_option (\<lambda>r. \<lparr>pvr_mode = android_name (vr_mode r),
     pvr_location_id = vr_location_id r, pvr_protocol_mode = vr_protocol_mode r,
     pvr_reconnect = vr_reconnect r\<rparr>) (current_request (vm_state vm))"

definition set_connecting :: "nat \<Rightarrow> vpn_request \<Rightarrow> vpn_machine \<Rightarrow> vpn_machine" where
  "set_connecting token request vm = vm\<lparr>vm_cancel_token := token, vm_state := into_connecting request\<rparr>"

definition vm_transition :: "(vpn_state \<Rightarrow> vpn_state) \<Rightarrow> vpn_machine \<Rightarrow> vpn_machine" where
  "vm_transition f vm = vm\<lparr>vm_state := f (vm_state vm)\<rparr>"

definition set_configuring :: "vpn_machine \<Rightarrow> vpn_machine" where
  "set_configuring = vm_transition into_configuring"

definition set_connected :: "active_tunnel \<Rightarrow> vpn_machine \<Rightarrow> vpn_machine" where
  "set_connected tunnel_info = vm_transition (\<lambda>s. into_connected s tunnel_info)"

definition set_reconnecting :: "vpn_machine \<Rightarrow> vpn_machine" where
  "set_reconnecting = vm_transition into_reconnecting"

definition set_failed :: "string \<Rightarrow> vpn_machine \<Rightarrow> vpn_machine" where
  "set_failed error = vm_transition (\<lambda>s. into_failed s error)"

definition set_disconnecting :: "vpn_machine \<Rightarrow> vpn_machine" where
  "set_disconnecting = vm_transition into_disconnecting"

definition set_disconnected :: "vpn_machine \<Rightarrow> vpn_machine" where
  "set_disconnected vm = vm\<lparr>vm_tunnel_session := None, vm_state := Disconnected\<rparr>"

lemmas vm_defs = set_connecting_def vm_transition_def set_configuring_def set_connected_def
  set_reconnecting_def set_failed_def set_disconnecting_def set_disconnected_def

definition vpn_mode_to_proto :: "vpn_connect_mode \<Rightarrow> pb_vpn_mode" where
  "vpn_mode_to_proto mode = (case mode of Full \<Rightarrow> PbFull | Split \<Rightarrow> PbSplit)"

definition protocol_mode_to_proto :: "protocol_mode \<Rightarrow> pb_protocol_mode" where
  "protocol_mode_to_proto mode = (case mode of Udp \<Rightarrow> PbUdp | FeilianTcp \<Rightarrow> PbTcp)"

definition protocol_mode_to_api :: "pb_protocol_mode option \<Rightarrow> protocol_mode" where
  "protocol_mode_to_api mode = (case mode of Some PbTcp \<Rightarrow> FeilianTcp | _ \<Rightarrow> Udp)"

definition tunnel_of_request :: "pb_tunnel_state \<Rightarrow> vpn_request \<Rightarrow> pb_tunnel" where
  "tunnel_of_request st request = pb_tunnel_default\<lparr>pt_state := st,
     pt_mode := vpn_mode_to_proto (vr_mode request),
     pt_protocol_mode := protocol_mode_to_proto (vr_protocol_mode request)\<rparr>"

definition to_tunnel_proto :: "vpn_machine \<Rightarrow> pb_tunnel" where
  "to_tunnel_proto vm = (case vm_state vm of
      Disconnected \<Rightarrow> pb_tunnel_default\<lparr>pt_state := TsDisconnected\<rparr>
    | Connecting request \<Rightarrow> tunnel_of_request TsConnecting request
    | Configuring request \<Rightarrow> tunnel_of_request TsConfiguring request
    | Connected request t \<Rightarrow> pb_tunnel_default\<lparr>pt_state := TsConnected,
        pt_mode := vpn_mode_to_proto (vr_mode request),
        pt_protocol_mode := protocol_mode_to_proto (at_protocol_mode t), pt_dot_id := at_dot_id t,
        pt_dot_name := at_dot_name t, pt_endpoint := at_endpoint t, pt_assigned_ip := at_assigned_ip t\<rparr>
    | Reconnecting request count \<Rightarrow>
        (tunnel_of_request TsReconnecting request)\<lparr>pt_reconnect_attempts := count\<rparr>
    | Failed request error count \<Rightarrow>
        (tunnel_of_request TsFailed request)\<lparr>pt_error := error, pt_reconnect_attempts := count\<rparr>
    | Disconnecting request \<Rightarrow> tunnel_of_request TsDisconnecting request)"

definition vpn_request_from_proto ::
  "pb_vpn_mode option \<Rightarrow> pb_protocol_mode option \<Rightarrow> int option \<Rightarrow> string option \<Rightarrow> bool \<Rightarrow> vpn_request" where
  "vpn_request_from_proto mode protocol_mode location_id otp reconnect =
     \<lparr>vr_mode = (case mode of Some PbSplit \<Rightarrow> Split | _ \<Rightarrow> Full),
      vr_location_id = opt_filter (\<lambda>i. i > 0) location_id,
      vr_otp = opt_filter (\<lambda>s. s \<noteq> []) otp,
      vr_reconnect = reconnect,
      vr_protocol_mode = protocol_mode_to_api protocol_mode\<rparr>"

lemma protocol_mode_round_trip: "protocol_mode_to_api (Some (protocol_mode_to_proto m)) = m"
  by (cases m) (simp_all add: protocol_mode_to_api_def protocol_mode_to_proto_def)

lemma vpn_mode_round_trip:
  "vr_mode (vpn_request_from_proto (Some (vpn_mode_to_proto m)) pm loc otp rc) = m"
  by (cases m) (simp_all add: vpn_request_from_proto_def vpn_mode_to_proto_def)

section \<open>Operations as one transition function\<close>

datatype auth_op =
    OpActivate string "string option" "string option" "string option"
  | OpRefreshVersion
  | OpLogin string string string string
  | OpSendLoginCode string string string string
  | OpVerifyLoginCode string string string string string
  | OpSendMfaCode string string string
  | OpVerifyMfa string string "string option" "string option" string
  | OpSkip string
  | OpStartOauth string
  | OpCompleteOauth string string
  | OpStartDeviceLogin string
  | OpCompleteDeviceLogin
  | OpLogout bool
  | OpRestore
  | OpSetTotp "totp_config option"

fun run_auth_op :: "'w daemon_env \<Rightarrow> auth_op \<Rightarrow> ('w, unit) am_io" where
  "run_auth_op E (OpActivate c b k m) = am_activate E c b k m"
| "run_auth_op E OpRefreshVersion = refresh_login_api_version E"
| "run_auth_op E (OpLogin a p s t) = am_login E a p s t"
| "run_auth_op E (OpSendLoginCode a l s t) = am_send_login_code E a l s t"
| "run_auth_op E (OpVerifyLoginCode a c l s t) = am_verify_login_code E a c l s t"
| "run_auth_op E (OpSendMfaCode m a s) = am_send_mfa_code E m a s"
| "run_auth_op E (OpVerifyMfa m a c p s) = am_verify_mfa E m a c p s"
| "run_auth_op E (OpSkip s) = am_skip_challenge E s"
| "run_auth_op E (OpStartOauth a) = am_start_oauth E a"
| "run_auth_op E (OpCompleteOauth c s) = am_complete_oauth E c s"
| "run_auth_op E (OpStartDeviceLogin a) = am_start_device_login E a"
| "run_auth_op E OpCompleteDeviceLogin = complete_device_login"
| "run_auth_op E (OpLogout a) = am_logout E a"
| "run_auth_op E OpRestore = restore_session"
| "run_auth_op E (OpSetTotp c) = set_totp c"

section \<open>Who may become authenticated\<close>

text \<open>A login answer the server gave through the machine's own tenant client, and what it says.\<close>

definition login_answered :: "'w daemon_env \<Rightarrow> auth_machine \<Rightarrow> bool" where
  "login_answered E m \<longleftrightarrow> (\<exists>cl req n1 n2 resp. build_tenant_client (dn_http E) m = Some cl \<and>
     send (dn_http E) (dec_login_v2 (dn_dec E)) cl req n1 = (Inr resp, n2) \<and>
     next_auth_state (br_data resp) = Authenticated)"

definition oauth_answered :: "'w daemon_env \<Rightarrow> auth_machine \<Rightarrow> string \<Rightarrow> string \<Rightarrow> bool" where
  "oauth_answered E m auth_code st \<longleftrightarrow> (\<exists>cl p n1 n2 resp. build_tenant_client (dn_http E) m = Some cl \<and>
     am_oauth_pending m = Some p \<and>
     send (dn_http E) (dec_login_result (dn_dec E)) cl (OAuthCallbackRequest \<lparr>oc_alias_key = oap_alias_key p,
       oc_code = auth_code, oc_state = st, oc_code_verifier = oap_pkce_verifier p\<rparr>) n1 = (Inr resp, n2))"

lemma with_client_Inr:
  "with_client E f (m, n) = (Inr x, w') \<longleftrightarrow>
     (\<exists>cl n'. build_tenant_client (dn_http E) m = Some cl \<and> f m cl n = (Inr x, n') \<and> w' = (m, n'))"
  by (auto simp: with_client_def map_err_def split: option.splits prod.splits sum.splits)

lemma with_client_machine: "with_client E f (m, n) = (r, (m', n')) \<Longrightarrow> m' = m"
  by (auto simp: with_client_def split: option.splits prod.splits)

lemma auth_send_Inr:
  "auth_send env dec cl req n = (Inr x, n') \<longleftrightarrow> send env dec cl req n = (Inr x, n')"
  by (simp add: auth_send_def io_map_err_Inr)

text \<open>The shape shared by the operations that finish with the state the core crate returns.\<close>

lemma then_set_state:
  assumes "io_bind (with_client E f) set_auth_state (m, n) = (r, (m', n'))"
  obtains "m' = m"
  | cl st where "r = Inr ()" "build_tenant_client (dn_http E) m = Some cl" "f m cl n = (Inr st, n')"
      "m' = m\<lparr>am_state := st\<rparr>"
  using assms
proof (elim io_bind_cases)
  fix e assume "with_client E f (m, n) = (Inl e, (m', n'))"
  then show thesis using with_client_machine that(1) by metis
next
  fix st w' assume a: "with_client E f (m, n) = (Inr st, w')"
    and b: "set_auth_state st w' = (r, (m', n'))"
  obtain cl n1 where "build_tenant_client (dn_http E) m = Some cl" "f m cl n = (Inr st, n1)" "w' = (m, n1)"
    using a by (auto simp: with_client_Inr)
  then show thesis using b that(2) by (auto simp: set_auth_state_def update_machine_def)
qed

lemma login_flow_answered:
  assumes "build_tenant_client (dn_http E) m = Some cl"
  shows "login (dn_http E) (dn_dec E) cl v sc t a p n = (Inr Authenticated, n') \<Longrightarrow> login_answered E m"
    and "verify_login_code (dn_http E) (dn_dec E) cl v sc t lt a c n = (Inr Authenticated, n') \<Longrightarrow> login_answered E m"
    and "verify_mfa (dn_http E) (dn_dec E) cl v sc mt a mc mp n = (Inr Authenticated, n') \<Longrightarrow> login_answered E m"
    and "skip_challenge (dn_http E) (dn_dec E) cl sc n = (Inr Authenticated, n') \<Longrightarrow> login_answered E m"
  using assms unfolding login_def verify_login_code_def verify_mfa_def skip_challenge_def login_answered_def
  by (auto simp: auth_calls io_bind_Inr io_map_err_Inr auth_send_Inr Let_def split: if_splits)

lemma tenant_client_pending [simp]:
  "build_tenant_client env (m\<lparr>am_oauth_pending := x\<rparr>) = build_tenant_client env m"
  by (simp add: build_tenant_client_def build_hooks_def)

lemma complete_oauth_cases:
  assumes "am_complete_oauth E auth_code st (m, n) = (r, (m', n'))"
  shows "(r = Inr () \<and> oauth_answered E m auth_code st \<and> m' = m\<lparr>am_oauth_pending := None, am_state := Authenticated\<rparr>)
    \<or> ((\<exists>e. r = Inl e) \<and> m' = m\<lparr>am_oauth_pending := None\<rparr>)"
proof (cases "am_oauth_pending m")
  case None
  then show ?thesis using assms by (auto simp: am_complete_oauth_def take_oauth_pending_def io_bind_def)
next
  case (Some p)
  let ?m = "m\<lparr>am_oauth_pending := None\<rparr>"
  let ?f = "\<lambda>m cl. complete_oauth (dn_http E) (dn_dec E) cl p auth_code st"
  have bind: "io_bind (with_client E ?f) (\<lambda>_. set_auth_state Authenticated) (?m, n) = (r, (m', n'))"
    using assms Some by (simp add: am_complete_oauth_def take_oauth_pending_def io_bind_def)
  from bind show ?thesis
  proof (elim io_bind_cases)
    fix e assume "with_client E ?f (?m, n) = (Inl e, (m', n'))" "r = Inl e"
    then show ?thesis using with_client_machine by blast
  next
    fix x w1 assume a: "with_client E ?f (?m, n) = (Inr x, w1)"
      and b: "set_auth_state Authenticated w1 = (r, (m', n'))"
    obtain cl n1 where cl: "build_tenant_client (dn_http E) m = Some cl"
      and f: "complete_oauth (dn_http E) (dn_dec E) cl p auth_code st n = (Inr x, n1)" and w1: "w1 = (?m, n1)"
      using a by (auto simp: with_client_Inr)
    have "oauth_answered E m auth_code st"
      using cl f Some by (auto simp: oauth_answered_def complete_oauth_def io_bind_Inr auth_send_Inr)
    then show ?thesis using b w1 by (simp add: set_auth_state_def update_machine_def)
  qed
qed


definition sample_machine :: auth_machine where
  "sample_machine = \<lparr>am_state = Unconfigured, am_http_pool = ac_client (sample_client signing_config_default),
     am_identity = sample_identity,
     am_tenant = Some \<lparr>tn_base_url = ''https://t'', tn_backup_url = None, tn_use_backup = False, tn_name = ''T''\<rparr>,
     am_signing = Some \<lparr>psc_enabled = False, psc_activation_code = ''c'', psc_device_id = ''d''\<rparr>,
     am_knock_token = Some ''k'', am_totp = None, am_login_api_version = V1,
     am_oauth_pending = None, am_device_login_pending = None\<rparr>"


text \<open>Logging out always clears the local session.  Whatever the server answers, or when it
  cannot be reached, the machine ends configured with no cookies, knock token, one-time-password
  provisioning or pending flow, keeps its tenant and signing configuration, and a snapshot of it holds
  no session data; restoring what is left gives no authenticated session.\<close>

theorem logout_clears_session:
  "case am_logout E logout_all (m, n) of (r, (m', n')) \<Rightarrow>
     r = Inr () \<and> net_jar n' = []
     \<and> m' = m\<lparr>am_state := Configured, am_knock_token := None, am_totp := None,
              am_oauth_pending := None, am_device_login_pending := None\<rparr>
     \<and> map_option (\<lambda>c. (pc_cookies c, pc_knock_token c, pc_totp c)) (to_credentials E m' n')
         \<in> {None, Some ([], None, None)}
     \<and> am_state (fst (snd (restore_session (m', n')))) = Configured"
  by (cases "am_tenant m"; cases "am_signing m")
    (simp_all add: am_logout_def clear_session_def jar_clear_def to_credentials_def
      restore_session_def Let_def)

text \<open>A restart restores the session.  Restoring the credentials a machine was saved with, under the
  same connection pool and identity, gives back the machine without its pending login flows, with the
  same cookies and the same tenant client; it is authenticated exactly when the saved jar was not empty.\<close>

theorem restore_round_trip:
  assumes "to_credentials_with_vpn E m n vpn = Some creds"
  shows "case restore_session (restore_from_credentials creds (am_http_pool m) (am_identity m) n0) of
      (r, (m', n')) \<Rightarrow> r = Inr ()
        \<and> m' = m\<lparr>am_state := (if net_jar n = [] then Configured else Authenticated),
                 am_oauth_pending := None, am_device_login_pending := None\<rparr>
        \<and> net_jar n' = net_jar n
        \<and> build_tenant_client env m' = build_tenant_client env m
        \<and> pc_last_vpn_request creds = vpn"
proof -
  obtain tenant signing where "am_tenant m = Some tenant" "am_signing m = Some signing"
    and c: "creds = \<lparr>pc_tenant = tenant, pc_signing = signing, pc_cookies = net_jar n,
       pc_knock_token = am_knock_token m, pc_totp = am_totp m,
       pc_login_api_version = am_login_api_version m, pc_last_vpn_request = vpn,
       pc_saved_at = dn_timestamp E (net_world n)\<rparr>"
    using assms by (auto simp: to_credentials_with_vpn_def to_credentials_def bind_eq_Some_conv)
  then show ?thesis
    by (simp add: restore_session_def restore_from_credentials_def build_tenant_client_def build_hooks_def)
qed

definition sample_daemon_env :: "(nat \<times> bytes) daemon_env" where
  "sample_daemon_env = \<lparr>dn_http = sample_env, dn_dec = sample_decoders, dn_disp = (\<lambda>_. []),
     dn_b64url = (\<lambda>_. []), dn_random = (\<lambda>_. []), dn_timestamp = (\<lambda>_. ''now''),
     dn_totp = (\<lambda>_ _. None), dn_match_default = plain_url DEFAULT_MATCH_BASE_URL\<rparr>"

definition jar_net :: "cookies \<Rightarrow> (nat \<times> bytes) net" where
  "jar_net jar = \<lparr>net_jar = jar, net_notified = 0, net_world = (200, [])\<rparr>"

theorem restore_round_trip_witness:
  "\<exists>creds. to_credentials_with_vpn sample_daemon_env sample_machine (jar_net [(''csrf-token'', ''x'')]) None
       = Some creds
     \<and> am_state (fst (snd (restore_session (restore_from_credentials creds (am_http_pool sample_machine)
         (am_identity sample_machine) (jar_net []))))) = Authenticated"
proof -
  obtain creds where c: "to_credentials_with_vpn sample_daemon_env sample_machine
      (jar_net [(''csrf-token'', ''x'')]) None = Some creds"
    by (simp add: to_credentials_with_vpn_def to_credentials_def sample_machine_def)
  from restore_round_trip [OF c, where env = sample_env and ?n0.0 = "jar_net []"]
  have "am_state (fst (snd (restore_session (restore_from_credentials creds (am_http_pool sample_machine)
         (am_identity sample_machine) (jar_net []))))) = Authenticated"
    by (auto simp: jar_net_def split: prod.splits)
  with c show ?thesis by blast
qed

text \<open>An OAuth flow is used at most once.  Completing a flow consumes it whatever the outcome: it
  either authenticates, or fails and leaves the state as it was; and any further completion is refused
  without contacting the server.\<close>

theorem oauth_flow_single_use:
  "case am_complete_oauth E c1 s1 (m, n) of (r, (m1, n1)) \<Rightarrow>
     ((r = Inr () \<and> am_state m1 = Authenticated) \<or> (\<not> is_ok r \<and> am_state m1 = am_state m))
     \<and> am_oauth_pending m1 = None
     \<and> am_complete_oauth E c2 s2 (m1, n1) = (Inl (Fault (InvalidArgument ''no pending OAuth flow'')), (m1, n1))"
proof -
  obtain r m1 n1 where run: "am_complete_oauth E c1 s1 (m, n) = (r, (m1, n1))"
    by (metis prod.exhaust)
  have "((r = Inr () \<and> am_state m1 = Authenticated) \<or> (\<not> is_ok r \<and> am_state m1 = am_state m))
      \<and> am_oauth_pending m1 = None"
    using complete_oauth_cases [OF run] by auto
  moreover have "am_complete_oauth E c2 s2 (m1, n1) = (Inl (Fault (InvalidArgument ''no pending OAuth flow'')), (m1, n1))"
    if "am_oauth_pending m1 = None"
    using that by (simp add: am_complete_oauth_def take_oauth_pending_def io_bind_def)
  ultimately show ?thesis using run by auto
qed

end
