(* ===== verification/Daemon.thy ===== *)
theory Daemon
  imports Machines Session Supervisor Latency
begin

text \<open>
  The daemon core (\<open>src/crates/daemon/src/daemon.rs\<close>): its inner state, the guards of the RPC
  handlers, persistence of the session, connecting, supervising, reconnecting and disconnecting the
  tunnel, and the projections to the wire types.

  An operation takes the daemon (\<open>daemon\<close>: the state behind its mutex with the network, the files and
  the operating system it acts on) and returns it.  The values sent on the watch channel are kept,
  newest first.  What the connect task meets from outside while it runs (the random key, the order of
  the supervisor's events, a cancellation while it sleeps) is given per attempt by \<open>attempt_input\<close>.
\<close>

section \<open>State\<close>

record daemon_inner =
  di_auth :: auth_machine
  di_vpn :: "vpn_machine option"
  di_config :: daemon_config
  di_config_path :: path
  di_credential_path :: path
  di_tunnel_task :: "nat option"
  di_active_outbound :: "string option"

text \<open>\<open>da_next\<close> numbers tokens and tasks; \<open>da_cancelled\<close> are the cancelled tokens, \<open>da_spawned\<close> the connect
  tasks that were spawned, with their request and token.\<close>

record ('w, 'v, 'r) daemon =
  da_inner :: daemon_inner
  da_sent :: "pb_tunnel list"
  da_net :: "'w net"
  da_fs :: fs
  da_os :: "('v, 'r) session_os"
  da_next :: nat
  da_cancelled :: "nat list"
  da_spawned :: "(nat \<times> vpn_request \<times> nat) list"

text \<open>\<open>ne_display\<close> and \<open>ne_display_session\<close> are the derived \<open>Display\<close> of the errors, \<open>ne_now\<close> the clock in
  seconds, \<open>ne_probe\<close> the concurrent ping tasks with their results in the order they finish.\<close>

record ('w, 'v, 'r, 'e, 'h) node_env =
  ne_daemon :: "'w daemon_env"
  ne_session :: "('v, 'r, 'e, 'h) session_env"
  ne_creds :: "persisted_credentials json_codec"
  ne_config :: "daemon_config json_codec"
  ne_display :: "daemon_error \<Rightarrow> string"
  ne_display_session :: "session_error \<Rightarrow> string"
  ne_now :: "'w \<Rightarrow> int"
  ne_probe :: "(vpn_dot \<Rightarrow> api_client option) \<Rightarrow> vpn_dot list \<Rightarrow> 'w net
     \<Rightarrow> (unit + nat \<times> duration option) list \<times> 'w net"

record report_params =
  rpp_assigned_ip :: string
  rpp_pub_key :: string
  rpp_mode :: vpn_connect_mode

record attempt_input =
  ai_secret :: bytes
  ai_free_port :: "u16 \<Rightarrow> bool"
  ai_snapshot :: "network_snapshot option"
  ai_events :: "supervisor_event list"
  ai_cancelled_on_error :: bool
  ai_cancelled_in_sleep :: bool

section \<open>Projections\<close>

definition DOT_PROTOCOL_UDP :: int where "DOT_PROTOCOL_UDP = protocol_mode_repr Udp"
definition DOT_PROTOCOL_TCP :: int where "DOT_PROTOCOL_TCP = protocol_mode_repr FeilianTcp"
definition DOT_PROTOCOL_DUAL :: int where "DOT_PROTOCOL_DUAL = 2"

definition protocol_modes_from_dot :: "int option \<Rightarrow> pb_protocol_mode \<times> pb_protocol_mode list" where
  "protocol_modes_from_dot mode =
     (if mode = Some DOT_PROTOCOL_TCP then (PbTcp, [PbTcp])
      else if mode = Some DOT_PROTOCOL_DUAL then (PbUdp, [PbUdp, PbTcp])
      else (PbUdp, [PbUdp]))"

definition effective_transport :: "int option \<Rightarrow> protocol_mode \<Rightarrow> protocol_mode" where
  "effective_transport advertised requested =
     (if advertised = Some DOT_PROTOCOL_UDP then Udp
      else if advertised = Some DOT_PROTOCOL_TCP then FeilianTcp
      else requested)"

definition mode_from_dot :: "int option \<Rightarrow> pb_vpn_mode" where
  "mode_from_dot mode = (if mode = Some (android_id Full) then PbFull
     else if mode = Some (android_id Split) then PbSplit else PbModeUnspecified)"

definition vpn_route_mode_of :: "vpn_connect_mode \<Rightarrow> vpn_route_mode" where
  "vpn_route_mode_of mode = (case mode of Full \<Rightarrow> RouteFull | Split \<Rightarrow> RouteSplit)"

definition tls_host_for :: "string \<Rightarrow> string" where
  "tls_host_for vpn_domain = (case vpn_domain of
      a # b # rest \<Rightarrow> if a = CHR ''*'' \<and> b = CHR ''.'' then ''vpn.'' @ rest else vpn_domain
    | _ \<Rightarrow> vpn_domain)"

definition non_default_or :: "'a \<Rightarrow> 'a \<Rightarrow> 'a \<Rightarrow> 'a" where
  "non_default_or dflt v fallback = (if v = dflt then fallback else v)"

record pb_user_info =
  pu_uid :: string
  pu_name :: string
  pu_email :: string
  pu_mobile :: string

definition project_user_info :: "user_info option \<Rightarrow> pb_user_info" where
  "project_user_info user = (case user of
      None \<Rightarrow> \<lparr>pu_uid = [], pu_name = [], pu_email = [], pu_mobile = []\<rparr>
    | Some u \<Rightarrow> \<lparr>pu_uid = unwrap_or (ui_uid u) [], pu_name = unwrap_or (ui_name u) [],
        pu_email = unwrap_or (ui_email u) [], pu_mobile = unwrap_or (ui_mobile u) []\<rparr>)"

record pb_vpn_location =
  pl_id :: int
  pl_name :: string
  pl_display_name :: string
  pl_mode :: pb_vpn_mode
  pl_protocol_mode :: pb_protocol_mode
  pl_supported_protocols :: "pb_protocol_mode list"
  pl_delay_ms :: int

definition project_vpn_location :: "vpn_dot \<Rightarrow> pb_vpn_location" where
  "project_vpn_location dot = (let (protocol_mode, supported_protocols) = protocol_modes_from_dot (dot_protocol_mode dot) in
     \<lparr>pl_id = unwrap_or (dot_id dot) 0, pl_name = unwrap_or (dot_name dot) [],
      pl_display_name = unwrap_or (dot_name dot) [], pl_mode = mode_from_dot (dot_mode dot),
      pl_protocol_mode = protocol_mode, pl_supported_protocols = supported_protocols, pl_delay_ms = 0\<rparr>)"

datatype pb_outbound_selector = SelAuto | SelName string

record pb_configuration =
  pcf_outbound_interface :: "pb_outbound_selector option"
  pcf_auto_reconnect_on_start :: "bool option"
  pcf_dns_listen_port :: "u32 option"
  pcf_tun_interface :: "string option"
  pcf_dns_listen_host :: "string option"
  pcf_route_system_dns :: "bool option"

definition to_configuration_proto :: "daemon_config \<Rightarrow> pb_configuration" where
  "to_configuration_proto c =
     \<lparr>pcf_outbound_interface = Some (case dc_outbound_interface c of None \<Rightarrow> SelAuto | Some name \<Rightarrow> SelName name),
      pcf_auto_reconnect_on_start = Some (dc_auto_reconnect c),
      pcf_dns_listen_port = dc_dns_listen_port c, pcf_tun_interface = dc_tun_interface c,
      pcf_dns_listen_host = dc_dns_listen_host c,
      pcf_route_system_dns = Some (unwrap_or (dc_route_system_dns c) True)\<rparr>"

section \<open>Clients of an access point\<close>

definition build_dot_api_client ::
  "('w, 'v, 'r, 'e, 'h) node_env \<Rightarrow> dot_endpoint \<Rightarrow> http_client \<Rightarrow> api_hooks \<Rightarrow> string option \<Rightarrow> string option \<Rightarrow> api_client" where
  "build_dot_api_client N endpoint pool hooks vpn_domain outbound_interface =
     (let S = ne_session N; plain = for_endpoint (de_api_base_url endpoint) pool hooks in
      case vpn_domain of None \<Rightarrow> plain
      | Some domain \<Rightarrow> (case Option.bind (u_host (de_api_base_url endpoint)) parse_ip of None \<Rightarrow> plain
      | Some ip \<Rightarrow> (case se_url_port S (de_api_base_url endpoint) of None \<Rightarrow> plain
      | Some port \<Rightarrow>
          (let tls_host = tls_host_for domain in
           case he_url_parse (dn_http (ne_daemon N)) (''https://'' @ tls_host @ '':'' @ nat_to_string (unat port)) of
             None \<Rightarrow> plain
           | Some tls_url \<Rightarrow>
               (case build_dot_http_client (se_host S) (se_dns_conf S) tls_host \<lparr>sa_ip = ip, sa_port = port\<rparr> outbound_interface of
                  Inl _ \<Rightarrow> plain
                | Inr client \<Rightarrow> for_endpoint tls_url client hooks)))))"

definition dot_probe_client ::
  "('w, 'v, 'r, 'e, 'h) node_env \<Rightarrow> http_client \<Rightarrow> api_hooks \<Rightarrow> string option \<Rightarrow> string option \<Rightarrow> vpn_dot \<Rightarrow> api_client option" where
  "dot_probe_client N pool hooks vpn_domain outbound_interface dot =
     map_option (\<lambda>endpoint. build_dot_api_client N endpoint pool hooks vpn_domain outbound_interface)
       (res_ok (from_dot (dn_http (ne_daemon N)) dot False))"

text \<open>The clients of one attempt: for an endpoint that was chosen, and for the ping of an access point.\<close>

definition dot_client_builders ::
  "('w, 'v, 'r, 'e, 'h) node_env \<Rightarrow> http_client \<Rightarrow> api_hooks \<Rightarrow> string option \<Rightarrow> string option
   \<Rightarrow> (dot_endpoint \<Rightarrow> api_client) \<times> (vpn_dot \<Rightarrow> api_client option)" where
  "dot_client_builders N pool hooks vpn_domain outbound_interface =
     (\<lambda>endpoint. build_dot_api_client N endpoint pool hooks vpn_domain outbound_interface,
      \<lambda>dot. map_option (\<lambda>endpoint. build_dot_api_client N endpoint pool hooks vpn_domain outbound_interface)
        (res_ok (from_dot (dn_http (ne_daemon N)) dot False)))"

section \<open>State changes and the watch channel\<close>

definition watched :: "('w, 'v, 'r) daemon \<Rightarrow> pb_tunnel" where
  "watched d = (case da_sent d of [] \<Rightarrow> pb_tunnel_default | t # _ \<Rightarrow> t)"

definition on_inner :: "(daemon_inner \<Rightarrow> daemon_inner) \<Rightarrow> ('w, 'v, 'r) daemon \<Rightarrow> ('w, 'v, 'r) daemon" where
  "on_inner f d = d\<lparr>da_inner := f (da_inner d)\<rparr>"

definition vpn_transition :: "(vpn_machine \<Rightarrow> vpn_machine) \<Rightarrow> ('w, 'v, 'r) daemon \<Rightarrow> ('w, 'v, 'r) daemon" where
  "vpn_transition f d = (case di_vpn (da_inner d) of
      None \<Rightarrow> d
    | Some vm \<Rightarrow> (on_inner (\<lambda>i. i\<lparr>di_vpn := Some (f vm)\<rparr>) d)\<lparr>da_sent := to_tunnel_proto (f vm) # da_sent d\<rparr>)"

definition mark_disconnected :: "('w, 'v, 'r) daemon \<Rightarrow> ('w, 'v, 'r) daemon" where
  "mark_disconnected d = vpn_transition set_disconnected (on_inner (\<lambda>i. i\<lparr>di_active_outbound := None\<rparr>) d)"

definition mark_failed :: "string \<Rightarrow> ('w, 'v, 'r) daemon \<Rightarrow> ('w, 'v, 'r) daemon" where
  "mark_failed error d = vpn_transition (set_failed error) (on_inner (\<lambda>i. i\<lparr>di_active_outbound := None\<rparr>) d)"

definition daemon_new ::
  "('w, 'v, 'r, 'e, 'h) node_env \<Rightarrow> client_identity \<Rightarrow> http_client \<Rightarrow> daemon_config \<Rightarrow> path \<Rightarrow> path
   \<Rightarrow> persisted_credentials option \<Rightarrow> 'w net \<Rightarrow> fs \<Rightarrow> ('v, 'r) session_os \<Rightarrow> ('w, 'v, 'r) daemon" where
  "daemon_new N identity_default http_pool config config_path credential_path credentials n files os =
     (let identity = to_client_identity identity_default config;
          (auth, n1) = (case credentials of
             Some creds \<Rightarrow> restore_from_credentials creds http_pool identity n
           | None \<Rightarrow> (\<lparr>am_state = Unconfigured, am_http_pool = http_pool, am_identity = identity,
               am_tenant = None, am_signing = None, am_knock_token = None, am_totp = None,
               am_login_api_version = Legacy, am_oauth_pending = None,
               am_device_login_pending = None\<rparr>, n\<lparr>net_jar := []\<rparr>))
      in \<lparr>da_inner = \<lparr>di_auth = auth, di_vpn = None, di_config = config, di_config_path = config_path,
            di_credential_path = credential_path, di_tunnel_task = None, di_active_outbound = None\<rparr>,
          da_sent = [], da_net = n1, da_fs = files, da_os = os, da_next = 0, da_cancelled = [], da_spawned = []\<rparr>)"

text \<open>The client pool of \<open>Daemon::new\<close>: with the configured interface, else the default one; when that cannot
  be built either the start panics (\<open>None\<close>).\<close>

definition initial_http_pool :: "host_os \<Rightarrow> ip_addr list option \<Rightarrow> daemon_config \<Rightarrow> http_client option" where
  "initial_http_pool os conf config = (case build_http_client os conf (dc_outbound_interface config) of
      Inr client \<Rightarrow> Some client
    | Inl _ \<Rightarrow> res_ok (build_http_client os conf None))"

definition uptime_seconds :: "duration \<Rightarrow> int" where
  "uptime_seconds elapsed = min (int (elapsed div 1000000000)) (2 ^ 63 - 1)"

section \<open>Persistence\<close>

definition persist_credentials :: "('w, 'v, 'r, 'e, 'h) node_env \<Rightarrow> ('w, 'v, 'r) daemon \<Rightarrow> ('w, 'v, 'r) daemon" where
  "persist_credentials N d = (let i = da_inner d in
     if am_state (di_auth i) \<noteq> Authenticated then d
     else (case to_credentials_with_vpn (ne_daemon N) (di_auth i) (da_net d)
                  (Option.bind (di_vpn i) current_persisted_request) of
         None \<Rightarrow> d
       | Some creds \<Rightarrow> d\<lparr>da_fs := snd (persist_save (ne_creds N) creds (di_credential_path i) (da_fs d))\<rparr>))"

definition delete_credentials :: "('w, 'v, 'r) daemon \<Rightarrow> ('w, 'v, 'r) daemon" where
  "delete_credentials d = d\<lparr>da_fs := snd (credentials_delete (di_credential_path (da_inner d)) (da_fs d))\<rparr>"

definition persist_config :: "('w, 'v, 'r, 'e, 'h) node_env \<Rightarrow> ('w, 'v, 'r) daemon \<Rightarrow> ('w, 'v, 'r) daemon" where
  "persist_config N d = d\<lparr>da_fs := snd (persist_save (ne_config N) (di_config (da_inner d)) (di_config_path (da_inner d)) (da_fs d))\<rparr>"

section \<open>Guards\<close>

definition require_configured :: "('w, 'v, 'r) daemon \<Rightarrow> (daemon_error, unit) result" where
  "require_configured d = (if am_state (di_auth (da_inner d)) = Unconfigured then Inl (Fault NotConfigured) else Inr ())"

definition require_authenticated :: "('w, 'v, 'r) daemon \<Rightarrow> (daemon_error, unit) result" where
  "require_authenticated d = (if am_state (di_auth (da_inner d)) = Authenticated then Inr () else Inl (Fault NotAuthenticated))"

definition on_auth :: "('w, 'a) am_io \<Rightarrow> ('w, 'v, 'r) daemon \<Rightarrow> (daemon_error, 'a) result \<times> ('w, 'v, 'r) daemon" where
  "on_auth m d = (case m (di_auth (da_inner d), da_net d) of
      (r, (a, n)) \<Rightarrow> (r, (on_inner (\<lambda>i. i\<lparr>di_auth := a\<rparr>) d)\<lparr>da_net := n\<rparr>))"

definition restore_auth_state :: "('w, 'v, 'r) daemon \<Rightarrow> ('w, 'v, 'r) daemon" where
  "restore_auth_state d = snd (on_auth restore_session d)"

section \<open>Connect and disconnect\<close>

definition fresh :: "('w, 'v, 'r) daemon \<Rightarrow> nat \<times> ('w, 'v, 'r) daemon" where
  "fresh d = (da_next d, d\<lparr>da_next := da_next d + 1\<rparr>)"

definition ensure_machine ::
  "('w, 'v, 'r, 'e, 'h) node_env \<Rightarrow> ('w, 'v, 'r) daemon \<Rightarrow> (daemon_error, vpn_machine) result \<times> ('w, 'v, 'r) daemon" where
  "ensure_machine N d = (case di_vpn (da_inner d) of
      Some vm \<Rightarrow> (Inr vm, d)
    | None \<Rightarrow> (case build_tenant_client (dn_http (ne_daemon N)) (di_auth (da_inner d)) of
        None \<Rightarrow> (Inl (Fault NotAuthenticated), d)
      | Some client \<Rightarrow> (let (token, d1) = fresh d; vm = vpn_machine_new token client in
          (Inr vm, on_inner (\<lambda>i. i\<lparr>di_vpn := Some vm\<rparr>) d1))))"

definition busy_message :: string where
  "busy_message = ''tunnel is already connecting or connected; disconnect first''"

definition connect_tunnel ::
  "('w, 'v, 'r, 'e, 'h) node_env \<Rightarrow> vpn_request \<Rightarrow> ('w, 'v, 'r) daemon
   \<Rightarrow> (daemon_error, pb_tunnel) result \<times> ('w, 'v, 'r) daemon" where
  "connect_tunnel N request d =
     (if am_state (di_auth (da_inner d)) \<noteq> Authenticated then (Inl (Fault NotAuthenticated), d)
      else (case ensure_machine N d of
         (Inl e, d1) \<Rightarrow> (Inl e, d1)
       | (Inr vm, d1) \<Rightarrow>
           if \<not> can_connect (vm_state vm) then (Inl (Fault (InvalidArgument busy_message)), d1)
           else
             (let vm1 = (case build_tenant_client (dn_http (ne_daemon N)) (di_auth (da_inner d1)) of
                    Some client \<Rightarrow> vm\<lparr>vm_api_client := client\<rparr> | None \<Rightarrow> vm);
                  (cancel, d2) = fresh d1;
                  d3 = vpn_transition (\<lambda>_. set_connecting cancel request vm1) d2;
                  (task, d4) = fresh d3
              in (Inr (watched d4), (on_inner (\<lambda>i. i\<lparr>di_tunnel_task := Some task\<rparr>) d4)
                    \<lparr>da_spawned := (task, request, cancel) # da_spawned d4\<rparr>))))"

text \<open>\<open>maybe_auto_resume\<close>; an error of the connect is only logged.\<close>

definition resumed_request :: "persisted_vpn_request \<Rightarrow> vpn_request" where
  "resumed_request p = \<lparr>vr_mode = unwrap_or (parse_connect_mode (pvr_mode p)) Full,
     vr_location_id = pvr_location_id p, vr_otp = None, vr_reconnect = pvr_reconnect p,
     vr_protocol_mode = pvr_protocol_mode p\<rparr>"

definition maybe_auto_resume :: "('w, 'v, 'r, 'e, 'h) node_env \<Rightarrow> ('w, 'v, 'r) daemon \<Rightarrow> ('w, 'v, 'r) daemon" where
  "maybe_auto_resume N d =
     (if \<not> dc_auto_reconnect (di_config (da_inner d)) then d
      else (case credentials_load (ne_creds N) (di_credential_path (da_inner d)) (da_fs d) of (r, files) \<Rightarrow>
         (let d1 = d\<lparr>da_fs := files\<rparr> in
          case Option.bind (Option.bind (res_ok r) (\<lambda>c. c)) pc_last_vpn_request of
            None \<Rightarrow> d1
          | Some p \<Rightarrow> snd (connect_tunnel N (resumed_request p) d1))))"

text \<open>Awaiting a task: \<open>finish\<close> is what the tasks do until they have returned.\<close>

definition cancel_token :: "nat \<Rightarrow> ('w, 'v, 'r) daemon \<Rightarrow> ('w, 'v, 'r) daemon" where
  "cancel_token token d = d\<lparr>da_cancelled := token # da_cancelled d\<rparr>"

definition take_task :: "('w, 'v, 'r) daemon \<Rightarrow> nat option \<times> ('w, 'v, 'r) daemon" where
  "take_task d = (di_tunnel_task (da_inner d), on_inner (\<lambda>i. i\<lparr>di_tunnel_task := None\<rparr>) d)"

definition disconnect_begin :: "('w, 'v, 'r) daemon \<Rightarrow> nat option \<times> ('w, 'v, 'r) daemon" where
  "disconnect_begin d = take_task (case di_vpn (da_inner d) of
      None \<Rightarrow> d
    | Some vm \<Rightarrow> vpn_transition set_disconnecting (cancel_token (vm_cancel_token vm) d))"

definition disconnect_end :: "('w, 'v, 'r) daemon \<Rightarrow> pb_tunnel \<times> ('w, 'v, 'r) daemon" where
  "disconnect_end d = (let d1 = vpn_transition set_disconnected d in
     (case di_vpn (da_inner d1) of None \<Rightarrow> pb_tunnel_default | Some vm \<Rightarrow> to_tunnel_proto vm, d1))"

definition disconnect_tunnel ::
  "(nat \<Rightarrow> ('w, 'v, 'r) daemon \<Rightarrow> ('w, 'v, 'r) daemon) \<Rightarrow> ('w, 'v, 'r) daemon
   \<Rightarrow> (daemon_error, pb_tunnel) result \<times> ('w, 'v, 'r) daemon" where
  "disconnect_tunnel finish d = (case disconnect_begin d of (task, d1) \<Rightarrow>
     (case disconnect_end (case task of None \<Rightarrow> d1 | Some t \<Rightarrow> finish t d1) of (tunnel, d2) \<Rightarrow> (Inr tunnel, d2)))"

definition reconnect_if_outbound_changed ::
  "('w, 'v, 'r, 'e, 'h) node_env \<Rightarrow> (nat \<Rightarrow> ('w, 'v, 'r) daemon \<Rightarrow> ('w, 'v, 'r) daemon)
   \<Rightarrow> ('w, 'v, 'r) daemon \<Rightarrow> ('w, 'v, 'r) daemon" where
  "reconnect_if_outbound_changed N finish d =
     (let S = ne_session N; outbound = dc_outbound_interface (di_config (da_inner d)) in
      if outbound = di_active_outbound (da_inner d) then d
      else
        (let d1 = (case build_http_client (se_host S) (se_dns_conf S) outbound of
               Inr pool \<Rightarrow> on_inner (\<lambda>i. i\<lparr>di_auth := (di_auth i)\<lparr>am_http_pool := pool\<rparr>\<rparr>) d
             | Inl _ \<Rightarrow> d)
         in case di_vpn (da_inner d1) of
              None \<Rightarrow> d1
            | Some vm \<Rightarrow> (case current_request (vm_state vm) of
                None \<Rightarrow> d1
              | Some request \<Rightarrow>
                  (let (task, d2) = take_task d1;
                       d3 = cancel_token (vm_cancel_token vm) d2;
                       d4 = (case task of None \<Rightarrow> d3 | Some t \<Rightarrow> finish t d3)
                   in snd (connect_tunnel N request d4)))))"

section \<open>One connect attempt\<close>

type_synonym ('w, 'v, 'r, 'a) daemon_io = "(('w, 'v, 'r) daemon, daemon_error, 'a) io"

definition on_net :: "('e \<Rightarrow> daemon_error) \<Rightarrow> ('w net, 'e, 'a) io \<Rightarrow> ('w, 'v, 'r, 'a) daemon_io" where
  "on_net g m d = (case m (da_net d) of (r, n) \<Rightarrow> (map_err g r, d\<lparr>da_net := n\<rparr>))"

definition get_inner :: "(daemon_inner \<Rightarrow> (daemon_error, 'a) result) \<Rightarrow> ('w, 'v, 'r, 'a) daemon_io" where
  "get_inner f d = (f (da_inner d), d)"

definition put :: "(('w, 'v, 'r) daemon \<Rightarrow> ('w, 'v, 'r) daemon) \<Rightarrow> ('w, 'v, 'r, unit) daemon_io" where
  "put f d = (Inr (), f d)"

definition reads :: "(('w, 'v, 'r) daemon \<Rightarrow> 'a) \<Rightarrow> ('w, 'v, 'r, 'a) daemon_io" where
  "reads f d = (Inr (f d), d)"

definition compute_otp ::
  "('w, 'v, 'r, 'e, 'h) node_env \<Rightarrow> string option \<Rightarrow> ('w, 'v, 'r) daemon \<Rightarrow> string option" where
  "compute_otp N manual d = (case manual of
      Some code \<Rightarrow> Some code
    | None \<Rightarrow> Option.bind (am_totp (di_auth (da_inner d))) (\<lambda>config.
        generate_totp (dn_totp (ne_daemon N)) config (ne_now N (net_world (da_net d)))))"

definition send_report ::
  "('w, 'v, 'r, 'e, 'h) node_env \<Rightarrow> api_client \<Rightarrow> report_params \<Rightarrow> vpn_report_type
   \<Rightarrow> ('w, 'v, 'r) daemon \<Rightarrow> bool \<times> ('w, 'v, 'r) daemon" where
  "send_report N dot_client report report_type d =
     (case send (dn_http (ne_daemon N)) (dec_value (dn_dec (ne_daemon N))) dot_client
            (VpnReportRequest \<lparr>vrr_type = vpn_report_type_wire report_type, vrr_ip = rpp_assigned_ip report,
               vrr_public_key = rpp_pub_key report, vrr_mode = android_name (rpp_mode report)\<rparr>) (da_net d) of
        (Inr response, n) \<Rightarrow> (is_force_logout response, d\<lparr>da_net := n\<rparr>)
      | (Inl _, n) \<Rightarrow> (False, d\<lparr>da_net := n\<rparr>))"

text \<open>\<open>supervise\<close>: the supervisor's loop with the report calls it makes; on a report tick the answer of the
  event is replaced by that of the call.  \<open>None\<close> while no event has ended the run.\<close>

fun supervise_session ::
  "('w, 'v, 'r, 'e, 'h) node_env \<Rightarrow> api_client \<Rightarrow> report_params \<Rightarrow> string option \<Rightarrow> network_snapshot
   \<Rightarrow> supervisor_event list \<Rightarrow> ('w, 'v, 'r) daemon \<Rightarrow> supervisor_outcome option \<times> ('w, 'v, 'r) daemon" where
  "supervise_session N dot_client report outbound last_net [] d = (None, d)"
| "supervise_session N dot_client report outbound last_net (ev # evs) d =
     (let (ev', d1) = (case ev of
            ReportTick _ probe_age \<Rightarrow> (case send_report N dot_client report ReportConnected d of
               (kicked, d1) \<Rightarrow> (ReportTick kicked probe_age, d1))
          | _ \<Rightarrow> (ev, d))
      in case supervise_step outbound last_net ev' of
           Some outcome \<Rightarrow> (Some outcome, d1)
         | None \<Rightarrow> supervise_session N dot_client report outbound last_net evs d1)"

definition dns_port_of :: "daemon_config \<Rightarrow> u16" where
  "dns_port_of c = unwrap_or (Option.bind (dc_dns_listen_port c)
     (\<lambda>p. if unat p < 65536 then Some (of_nat (unat p)) else None)) 0"

definition session_config_of :: "daemon_config \<Rightarrow> tunnel_config \<Rightarrow> tunnel_config" where
  "session_config_of c t = (let t1 = t\<lparr>tcf_outbound_interface := dc_outbound_interface c,
       tcf_dns_listen_port := dns_port_of c, tcf_dns_listen_host := dc_dns_listen_host c,
       tcf_fallback_dns := dc_fallback_dns c, tcf_route_system_dns := unwrap_or (dc_route_system_dns c) True\<rparr>
     in case opt_filter (\<lambda>name. trim name \<noteq> []) (dc_tun_interface c) of
          None \<Rightarrow> t1 | Some name \<Rightarrow> t1\<lparr>tcf_interface_name := name\<rparr>)"

text \<open>\<open>start_session\<close> of the daemon.\<close>

definition start_vpn_session ::
  "('w, 'v, 'r, 'e, 'h) node_env \<Rightarrow> vpn_config_result \<Rightarrow> vpn_conn_response \<Rightarrow> local_tunnel_params
   \<Rightarrow> vpn_request \<Rightarrow> protocol_mode \<Rightarrow> ('w, 'v, 'r, 'h tunnel_session) daemon_io" where
  "start_vpn_session N config_result data params request mode d =
     (let S = ne_session N;
          c = di_config (da_inner d);
          d1 = on_inner (\<lambda>i. i\<lparr>di_active_outbound := dc_outbound_interface c\<rparr>) d
      in case config_from_vpn_conn (sys_platform (se_sys S)) (se_net S) (se_dns_lib S) data params
             (de_wireguard_endpoint (vres_endpoint config_result)) mode (vpn_route_mode_of (vr_mode request)) of
           Inl e \<Rightarrow> (Inl (Internal (InternalTunnel (''failed to build tunnel config: '' @ ne_display_session N e))), d1)
         | Inr t \<Rightarrow> (case start_session S (session_new (session_config_of c t), da_os d1) of
             (Inr _, (ts, os)) \<Rightarrow> (Inr ts, d1\<lparr>da_os := os\<rparr>)
           | (Inl e, (ts, os)) \<Rightarrow>
               (Inl (Internal (InternalTunnel (''failed to start tunnel: '' @ ne_display_session N e))), d1\<lparr>da_os := os\<rparr>)))"

definition mark_connected ::
  "('w, 'v, 'r, 'e, 'h) node_env \<Rightarrow> vpn_config_result \<Rightarrow> string \<Rightarrow> protocol_mode
   \<Rightarrow> ('w, 'v, 'r) daemon \<Rightarrow> ('w, 'v, 'r) daemon" where
  "mark_connected N config_result assigned_ip mode d = (let dot = vres_dot config_result in
     persist_credentials N (vpn_transition (set_connected \<lparr>at_dot_id = unwrap_or (dot_id dot) 0,
       at_dot_name = unwrap_or (dot_name dot) [],
       at_endpoint = u_str (de_wireguard_endpoint (vres_endpoint config_result)),
       at_assigned_ip = assigned_ip, at_protocol_mode = mode\<rparr>) d))"

definition vpn_domain_of :: "(api_error, vpn_setting base_response) result \<Rightarrow> string option" where
  "vpn_domain_of r = opt_filter (\<lambda>domain. trim domain \<noteq> [])
     (Option.bind (Option.bind (res_ok r) br_data) vs_vpn_domain)"

text \<open>The end of an attempt: supervise, then stop the session and report it.\<close>

definition run_session ::
  "('w, 'v, 'r, 'e, 'h) node_env \<Rightarrow> attempt_input \<Rightarrow> api_client \<Rightarrow> report_params \<Rightarrow> 'h tunnel_session
   \<Rightarrow> ('w, 'v, 'r) daemon \<Rightarrow> supervisor_outcome option \<times> ('w, 'v, 'r) daemon" where
  "run_session N a report_client report ts d =
     (let (_, d1) = send_report N report_client report ReportConnected d in
      case supervise_session N report_client report (dc_outbound_interface (di_config (da_inner d1)))
             (unwrap_or (ai_snapshot a) None) (ai_events a) d1 of
        (None, d2) \<Rightarrow> (None, d2)
      | (Some outcome, d2) \<Rightarrow>
          (let (_, (_, os)) = stop_session (ne_session N) (ts, da_os d2);
               (_, d3) = send_report N report_client report ReportDisconnected (d2\<lparr>da_os := os\<rparr>)
           in (Some outcome, d3)))"

definition negotiate ::
  "('w, 'v, 'r, 'e, 'h) node_env \<Rightarrow> api_client \<Rightarrow> string option \<Rightarrow> vpn_config_request
   \<Rightarrow> ('w, 'v, 'r, vpn_config_result) daemon_io" where
  "negotiate N client vpn_domain config_request d =
     (let i = da_inner d; pool = am_http_pool (di_auth i); hooks = build_hooks (di_auth i);
          builders = dot_client_builders N pool hooks vpn_domain (dc_outbound_interface (di_config i)); E = ne_daemon N
      in on_net (from_vpn_error (dn_disp E))
           (vpn_config_from_dot_list (dn_http E) (dn_dec E) client config_request
              (fst builders)
              (\<lambda>dots n. case ne_probe N (snd builders) dots n of
                 (joined, n') \<Rightarrow> (rank_dots_by_latency dots joined, n'))) d)"

definition fetch_vpn_domain ::
  "('w, 'v, 'r, 'e, 'h) node_env \<Rightarrow> api_client \<Rightarrow> ('w, 'v, 'r, string option) daemon_io" where
  "fetch_vpn_domain N client d = (case send (dn_http (ne_daemon N)) (dec_vpn_setting (dn_dec (ne_daemon N))) client
       GetVpnSettingRequest (da_net d) of (r, n) \<Rightarrow> (Inr (vpn_domain_of r), d\<lparr>da_net := n\<rparr>))"

definition run_reported ::
  "('w, 'v, 'r, 'e, 'h) node_env \<Rightarrow> attempt_input \<Rightarrow> dot_endpoint \<Rightarrow> string option \<Rightarrow> report_params
   \<Rightarrow> 'h tunnel_session \<Rightarrow> ('w, 'v, 'r, supervisor_outcome option) daemon_io" where
  "run_reported N a endpoint vpn_domain report ts d =
     (let i = da_inner d;
          report_client = build_dot_api_client N endpoint (am_http_pool (di_auth i))
            (build_hooks (di_auth i)) vpn_domain (dc_outbound_interface (di_config i))
      in case run_session N a report_client report ts d of (outcome, d') \<Rightarrow> (Inr outcome, d'))"

definition connect_once ::
  "('w, 'v, 'r, 'e, 'h) node_env \<Rightarrow> vpn_request \<Rightarrow> attempt_input
   \<Rightarrow> ('w, 'v, 'r, supervisor_outcome option) daemon_io" where
  "connect_once N request a =
     (let params = params_from_secret (se_keys (ne_session N)) (ai_free_port a) (ai_secret a) in
     io_bind (put (vpn_transition set_configuring)) (\<lambda>_.
     io_bind (get_inner (\<lambda>i. ok_or (Fault NotAuthenticated) (build_tenant_client (dn_http (ne_daemon N)) (di_auth i)))) (\<lambda>client.
     io_bind (fetch_vpn_domain N client) (\<lambda>vpn_domain.
     io_bind (reads (compute_otp N (vr_otp request))) (\<lambda>otp.
     io_bind (negotiate N client vpn_domain \<lparr>vq_mode = vr_mode request, vq_public_key = ltp_local_public_key params,
         vq_location_id = vr_location_id request, vq_otp = otp, vq_sign_token = None,
         vq_not_auto = True, vq_reconnect = vr_reconnect request\<rparr>) (\<lambda>config_result.
     io_bind (get_inner (\<lambda>_. ok_or (Internal (InternalTunnel ''/vpn/conn returned no data''))
         (br_data (vres_response config_result)))) (\<lambda>data.
     let mode = effective_transport (dot_protocol_mode (vres_dot config_result)) (vr_protocol_mode request) in
     io_bind (start_vpn_session N config_result data params request mode) (\<lambda>ts.
     io_bind (put (mark_connected N config_result (conn_ip data) mode)) (\<lambda>_.
     run_reported N a (vres_endpoint config_result) vpn_domain
       \<lparr>rpp_assigned_ip = conn_ip data, rpp_pub_key = ltp_local_public_key params, rpp_mode = vr_mode request\<rparr> ts)))))))))"

section \<open>The connect loop\<close>

text \<open>\<open>handle_decision\<close>: whether to go on, given whether the sleep is cancelled.\<close>

definition handle_decision :: "reconnect_decision \<Rightarrow> bool \<Rightarrow> ('w, 'v, 'r) daemon \<Rightarrow> bool \<times> ('w, 'v, 'r) daemon" where
  "handle_decision decision cancelled d = (case decision of
      Stop \<Rightarrow> (False, mark_failed ''maximum reconnect attempts exceeded'' d)
    | _ \<Rightarrow> (let d1 = vpn_transition set_reconnecting d in
        if cancelled then (False, mark_disconnected d1) else (True, d1)))"

datatype loop_end = LoopReturned | StillSupervising | InputsUsedUp

text \<open>Record the event and apply the decision: leave the loop, or go on with the controller.\<close>

definition decide ::
  "reconnect_event \<Rightarrow> attempt_input \<Rightarrow> reconnect_controller \<Rightarrow> ('w, 'v, 'r) daemon
   \<Rightarrow> (loop_end, reconnect_controller) result \<times> ('w, 'v, 'r) daemon" where
  "decide ev a c d = (let (decision, c1) = record_event ev c in
     (case handle_decision decision (ai_cancelled_in_sleep a) d of
        (go_on, d1) \<Rightarrow> (if go_on then Inr c1 else Inl LoopReturned, d1)))"

definition reset_if :: "bool \<Rightarrow> reconnect_controller \<Rightarrow> reconnect_controller" where
  "reset_if was_healthy c = (if was_healthy then controller_reset c else c)"

text \<open>One iteration of the loop.\<close>

definition attempt_step ::
  "('w, 'v, 'r, 'e, 'h) node_env \<Rightarrow> vpn_request \<Rightarrow> attempt_input \<Rightarrow> reconnect_controller \<Rightarrow> ('w, 'v, 'r) daemon
   \<Rightarrow> (loop_end, reconnect_controller) result \<times> ('w, 'v, 'r) daemon" where
  "attempt_step N request a c d = (case connect_once N request a d of
      (Inr None, d1) \<Rightarrow> (Inl StillSupervising, d1)
    | (Inr (Some Cancelled), d1) \<Rightarrow> (Inl LoopReturned, mark_disconnected d1)
    | (Inr (Some (ServerKickOut was_healthy)), d1) \<Rightarrow> decide ServerKickOutEvent a (reset_if was_healthy c) d1
    | (Inr (Some (Trigger ev was_healthy)), d1) \<Rightarrow> decide ev a (reset_if was_healthy c) d1
    | (Inl error, d1) \<Rightarrow> (let d2 = mark_failed (ne_display N error) d1 in
        if ai_cancelled_on_error a then (Inl LoopReturned, d2) else decide TransportFailed a c d2))"

text \<open>\<open>run_connect_loop\<close> over the inputs of its attempts; \<open>InputsUsedUp\<close> when it would go on after the last.\<close>

fun connect_loop ::
  "('w, 'v, 'r, 'e, 'h) node_env \<Rightarrow> vpn_request \<Rightarrow> attempt_input list \<Rightarrow> reconnect_controller
   \<Rightarrow> ('w, 'v, 'r) daemon \<Rightarrow> loop_end \<times> ('w, 'v, 'r) daemon" where
  "connect_loop N request [] c d = (InputsUsedUp, d)"
| "connect_loop N request (a # as) c d = (case attempt_step N request a c d of
      (Inl e, d1) \<Rightarrow> (e, d1)
    | (Inr c1, d1) \<Rightarrow> connect_loop N request as c1 d1)"

definition run_connect_loop ::
  "('w, 'v, 'r, 'e, 'h) node_env \<Rightarrow> vpn_request \<Rightarrow> attempt_input list
   \<Rightarrow> ('w, 'v, 'r) daemon \<Rightarrow> loop_end \<times> ('w, 'v, 'r) daemon" where
  "run_connect_loop N request inputs = connect_loop N request inputs (controller_new android_compatible_default)"

section \<open>Access points\<close>

text \<open>The transport brought up is one the dot was listed with, except for a TCP request to a dot of unknown
  capability: such a dot is listed as UDP-only, yet the request wins.\<close>

theorem effective_transport_listed:
  "protocol_mode_to_proto (effective_transport capability requested) \<in> set (snd (protocol_modes_from_dot capability))
     \<longleftrightarrow> capability \<in> {Some 0, Some 1, Some 2} \<or> requested = Udp"
  by (cases requested) (auto simp: effective_transport_def protocol_modes_from_dot_def protocol_mode_to_proto_def
      DOT_PROTOCOL_UDP_def DOT_PROTOCOL_TCP_def DOT_PROTOCOL_DUAL_def protocol_mode_repr_def)

lemma build_dot_http_client_pins:
  "build_dot_http_client os conf tls_host addr outbound = Inr client \<Longrightarrow>
   rv_overrides (hc_resolver client) tls_host = Some [addr]"
  by (auto simp: build_dot_http_client_def build_dialer_and_resolver_def with_override_def resolver_new_def
      res_bind_eq_Inr map_err_def Let_def split: sum.splits prod.splits)


end
