(* ===== verification/DaemonLoop.thy ===== *)
theory DaemonLoop
  imports Daemon
begin

text \<open>
  What the daemon's connect loop guarantees: the loop ends when the tunnel never comes up, the
  operating system is as before when it returned, and the number of attempts a client sees.
\<close>

section \<open>What an attempt does to the VPN machine\<close>

definition vpn_view :: "('w, 'v, 'r) daemon \<Rightarrow> vpn_machine option \<times> pb_tunnel list" where
  "vpn_view d = (di_vpn (da_inner d), da_sent d)"

lemma on_net_frame:
  "on_net g m d = (r, d') \<Longrightarrow> vpn_view d' = vpn_view d \<and> da_os d' = da_os d"
  by (auto simp: on_net_def vpn_view_def split: prod.splits)

lemma send_report_frame:
  "send_report N cl rep ty d = (k, d') \<Longrightarrow> vpn_view d' = vpn_view d \<and> da_os d' = da_os d"
  by (auto simp: send_report_def vpn_view_def split: prod.splits sum.splits)

lemma negotiate_frame:
  "negotiate N client vpn_domain req d = (r, d') \<Longrightarrow> vpn_view d' = vpn_view d \<and> da_os d' = da_os d"
  unfolding negotiate_def Let_def by (rule on_net_frame)

lemma persist_credentials_frame:
  "vpn_view (persist_credentials N d) = vpn_view d \<and> da_os (persist_credentials N d) = da_os d"
  by (auto simp: persist_credentials_def vpn_view_def Let_def split: option.splits)

lemma start_vpn_session_view:
  "start_vpn_session N cr data params request mode d = (r, d') \<Longrightarrow> vpn_view d' = vpn_view d"
  by (auto simp: start_vpn_session_def vpn_view_def on_inner_def Let_def split: sum.splits prod.splits)

lemma vpn_transition_frame:
  "da_os (vpn_transition f d) = da_os d" "da_net (vpn_transition f d) = da_net d"
  by (auto simp: vpn_transition_def on_inner_def split: option.splits)

text \<open>The view after a transition, from the view before it.\<close>

definition moved :: "(vpn_machine \<Rightarrow> vpn_machine) \<Rightarrow> vpn_machine option \<times> pb_tunnel list \<Rightarrow> vpn_machine option \<times> pb_tunnel list" where
  "moved f = (\<lambda>(vm, sent). case vm of None \<Rightarrow> (None, sent) | Some m \<Rightarrow> (Some (f m), to_tunnel_proto (f m) # sent))"

lemma vpn_transition_view: "vpn_view (vpn_transition f d) = moved f (vpn_view d)"
  by (auto simp: vpn_transition_def vpn_view_def moved_def on_inner_def split: option.splits)

lemma mark_view:
  "vpn_view (mark_disconnected d) = moved set_disconnected (vpn_view d)"
  "vpn_view (mark_failed e d) = moved (set_failed e) (vpn_view d)"
  "da_os (mark_disconnected d) = da_os d" "da_os (mark_failed e d) = da_os d"
  by (simp_all add: mark_disconnected_def mark_failed_def vpn_transition_view vpn_transition_frame)
    (simp_all add: vpn_view_def on_inner_def)

lemma mark_connected_frame:
  "\<exists>t. vpn_view (mark_connected N cr ip mode d) = moved (set_connected t) (vpn_view d)"
  "da_os (mark_connected N cr ip mode d) = da_os d"
  by (auto simp: mark_connected_def Let_def persist_credentials_frame vpn_transition_view vpn_transition_frame)

lemma supervise_session_frame:
  "supervise_session N cl rep out net evs d = (r, d') \<Longrightarrow> vpn_view d' = vpn_view d \<and> da_os d' = da_os d"
proof (induction evs arbitrary: d)
  case (Cons ev evs)
  obtain ev' d1 where e: "(case ev of ReportTick _ p \<Rightarrow> (case send_report N cl rep ReportConnected d of
      (kicked, d1) \<Rightarrow> (ReportTick kicked p, d1)) | _ \<Rightarrow> (ev, d)) = (ev', d1)"
    by fastforce
  then have "vpn_view d1 = vpn_view d \<and> da_os d1 = da_os d"
    by (auto split: supervisor_event.splits prod.splits dest: send_report_frame)
  moreover have "(r, d') = (case supervise_step out net ev' of Some outcome \<Rightarrow> (Some outcome, d1)
      | None \<Rightarrow> supervise_session N cl rep out net evs d1)"
    using Cons.prems e by simp
  ultimately show ?case using Cons.IH [of d1] by (auto split: option.splits)
qed simp

lemma run_session_view:
  "run_session N a cl rep ts d = (r, d') \<Longrightarrow> vpn_view d' = vpn_view d"
proof -
  assume run: "run_session N a cl rep ts d = (r, d')"
  obtain k1 d1 where s1: "send_report N cl rep ReportConnected d = (k1, d1)" by fastforce
  obtain out d2 where s2: "supervise_session N cl rep (dc_outbound_interface (di_config (da_inner d1)))
      (unwrap_or (ai_snapshot a) None) (ai_events a) d1 = (out, d2)" by fastforce
  note f = send_report_frame [OF s1] supervise_session_frame [OF s2]
  show ?thesis
  proof (cases out)
    case None
    then show ?thesis using run s1 s2 f by (simp add: run_session_def)
  next
    case (Some o1)
    obtain r3 ts3 os3 where s3: "stop_session (ne_session N) (ts, da_os d2) = (r3, (ts3, os3))" by (metis prod_cases3)
    obtain k4 d4 where s4: "send_report N cl rep ReportDisconnected (d2\<lparr>da_os := os3\<rparr>) = (k4, d4)" by fastforce
    have "vpn_view (d2\<lparr>da_os := os3\<rparr>) = vpn_view d2" by (simp add: vpn_view_def)
    then show ?thesis using run s1 s2 f Some s3 send_report_frame [OF s4] s4 by (simp add: run_session_def)
  qed
qed

section \<open>An attempt gives the system back\<close>

text \<open>\<open>at_start\<close>: before the session is started; \<open>ended\<close>: what an attempt leaves.\<close>

definition at_view ::
  "vpn_machine option \<times> pb_tunnel list \<Rightarrow> ('v, 'r) session_os \<Rightarrow> ('w, 'v, 'r) daemon \<Rightarrow> bool" where
  "at_view V os d \<longleftrightarrow> vpn_view d = V \<and> da_os d = os"

definition given_back ::
  "vpn_machine option \<times> pb_tunnel list \<Rightarrow> ('v, 'r) session_os \<Rightarrow> ('w, 'v, 'r) daemon \<Rightarrow> bool" where
  "given_back V os d \<longleftrightarrow> vpn_view d = V \<and> (granting (so_routes os) \<longrightarrow> same_os (\<lambda>_. True) os (da_os d))"

lemma triple_put: "(\<And>d. P d \<Longrightarrow> Q (f d)) \<Longrightarrow> triple P (put f) (\<lambda>_. Q) F"
  by (auto simp: triple_def put_def)

lemma triple_get: "(\<And>d. P d \<Longrightarrow> F d) \<Longrightarrow> triple P (get_inner f) (\<lambda>_. P) F"
  by (auto simp: triple_def get_inner_def split: sum.splits)

lemma triple_reads: "triple P (reads f) (\<lambda>_. P) F"
  by (auto simp: triple_def reads_def)

lemma fetch_vpn_domain_triple: "triple (at_view V os) (fetch_vpn_domain N client) (\<lambda>_. at_view V os) F"
  by (auto simp: triple_def fetch_vpn_domain_def at_view_def vpn_view_def split: prod.splits)

lemma same_os_refl: "granting (so_routes os) \<Longrightarrow> same_os (\<lambda>_. True) os os"
  by (simp add: same_os_def)

lemma negotiate_triple:
  "triple (at_view V os) (negotiate N client vpn_domain req) (\<lambda>_. at_view V os) (given_back V os)"
  using negotiate_frame [of N client vpn_domain req]
  by (fastforce simp: triple_def at_view_def given_back_def same_os_refl split: sum.splits)

definition stoppable :: "('w, 'v, 'r, 'e, 'h) node_env \<Rightarrow> ('v, 'r) session_os \<Rightarrow> 'h tunnel_session \<Rightarrow> ('w, 'v, 'r) daemon \<Rightarrow> bool" where
  "stoppable N os ts d \<longleftrightarrow> (granting (so_routes os) \<longrightarrow>
     (\<exists>ts2 os2. stop_session (ne_session N) (ts, da_os d) = (Inr (), (ts2, os2)) \<and> same_os (\<lambda>_. True) os os2))"

lemma start_vpn_session_triple:
  "triple (at_view V os) (start_vpn_session N cr data params request mode)
    (\<lambda>ts d. vpn_view d = V \<and> stoppable N os ts d) (given_back V os)"
  unfolding triple_def
proof (intro allI impI)
  fix d r d' assume at: "at_view V os d" and run: "start_vpn_session N cr data params request mode d = (r, d')"
  have V: "vpn_view d' = V" using start_vpn_session_view [OF run] at by (simp add: at_view_def)
  let ?S = "ne_session N"
  show "case r of Inl e \<Rightarrow> given_back V os d'
      | Inr ts \<Rightarrow> vpn_view d' = V \<and> stoppable N os ts d'"
  proof (cases "config_from_vpn_conn (sys_platform (se_sys ?S)) (se_net ?S) (se_dns_lib ?S) data params
      (de_wireguard_endpoint (vres_endpoint cr)) mode (vpn_route_mode_of (vr_mode request))")
    case (Inl e)
    then show ?thesis using run at V same_os_refl
      by (auto simp: start_vpn_session_def Let_def on_inner_def given_back_def at_view_def)
  next
    case (Inr t)
    let ?c = "session_config_of (di_config (da_inner d)) t"
    obtain r1 ts1 os1 where s: "start_session ?S (session_new ?c, os) = (r1, (ts1, os1))" by (metis prod_cases3)
    have "undoes (se_bypass ?S) (tcf_full_tunnel ?c) (so_rules os) (\<lambda>_. True)" by (auto simp: undoes_def split: sum.split)
    note res = start_session_restores [OF _ this s]
    have os: "da_os d = os" using at by (simp add: at_view_def)
    show ?thesis
    proof (cases r1)
      case (Inl e)
      then show ?thesis using run V Inr s res os
        by (auto simp: start_vpn_session_def Let_def on_inner_def given_back_def)
    next
      case (Inr u)
      then show ?thesis
        using run V \<open>config_from_vpn_conn _ _ _ _ _ _ _ _ = Inr t\<close> s res os
        by (auto simp: start_vpn_session_def Let_def on_inner_def stoppable_def)
    qed
  qed
qed

lemma run_session_os:
  assumes "run_session N a cl rep ts d = (r, d')" "stoppable N os ts d" "granting (so_routes os)"
  shows "r = None \<or> same_os (\<lambda>_. True) os (da_os d')"
proof -
  obtain k1 d1 where s1: "send_report N cl rep ReportConnected d = (k1, d1)" by fastforce
  obtain out d2 where s2: "supervise_session N cl rep (dc_outbound_interface (di_config (da_inner d1)))
      (unwrap_or (ai_snapshot a) None) (ai_events a) d1 = (out, d2)" by fastforce
  note f = send_report_frame [OF s1] supervise_session_frame [OF s2]
  show ?thesis
  proof (cases out)
    case None
    then show ?thesis using assms(1) s1 s2 by (simp add: run_session_def)
  next
    case (Some o1)
    obtain ts3 os3 where s3: "stop_session (ne_session N) (ts, da_os d2) = (Inr (), (ts3, os3))"
      and same: "same_os (\<lambda>_. True) os os3"
      using assms(2,3) f by (auto simp: stoppable_def)
    obtain k4 d4 where s4: "send_report N cl rep ReportDisconnected (d2\<lparr>da_os := os3\<rparr>) = (k4, d4)" by fastforce
    then have "da_os d4 = os3" using send_report_frame [OF s4] by simp
    then show ?thesis using assms(1) s1 s2 Some s3 s4 same by (simp add: run_session_def)
  qed
qed

lemma run_reported_triple:
  "triple (\<lambda>d. (\<exists>t. vpn_view d = moved (set_connected t) V) \<and> stoppable N os ts d)
     (run_reported N a endpoint vpn_domain rep ts)
     (\<lambda>x d. (\<exists>t. vpn_view d = moved (set_connected t) V)
        \<and> (x = None \<or> (granting (so_routes os) \<longrightarrow> same_os (\<lambda>_. True) os (da_os d)))) F"
  using run_session_view run_session_os
  by (fastforce simp: triple_def run_reported_def Let_def split: prod.splits)

lemma mark_connected_triple:
  "triple (\<lambda>d. vpn_view d = V \<and> stoppable N os ts d) (put (mark_connected N cr ip mode))
     (\<lambda>_ d. (\<exists>t. vpn_view d = moved (set_connected t) V) \<and> stoppable N os ts d) F"
  by (rule triple_put) (metis mark_connected_frame stoppable_def)

lemma connect_once_triple:
  "triple (at_view V os) (connect_once N request a)
     (\<lambda>x d. (\<exists>t. vpn_view d = moved (set_connected t) (moved set_configuring V))
        \<and> (x = None \<or> (granting (so_routes os) \<longrightarrow> same_os (\<lambda>_. True) os (da_os d))))
     (given_back (moved set_configuring V) os)"
proof -
  let ?V = "moved set_configuring V"
  have kept: "given_back ?V os d" if "at_view ?V os d" for d
    using that by (simp add: at_view_def given_back_def same_os_refl)
  show ?thesis
    unfolding connect_once_def Let_def
    apply (rule triple_bind [OF triple_put [where Q = "at_view ?V os"]])
     apply (simp add: at_view_def vpn_transition_view vpn_transition_frame)
    apply (rule triple_bind [OF triple_get])
     apply (erule kept)
    apply (rule triple_bind [OF fetch_vpn_domain_triple])
    apply (rule triple_bind [OF triple_reads])
    apply (rule triple_bind [OF negotiate_triple])
    apply (rule triple_bind [OF triple_get])
     apply (erule kept)
    apply (rule triple_bind)
     apply (rule start_vpn_session_triple)
    apply (rule triple_bind)
     apply (rule mark_connected_triple)
    apply (rule run_reported_triple)
    done
qed

lemma same_os_trans:
  "same_os (\<lambda>_. True) a b \<Longrightarrow> same_os (\<lambda>_. True) b c \<Longrightarrow> same_os (\<lambda>_. True) a c"
  by (simp add: same_os_def)

lemma handle_decision_view:
  assumes "handle_decision decision cancelled d = (b, d')"
  shows "da_os d' = da_os d"
    and "vpn_view d' = (if decision = Stop then moved (set_failed ''maximum reconnect attempts exceeded'') (vpn_view d)
      else if cancelled then moved set_disconnected (moved set_reconnecting (vpn_view d))
      else moved set_reconnecting (vpn_view d))"
    and "b \<longleftrightarrow> decision \<noteq> Stop \<and> \<not> cancelled"
  using assms by (auto simp: handle_decision_def mark_view vpn_transition_view vpn_transition_frame Let_def
      split: reconnect_decision.splits if_splits)

section \<open>One iteration\<close>

lemma decide_eq:
  "decide ev a c d = (x, d') \<longleftrightarrow> (\<exists>b. handle_decision (fst (record_event ev c)) (ai_cancelled_in_sleep a) d = (b, d')
     \<and> x = (if b then Inr (snd (record_event ev c)) else Inl LoopReturned))"
  by (auto simp: decide_def split: prod.splits)

lemma attempt_step_cases:
  assumes "attempt_step N request a c d = (x, d')"
  obtains (running) d1 where "connect_once N request a d = (Inr None, d1)" "x = Inl StillSupervising" "d' = d1"
  | (cancelled) d1 where "connect_once N request a d = (Inr (Some Cancelled), d1)" "x = Inl LoopReturned"
      "d' = mark_disconnected d1"
  | (event) out d1 ev h where "connect_once N request a d = (Inr (Some out), d1)"
      "out = ServerKickOut h \<and> ev = ServerKickOutEvent \<or> out = Trigger ev h"
      "decide ev a (reset_if h c) d1 = (x, d')"
  | (failed) error d1 where "connect_once N request a d = (Inl error, d1)" "ai_cancelled_on_error a"
      "x = Inl LoopReturned" "d' = mark_failed (ne_display N error) d1"
  | (retry) error d1 where "connect_once N request a d = (Inl error, d1)"
      "decide TransportFailed a c (mark_failed (ne_display N error) d1) = (x, d')"
proof -
  obtain r d1 where r: "connect_once N request a d = (r, d1)" by fastforce
  note step = assms [unfolded attempt_step_def, unfolded r]
  show thesis
  proof (cases r)
    case (Inl error)
    show thesis
    proof (cases "ai_cancelled_on_error a")
      case True
      then show thesis using failed [of error d1] step r Inl by (simp add: Let_def)
    next
      case False
      then show thesis using retry [of error d1] step r Inl by (simp add: Let_def)
    qed
  next
    case (Inr x1)
    show thesis
    proof (cases x1)
      case None
      then show thesis using running [of d1] step r Inr by simp
    next
      case (Some out)
      then show thesis using cancelled [of d1] event [of out d1] step r Inr by (cases out) simp_all
    qed
  qed
qed

lemma connect_once_result:
  assumes "connect_once N request a d = (r, d')"
  shows "case r of
      Inl e \<Rightarrow> vpn_view d' = moved set_configuring (vpn_view d)
        \<and> (granting (so_routes (da_os d)) \<longrightarrow> same_os (\<lambda>_. True) (da_os d) (da_os d'))
    | Inr x \<Rightarrow> (\<exists>t. vpn_view d' = moved (set_connected t) (moved set_configuring (vpn_view d)))
        \<and> (x = None \<or> (granting (so_routes (da_os d)) \<longrightarrow> same_os (\<lambda>_. True) (da_os d) (da_os d')))"
proof -
  have "at_view (vpn_view d) (da_os d) d" by (simp add: at_view_def)
  with connect_once_triple [of "vpn_view d" "da_os d" N request a] assms
  show ?thesis unfolding triple_def given_back_def by blast
qed

lemma attempt_step_os:
  assumes "attempt_step N request a c d = (x, d')" "granting (so_routes (da_os d))"
  shows "x = Inl StillSupervising \<or> same_os (\<lambda>_. True) (da_os d) (da_os d')"
  using assms(1)
proof (cases rule: attempt_step_cases)
  case (event out d1 ev h)
  then show ?thesis using connect_once_result [OF event(1)] assms(2)
    by (auto simp: decide_eq dest: handle_decision_view(1))
next
  case (retry error d1)
  then show ?thesis using connect_once_result [OF retry(1)] assms(2)
    by (auto simp: decide_eq mark_view dest: handle_decision_view(1))
next
  case (cancelled d1)
  then show ?thesis using connect_once_result [OF cancelled(1)] assms(2) by (simp add: mark_view)
next
  case (failed error d1)
  then show ?thesis using connect_once_result [OF failed(1)] assms(2) by (simp add: mark_view)
qed simp

lemma connect_loop_os:
  assumes "connect_loop N request as c d = (e, d')" "granting (so_routes (da_os d))"
  shows "e = StillSupervising \<or> same_os (\<lambda>_. True) (da_os d) (da_os d')"
  using assms
proof (induction as arbitrary: c d)
  case Nil
  then show ?case by (simp add: same_os_refl)
next
  case (Cons a as)
  obtain x d1 where s: "attempt_step N request a c d = (x, d1)" by fastforce
  note one = attempt_step_os [OF s Cons.prems(2)]
  show ?case
  proof (cases x)
    case (Inl e1)
    then show ?thesis using Cons.prems(1) s one by auto
  next
    case (Inr c1)
    then have same: "same_os (\<lambda>_. True) (da_os d) (da_os d1)" using one by simp
    then have "granting (so_routes (da_os d1))" by (simp add: same_os_def)
    then show ?thesis using Cons.IH [of c1 d1] Cons.prems(1) s Inr same same_os_trans by auto
  qed
qed


section \<open>A tunnel that never comes up\<close>

text \<open>What the supervisor meets when no probe is ever answered: no event carries a reply, and the liveness timer
  reaches the first tick past the connect window.\<close>

definition silent_input :: "attempt_input \<Rightarrow> bool" where
  "silent_input a \<longleftrightarrow> list_all (\<lambda>ev. event_probe ev = None) (ai_events a)
     \<and> LivenessTick None (6 * LIVENESS_POLL) \<in> set (ai_events a)"

definition quiet_outcome :: "supervisor_outcome option \<Rightarrow> bool" where
  "quiet_outcome x \<longleftrightarrow> (\<exists>out. x = Some out \<and> (case out of Cancelled \<Rightarrow> True | ServerKickOut h \<Rightarrow> \<not> h | Trigger _ h \<Rightarrow> \<not> h))"

lemma supervise_step_quiet:
  "event_probe ev = None \<Longrightarrow> supervise_step out net ev = Some r \<Longrightarrow> quiet_outcome (Some r)"
  by (cases ev) (auto simp: supervise_step_def event_probe_def quiet_outcome_def split: if_splits option.splits)

lemma supervise_session_quiet:
  "list_all (\<lambda>ev. event_probe ev = None) evs \<Longrightarrow> LivenessTick None (6 * LIVENESS_POLL) \<in> set evs \<Longrightarrow>
   quiet_outcome (fst (supervise_session N cl rep out net evs d))"
proof (induction evs arbitrary: d)
  case (Cons ev evs)
  obtain ev' d1 where e: "(case ev of ReportTick _ p \<Rightarrow> (case send_report N cl rep ReportConnected d of
      (kicked, d1) \<Rightarrow> (ReportTick kicked p, d1)) | _ \<Rightarrow> (ev, d)) = (ev', d1)"
    by fastforce
  have probe: "event_probe ev' = None"
    using Cons.prems(1) e by (cases ev) (auto simp: event_probe_def split: prod.splits)
  have step: "supervise_session N cl rep out net (ev # evs) d = (case supervise_step out net ev' of
      Some outcome \<Rightarrow> (Some outcome, d1) | None \<Rightarrow> supervise_session N cl rep out net evs d1)"
    using e by simp
  show ?case
  proof (cases "supervise_step out net ev'")
    case (Some r)
    then show ?thesis using step supervise_step_quiet [OF probe Some] by simp
  next
    case None
    have "ev \<noteq> LivenessTick None (6 * LIVENESS_POLL)"
    proof
      assume "ev = LivenessTick None (6 * LIVENESS_POLL)"
      then show False using None e
        by (auto simp: supervise_step_def liveness_status_def LIVENESS_POLL_def CONNECT_TIMEOUT_def from_secs_def)
    qed
    then show ?thesis using Cons None step by simp
  qed
qed simp

lemma run_session_quiet:
  assumes "silent_input a"
  shows "quiet_outcome (fst (run_session N a cl rep ts d))"
proof -
  obtain k1 d1 where s1: "send_report N cl rep ReportConnected d = (k1, d1)" by fastforce
  obtain out d2 where s2: "supervise_session N cl rep (dc_outbound_interface (di_config (da_inner d1)))
      (unwrap_or (ai_snapshot a) None) (ai_events a) d1 = (out, d2)" by fastforce
  have q: "quiet_outcome out"
    using supervise_session_quiet [of "ai_events a" N cl rep "dc_outbound_interface (di_config (da_inner d1))"
        "unwrap_or (ai_snapshot a) None" d1] assms s2 by (simp add: silent_input_def)
  then show ?thesis using s1 s2
    by (auto simp: run_session_def quiet_outcome_def split: prod.splits)
qed

lemma triple_True: "triple (\<lambda>_. True) m (\<lambda>_ _. True) (\<lambda>_. True)"
  by (auto simp: triple_def split: sum.splits)

lemma connect_once_quiet:
  assumes "silent_input a" "connect_once N request a d = (Inr x, d')"
  shows "quiet_outcome x"
proof -
  have last: "triple (\<lambda>_. True) (run_reported N a endpoint vpn_domain rep ts) (\<lambda>x _. quiet_outcome x) (\<lambda>_. True)"
    for endpoint vpn_domain rep ts
  proof -
    have "quiet_outcome y" if "run_session N a cl rep ts d = (y, d')" for cl d y d'
      using run_session_quiet [OF assms(1), of N cl rep ts d] that by simp
    then show ?thesis by (auto simp: triple_def run_reported_def Let_def split: prod.splits)
  qed
  have "triple (\<lambda>_. True) (connect_once N request a) (\<lambda>x _. quiet_outcome x) (\<lambda>_. True)"
    unfolding connect_once_def Let_def by (rule triple_bind [OF triple_True] last)+
  then show ?thesis using assms(2) unfolding triple_def by force
qed

text \<open>An iteration on silent input leaves the loop or counts one more failure, within the limit.\<close>

lemma attempt_step_silent:
  assumes "silent_input a" "attempt_step N request a c d = (x, d')"
  shows "x = Inl LoopReturned \<or> (\<exists>c'. x = Inr c' \<and> rc_policy c' = rc_policy c
    \<and> rc_attempts c' = saturating_add (rc_attempts c) 1
    \<and> saturating_add (rc_attempts c) 1 \<le> max_attempts (rc_policy c))"
proof -
  have go: "x = Inl LoopReturned \<or> (\<exists>c'. x = Inr c' \<and> rc_policy c' = rc_policy c
      \<and> rc_attempts c' = saturating_add (rc_attempts c) 1
      \<and> saturating_add (rc_attempts c) 1 \<le> max_attempts (rc_policy c))"
    if "decide ev a c d1 = (x, d')" for ev d1
  proof -
    from that obtain b where h: "handle_decision (fst (record_event ev c)) (ai_cancelled_in_sleep a) d1 = (b, d')"
      and x: "x = (if b then Inr (snd (record_event ev c)) else Inl LoopReturned)"
      by (auto simp: decide_eq)
    have "b \<Longrightarrow> fst (record_event ev c) \<noteq> Stop" using handle_decision_view(3) [OF h] by blast
    then show ?thesis using x record_event_attempts [of ev c]
      by (cases b) (auto simp: record_event_def Let_def not_less split: if_splits)
  qed
  from assms(2) show ?thesis
  proof (cases rule: attempt_step_cases)
    case (running d1)
    then show ?thesis using connect_once_quiet [OF assms(1) running(1)] by (simp add: quiet_outcome_def)
  next
    case (event out d1 ev h)
    then have "\<not> h" using connect_once_quiet [OF assms(1) event(1)] by (auto simp: quiet_outcome_def)
    then show ?thesis using event(3) go by (simp add: reset_if_def)
  next
    case (retry error d1)
    then show ?thesis using go by blast
  qed simp_all
qed

lemma connect_loop_silent:
  assumes "list_all silent_input inputs" "max_attempts (rc_policy c) = 8" "unat (rc_attempts c) \<le> 8"
    and "9 \<le> unat (rc_attempts c) + length inputs"
  shows "fst (connect_loop N request inputs c d) = LoopReturned
    \<and> connect_loop N request (take (9 - unat (rc_attempts c)) inputs) c d = connect_loop N request inputs c d"
  using assms
proof (induction inputs arbitrary: c d)
  case (Cons a inputs)
  obtain x d1 where s: "attempt_step N request a c d = (x, d1)" by fastforce
  have k: "9 - unat (rc_attempts c) = Suc (8 - unat (rc_attempts c))" using Cons.prems(3) by simp
  from attempt_step_silent [OF _ s] Cons.prems(1)
  consider "x = Inl LoopReturned"
    | c' where "x = Inr c'" "rc_policy c' = rc_policy c" "rc_attempts c' = saturating_add (rc_attempts c) 1"
      "saturating_add (rc_attempts c) 1 \<le> 8"
    using Cons.prems(2) by auto
  then show ?case
  proof cases
    case 1
    then show ?thesis using s k by simp
  next
    case (2 c')
    have "unat (rc_attempts c') = unat (rc_attempts c) + 1"
      using Cons.prems(3) 2(3) by (simp add: unat_succ_attempts)
    moreover have "unat (rc_attempts c') \<le> 8" using 2(3,4) by (simp add: word_le_nat_alt)
    ultimately show ?thesis using Cons.IH [of c' d1] Cons.prems 2(1,2) s k by simp
  qed
qed simp

lemma run_connect_loop_silent:
  assumes "list_all silent_input inputs" "9 \<le> length inputs"
  shows "fst (run_connect_loop N request inputs d) = LoopReturned
    \<and> run_connect_loop N request (take 9 inputs) d = run_connect_loop N request inputs d"
proof -
  let ?c = "controller_new android_compatible_default"
  have c: "max_attempts (rc_policy ?c) = 8" "unat (rc_attempts ?c) = 0"
    by (simp_all add: controller_new_def android_compatible_default_def)
  show ?thesis
    using connect_loop_silent [OF assms(1) c(1), of N request d] assms(2)
    unfolding run_connect_loop_def c(2) by simp
qed

text \<open>C4: the connect loop ends when the tunnel never comes up.  If no liveness probe is ever answered (the
  attempts may fail, or connect and be given up by the supervisor, a kick-out or a lost network), the loop
  returns, and it does so within nine attempts: what comes after them is never tried.\<close>

theorem silent_connect_loop_returns:
  assumes "list_all silent_input inputs" "9 \<le> length inputs"
  shows "fst (run_connect_loop N request inputs d) = LoopReturned
    \<and> run_connect_loop N request (take 9 inputs) d = run_connect_loop N request inputs d"
  by (rule run_connect_loop_silent [OF assms])

section \<open>A concrete daemon\<close>

definition sample_node_env :: "((nat \<times> bytes), unit, ip_rule, linux_error, bool) node_env" where
  "sample_node_env = \<lparr>ne_daemon = sample_daemon_env, ne_session = sample_session_env None,
     ne_creds = \<lparr>jc_from_slice = (\<lambda>_. None), jc_to_vec_pretty = (\<lambda>_. Some [])\<rparr>,
     ne_config = \<lparr>jc_from_slice = (\<lambda>_. None), jc_to_vec_pretty = (\<lambda>_. Some [])\<rparr>,
     ne_display = (\<lambda>_. ''error''), ne_display_session = (\<lambda>_. ''session error''), ne_now = (\<lambda>_. 0),
     ne_probe = (\<lambda>_ _ n. ([], n))\<rparr>"

definition sample_vpn_request :: vpn_request where
  "sample_vpn_request = vpn_request_default"

definition sample_daemon :: "vpn_machine option \<Rightarrow> ((nat \<times> bytes), unit, ip_rule) daemon" where
  "sample_daemon vm = \<lparr>da_inner = \<lparr>di_auth = sample_machine\<lparr>am_state := Authenticated\<rparr>, di_vpn = vm,
       di_config = daemon_config_default, di_config_path = [''config.json''],
       di_credential_path = [''credentials.json''], di_tunnel_task = None, di_active_outbound = None\<rparr>,
     da_sent = (case vm of None \<Rightarrow> [] | Some m \<Rightarrow> [to_tunnel_proto m]),
     da_net = jar_net [(''csrf-token'', ''x'')], da_fs = sample_fs, da_os = sample_session_os,
     da_next = 10, da_cancelled = [], da_spawned = []\<rparr>"

definition silent_attempt :: attempt_input where
  "silent_attempt = \<lparr>ai_secret = [], ai_free_port = (\<lambda>_. True), ai_snapshot = None,
     ai_events = [LivenessTick None (from_secs 3), LivenessTick None (6 * LIVENESS_POLL)],
     ai_cancelled_on_error = False, ai_cancelled_in_sleep = False\<rparr>"

lemma silent_attempt_ok: "silent_input silent_attempt"
  by (simp add: silent_input_def silent_attempt_def event_probe_def)

theorem silent_connect_loop_returns_witness:
  "fst (run_connect_loop sample_node_env sample_vpn_request (replicate 12 silent_attempt) (sample_daemon None)) = LoopReturned"
  using silent_connect_loop_returns [of "replicate 12 silent_attempt" sample_node_env sample_vpn_request "sample_daemon None"]
  by (simp add: silent_attempt_ok list_all_iff)


section \<open>The attempts a client sees\<close>

definition low_attempts :: "pb_tunnel \<Rightarrow> bool" where
  "low_attempts t \<longleftrightarrow> unat (pt_reconnect_attempts t) \<le> 1"

text \<open>\<open>calm V V'\<close>: from \<open>V\<close> to \<open>V'\<close> only tunnels with low attempts were sent; \<open>rested\<close>: the machine counts none.\<close>

definition calm ::
  "vpn_machine option \<times> pb_tunnel list \<Rightarrow> vpn_machine option \<times> pb_tunnel list \<Rightarrow> bool" where
  "calm V V' \<longleftrightarrow> (\<exists>new. snd V' = new @ snd V \<and> list_all low_attempts new)"

definition rested :: "vpn_machine option \<times> pb_tunnel list \<Rightarrow> bool" where
  "rested V \<longleftrightarrow> (case fst V of None \<Rightarrow> True | Some vm \<Rightarrow> attempts (vm_state vm) = 0)"

lemma proto_attempts: "pt_reconnect_attempts (to_tunnel_proto vm) = attempts (vm_state vm)"
  by (cases "vm_state vm") (simp_all add: to_tunnel_proto_def attempts_def tunnel_of_request_def pb_tunnel_default_def)

lemma calm_trans: "calm a b \<Longrightarrow> calm b c \<Longrightarrow> calm a c"
  by (force simp: calm_def)

lemma calm_refl: "calm V V" by (simp add: calm_def)

lemma moved_rested:
  "calm V (moved set_configuring V)" "rested (moved set_configuring V)"
  "calm V (moved (set_connected t) V)" "rested (moved (set_connected t) V)"
  "calm V (moved set_disconnected V)"
  "rested V \<Longrightarrow> calm V (moved (set_failed e) V)" "rested V \<Longrightarrow> rested (moved (set_failed e) V)"
  "rested V \<Longrightarrow> calm V (moved set_reconnecting V)"
  by (cases V; cases "fst V"; simp add: moved_def calm_def rested_def low_attempts_def proto_attempts vm_defs
      vpn_state_defs unat_saturating_add)+

lemma attempt_step_calm:
  assumes "attempt_step N request a c d = (x, d')"
  shows "calm (vpn_view d) (vpn_view d')"
proof -
  have decided: "calm (vpn_view d1) (vpn_view d')" if "decide ev a c0 d1 = (x, d')" "rested (vpn_view d1)" for ev c0 d1
    using that calm_trans [OF moved_rested(8) [OF that(2)] moved_rested(5)]
    by (auto simp: decide_eq moved_rested dest!: handle_decision_view(2))
  have conf: "calm (vpn_view d) (moved set_configuring (vpn_view d))" by (rule moved_rested)
  from assms show ?thesis
  proof (cases rule: attempt_step_cases)
    case (event out d1 ev h)
    obtain t where "vpn_view d1 = moved (set_connected t) (moved set_configuring (vpn_view d))"
      using connect_once_result [OF event(1)] by auto
    then have "calm (vpn_view d) (vpn_view d1)" "rested (vpn_view d1)"
      using calm_trans [OF conf moved_rested(3)] moved_rested(4) by simp_all
    then show ?thesis using decided [OF event(3)] calm_trans by blast
  next
    case (retry error d1)
    let ?d2 = "mark_failed (ne_display N error) d1"
    have v: "vpn_view d1 = moved set_configuring (vpn_view d)" using connect_once_result [OF retry(1)] by simp
    have "calm (vpn_view d) (vpn_view ?d2)" "rested (vpn_view ?d2)"
      unfolding mark_view v
      by (rule calm_trans [OF conf moved_rested(6) [OF moved_rested(2)]], rule moved_rested(7) [OF moved_rested(2)])
    then show ?thesis using decided [OF retry(2)] calm_trans by blast
  next
    case (failed error d1)
    have v: "vpn_view d1 = moved set_configuring (vpn_view d)" using connect_once_result [OF failed(1)] by simp
    show ?thesis unfolding failed(4) mark_view v by (rule calm_trans [OF conf moved_rested(6) [OF moved_rested(2)]])
  next
    case (running d1)
    obtain t where "vpn_view d1 = moved (set_connected t) (moved set_configuring (vpn_view d))"
      using connect_once_result [OF running(1)] by auto
    then show ?thesis unfolding running(3) using calm_trans [OF conf moved_rested(3)] by simp
  next
    case (cancelled d1)
    obtain t where "vpn_view d1 = moved (set_connected t) (moved set_configuring (vpn_view d))"
      using connect_once_result [OF cancelled(1)] by auto
    then show ?thesis unfolding cancelled(3) mark_view
      using calm_trans [OF calm_trans [OF conf moved_rested(3)] moved_rested(5)] by simp
  qed
qed

lemma connect_loop_calm:
  "connect_loop N request as c d = (e, d') \<Longrightarrow> calm (vpn_view d) (vpn_view d')"
proof (induction as arbitrary: c d)
  case (Cons a as)
  obtain x d1 where s: "attempt_step N request a c d = (x, d1)" by fastforce
  then show ?case using Cons attempt_step_calm [OF s] calm_trans by (cases x) auto
qed (simp add: calm_refl)

text \<open>C39: the reconnect counter shown to clients never counts.  However many attempts the loop makes, every
  tunnel it publishes reports at most one reconnect attempt, because entering \<open>Configuring\<close> forgets the
  count of \<open>Reconnecting\<close>.\<close>

theorem reported_attempts_at_most_one:
  "\<exists>new. da_sent (snd (run_connect_loop N request inputs d)) = new @ da_sent d
    \<and> list_all (\<lambda>t. unat (pt_reconnect_attempts t) \<le> 1) new"
proof -
  have "calm (vpn_view d) (vpn_view (snd (run_connect_loop N request inputs d)))"
    unfolding run_connect_loop_def by (rule connect_loop_calm) (rule surjective_pairing)
  then show ?thesis by (simp add: calm_def vpn_view_def low_attempts_def [abs_def])
qed

end
