(* ===== verification/DaemonSteps.thy ===== *)
theory DaemonSteps
  imports DaemonLoop
begin

text \<open>
  The daemon under interleaving.  Every operation of \<open>src/crates/daemon/src/daemon.rs\<close> works on the state
  in sections that hold the mutex; a run of the daemon is a sequence of such sections, of RPC handlers and
  connect tasks in any order.  \<open>lock_section\<close> has one rule per section; the invariants hold after every
  one of them, and the races are runs.
\<close>

section \<open>Connecting\<close>

lemma ensure_machine_cases:
  assumes "ensure_machine N d = (r, d1)"
  obtains (kept) vm where "di_vpn (da_inner d) = Some vm" "r = Inr vm" "d1 = d"
  | (refused) "di_vpn (da_inner d) = None" "build_tenant_client (dn_http (ne_daemon N)) (di_auth (da_inner d)) = None"
      "r = Inl (Fault NotAuthenticated)" "d1 = d"
  | (created) client where "di_vpn (da_inner d) = None"
      "build_tenant_client (dn_http (ne_daemon N)) (di_auth (da_inner d)) = Some client"
      "r = Inr (vpn_machine_new (da_next d) client)"
      "d1 = on_inner (\<lambda>i. i\<lparr>di_vpn := Some (vpn_machine_new (da_next d) client)\<rparr>) (d\<lparr>da_next := da_next d + 1\<rparr>)"
  using assms by (auto simp: ensure_machine_def fresh_def Let_def split: option.splits)

lemma connect_tunnel_cases:
  assumes "connect_tunnel N request d = (r, d')"
  obtains (unauthenticated) "am_state (di_auth (da_inner d)) \<noteq> Authenticated \<or>
        di_vpn (da_inner d) = None \<and> build_tenant_client (dn_http (ne_daemon N)) (di_auth (da_inner d)) = None"
      "r = Inl (Fault NotAuthenticated)" "d' = d"
  | (busy) vm where "am_state (di_auth (da_inner d)) = Authenticated" "di_vpn (da_inner d) = Some vm"
      "\<not> can_connect (vm_state vm)" "r = Inl (Fault (InvalidArgument busy_message))" "d' = d"
  | (started) vm n where "am_state (di_auth (da_inner d)) = Authenticated"
      "case di_vpn (da_inner d) of None \<Rightarrow> True | Some v \<Rightarrow> can_connect (vm_state v)"
      "da_next d \<le> n" "n \<le> da_next d + 1" "vm_state vm = Connecting request" "vm_cancel_token vm = n"
      "r = Inr (to_tunnel_proto vm)"
      "d' = d\<lparr>da_inner := (da_inner d)\<lparr>di_vpn := Some vm, di_tunnel_task := Some (n + 1)\<rparr>,
         da_sent := to_tunnel_proto vm # da_sent d, da_next := n + 2,
         da_spawned := (n + 1, request, n) # da_spawned d\<rparr>"
proof (cases "am_state (di_auth (da_inner d)) = Authenticated")
  case False
  then show thesis using unauthenticated assms by (simp add: connect_tunnel_def)
next
  case True
  obtain r1 d1 where e: "ensure_machine N d = (r1, d1)" by fastforce
  note run = assms [unfolded connect_tunnel_def e]
  from e show thesis
  proof (cases rule: ensure_machine_cases)
    case (kept vm)
    show thesis
    proof (cases "can_connect (vm_state vm)")
      case False
      then show thesis using busy True kept run by simp
    next
      case c: True
      let ?vm = "set_connecting (da_next d) request (case build_tenant_client (dn_http (ne_daemon N)) (di_auth (da_inner d)) of
          Some client \<Rightarrow> vm\<lparr>vm_api_client := client\<rparr> | None \<Rightarrow> vm)"
      have f: "vm_state ?vm = Connecting request" "vm_cancel_token ?vm = da_next d"
        by (simp_all add: set_connecting_def into_connecting_def)
      show thesis
        by (rule started [where vm = ?vm and n = "da_next d"])
          (use True kept run c f in \<open>auto simp: Let_def fresh_def vpn_transition_def on_inner_def watched_def\<close>)    qed
  next
    case refused
    then show thesis using unauthenticated True run by simp
  next
    case (created client)
    let ?vm = "set_connecting (da_next d + 1) request (vpn_machine_new (da_next d) client)"
    have f: "vm_state ?vm = Connecting request" "vm_cancel_token ?vm = da_next d + 1"
      by (simp_all add: set_connecting_def into_connecting_def)
    show thesis
      by (rule started [where vm = ?vm and n = "da_next d + 1"])
        (use True created run f in \<open>auto simp: Let_def fresh_def vpn_transition_def on_inner_def watched_def
          vpn_machine_new_def can_connect_def\<close>)
  qed
qed



section \<open>Sections of the mutex\<close>

text \<open>The transitions a connect task makes.\<close>

datatype task_move = MoveConfiguring | MoveConnected active_tunnel | MoveReconnecting | MoveFailed string | MoveDisconnected

definition task_section :: "task_move \<Rightarrow> ('w, 'v, 'r) daemon \<Rightarrow> ('w, 'v, 'r) daemon" where
  "task_section mv d = (case mv of
      MoveConfiguring \<Rightarrow> vpn_transition set_configuring d
    | MoveConnected t \<Rightarrow> vpn_transition (set_connected t) d
    | MoveReconnecting \<Rightarrow> vpn_transition set_reconnecting d
    | MoveFailed e \<Rightarrow> mark_failed e d
    | MoveDisconnected \<Rightarrow> mark_disconnected d)"

text \<open>\<open>World\<close> is anything a task or handler does to the network, the files or the system outside the mutex.\<close>

inductive lock_section :: "('w, 'v, 'r, 'e, 'h) node_env \<Rightarrow> ('w, 'v, 'r) daemon \<Rightarrow> ('w, 'v, 'r) daemon \<Rightarrow> bool" for N where
  Connect: "connect_tunnel N request d = (r, d') \<Longrightarrow> lock_section N d d'"
| DisconnectBegin: "disconnect_begin d = (task, d') \<Longrightarrow> lock_section N d d'"
| DisconnectEnd: "disconnect_end d = (t, d') \<Longrightarrow> lock_section N d d'"
| Task: "lock_section N d (task_section mv d)"
| Auth: "on_auth (m :: ('w, unit) am_io) d = (x, d') \<Longrightarrow> lock_section N d d'"
| Configure: "lock_section N d (on_inner (\<lambda>i. i\<lparr>di_config := c\<rparr>) d)"
| Outbound: "lock_section N d (on_inner (\<lambda>i. i\<lparr>di_active_outbound := outbound\<rparr>) d)"
| TakeTask: "take_task d = (task, d') \<Longrightarrow> lock_section N d d'"
| Cancel: "di_vpn (da_inner d) = Some vm \<Longrightarrow> lock_section N d (cancel_token (vm_cancel_token vm) d)"
| World: "lock_section N d (d\<lparr>da_net := n, da_fs := files, da_os := os\<rparr>)"



definition tokens_ok :: "('w, 'v, 'r) daemon \<Rightarrow> bool" where
  "tokens_ok d \<longleftrightarrow> list_all (\<lambda>c. c < da_next d) (da_cancelled d)
     \<and> list_all (\<lambda>(task, _, c). task < da_next d \<and> c < da_next d) (da_spawned d)
     \<and> distinct (map (\<lambda>(_, _, c). c) (da_spawned d)) \<and> distinct (map fst (da_spawned d))
     \<and> (\<forall>vm. di_vpn (da_inner d) = Some vm \<longrightarrow> vm_cancel_token vm < da_next d)"

definition watch_ok :: "vpn_machine option \<times> pb_tunnel list \<Rightarrow> bool" where
  "watch_ok V \<longleftrightarrow> (case fst V of None \<Rightarrow> snd V = [] | Some vm \<Rightarrow> (\<exists>ts. snd V = to_tunnel_proto vm # ts))"

definition coherent :: "('w, 'v, 'r) daemon \<Rightarrow> bool" where
  "coherent d \<longleftrightarrow> watch_ok (vpn_view d) \<and> tokens_ok d"

lemma watch_ok_moved: "watch_ok V \<Longrightarrow> watch_ok (moved f V)"
  by (auto simp: watch_ok_def moved_def split: option.splits prod.splits)

lemma tokens_ok_transition:
  assumes "tokens_ok d" "\<And>vm. vm_cancel_token (f vm) = vm_cancel_token vm"
  shows "tokens_ok (vpn_transition f d)"
  using assms by (auto simp: tokens_ok_def vpn_transition_def on_inner_def split: option.splits)

lemma coherent_transition:
  "coherent d \<Longrightarrow> (\<And>vm. vm_cancel_token (f vm) = vm_cancel_token vm) \<Longrightarrow> coherent (vpn_transition f d)"
  by (simp add: coherent_def vpn_transition_view watch_ok_moved tokens_ok_transition)

lemma coherent_inner:
  "coherent d \<Longrightarrow> (\<And>i. di_vpn (f i) = di_vpn i) \<Longrightarrow> coherent (on_inner f d)"
  by (simp add: coherent_def vpn_view_def on_inner_def tokens_ok_def)

lemma coherent_cancel: "coherent d \<Longrightarrow> di_vpn (da_inner d) = Some vm \<Longrightarrow> coherent (cancel_token (vm_cancel_token vm) d)"
  by (simp add: coherent_def vpn_view_def cancel_token_def tokens_ok_def)

lemma coherent_take: "coherent d \<Longrightarrow> take_task d = (task, d') \<Longrightarrow> coherent d'"
  by (auto simp: take_task_def intro!: coherent_inner)

lemma coherent_task: "coherent d \<Longrightarrow> coherent (task_section mv d)"
  by (cases mv) (auto simp: task_section_def mark_failed_def mark_disconnected_def
      vm_defs intro!: coherent_transition coherent_inner)

lemma coherent_connect:
  assumes "coherent d" "connect_tunnel N request d = (r, d')"
  shows "coherent d'"
  using assms(2)
proof (cases rule: connect_tunnel_cases)
  case (started vm n)
  have t: "tokens_ok d" using assms(1) by (simp add: coherent_def)
  have s: "list_all (\<lambda>(task, _, c). task < n \<and> c < n) (da_spawned d)" "list_all (\<lambda>c. c < n) (da_cancelled d)"
    using t started(3) by (auto simp: tokens_ok_def list_all_iff)
  then have "n \<notin> (\<lambda>(_, _, c). c) ` set (da_spawned d)" "n + 1 \<notin> fst ` set (da_spawned d)"
    by (fastforce simp: list_all_iff)+
  moreover have "list_all (\<lambda>(task, _, c). task < n + 2 \<and> c < n + 2) (da_spawned d)" "list_all (\<lambda>c. c < n + 2) (da_cancelled d)"
    using s by (auto simp: list_all_iff)
  ultimately show ?thesis
    using t started(6,8) by (simp add: coherent_def vpn_view_def watch_ok_def tokens_ok_def)
qed (use assms(1) in simp_all)

lemma coherent_begin: "coherent d \<Longrightarrow> disconnect_begin d = (task, d') \<Longrightarrow> coherent d'"
  unfolding disconnect_begin_def
  by (erule coherent_take [rotated])
    (auto split: option.split intro!: coherent_transition coherent_cancel simp: vm_defs)

lemma coherent_end: "coherent d \<Longrightarrow> disconnect_end d = (t, d') \<Longrightarrow> coherent d'"
  by (auto simp: disconnect_end_def Let_def vm_defs intro!: coherent_transition)

lemma lock_section_coherent: "lock_section N d d' \<Longrightarrow> coherent d \<Longrightarrow> coherent d'"
proof (induction rule: lock_section.induct)
  case (Auth m d x d')
  then show ?case
    by (auto simp: on_auth_def coherent_def vpn_view_def on_inner_def tokens_ok_def split: prod.splits)
next
  case (World d n files os)
  then show ?case by (simp add: coherent_def vpn_view_def tokens_ok_def)
qed (auto intro: coherent_connect coherent_begin coherent_end coherent_task coherent_inner coherent_take coherent_cancel)

lemma daemon_new_coherent: "coherent (daemon_new N def pool config cp crp creds n files os)"
  by (auto simp: daemon_new_def coherent_def vpn_view_def watch_ok_def tokens_ok_def Let_def split: prod.splits option.splits)

lemma reachable_coherent:
  assumes "(lock_section N)\<^sup>*\<^sup>* (daemon_new N def pool config cp crp creds n files os) d"
  shows "coherent d"
  using assms by (induction rule: rtranclp_induct) (auto intro: daemon_new_coherent lock_section_coherent)

text \<open>C6: the watch channel never lies.  In every daemon that any interleaving of connects, disconnects, connect
  tasks, logins, configuration changes and system activity can reach, the last value sent to the watchers is
  the projection of the machine's current state (nothing while there is no machine), no two connect tasks
  share a cancellation token, and the token of the next connect is a new one.\<close>

theorem watch_channel_coherent:
  assumes "(lock_section N)\<^sup>*\<^sup>* (daemon_new N def pool config cp crp creds n files os) d"
  shows "watched d = (case di_vpn (da_inner d) of None \<Rightarrow> pb_tunnel_default | Some vm \<Rightarrow> to_tunnel_proto vm)
    \<and> distinct (map (\<lambda>(_, _, c). c) (da_spawned d))
    \<and> da_next d \<notin> set (da_cancelled d) \<union> (\<lambda>(_, _, c). c) ` set (da_spawned d)"
proof -
  have c: "coherent d" by (rule reachable_coherent [OF assms])
  then have "watched d = (case di_vpn (da_inner d) of None \<Rightarrow> pb_tunnel_default | Some vm \<Rightarrow> to_tunnel_proto vm)"
    by (auto simp: coherent_def watch_ok_def vpn_view_def watched_def split: option.splits)
  moreover have "da_next d \<notin> set (da_cancelled d) \<union> (\<lambda>(_, _, c). c) ` set (da_spawned d)"
    using c by (fastforce simp: coherent_def tokens_ok_def list_all_iff)
  ultimately show ?thesis using c by (simp add: coherent_def tokens_ok_def)
qed

definition fresh_daemon :: "((nat \<times> bytes), unit, ip_rule) daemon" where
  "fresh_daemon = daemon_new sample_node_env sample_identity (am_http_pool sample_machine) daemon_config_default
     [''config.json''] [''credentials.json''] (Some sample_credentials) (jar_net []) sample_fs sample_session_os"

theorem watch_channel_coherent_witness:
  "\<exists>d. (lock_section sample_node_env)\<^sup>*\<^sup>* fresh_daemon d \<and> pt_state (watched d) = TsConnecting
     \<and> (\<exists>vm. di_vpn (da_inner d) = Some vm \<and> watched d = to_tunnel_proto vm)"
proof -
  let ?d1 = "snd (on_auth restore_session fresh_daemon)"
  have auth: "am_state (di_auth (da_inner ?d1)) = Authenticated"
    by (simp add: on_auth_def fresh_daemon_def daemon_new_def restore_from_credentials_def sample_credentials_def
        restore_session_def on_inner_def)
  have none: "di_vpn (da_inner ?d1) = None"
    by (simp add: on_auth_def fresh_daemon_def daemon_new_def on_inner_def split: prod.splits)
  have client: "build_tenant_client (dn_http (ne_daemon sample_node_env)) (di_auth (da_inner ?d1)) \<noteq> None"
    by (simp add: on_auth_def fresh_daemon_def daemon_new_def restore_from_credentials_def sample_credentials_def
        restore_session_def on_inner_def build_tenant_client_def sample_node_env_def sample_daemon_env_def parse_base_url_def)
  obtain r d2 where run: "connect_tunnel sample_node_env sample_vpn_request ?d1 = (r, d2)" by fastforce
  have "lock_section sample_node_env fresh_daemon ?d1" by (rule lock_section.Auth) (rule surjective_pairing)
  moreover have "lock_section sample_node_env ?d1 d2" by (rule lock_section.Connect [OF run])
  ultimately have reach: "(lock_section sample_node_env)\<^sup>*\<^sup>* fresh_daemon d2" by simp
  from run have "\<exists>vm. di_vpn (da_inner d2) = Some vm \<and> vm_state vm = Connecting sample_vpn_request"
    by (cases rule: connect_tunnel_cases) (use auth none client in auto)
  moreover note watch_channel_coherent [OF reach [unfolded fresh_daemon_def]]
  ultimately show ?thesis using reach
    by (auto simp: to_tunnel_proto_def tunnel_of_request_def pb_tunnel_default_def)
qed

section \<open>Interleavings that lose a tunnel\<close>

definition live :: "('w, 'v, 'r) daemon \<Rightarrow> (nat \<times> vpn_request \<times> nat) list" where
  "live d = filter (\<lambda>(_, _, c). c \<notin> set (da_cancelled d)) (da_spawned d)"

lemma connect_from_rest:
  assumes "coherent d" "am_state (di_auth (da_inner d)) = Authenticated"
    and "di_vpn (da_inner d) = Some vm0" "can_connect (vm_state vm0)"
  obtains t d' vm task c where "connect_tunnel N request d = (Inr t, d')" "di_vpn (da_inner d') = Some vm"
    "vm_cancel_token vm = c" "di_tunnel_task (da_inner d') = Some task" "da_spawned d' = (task, request, c) # da_spawned d"
    "da_cancelled d' = da_cancelled d" "c \<notin> set (da_cancelled d)" "c \<notin> (\<lambda>(_, _, c). c) ` set (da_spawned d)"
    "di_auth (da_inner d') = di_auth (da_inner d)" "coherent d'"
proof -
  obtain r d' where run: "connect_tunnel N request d = (r, d')" by fastforce
  note coh = coherent_connect [OF assms(1) run]
  from run show thesis
  proof (cases rule: connect_tunnel_cases)
    case (started vm n)
    have "n \<notin> set (da_cancelled d)" "n \<notin> (\<lambda>(_, _, c). c) ` set (da_spawned d)"
      using assms(1) started(3) by (fastforce simp: coherent_def tokens_ok_def list_all_iff)+
    then show thesis using that [of "to_tunnel_proto vm" d' vm n "n + 1"] run started coh by simp
  qed (use assms in auto)
qed

text \<open>C36: a connect that arrives while a disconnect waits for the old task is lost.  \<open>disconnect_tunnel\<close> releases
  the mutex while it waits; when the old task has just marked the machine disconnected and another client connects
  in that window, the rest of the disconnect overwrites the new state: the machine and the watchers say
  \<open>Disconnected\<close> while the new task runs with a token that was not cancelled.  The next connect is accepted and
  starts a second loop, whose token and handle replace the first one's, so that no later disconnect reaches it.\<close>

theorem disconnect_race_two_loops:
  assumes "coherent d" "am_state (di_auth (da_inner d)) = Authenticated" "di_vpn (da_inner d) = Some vm"
    and "di_tunnel_task (da_inner d) = Some task"
  shows "\<exists>tun d1 t d2 t1 c1 t2 c2 vm2.
      disconnect_tunnel (\<lambda>_ x. snd (connect_tunnel N r1 (mark_disconnected x))) d = (Inr tun, d1)
    \<and> pt_state tun = TsDisconnected \<and> pt_state (watched d1) = TsDisconnected \<and> (t1, r1, c1) \<in> set (live d1)
    \<and> connect_tunnel N r2 d1 = (Inr t, d2) \<and> {(t1, r1, c1), (t2, r2, c2)} \<subseteq> set (live d2) \<and> c1 \<noteq> c2
    \<and> di_vpn (da_inner d2) = Some vm2 \<and> vm_cancel_token vm2 = c2 \<and> di_tunnel_task (da_inner d2) = Some t2"
proof -
  obtain dA where a: "disconnect_begin d = (Some task, dA)"
    using assms(3,4) by (auto simp: disconnect_begin_def take_task_def vpn_transition_def cancel_token_def on_inner_def)
  then obtain vmA where A: "di_vpn (da_inner dA) = Some vmA" "di_auth (da_inner dA) = di_auth (da_inner d)"
    using assms(3) by (auto simp: disconnect_begin_def take_task_def vpn_transition_def cancel_token_def on_inner_def)
  let ?dB = "mark_disconnected dA"
  have "coherent ?dB" using coherent_task [OF coherent_begin [OF assms(1) a], of MoveDisconnected]
    by (simp add: task_section_def)
  moreover have "am_state (di_auth (da_inner ?dB)) = Authenticated" "di_vpn (da_inner ?dB) = Some (set_disconnected vmA)"
    "can_connect (vm_state (set_disconnected vmA))"
    using A assms(2) by (simp_all add: mark_disconnected_def vpn_transition_def on_inner_def set_disconnected_def can_connect_def)
  ultimately obtain t dC vmC t1 c1 where C: "connect_tunnel N r1 ?dB = (Inr t, dC)" "di_vpn (da_inner dC) = Some vmC"
    "da_spawned dC = (t1, r1, c1) # da_spawned ?dB" "da_cancelled dC = da_cancelled ?dB" "c1 \<notin> set (da_cancelled ?dB)"
    "di_auth (da_inner dC) = di_auth (da_inner ?dB)" "coherent dC"
    using connect_from_rest [of ?dB "set_disconnected vmA" N r1] by metis
  obtain tun d1 where D: "disconnect_end dC = (tun, d1)" by fastforce
  then have d1: "d1 = vpn_transition set_disconnected dC" "tun = to_tunnel_proto (set_disconnected vmC)"
    "di_vpn (da_inner d1) = Some (set_disconnected vmC)" "da_spawned d1 = da_spawned dC" "da_cancelled d1 = da_cancelled dC"
    "watched d1 = tun" "di_auth (da_inner d1) = di_auth (da_inner dC)"
    using C(2) by (auto simp: disconnect_end_def Let_def vpn_transition_def on_inner_def watched_def)
  have dis: "pt_state tun = TsDisconnected" "can_connect (vm_state (set_disconnected vmC))"
    by (simp_all add: d1(2) set_disconnected_def to_tunnel_proto_def pb_tunnel_default_def can_connect_def)
  have "am_state (di_auth (da_inner d1)) = Authenticated"
    using d1(7) C(6) \<open>am_state (di_auth (da_inner ?dB)) = Authenticated\<close> by simp
  with coherent_end [OF C(7) D] d1(3) dis(2)
  obtain t' d2 vm2 t2 c2 where E: "connect_tunnel N r2 d1 = (Inr t', d2)" "di_vpn (da_inner d2) = Some vm2"
    "vm_cancel_token vm2 = c2" "di_tunnel_task (da_inner d2) = Some t2" "da_spawned d2 = (t2, r2, c2) # da_spawned d1"
    "da_cancelled d2 = da_cancelled d1" "c2 \<notin> set (da_cancelled d1)" "c2 \<notin> (\<lambda>(_, _, c). c) ` set (da_spawned d1)"
    using connect_from_rest [of d1 "set_disconnected vmC" N r2] by metis
  have "disconnect_tunnel (\<lambda>_ x. snd (connect_tunnel N r1 (mark_disconnected x))) d = (Inr tun, d1)"
    using a C(1) D by (simp add: disconnect_tunnel_def)
  moreover have "(t1, r1, c1) \<in> set (live d1)" using C(3-5) d1(4,5) by (simp add: live_def)
  moreover have "{(t1, r1, c1), (t2, r2, c2)} \<subseteq> set (live d2)" "c1 \<noteq> c2"
    using C(3-5) d1(4,5) E(5-8) by (auto simp: live_def)
  ultimately show ?thesis using E(1-4) dis(1) d1(6)
    by (intro exI [of _ tun] exI [of _ d1] exI [of _ t'] exI [of _ d2] exI [of _ t1] exI [of _ c1]
        exI [of _ t2] exI [of _ c2] exI [of _ vm2]) simp
qed

definition connected_daemon :: "((nat \<times> bytes), unit, ip_rule) daemon" where
  "connected_daemon = (let vm = \<lparr>vm_state = Connected sample_vpn_request \<lparr>at_dot_id = 1, at_dot_name = ''d'', at_endpoint = ''e'',
       at_assigned_ip = ''10.0.0.2'', at_protocol_mode = Udp\<rparr>, vm_api_client = sample_client signing_config_default,
       vm_tunnel_session = None, vm_cancel_token = 3\<rparr>
     in on_inner (\<lambda>i. i\<lparr>di_tunnel_task := Some 4\<rparr>) ((sample_daemon (Some vm))\<lparr>da_spawned := [(4, sample_vpn_request, 3)]\<rparr>))"

theorem disconnect_race_two_loops_witness:
  "\<exists>tun d1. disconnect_tunnel (\<lambda>_ x. snd (connect_tunnel sample_node_env sample_vpn_request (mark_disconnected x))) connected_daemon
      = (Inr tun, d1) \<and> pt_state tun = TsDisconnected \<and> live d1 \<noteq> []"
proof -
  have "coherent connected_daemon" "am_state (di_auth (da_inner connected_daemon)) = Authenticated"
    "\<exists>vm. di_vpn (da_inner connected_daemon) = Some vm" "di_tunnel_task (da_inner connected_daemon) = Some 4"
    by (auto simp: connected_daemon_def Let_def coherent_def watch_ok_def vpn_view_def tokens_ok_def on_inner_def sample_daemon_def)
  then obtain vm where "di_vpn (da_inner connected_daemon) = Some vm" by blast
  from disconnect_race_two_loops [OF \<open>coherent connected_daemon\<close> \<open>am_state _ = _\<close> this \<open>di_tunnel_task _ = _\<close>,
      of sample_node_env sample_vpn_request sample_vpn_request]
  obtain tun d1 t1 c1 where "disconnect_tunnel (\<lambda>_ x. snd (connect_tunnel sample_node_env sample_vpn_request (mark_disconnected x)))
      connected_daemon = (Inr tun, d1)" "pt_state tun = TsDisconnected" "(t1, sample_vpn_request, c1) \<in> set (live d1)"
    by blast
  then show ?thesis by (intro exI [of _ tun] exI [of _ d1]) auto
qed

end
