(* ===== verification/Services.thy ===== *)
theory Services
  imports DaemonSteps
begin

text \<open>
  The RPC services of the daemon (\<open>src/crates/daemon/src/service\<close>: \<open>auth.rs\<close>, \<open>vpn.rs\<close>, \<open>meta.rs\<close>).  A handler takes the fields of its request and the daemon and
  returns its answer with the daemon; the wrapping into response messages is generated code.
\<close>

section \<open>Common parts of the authentication handlers\<close>

type_synonym ('w, 'v, 'r, 'a) handler = "('w, 'v, 'r) daemon \<Rightarrow> (daemon_error, 'a) result \<times> ('w, 'v, 'r) daemon"

definition DEFAULT_LOGIN_SCENE :: string where "DEFAULT_LOGIN_SCENE = ''feilian''"

definition scene_of :: "string \<Rightarrow> string" where
  "scene_of scene = non_default_or [] scene DEFAULT_LOGIN_SCENE"

definition account_type_of :: "string \<Rightarrow> string" where
  "account_type_of t = non_default_or [] t ''account''"

definition current_session :: "('w, 'v, 'r) daemon \<Rightarrow> pb_session" where
  "current_session d = to_session_proto (di_auth (da_inner d))"

definition guarded :: "(('w, 'v, 'r) daemon \<Rightarrow> (daemon_error, unit) result) \<Rightarrow> ('w, 'v, 'r, 'a) handler \<Rightarrow> ('w, 'v, 'r, 'a) handler" where
  "guarded check h d = (case check d of Inl e \<Rightarrow> (Inl e, d) | Inr _ \<Rightarrow> h d)"

definition maybe_persist_and_broadcast :: "('w, 'v, 'r, 'e, 'h) node_env \<Rightarrow> ('w, 'v, 'r) daemon \<Rightarrow> ('w, 'v, 'r) daemon" where
  "maybe_persist_and_broadcast N d =
     (if am_state (di_auth (da_inner d)) = Authenticated then persist_credentials N d else d)"

definition tenant_client_of :: "('w, 'v, 'r, 'e, 'h) node_env \<Rightarrow> ('w, 'v, 'r) daemon \<Rightarrow> api_client option" where
  "tenant_client_of N d = build_tenant_client (dn_http (ne_daemon N)) (di_auth (da_inner d))"

definition maybe_fetch_totp :: "('w, 'v, 'r, 'e, 'h) node_env \<Rightarrow> ('w, 'v, 'r) daemon \<Rightarrow> ('w, 'v, 'r) daemon" where
  "maybe_fetch_totp N d = (case tenant_client_of N d of
      None \<Rightarrow> d
    | Some client \<Rightarrow> (case fetch_totp (dn_http (ne_daemon N)) (dn_dec (ne_daemon N)) client (da_net d) of
        (Inr (Some config), n) \<Rightarrow> snd (on_auth (set_totp (Some config)) (d\<lparr>da_net := n\<rparr>))
      | (_, n) \<Rightarrow> d\<lparr>da_net := n\<rparr>))"

definition green_item :: "string \<Rightarrow> json_object option \<Rightarrow> security_report_item" where
  "green_item key data = \<lparr>sri_key = key, sri_level = 0, sri_data = data\<rparr>"

definition all_green_security_report :: security_report_request where
  "all_green_security_report = \<lparr>srq_status = None, srq_items =
     [green_item ''root'' None, green_item ''certificate'' None, green_item ''wifi'' None,
      green_item ''wifi_wep'' None, green_item ''network'' (Some []), green_item ''password'' None,
      green_item ''lock_image'' None, green_item ''debug_off'' (Some [(''usbStatus'', JNumber (NInt (- 1)))]),
      green_item ''debug_on'' (Some [(''usbStatus'', JNumber (NInt (- 1)))])], srq_raw = None\<rparr>"

definition maybe_report_security :: "('w, 'v, 'r, 'e, 'h) node_env \<Rightarrow> ('w, 'v, 'r) daemon \<Rightarrow> ('w, 'v, 'r) daemon" where
  "maybe_report_security N d = (case tenant_client_of N d of
      None \<Rightarrow> d
    | Some client \<Rightarrow> d\<lparr>da_net := snd (send (dn_http (ne_daemon N)) (dec_string_result (dn_dec (ne_daemon N))) client
        (SecurityReportRequest all_green_security_report) (da_net d))\<rparr>)"

definition post_login :: "('w, 'v, 'r, 'e, 'h) node_env \<Rightarrow> ('w, 'v, 'r) daemon \<Rightarrow> ('w, 'v, 'r) daemon" where
  "post_login N d = (if am_state (di_auth (da_inner d)) \<noteq> Authenticated then d
     else maybe_report_security N (maybe_fetch_totp N d))"

text \<open>The handlers that end a login step: the operation, the side effects, the session.\<close>

definition login_op :: "('w, 'v, 'r, 'e, 'h) node_env \<Rightarrow> ('w, unit) am_io \<Rightarrow> ('w, 'v, 'r, pb_session) handler" where
  "login_op N op d = (case on_auth op d of
      (Inl e, d1) \<Rightarrow> (Inl e, d1)
    | (Inr _, d1) \<Rightarrow> (let d2 = maybe_persist_and_broadcast N (post_login N d1) in (Inr (current_session d2), d2)))"

section \<open>AuthService\<close>

definition rpc_get_session :: "('w, 'v, 'r, pb_session) handler" where
  "rpc_get_session d = (Inr (current_session d), d)"

definition rpc_activate ::
  "('w, 'v, 'r, 'e, 'h) node_env \<Rightarrow> string option \<Rightarrow> string option \<Rightarrow> string option \<Rightarrow> string option
   \<Rightarrow> ('w, 'v, 'r, pb_session) handler" where
  "rpc_activate N code base_url backup_url match_base_url d =
     (case on_auth (am_activate (ne_daemon N) (unwrap_or code []) base_url backup_url match_base_url) d of
        (Inl e, d1) \<Rightarrow> (Inl e, d1)
      | (Inr _, d1) \<Rightarrow>
          (let d2 = snd (on_auth (refresh_login_api_version (ne_daemon N)) d1);
               d3 = maybe_persist_and_broadcast N d2
           in (Inr (current_session d3), d3)))"

definition rpc_login ::
  "('w, 'v, 'r, 'e, 'h) node_env \<Rightarrow> string \<Rightarrow> string \<Rightarrow> string \<Rightarrow> string \<Rightarrow> ('w, 'v, 'r, pb_session) handler" where
  "rpc_login N account password scene account_type =
     guarded require_configured (login_op N
       (am_login (ne_daemon N) account password (scene_of scene) (account_type_of account_type)))"

definition rpc_request_login_code ::
  "('w, 'v, 'r, 'e, 'h) node_env \<Rightarrow> string \<Rightarrow> login_code_type option \<Rightarrow> string \<Rightarrow> string
   \<Rightarrow> ('w, 'v, 'r, string) handler" where
  "rpc_request_login_code N account login_type scene account_type =
     guarded require_configured (\<lambda>d. case on_auth (am_send_login_code (ne_daemon N) account
         (login_code_type_wire (unwrap_or login_type CodeTypeUnspecified)) (scene_of scene) (account_type_of account_type)) d of
       (r, d1) \<Rightarrow> (res_bind r (\<lambda>_. Inr []), d1))"

definition rpc_verify_login_code ::
  "('w, 'v, 'r, 'e, 'h) node_env \<Rightarrow> string \<Rightarrow> string \<Rightarrow> login_code_type option \<Rightarrow> string \<Rightarrow> string
   \<Rightarrow> ('w, 'v, 'r, pb_session) handler" where
  "rpc_verify_login_code N account code login_type scene account_type =
     guarded require_configured (login_op N (am_verify_login_code (ne_daemon N) account code
       (login_code_type_wire (unwrap_or login_type CodeTypeUnspecified)) (scene_of scene) (account_type_of account_type)))"

definition rpc_request_mfa_code ::
  "('w, 'v, 'r, 'e, 'h) node_env \<Rightarrow> string \<Rightarrow> string \<Rightarrow> string \<Rightarrow> ('w, 'v, 'r, string) handler" where
  "rpc_request_mfa_code N mfa_type account scene =
     guarded require_configured (\<lambda>d. case on_auth (am_send_mfa_code (ne_daemon N) mfa_type account (scene_of scene)) d of
       (r, d1) \<Rightarrow> (res_bind r (\<lambda>_. Inr []), d1))"

definition rpc_verify_mfa ::
  "('w, 'v, 'r, 'e, 'h) node_env \<Rightarrow> string \<Rightarrow> string \<Rightarrow> string option \<Rightarrow> string option \<Rightarrow> string
   \<Rightarrow> ('w, 'v, 'r, pb_session) handler" where
  "rpc_verify_mfa N mfa_type account code password scene =
     guarded require_configured (login_op N (am_verify_mfa (ne_daemon N) mfa_type account code password (scene_of scene)))"

definition rpc_skip_pending_challenge ::
  "('w, 'v, 'r, 'e, 'h) node_env \<Rightarrow> string \<Rightarrow> ('w, 'v, 'r, pb_session) handler" where
  "rpc_skip_pending_challenge N scene =
     guarded require_configured (login_op N (am_skip_challenge (ne_daemon N) (scene_of scene)))"

record third_party_provider =
  tpp_alias_key :: string
  tpp_name :: string
  tpp_login_url :: string
  tpp_is_custom :: bool
  tpp_supports_poll :: bool

definition provider_of_info :: "third_party_login_info \<Rightarrow> third_party_provider" where
  "provider_of_info info =
     \<lparr>tpp_alias_key = unwrap_or (or_else (tp_alias_key info) (tp_alias info)) [],
      tpp_name = unwrap_or (or_else (tp_name info) (tp_full_title info)) [],
      tpp_login_url = unwrap_or (or_else (tp_login_url info) (tp_url info)) [],
      tpp_is_custom = unwrap_or (tp_is_custom info) False, tpp_supports_poll = (tp_token info \<noteq> None)\<rparr>"

definition rpc_list_third_party_providers ::
  "('w, 'v, 'r, 'e, 'h) node_env \<Rightarrow> ('w, 'v, 'r, third_party_provider list) handler" where
  "rpc_list_third_party_providers N = guarded require_configured (\<lambda>d.
     case tenant_client_of N d of
       None \<Rightarrow> (Inl (Fault NotConfigured), d)
     | Some client \<Rightarrow> (case third_party_login_links (dn_http (ne_daemon N)) (dn_dec (ne_daemon N)) (dn_b64url (ne_daemon N))
           (dn_random (ne_daemon N) (net_world (da_net d))) client (da_net d) of
         (r, n) \<Rightarrow> (res_bind (map_err (from_core_auth_error (dn_disp (ne_daemon N))) r)
            (\<lambda>links. Inr (map provider_of_info (unwrap_or (br_data (tpl_response links)) []))), d\<lparr>da_net := n\<rparr>)))"

text \<open>The answer is the login URL and the state.\<close>

definition rpc_start_third_party_login ::
  "('w, 'v, 'r, 'e, 'h) node_env \<Rightarrow> string \<Rightarrow> ('w, 'v, 'r, string \<times> string) handler" where
  "rpc_start_third_party_login N alias_key = guarded require_configured (\<lambda>d.
     case on_auth (am_start_oauth (ne_daemon N) alias_key) d of
       (r, d1) \<Rightarrow> (res_bind r (\<lambda>_. Inr (case am_oauth_pending (di_auth (da_inner d1)) of
          None \<Rightarrow> ([], []) | Some p \<Rightarrow> (oap_url p, oap_oauth_state p))), d1))"

definition rpc_complete_third_party_login ::
  "('w, 'v, 'r, 'e, 'h) node_env \<Rightarrow> string \<Rightarrow> string \<Rightarrow> ('w, 'v, 'r, pb_session) handler" where
  "rpc_complete_third_party_login N code st =
     guarded require_configured (login_op N (am_complete_oauth (ne_daemon N) code st))"

definition rpc_start_device_login ::
  "('w, 'v, 'r, 'e, 'h) node_env \<Rightarrow> string \<Rightarrow> ('w, 'v, 'r, pb_session \<times> string) handler" where
  "rpc_start_device_login N alias_key = guarded require_configured (\<lambda>d.
     case on_auth (am_start_device_login (ne_daemon N) alias_key) d of
       (r, d1) \<Rightarrow> (res_bind r (\<lambda>_. Inr (current_session d1, (case am_device_login_pending (di_auth (da_inner d1)) of
          None \<Rightarrow> [] | Some p \<Rightarrow> dlp_login_url p))), d1))"

definition POLL_INTERVAL :: duration where "POLL_INTERVAL = from_secs 2"
definition POLL_TIMEOUT :: duration where "POLL_TIMEOUT = from_mins 2"

text \<open>The polling loop; each element of the list is the time one request takes.  \<open>None\<close> when the loop would
  go on after the last.\<close>

fun poll_token ::
  "('w, 'v, 'r, 'e, 'h) node_env \<Rightarrow> api_client \<Rightarrow> string \<Rightarrow> duration \<Rightarrow> duration \<Rightarrow> duration list
   \<Rightarrow> 'w net \<Rightarrow> (daemon_error, unit) result option \<times> 'w net" where
  "poll_token N client token deadline now delays n =
     (if now \<ge> deadline
      then (Some (Inl (Fault (Unavailable ''device login timed out waiting for user''))), n)
      else (case delays of
         [] \<Rightarrow> (None, n)
       | t # ts \<Rightarrow> (case send (dn_http (ne_daemon N)) (dec_login_result (dn_dec (ne_daemon N))) client
             (ThirdPartyTokenCheckRequest token) n of
           (Inr _, n1) \<Rightarrow> (Some (Inr ()), n1)
         | (Inl _, n1) \<Rightarrow> poll_token N client token deadline (now + t + POLL_INTERVAL) ts n1)))"

definition rpc_complete_device_login ::
  "('w, 'v, 'r, 'e, 'h) node_env \<Rightarrow> duration \<Rightarrow> duration list
   \<Rightarrow> ('w, 'v, 'r) daemon \<Rightarrow> (daemon_error, pb_session) result option \<times> ('w, 'v, 'r) daemon" where
  "rpc_complete_device_login N now delays d = (case require_configured d of
      Inl e \<Rightarrow> (Some (Inl e), d)
    | Inr _ \<Rightarrow> (case am_device_login_pending (di_auth (da_inner d)) of
        None \<Rightarrow> (Some (Inl (Fault (InvalidArgument ''no pending device login flow''))), d)
      | Some pending \<Rightarrow> (case tenant_client_of N d of
          None \<Rightarrow> (Some (Inl (Fault NotConfigured)), d)
        | Some client \<Rightarrow> (case poll_token N client (dlp_poll_token pending) (now + POLL_TIMEOUT) now delays (da_net d) of
            (None, n) \<Rightarrow> (None, d\<lparr>da_net := n\<rparr>)
          | (Some (Inl e), n) \<Rightarrow> (Some (Inl e), d\<lparr>da_net := n\<rparr>)
          | (Some (Inr _), n) \<Rightarrow> (case login_op N complete_device_login (d\<lparr>da_net := n\<rparr>) of (r, d2) \<Rightarrow> (Some r, d2))))))"

definition rpc_logout :: "('w, 'v, 'r, 'e, 'h) node_env \<Rightarrow> bool \<Rightarrow> ('w, 'v, 'r, pb_session) handler" where
  "rpc_logout N logout_all = guarded require_configured (\<lambda>d.
     let d1 = delete_credentials (snd (on_auth (am_logout (ne_daemon N) logout_all) d)) in (Inr (current_session d1), d1))"

declare poll_token.simps [simp del]

section \<open>VpnService\<close>

definition rpc_get_tunnel :: "('w, 'v, 'r, pb_tunnel) handler" where
  "rpc_get_tunnel d = (Inr (case di_vpn (da_inner d) of None \<Rightarrow> pb_tunnel_default | Some vm \<Rightarrow> to_tunnel_proto vm), d)"

definition rpc_connect_tunnel ::
  "('w, 'v, 'r, 'e, 'h) node_env \<Rightarrow> pb_vpn_mode option \<Rightarrow> pb_protocol_mode option \<Rightarrow> int option \<Rightarrow> string option \<Rightarrow> bool
   \<Rightarrow> ('w, 'v, 'r, pb_tunnel) handler" where
  "rpc_connect_tunnel N mode protocol_mode location_id otp reconnect =
     connect_tunnel N (vpn_request_from_proto mode protocol_mode location_id otp reconnect)"

definition rpc_disconnect_tunnel ::
  "(nat \<Rightarrow> ('w, 'v, 'r) daemon \<Rightarrow> ('w, 'v, 'r) daemon) \<Rightarrow> ('w, 'v, 'r, pb_tunnel) handler" where
  "rpc_disconnect_tunnel finish = disconnect_tunnel finish"

text \<open>A query of the tenant: the guard, the client, the request.\<close>

definition tenant_query ::
  "('w, 'v, 'r, 'e, 'h) node_env \<Rightarrow> (decoders \<Rightarrow> bytes \<Rightarrow> 'b base_response option) \<Rightarrow> api_request
   \<Rightarrow> (api_client \<Rightarrow> 'b option \<Rightarrow> ('w, 'v, 'r, 'a) handler) \<Rightarrow> ('w, 'v, 'r, 'a) handler" where
  "tenant_query N dec request f = guarded require_authenticated (\<lambda>d. case tenant_client_of N d of
      None \<Rightarrow> (Inl (Fault NotAuthenticated), d)
    | Some client \<Rightarrow> (case send (dn_http (ne_daemon N)) (dec (dn_dec (ne_daemon N))) client request (da_net d) of
        (Inl e, n) \<Rightarrow> (Inl (from_vpn_error (dn_disp (ne_daemon N)) (VpnApi e)), d\<lparr>da_net := n\<rparr>)
      | (Inr resp, n) \<Rightarrow> f client (br_data resp) (d\<lparr>da_net := n\<rparr>)))"

definition rpc_list_vpn_locations :: "('w, 'v, 'r, 'e, 'h) node_env \<Rightarrow> ('w, 'v, 'r, pb_vpn_location list) handler" where
  "rpc_list_vpn_locations N = tenant_query N dec_vpn_locations GetVpnLocationsRequest
     (\<lambda>_ data d. (Inr (map project_vpn_location (unwrap_or data [])), d))"

text \<open>\<open>duration_ms\<close>: whole milliseconds, at most \<open>i32::MAX\<close>.\<close>

definition duration_ms :: "duration option \<Rightarrow> int \<Rightarrow> int" where
  "duration_ms v fallback = (case v of None \<Rightarrow> fallback
    | Some d \<Rightarrow> (let ms = int (d div 1000000) in if ms < 2 ^ 31 then ms else 2 ^ 31 - 1))"

record dot_latency =
  dl_dot_id :: int
  dl_dot_name :: string
  dl_latency_ms :: int
  dl_reachable :: bool

definition dot_latency_of :: "vpn_dot \<Rightarrow> duration option \<Rightarrow> dot_latency" where
  "dot_latency_of dot rtt = \<lparr>dl_dot_id = unwrap_or (dot_id dot) 0, dl_dot_name = unwrap_or (dot_name dot) [],
     dl_latency_ms = duration_ms rtt 0, dl_reachable = (rtt \<noteq> None)\<rparr>"

text \<open>The results in the order the tasks finish, up to the first that failed to join.\<close>

fun collect_results :: "(nat \<Rightarrow> duration option \<Rightarrow> dot_latency) \<Rightarrow> (unit + nat \<times> duration option) list \<Rightarrow> dot_latency list" where
  "collect_results f [] = []"
| "collect_results f (Inl _ # js) = []"
| "collect_results f (Inr (index, rtt) # js) = f index rtt # collect_results f js"

definition cmp_dot_latency :: "dot_latency \<Rightarrow> dot_latency \<Rightarrow> ordering" where
  "cmp_dot_latency a b =
     (if dl_reachable a \<and> \<not> dl_reachable b then Less
      else if \<not> dl_reachable a \<and> dl_reachable b then Greater
      else if dl_latency_ms a < dl_latency_ms b then Less
      else if dl_latency_ms a = dl_latency_ms b then Equal else Greater)"

definition rpc_probe_dot_latency :: "('w, 'v, 'r, 'e, 'h) node_env \<Rightarrow> ('w, 'v, 'r, dot_latency list) handler" where
  "rpc_probe_dot_latency N = tenant_query N dec_vpn_locations GetVpnLocationsRequest (\<lambda>client data d.
     let dots = unwrap_or data [];
         (r, n) = send (dn_http (ne_daemon N)) (dec_vpn_setting (dn_dec (ne_daemon N))) client GetVpnSettingRequest (da_net d);
         i = da_inner d;
         probe = dot_probe_client N (am_http_pool (di_auth i)) (build_hooks (di_auth i)) (vpn_domain_of r)
           (dc_outbound_interface (di_config i));
         (joined, n1) = ne_probe N probe dots n;
         results = collect_results (\<lambda>index rtt. let dot = dots ! index in
           dot_latency_of dot (if probe dot = None then None else rtt)) joined
     in (Inr (sort_by cmp_dot_latency results), d\<lparr>da_net := n1\<rparr>))"

definition rpc_watch_tunnel :: "('w, 'v, 'r) daemon \<Rightarrow> pb_tunnel" where
  "rpc_watch_tunnel d = watched d"

section \<open>MetaService\<close>

definition rpc_ping :: "string \<Rightarrow> duration \<Rightarrow> string \<times> int" where
  "rpc_ping version elapsed = (version, uptime_seconds elapsed)"

definition rpc_get_user_info :: "('w, 'v, 'r, 'e, 'h) node_env \<Rightarrow> ('w, 'v, 'r, pb_user_info) handler" where
  "rpc_get_user_info N = tenant_query N dec_user_info GetUserInfoRequest
     (\<lambda>_ data d. (Inr (project_user_info data), d))"

definition rpc_get_configuration :: "('w, 'v, 'r, pb_configuration) handler" where
  "rpc_get_configuration d = (Inr (to_configuration_proto (di_config (da_inner d))), d)"

definition trimmed_opt :: "string \<Rightarrow> string option" where
  "trimmed_opt s = (let t = trim s in if t = [] then None else Some t)"

definition update_config :: "pb_configuration \<Rightarrow> daemon_config \<Rightarrow> daemon_config" where
  "update_config u c =
     (let c1 = (case pcf_auto_reconnect_on_start u of None \<Rightarrow> c | Some v \<Rightarrow> c\<lparr>dc_auto_reconnect := v\<rparr>);
          c2 = (case pcf_outbound_interface u of None \<Rightarrow> c1
            | Some sel \<Rightarrow> c1\<lparr>dc_outbound_interface := (case sel of
                SelName name \<Rightarrow> if name \<noteq> [] then Some name else None | SelAuto \<Rightarrow> None)\<rparr>);
          c3 = (case pcf_tun_interface u of None \<Rightarrow> c2 | Some v \<Rightarrow> c2\<lparr>dc_tun_interface := trimmed_opt v\<rparr>);
          c4 = (case pcf_dns_listen_port u of None \<Rightarrow> c3
            | Some port \<Rightarrow> c3\<lparr>dc_dns_listen_port := (if port > 0 then Some port else None)\<rparr>);
          c5 = (case pcf_dns_listen_host u of None \<Rightarrow> c4 | Some v \<Rightarrow> c4\<lparr>dc_dns_listen_host := trimmed_opt v\<rparr>)
      in case pcf_route_system_dns u of None \<Rightarrow> c5 | Some v \<Rightarrow> c5\<lparr>dc_route_system_dns := Some v\<rparr>)"

definition rpc_update_configuration ::
  "('w, 'v, 'r, 'e, 'h) node_env \<Rightarrow> (nat \<Rightarrow> ('w, 'v, 'r) daemon \<Rightarrow> ('w, 'v, 'r) daemon) \<Rightarrow> pb_configuration
   \<Rightarrow> ('w, 'v, 'r, pb_configuration) handler" where
  "rpc_update_configuration N finish u d =
     (let d1 = on_inner (\<lambda>i. i\<lparr>di_config := update_config u (di_config i)\<rparr>) d;
          d2 = persist_config N d1;
          d3 = reconnect_if_outbound_changed N finish d2
      in (Inr (to_configuration_proto (di_config (da_inner d3))), d3))"

record pb_network_interface =
  pni_name :: string
  pni_index :: u32
  pni_is_up :: bool
  pni_is_loopback :: bool
  pni_has_gateway :: bool
  pni_is_default :: bool
  pni_ipv4_addrs :: "string list"
  pni_ipv6_addrs :: "string list"

definition ip_to_string :: "ip_addr \<Rightarrow> string" where
  "ip_to_string a = (case a of V4 a \<Rightarrow> ipv4_to_string a | V6 a \<Rightarrow> ipv6_to_string a)"

definition rpc_list_network_interfaces :: "host_os \<Rightarrow> pb_network_interface list \<times> string" where
  "rpc_list_network_interfaces os = (let interfaces = list_interfaces os in
     (map (\<lambda>info. \<lparr>pni_name = ii_name info, pni_index = ii_index info, pni_is_up = ii_is_up info,
          pni_is_loopback = ii_is_loopback info, pni_has_gateway = ii_has_gateway info,
          pni_is_default = ii_is_default info, pni_ipv4_addrs = map ip_to_string (ii_ipv4_addrs info),
          pni_ipv6_addrs = map ip_to_string (ii_ipv6_addrs info)\<rparr>) interfaces,
      case find ii_is_default interfaces of None \<Rightarrow> [] | Some i \<Rightarrow> ii_name i))"

section \<open>The device login ends\<close>

lemma poll_token_ends:
  "deadline \<le> now + length delays * POLL_INTERVAL \<Longrightarrow>
   \<exists>r. fst (poll_token N client token deadline now delays n) = Some r
     \<and> (r = Inr () \<or> r = Inl (Fault (Unavailable ''device login timed out waiting for user'')))"
proof (induction delays arbitrary: now n)
  case Nil
  then show ?case by (simp add: poll_token.simps)
next
  case (Cons t ts)
  show ?case
  proof (cases "now \<ge> deadline")
    case True
    then show ?thesis by (simp add: poll_token.simps)
  next
    case False
    have "deadline \<le> now + t + POLL_INTERVAL + length ts * POLL_INTERVAL" using Cons.prems by simp
    then show ?thesis using Cons.IH [of "now + t + POLL_INTERVAL"] False
      by (auto simp: poll_token.simps [of N client token deadline now "t # ts"] split: prod.splits sum.splits)
  qed
qed



end
