(* ===== verification/Serde.thy ===== *)
theory Serde
  imports OrderedMap ApiModels
begin

text \<open>
  The data format of the program's files and messages: what the \<open>Serialize\<close> and \<open>Deserialize\<close>
  derives of the sources mean, over the JSON values of ApiModels.  A decoder returns \<open>None\<close> where serde reports an
  error.  Reading and writing JSON text is \<open>serde_json\<close>'s and a parameter (\<open>json_text\<close>); a parsed object keeps the
  entries of its text in their order, repeated keys included.

  A struct is read from an object, by the names of its fields, or from an array, by their position.  Unknown names are
  ignored; a name that occurs twice, under one spelling or two, is an error; an absent field has its default, is
  \<open>None\<close>, or is an error, as the attributes of the field say.
\<close>

type_synonym 'a de = "json \<Rightarrow> 'a option"
type_synonym entries = "(string \<times> json) list"

section \<open>Values\<close>

text \<open>\<open>serde_json::Value\<close>: objects are maps sorted by their keys, in which the last entry of a key stands.\<close>

fun norm_value :: "json \<Rightarrow> json" where
  "norm_value (JArray xs) = JArray (map norm_value xs)"
| "norm_value (JObject kvs) = JObject (bt_from_list (map (\<lambda>kv. (fst kv, norm_value (snd kv))) kvs))"
| "norm_value j = j"

definition de_value :: "json de" where
  "de_value j = Some (norm_value j)"

definition de_string :: "string de" where
  "de_string j = (case j of JString s \<Rightarrow> Some s | _ \<Rightarrow> None)"

definition de_bool :: "bool de" where
  "de_bool j = (case j of JBool b \<Rightarrow> Some b | _ \<Rightarrow> None)"

definition de_int :: "(int \<Rightarrow> bool) \<Rightarrow> int de" where
  "de_int ok j = (case j of JNumber (NInt n) \<Rightarrow> if ok n then Some n else None | _ \<Rightarrow> None)"

definition de_u32 :: "u32 de" where
  "de_u32 j = map_option of_int (de_int (\<lambda>n. 0 \<le> n \<and> n < 2 ^ 32) j)"

definition de_option :: "'a de \<Rightarrow> 'a option de" where
  "de_option d j = (if j = JNull then Some None else map_option Some (d j))"

definition de_vec :: "'a de \<Rightarrow> 'a list de" where
  "de_vec d j = (case j of JArray xs \<Rightarrow> those (map d xs) | _ \<Rightarrow> None)"

text \<open>A \<open>BTreeMap\<close>, or a \<open>HashMap\<close> with its entries in the order of the keys.\<close>

definition de_map :: "'a de \<Rightarrow> (string \<times> 'a) list de" where
  "de_map d j = (case j of
      JObject kvs \<Rightarrow> map_option bt_from_list (those (map (\<lambda>(k, v). map_option (Pair k) (d v)) kvs))
    | _ \<Rightarrow> None)"

definition de_json_object :: "json_object de" where
  "de_json_object = de_map de_value"

text \<open>A variant without fields is its name, or an object that maps the name to null.\<close>

definition de_enum :: "(string \<times> 'a) list \<Rightarrow> 'a de" where
  "de_enum variants j = (case j of
      JString v \<Rightarrow> map_of variants v
    | JObject [(v, JNull)] \<Rightarrow> map_of variants v
    | _ \<Rightarrow> None)"

section \<open>Structs\<close>

datatype source = Named entries | Positional "json list"

type_synonym 'a reader = "source \<Rightarrow> ('a \<times> source) option"

definition named :: "string list \<Rightarrow> entries \<Rightarrow> json list" where
  "named names kvs = map snd (filter (\<lambda>kv. fst kv \<in> set names) kvs)"

text \<open>\<open>field names absent missing d\<close>: the field with these spellings, which is \<open>absent\<close> when no entry has it and
  \<open>missing\<close> when the array is too short.\<close>

fun field :: "string list \<Rightarrow> 'a option \<Rightarrow> 'a option \<Rightarrow> 'a de \<Rightarrow> 'a reader" where
  "field names absent missing d (Named kvs) = (case named names kvs of
      [] \<Rightarrow> map_option (\<lambda>x. (x, Named kvs)) absent
    | [v] \<Rightarrow> map_option (\<lambda>x. (x, Named kvs)) (d v)
    | _ \<Rightarrow> None)"
| "field names absent missing d (Positional []) = map_option (\<lambda>x. (x, Positional [])) missing"
| "field names absent missing d (Positional (v # vs)) = map_option (\<lambda>x. (x, Positional vs)) (d v)"

definition required :: "string list \<Rightarrow> 'a de \<Rightarrow> 'a reader" where
  "required names d = field names None None d"

definition optional :: "string list \<Rightarrow> 'a de \<Rightarrow> 'a option reader" where
  "optional names d = field names (Some None) None (de_option d)"

definition defaulted :: "string list \<Rightarrow> 'a \<Rightarrow> 'a de \<Rightarrow> 'a reader" where
  "defaulted names x d = field names (Some x) (Some x) d"

definition opt_defaulted :: "string list \<Rightarrow> 'a de \<Rightarrow> 'a option reader" where
  "opt_defaulted names d = defaulted names None (de_option d)"

definition rd_return :: "'a \<Rightarrow> 'a reader" where
  "rd_return x s = Some (x, s)"

definition rd_bind :: "'a reader \<Rightarrow> ('a \<Rightarrow> 'b reader) \<Rightarrow> 'b reader" where
  "rd_bind r f s = (case r s of None \<Rightarrow> None | Some (x, s') \<Rightarrow> f x s')"

definition de_struct :: "'a reader \<Rightarrow> 'a de" where
  "de_struct r j = (case j of
      JObject kvs \<Rightarrow> map_option fst (r (Named kvs))
    | JArray xs \<Rightarrow> (case r (Positional xs) of Some (x, Positional []) \<Rightarrow> Some x | _ \<Rightarrow> None)
    | _ \<Rightarrow> None)"

section \<open>Serialisation\<close>

definition ser_option :: "('a \<Rightarrow> json) \<Rightarrow> 'a option \<Rightarrow> json" where
  "ser_option f x = (case x of None \<Rightarrow> JNull | Some y \<Rightarrow> f y)"

definition ser_vec :: "('a \<Rightarrow> json) \<Rightarrow> 'a list \<Rightarrow> json" where
  "ser_vec f xs = JArray (map f xs)"

definition ser_map :: "('a \<Rightarrow> json) \<Rightarrow> (string \<times> 'a) list \<Rightarrow> json" where
  "ser_map f m = JObject (map (\<lambda>(k, v). (k, f v)) m)"

definition ser_int :: "int \<Rightarrow> json" where
  "ser_int n = JNumber (NInt n)"

text \<open>A field under \<open>skip_serializing_none\<close>.\<close>

definition some_entry :: "string \<Rightarrow> ('a \<Rightarrow> json) \<Rightarrow> 'a option \<Rightarrow> entries" where
  "some_entry k f x = (case x of None \<Rightarrow> [] | Some y \<Rightarrow> [(k, f y)])"

text \<open>The text of JSON values: \<open>to_vec\<close> or \<open>to_vec_pretty\<close>, \<open>from_slice\<close> and \<open>from_str\<close>.\<close>

record json_text =
  jt_to_vec :: "json \<Rightarrow> bytes"
  jt_to_vec_pretty :: "json \<Rightarrow> bytes"
  jt_from_slice :: "bytes \<Rightarrow> json option"
  jt_from_str :: "string \<Rightarrow> json option"

definition from_slice :: "json_text \<Rightarrow> 'a de \<Rightarrow> bytes \<Rightarrow> 'a option" where
  "from_slice T d bs = Option.bind (jt_from_slice T bs) d"

definition from_str :: "json_text \<Rightarrow> 'a de \<Rightarrow> string \<Rightarrow> 'a option" where
  "from_str T d s = Option.bind (jt_from_str T s) d"

section \<open>Facts\<close>

named_theorems serde \<open>evaluation of decoders on serialised values\<close>

lemma named_Nil [serde]: "named names [] = []"
  by (simp add: named_def)

lemma named_Cons [serde]: "named names ((k, v) # kvs) = (if k \<in> set names then v # named names kvs else named names kvs)"
  by (simp add: named_def)

lemma named_append [serde]: "named names (kvs @ kvs') = named names kvs @ named names kvs'"
  by (simp add: named_def)

lemma named_some_entry [serde]:
  "named names (some_entry k f x) = (if k \<in> set names then (case x of None \<Rightarrow> [] | Some y \<Rightarrow> [f y]) else [])"
  by (simp add: named_def some_entry_def split: option.split)

lemma named_notin: "k \<notin> set names \<Longrightarrow> named names (kvs @ (k, v) # kvs') = named names (kvs @ kvs')"
  by (simp add: named_def)

lemma rd_bind_Some [serde]: "r s = Some (x, s') \<Longrightarrow> rd_bind r f s = f x s'"
  by (simp add: rd_bind_def)

lemma rd_return_eq [serde]: "rd_return x s = Some (x, s)"
  by (simp add: rd_return_def)

lemma field_one: "named names kvs = [v] \<Longrightarrow> d v = Some x \<Longrightarrow> field names a m d (Named kvs) = Some (x, Named kvs)"
  by simp

lemma required_one [serde]:
  "named names kvs = [v] \<Longrightarrow> d v = Some x \<Longrightarrow> required names d (Named kvs) = Some (x, Named kvs)"
  by (simp add: required_def)

lemma optional_one [serde]:
  "named names kvs = [v] \<Longrightarrow> de_option d v = Some x \<Longrightarrow> optional names d (Named kvs) = Some (x, Named kvs)"
  by (simp add: optional_def)

lemma defaulted_one [serde]:
  "named names kvs = [v] \<Longrightarrow> d v = Some x \<Longrightarrow> defaulted names y d (Named kvs) = Some (x, Named kvs)"
  by (simp add: defaulted_def)

lemma opt_defaulted_one [serde]:
  "named names kvs = [v] \<Longrightarrow> de_option d v = Some x \<Longrightarrow> opt_defaulted names d (Named kvs) = Some (x, Named kvs)"
  by (simp add: opt_defaulted_def defaulted_def)

lemma de_string_ser [serde]: "de_string (JString s) = Some s"
  by (simp add: de_string_def)

lemma de_bool_ser [serde]: "de_bool (JBool b) = Some b"
  by (simp add: de_bool_def)

lemma de_int_ser [serde]: "ok n \<Longrightarrow> de_int ok (ser_int n) = Some n"
  by (simp add: de_int_def ser_int_def)

lemma de_u32_ser [serde]: "de_u32 (ser_int (uint (w :: u32))) = Some w"
  using uint_lt2p [of w] by (simp add: de_u32_def de_int_def ser_int_def)

lemma de_option_ser [serde]:
  "(\<And>y. x = Some y \<Longrightarrow> d (f y) = Some y \<and> f y \<noteq> JNull) \<Longrightarrow> de_option d (ser_option f x) = Some x"
  by (cases x) (simp_all add: de_option_def ser_option_def)

lemma ser_not_null [serde]: "ser_int n \<noteq> JNull" "ser_vec f xs \<noteq> JNull" "ser_map g m \<noteq> JNull"
  by (simp_all add: ser_int_def ser_vec_def ser_map_def)

lemma those_map_Some: "(\<And>x. x \<in> set xs \<Longrightarrow> d (f x) = Some x) \<Longrightarrow> those (map (d \<circ> f) xs) = Some xs"
  by (induction xs) simp_all

lemma de_vec_ser [serde]: "(\<And>x. x \<in> set xs \<Longrightarrow> d (f x) = Some x) \<Longrightarrow> de_vec d (ser_vec f xs) = Some xs"
  by (simp add: de_vec_def ser_vec_def those_map_Some)

lemma bt_insert_last: "bt_sorted (m @ [(k, v)]) \<Longrightarrow> bt_insert k v m = m @ [(k, v)]"
  by (induction k v m rule: bt_insert.induct) (fastforce simp: not_less_iff_gr_or_eq)+

lemma bt_sorted_append1: "bt_sorted (m @ [kv]) \<Longrightarrow> bt_sorted m"
  by (simp add: bt_sorted_def sorted_wrt_append)

lemma bt_from_list_sorted: "bt_sorted m \<Longrightarrow> bt_from_list m = m"
proof (induction m rule: rev_induct)
  case (snoc kv m)
  obtain k v where "kv = (k, v)" by (cases kv)
  with snoc bt_sorted_append1 [OF snoc.prems] show ?case by (simp add: bt_from_list_def bt_insert_last)
qed (simp add: bt_from_list_def)

lemma de_map_ser [serde]:
  assumes "bt_sorted m" "\<And>k v. (k, v) \<in> set m \<Longrightarrow> d (f v) = Some v"
  shows "de_map d (ser_map f m) = Some m"
proof -
  have "those (map (\<lambda>(k, v). map_option (Pair k) (d v)) (map (\<lambda>(k, v). (k, f v)) m)) = Some m"
    using assms(2)
  proof (induction m)
    case (Cons kv m)
    obtain k v where kv: "kv = (k, v)" by (cases kv)
    have "d (f v) = Some v" using Cons.prems kv by (meson list.set_intros(1))
    moreover have "those (map (\<lambda>(k, v). map_option (Pair k) (d v)) (map (\<lambda>(k, v). (k, f v)) m)) = Some m"
      by (rule Cons.IH) (meson Cons.prems list.set_intros(2))
    ultimately show ?case by (simp add: kv)
  qed simp
  then show ?thesis using bt_from_list_sorted [OF assms(1)] by (simp add: de_map_def ser_map_def)
qed

section \<open>What a struct does not see\<close>

text \<open>A reader of an object leaves the object as it is.\<close>

definition steady :: "'a reader \<Rightarrow> bool" where
  "steady r \<longleftrightarrow> (\<forall>kvs x s. r (Named kvs) = Some (x, s) \<longrightarrow> s = Named kvs)"

lemma field_steady: "steady (field names a m d)"
  by (auto simp: steady_def split: list.splits)

lemma rd_bind_steady: "steady r \<Longrightarrow> (\<And>x. steady (f x)) \<Longrightarrow> steady (rd_bind r f)"
  by (fastforce simp: steady_def rd_bind_def split: option.splits)

lemma readers_steady:
  "steady (required names d)" "steady (optional names d2)" "steady (defaulted names x d3)" "steady (opt_defaulted names d4)"
  by (simp_all add: required_def optional_def defaulted_def opt_defaulted_def field_steady)

text \<open>Two objects that agree on the fields whose spellings are \<open>closed\<close> are read alike by the structs that have such fields only.\<close>

locale entry_relation =
  fixes R :: "entries \<Rightarrow> entries \<Rightarrow> bool"
    and closed :: "string list \<Rightarrow> bool"
  assumes same_named: "R kvs kvs' \<Longrightarrow> closed names \<Longrightarrow> named names kvs = named names kvs'"
begin

definition blind :: "'a reader \<Rightarrow> bool" where
  "blind r \<longleftrightarrow> (\<forall>kvs kvs'. R kvs kvs' \<longrightarrow> map_option fst (r (Named kvs)) = map_option fst (r (Named kvs')))"

lemma blind_field: "closed names \<Longrightarrow> blind (field names a m d)"
  by (auto simp: blind_def same_named option.map_comp split: list.splits intro!: arg_cong [where f = "\<lambda>g. map_option g _"])

lemma blind_readers:
  assumes "closed names"
  shows "blind (required names d)" "blind (optional names d2)" "blind (defaulted names x d3)" "blind (opt_defaulted names d4)"
  using assms by (simp_all add: required_def optional_def defaulted_def opt_defaulted_def blind_field)

lemma blind_return: "blind (rd_return x)"
  by (simp add: blind_def rd_return_def)

lemma blind_bind:
  assumes "blind r" "steady r" "\<And>x. blind (f x)"
  shows "blind (rd_bind r f)"
  unfolding blind_def
proof (intro allI impI)
  fix kvs kvs'
  assume R: "R kvs kvs'"
  then have same: "map_option fst (r (Named kvs)) = map_option fst (r (Named kvs'))"
    using assms(1) by (simp add: blind_def)
  show "map_option fst (rd_bind r f (Named kvs)) = map_option fst (rd_bind r f (Named kvs'))"
  proof (cases "r (Named kvs')")
    case None
    then show ?thesis using same by (simp add: rd_bind_def)
  next
    case (Some xs)
    then obtain x s where x: "r (Named kvs') = Some (x, s)" by (cases xs) auto
    then obtain s2 where y: "r (Named kvs) = Some (x, s2)" using same by auto
    have "s = Named kvs'" "s2 = Named kvs"
      using assms(2) x y unfolding steady_def by blast+
    then show ?thesis using assms(3) x y R by (simp add: rd_bind_def blind_def)
  qed
qed

lemma blind_struct: "blind r \<Longrightarrow> R kvs kvs' \<Longrightarrow> de_struct r (JObject kvs) = de_struct r (JObject kvs')"
  by (auto simp: de_struct_def blind_def)

lemmas blind_laws = blind_bind blind_return readers_steady blind_readers

end

text \<open>An entry of an unknown name is not seen, wherever it stands, nor is the spelling of a name that has two.\<close>

definition extends :: "string \<Rightarrow> entries \<Rightarrow> entries \<Rightarrow> bool" where
  "extends k kvs kvs' \<longleftrightarrow> (\<exists>a v b. kvs = a @ (k, v) # b \<and> kvs' = a @ b)"

definition respelled :: "(string \<Rightarrow> string) \<Rightarrow> entries \<Rightarrow> entries \<Rightarrow> bool" where
  "respelled f kvs kvs' \<longleftrightarrow> kvs = map (\<lambda>kv. (f (fst kv), snd kv)) kvs'"

lemma named_respelled:
  "(\<And>k. f k \<in> set names \<longleftrightarrow> k \<in> set names) \<Longrightarrow> named names (map (\<lambda>kv. (f (fst kv), snd kv)) kvs) = named names kvs"
  by (simp add: named_def filter_map comp_def)

interpretation unknown: entry_relation "extends k" "\<lambda>names. k \<notin> set names" for k
  by unfold_locales (auto simp: extends_def named_notin)

interpretation spelling: entry_relation "respelled f" "\<lambda>names. \<forall>k. f k \<in> set names \<longleftrightarrow> k \<in> set names" for f
  by unfold_locales (auto simp: respelled_def named_respelled)

text \<open>A field spelled twice is an error of its struct.\<close>

lemma field_twice: "2 \<le> length (named names kvs) \<Longrightarrow> field names a m d (Named kvs) = None"
  by (auto split: list.splits)

lemma rd_bind_None: "r (Named kvs) = None \<Longrightarrow> rd_bind r f (Named kvs) = None"
  by (simp add: rd_bind_def)

lemma rd_bind_later: "steady r \<Longrightarrow> (\<And>x. f x (Named kvs) = None) \<Longrightarrow> rd_bind r f (Named kvs) = None"
  unfolding steady_def rd_bind_def by (cases "r (Named kvs)") fastforce+

lemma those_None: "x \<in> set xs \<Longrightarrow> d x = None \<Longrightarrow> those (map d xs) = None"
  by (induction xs) (auto split: option.splits)

end
