(* ===== verification/Wire.thy ===== *)
theory Wire
  imports Serde
begin

text \<open>
  The messages of the server's interface as JSON: the serde attributes of \<open>src/crates/api/src/models\<close>, one decoder for
  each response struct (\<open>de_...\<close>) and one encoder for each request struct with a body (\<open>ser_...\<close>).  \<open>wire_decoders\<close> and
  \<open>wire_encode\<close> are the instances of the parameters that ApiModels and ApiClient leave open; what is left of them is the text
  format of JSON.
\<close>

section \<open>Responses of the VPN\<close>

definition de_logout_reason :: "logout_reason_t de" where
  "de_logout_reason = de_struct (
   rd_bind (opt_defaulted [''reason''] de_string) (\<lambda>reason.
   rd_bind (opt_defaulted [''message''] de_string) (\<lambda>message.
   rd_return \<lparr>lr_reason = reason, lr_message = message\<rparr>)))"

definition de_base_response :: "'a de \<Rightarrow> 'a base_response de" where
  "de_base_response d = de_struct (
   rd_bind (required [''code''] (de_int i32_ok)) (\<lambda>code.
   rd_bind (optional [''message''] de_string) (\<lambda>message.
   rd_bind (optional [''data''] d) (\<lambda>data.
   rd_bind (opt_defaulted [''action''] de_string) (\<lambda>action.
   rd_bind (opt_defaulted [''logout_reason''] de_logout_reason) (\<lambda>logout_reason.
   rd_bind (optional [''extra''] de_json_object) (\<lambda>extra.
   rd_return \<lparr>br_code = code, br_message = message, br_data = data, br_action = action,
     br_logout_reason = logout_reason, br_extra = extra\<rparr>)))))))"

definition de_vpn_setting :: "vpn_setting de" where
  "de_vpn_setting = de_struct (
   rd_bind (opt_defaulted [''vpn_enable'', ''enable''] de_bool) (\<lambda>enable.
   rd_bind (opt_defaulted [''mode''] de_string) (\<lambda>mode.
   rd_bind (opt_defaulted [''vpn_split_only'', ''vpnSplitOnly''] de_bool) (\<lambda>split_only.
   rd_bind (opt_defaulted [''vpn_status'', ''vpnStatus''] (de_int i32_ok)) (\<lambda>vpn_status.
   rd_bind (opt_defaulted [''admin_enable'', ''adminEnable''] de_bool) (\<lambda>admin_enable.
   rd_bind (opt_defaulted [''vpn_domain''] de_string) (\<lambda>vpn_domain.
   rd_bind (opt_defaulted [''raw''] de_json_object) (\<lambda>raw.
   rd_return \<lparr>vs_enable = enable, vs_mode = mode, vs_split_only = split_only, vs_vpn_status = vpn_status,
     vs_admin_enable = admin_enable, vs_vpn_domain = vpn_domain, vs_raw = raw\<rparr>))))))))"

definition de_ip_delay_routing_policy :: "ip_delay_routing_policy de" where
  "de_ip_delay_routing_policy = de_struct (
   rd_bind (opt_defaulted [''is_operator'', ''isOperator''] de_bool) (\<lambda>is_operator.
   rd_bind (opt_defaulted [''policy_type'', ''policyType''] (de_int i32_ok)) (\<lambda>policy_type.
   rd_return \<lparr>idr_is_operator = is_operator, idr_policy_type = policy_type\<rparr>)))"

definition de_vpn_dot :: "vpn_dot de" where
  "de_vpn_dot = de_struct (
   rd_bind (opt_defaulted [''id''] (de_int i32_ok)) (\<lambda>id.
   rd_bind (defaulted [''ip''] [] de_string) (\<lambda>ip.
   rd_bind (opt_defaulted [''apiIp'', ''api_ip''] de_string) (\<lambda>api_ip.
   rd_bind (opt_defaulted [''api_port''] (de_int i32_ok)) (\<lambda>api_port.
   rd_bind (opt_defaulted [''vpn_port'', ''vpnPort''] (de_int i32_ok)) (\<lambda>vpn_port.
   rd_bind (opt_defaulted [''protocol_mode''] (de_int i32_ok)) (\<lambda>protocol_mode.
   rd_bind (opt_defaulted [''timeout''] (de_int i32_ok)) (\<lambda>timeout.
   rd_bind (opt_defaulted [''mode''] (de_int i32_ok)) (\<lambda>mode.
   rd_bind (opt_defaulted [''type''] de_string) (\<lambda>ty.
   rd_bind (opt_defaulted [''name''] de_string) (\<lambda>name.
   rd_bind (opt_defaulted [''display_name''] de_string) (\<lambda>display_name.
   rd_bind (opt_defaulted [''fastIp'', ''fast_ip''] de_string) (\<lambda>fast_ip.
   rd_bind (opt_defaulted [''ip4Domain'', ''ip4_domain''] de_string) (\<lambda>ip4_domain.
   rd_bind (opt_defaulted [''reconnect''] de_bool) (\<lambda>reconnect.
   rd_bind (opt_defaulted [''exclude''] de_bool) (\<lambda>exclude.
   rd_bind (opt_defaulted [''dedicated''] de_bool) (\<lambda>dedicated.
   rd_bind (opt_defaulted [''backup_ips''] (de_vec de_string)) (\<lambda>backup_ips.
   rd_bind (opt_defaulted [''ip_delay_routing_policy'', ''ipDelayRoutingPolicy''] de_ip_delay_routing_policy) (\<lambda>ip_delay_routing_policy.
   rd_bind (opt_defaulted [''raw''] de_json_object) (\<lambda>raw.
   rd_return \<lparr>dot_id = id, dot_ip = ip, dot_api_ip = api_ip, dot_api_port = api_port, dot_vpn_port = vpn_port,
     dot_protocol_mode = protocol_mode, dot_timeout = timeout, dot_mode = mode, dot_type = ty,
     dot_name = name, dot_display_name = display_name, dot_fast_ip = fast_ip,
     dot_ip4_domain = ip4_domain, dot_reconnect = reconnect, dot_exclude = exclude,
     dot_dedicated = dedicated, dot_backup_ips = backup_ips,
     dot_ip_delay_routing_policy = ip_delay_routing_policy, dot_raw = raw\<rparr>))))))))))))))))))))"

definition de_central_dns :: "central_dns de" where
  "de_central_dns = de_struct (
   rd_bind (defaulted [''TenantID''] [] de_string) (\<lambda>tenant_id.
   rd_bind (defaulted [''CpeID''] 0 (de_int i64_ok)) (\<lambda>cpe_id.
   rd_bind (defaulted [''DNATIp''] [] de_string) (\<lambda>dnat_ip.
   rd_bind (defaulted [''Dns''] [] (de_vec de_string)) (\<lambda>dns.
   rd_bind (defaulted [''SecondBloom''] [] de_string) (\<lambda>second_bloom.
   rd_bind (defaulted [''ThirdBloom''] [] de_string) (\<lambda>third_bloom.
   rd_bind (defaulted [''BloomNum''] 0 (de_int i64_ok)) (\<lambda>bloom_num.
   rd_bind (defaulted [''Version''] [] de_string) (\<lambda>version.
   rd_return \<lparr>cd_tenant_id = tenant_id, cd_cpe_id = cpe_id, cd_dnat_ip = dnat_ip, cd_dns = dns,
     cd_second_bloom = second_bloom, cd_third_bloom = third_bloom, cd_bloom_num = bloom_num,
     cd_version = version\<rparr>)))))))))"

definition de_ip_nat :: "ip_nat de" where
  "de_ip_nat = de_struct (
   rd_bind (defaulted [''ips'', ''IPs''] [] (de_vec de_string)) (\<lambda>ips.
   rd_bind (defaulted [''is_default_nat'', ''IsDefaultNat''] False de_bool) (\<lambda>is_default_nat.
   rd_bind (defaulted [''nat_ip'', ''NatIP''] [] de_string) (\<lambda>nat_ip.
   rd_return \<lparr>nat_ips = ips, nat_is_default_nat = is_default_nat, nat_nat_ip = nat_ip\<rparr>))))"

definition de_domain_map :: "domain_map de" where
  "de_domain_map = de_map (de_vec de_string)"

text \<open>The two field functions; both read an \<open>Option<Value>\<close> first and never fail.\<close>

definition opt_value :: "json \<Rightarrow> json option" where
  "opt_value j = (if j = JNull then None else Some (norm_value j))"

definition de_flexible_opt_i32 :: "int option de" where
  "de_flexible_opt_i32 j = Some (deserialize_flexible_opt_i32 (opt_value j))"

definition de_stringified :: "json_text \<Rightarrow> 'a de \<Rightarrow> 'a option de" where
  "de_stringified T d j = Some (deserialize_stringified_json (from_str T d) d (opt_value j))"

definition de_vpn_conn_setting :: "json_text \<Rightarrow> vpn_conn_setting de" where
  "de_vpn_conn_setting T = de_struct (
   rd_bind (required [''vpn_mtu''] (de_int i32_ok)) (\<lambda>vpn_mtu.
   rd_bind (opt_defaulted [''vpn_dns''] de_string) (\<lambda>vpn_dns.
   rd_bind (opt_defaulted [''vpn_dns_backup''] de_string) (\<lambda>vpn_dns_backup.
   rd_bind (opt_defaulted [''vpn_dns_domain_split''] (de_vec de_string)) (\<lambda>vpn_dns_domain_split.
   rd_bind (opt_defaulted [''vpn_route_full''] (de_vec de_string)) (\<lambda>vpn_route_full.
   rd_bind (opt_defaulted [''vpn_route_split''] (de_vec de_string)) (\<lambda>vpn_route_split.
   rd_bind (opt_defaulted [''v6_route_full''] (de_vec de_string)) (\<lambda>v6_route_full.
   rd_bind (opt_defaulted [''v6_route_split''] (de_vec de_string)) (\<lambda>v6_route_split.
   rd_bind (defaulted [''vpn_dynamic_domain_route_split''] None (de_stringified T de_domain_map)) (\<lambda>vpn_dynamic_domain_route_split.
   rd_bind (defaulted [''v6_vpn_dynamic_domain_route_split''] None (de_stringified T de_domain_map)) (\<lambda>v6_vpn_dynamic_domain_route_split.
   rd_bind (defaulted [''vpn_wildcard_dynamic_domain_route_split''] None (de_stringified T de_domain_map)) (\<lambda>vpn_wildcard_dynamic_domain_route_split.
   rd_bind (defaulted [''suffix_wildcard_dynamic_domain_route_split''] None (de_stringified T de_domain_map)) (\<lambda>suffix_wildcard_dynamic_domain_route_split.
   rd_bind (defaulted [''dynamic_domain''] None (de_stringified T de_domain_map)) (\<lambda>dynamic_domain.
   rd_bind (defaulted [''central_dns''] None (de_stringified T de_central_dns)) (\<lambda>central_dns.
   rd_bind (defaulted [''ip_nats''] None (de_stringified T (de_vec de_ip_nat))) (\<lambda>ip_nats.
   rd_return \<lparr>st_vpn_mtu = vpn_mtu, st_vpn_dns = vpn_dns, st_vpn_dns_backup = vpn_dns_backup,
     st_vpn_dns_domain_split = vpn_dns_domain_split, st_vpn_route_full = vpn_route_full,
     st_vpn_route_split = vpn_route_split, st_v6_route_full = v6_route_full,
     st_v6_route_split = v6_route_split,
     st_vpn_dynamic_domain_route_split = vpn_dynamic_domain_route_split,
     st_v6_vpn_dynamic_domain_route_split = v6_vpn_dynamic_domain_route_split,
     st_vpn_wildcard_dynamic_domain_route_split = vpn_wildcard_dynamic_domain_route_split,
     st_suffix_wildcard_dynamic_domain_route_split = suffix_wildcard_dynamic_domain_route_split,
     st_dynamic_domain = dynamic_domain, st_central_dns = central_dns, st_ip_nats = ip_nats\<rparr>))))))))))))))))"

definition de_vpn_conn_response :: "json_text \<Rightarrow> vpn_conn_response de" where
  "de_vpn_conn_response T = de_struct (
   rd_bind (required [''ip''] de_string) (\<lambda>ip.
   rd_bind (opt_defaulted [''ipv6''] de_string) (\<lambda>ipv6.
   rd_bind (defaulted [''ip_mask''] None de_flexible_opt_i32) (\<lambda>ip_mask.
   rd_bind (required [''public_key''] de_string) (\<lambda>public_key.
   rd_bind (opt_defaulted [''preshared_key''] de_string) (\<lambda>preshared_key.
   rd_bind (opt_defaulted [''sign_token''] de_string) (\<lambda>sign_token.
   rd_bind (opt_defaulted [''protocol_version''] de_string) (\<lambda>protocol_version.
   rd_bind (required [''setting''] (de_vpn_conn_setting T)) (\<lambda>setting.
   rd_bind (opt_defaulted [''raw''] de_json_object) (\<lambda>raw.
   rd_return \<lparr>conn_ip = ip, conn_ipv6 = ipv6, conn_ip_mask = ip_mask, conn_public_key = public_key,
     conn_preshared_key = preshared_key, conn_sign_token = sign_token,
     conn_protocol_version = protocol_version, conn_setting = setting, conn_raw = raw\<rparr>))))))))))"

section \<open>Responses of the login, the profile and the one-time password\<close>

definition de_activate_info :: "activate_info de" where
  "de_activate_info = de_struct (
   rd_bind (opt_defaulted [''activate_host''] de_string) (\<lambda>activate_host.
   rd_bind (opt_defaulted [''activate_backup_domain''] de_string) (\<lambda>activate_backup_domain.
   rd_bind (opt_defaulted [''activate_enable_backup_domain''] de_bool) (\<lambda>activate_enable_backup_domain.
   rd_bind (opt_defaulted [''tenant_name''] de_string) (\<lambda>tenant_name.
   rd_bind (opt_defaulted [''name''] de_string) (\<lambda>name.
   rd_bind (opt_defaulted [''zh_name''] de_string) (\<lambda>zh_name.
   rd_bind (opt_defaulted [''en_name''] de_string) (\<lambda>en_name.
   rd_bind (opt_defaulted [''domain''] de_string) (\<lambda>domain.
   rd_bind (opt_defaulted [''enable_self_signed''] de_bool) (\<lambda>enable_self_signed.
   rd_bind (opt_defaulted [''self_signed_cert''] de_string) (\<lambda>self_signed_cert.
   rd_bind (opt_defaulted [''enable_public_key''] de_bool) (\<lambda>enable_public_key.
   rd_bind (opt_defaulted [''public_key''] de_string) (\<lambda>public_key.
   rd_bind (opt_defaulted [''raw''] de_json_object) (\<lambda>raw.
   rd_return \<lparr>ai_activate_host = activate_host, ai_activate_backup_domain = activate_backup_domain,
     ai_activate_enable_backup_domain = activate_enable_backup_domain, ai_tenant_name = tenant_name,
     ai_name = name, ai_zh_name = zh_name, ai_en_name = en_name, ai_domain = domain,
     ai_enable_self_signed = enable_self_signed, ai_self_signed_cert = self_signed_cert,
     ai_enable_public_key = enable_public_key, ai_public_key = public_key, ai_raw = raw\<rparr>))))))))))))))"

definition de_common_string_result :: "common_string_result de" where
  "de_common_string_result = de_struct (
   rd_bind (opt_defaulted [''result''] de_string) (\<lambda>result.
   rd_return \<lparr>cs_result = result\<rparr>))"

definition de_login_v2_next :: "login_v2_next de" where
  "de_login_v2_next = de_struct (
   rd_bind (opt_defaulted [''action''] de_string) (\<lambda>action.
   rd_bind (opt_defaulted [''canSkip'', ''can_skip''] de_bool) (\<lambda>can_skip.
   rd_bind (opt_defaulted [''authList'', ''auth_list''] (de_vec de_string)) (\<lambda>auth_list.
   rd_bind (opt_defaulted [''mobile''] de_string) (\<lambda>mobile.
   rd_bind (opt_defaulted [''email''] de_string) (\<lambda>email.
   rd_bind (opt_defaulted [''passwordRule'', ''password_rule''] de_json_object) (\<lambda>password_rule.
   rd_bind (opt_defaulted [''link''] de_string) (\<lambda>link.
   rd_bind (opt_defaulted [''passkeyUid'', ''passkey_uid''] de_string) (\<lambda>passkey_uid.
   rd_return \<lparr>ln_action = action, ln_can_skip = can_skip, ln_auth_list = auth_list, ln_mobile = mobile,
     ln_email = email, ln_password_rule = password_rule, ln_link = link,
     ln_passkey_uid = passkey_uid\<rparr>)))))))))"

definition de_login_v2_result :: "login_v2_result de" where
  "de_login_v2_result = de_struct (
   rd_bind (opt_defaulted [''result''] de_string) (\<lambda>result.
   rd_bind (opt_defaulted [''next''] de_login_v2_next) (\<lambda>nxt.
   rd_return \<lparr>l2_result = result, l2_next = nxt\<rparr>)))"

definition de_login_result :: "login_result de" where
  "de_login_result = de_struct (
   rd_bind (opt_defaulted [''loginResult'', ''login_result''] de_string) (\<lambda>login_result.
   rd_bind (opt_defaulted [''url''] de_string) (\<lambda>url.
   rd_bind (opt_defaulted [''auth''] de_value) (\<lambda>auth.
   rd_bind (opt_defaulted [''timestamp''] (de_int i64_ok)) (\<lambda>timestamp.
   rd_bind (opt_defaulted [''needVerify'', ''need_verify''] de_bool) (\<lambda>need_verify.
   rd_bind (opt_defaulted [''token''] de_string) (\<lambda>token.
   rd_bind (opt_defaulted [''vpn_token''] de_string) (\<lambda>vpn_token.
   rd_bind (opt_defaulted [''csrf-token'', ''csrf_token''] de_string) (\<lambda>csrf_token.
   rd_bind (opt_defaulted [''uid''] de_string) (\<lambda>uid.
   rd_bind (opt_defaulted [''need_mfa''] de_bool) (\<lambda>need_mfa.
   rd_bind (opt_defaulted [''mfa_token''] de_string) (\<lambda>mfa_token.
   rd_bind (opt_defaulted [''raw''] de_json_object) (\<lambda>raw.
   rd_return \<lparr>lres_login_result = login_result, lres_url = url, lres_auth = auth, lres_timestamp = timestamp,
     lres_need_verify = need_verify, lres_token = token, lres_vpn_token = vpn_token,
     lres_csrf_token = csrf_token, lres_uid = uid, lres_need_mfa = need_mfa,
     lres_mfa_token = mfa_token, lres_raw = raw\<rparr>)))))))))))))"

definition de_third_party_login_info :: "third_party_login_info de" where
  "de_third_party_login_info = de_struct (
   rd_bind (opt_defaulted [''alias''] de_string) (\<lambda>alias.
   rd_bind (opt_defaulted [''aliasKey'', ''alias_key''] de_string) (\<lambda>alias_key.
   rd_bind (opt_defaulted [''name''] de_string) (\<lambda>name.
   rd_bind (opt_defaulted [''link''] de_string) (\<lambda>link.
   rd_bind (opt_defaulted [''url''] de_string) (\<lambda>url.
   rd_bind (opt_defaulted [''loginUrl'', ''login_url''] de_string) (\<lambda>login_url.
   rd_bind (opt_defaulted [''token''] de_string) (\<lambda>token.
   rd_bind (opt_defaulted [''state''] de_string) (\<lambda>state.
   rd_bind (opt_defaulted [''schema''] de_string) (\<lambda>schema.
   rd_bind (opt_defaulted [''appid''] de_string) (\<lambda>appid.
   rd_bind (opt_defaulted [''agentid''] de_string) (\<lambda>agentid.
   rd_bind (opt_defaulted [''scope''] de_string) (\<lambda>scope.
   rd_bind (opt_defaulted [''notice''] de_string) (\<lambda>notice.
   rd_bind (opt_defaulted [''isCustom'', ''is_custom''] de_bool) (\<lambda>is_custom.
   rd_bind (opt_defaulted [''fullTitle'', ''full_title''] de_string) (\<lambda>full_title.
   rd_bind (opt_defaulted [''icon''] de_string) (\<lambda>icon.
   rd_bind (opt_defaulted [''abbreviation''] de_string) (\<lambda>abbreviation.
   rd_bind (opt_defaulted [''raw''] de_json_object) (\<lambda>raw.
   rd_return \<lparr>tp_alias = alias, tp_alias_key = alias_key, tp_name = name, tp_link = link, tp_url = url,
     tp_login_url = login_url, tp_token = token, tp_state = state, tp_schema = schema,
     tp_appid = appid, tp_agentid = agentid, tp_scope = scope, tp_notice = notice,
     tp_is_custom = is_custom, tp_full_title = full_title, tp_icon = icon,
     tp_abbreviation = abbreviation, tp_raw = raw\<rparr>)))))))))))))))))))"

definition de_otp_provision :: "otp_provision de" where
  "de_otp_provision = de_struct (
   rd_bind (defaulted [''url''] [] de_string) (\<lambda>url.
   rd_bind (defaulted [''timestamp''] 0 (de_int i64_ok)) (\<lambda>timestamp.
   rd_return \<lparr>op_url = url, op_timestamp = timestamp\<rparr>)))"

definition de_login_setting :: "login_setting de" where
  "de_login_setting = de_struct (
   rd_bind (opt_defaulted [''login_version''] de_string) (\<lambda>login_version.
   rd_bind (opt_defaulted [''raw''] de_json_object) (\<lambda>raw.
   rd_return \<lparr>ls_login_version = login_version, ls_raw = raw\<rparr>)))"

definition de_user_info :: "user_info de" where
  "de_user_info = de_struct (
   rd_bind (opt_defaulted [''uid''] de_string) (\<lambda>uid.
   rd_bind (opt_defaulted [''name''] de_string) (\<lambda>name.
   rd_bind (opt_defaulted [''email''] de_string) (\<lambda>email.
   rd_bind (opt_defaulted [''mobile''] de_string) (\<lambda>mobile.
   rd_bind (opt_defaulted [''raw''] de_json_object) (\<lambda>raw.
   rd_return \<lparr>ui_uid = uid, ui_name = name, ui_email = email, ui_mobile = mobile, ui_raw = raw\<rparr>))))))"

definition de_signing_rule :: "signing_rule de" where
  "de_signing_rule = de_struct (
   rd_bind (opt_defaulted [''urls''] (de_vec de_string)) (\<lambda>urls.
   rd_bind (opt_defaulted [''enable_signing'', ''enableSigning''] de_bool) (\<lambda>enable_signing.
   rd_bind (opt_defaulted [''signing_input_params'', ''signingInputParams''] (de_int i32_ok)) (\<lambda>signing_input_params.
   rd_bind (opt_defaulted [''max_time_desync'', ''maxTimeDesync''] (de_int i32_ok)) (\<lambda>max_time_desync.
   rd_return \<lparr>sr_urls = urls, sr_enable_signing = enable_signing,
     sr_signing_input_params = signing_input_params, sr_max_time_desync = max_time_desync\<rparr>)))))"

definition de_tenant_signing_config :: "tenant_signing_config de" where
  "de_tenant_signing_config = de_struct (
   rd_bind (opt_defaulted [''enable''] de_bool) (\<lambda>enable.
   rd_bind (opt_defaulted [''algorithms''] (de_vec de_string)) (\<lambda>algorithms.
   rd_bind (opt_defaulted [''rules''] (de_vec de_signing_rule)) (\<lambda>rules.
   rd_bind (opt_defaulted [''rulesMap'', ''rules_map''] de_json_object) (\<lambda>rules_map.
   rd_return \<lparr>tsc_enable = enable, tsc_algorithms = algorithms, tsc_rules = rules, tsc_rules_map = rules_map\<rparr>)))))"

definition de_tenant_config :: "tenant_config de" where
  "de_tenant_config = de_struct (
   rd_bind (opt_defaulted [''signingConfig'', ''signing_config''] de_tenant_signing_config) (\<lambda>signing_config.
   rd_bind (opt_defaulted [''raw''] de_json_object) (\<lambda>raw.
   rd_return \<lparr>tc_signing_config = signing_config, tc_raw = raw\<rparr>)))"

section \<open>The decoders of the client\<close>

definition wire_decoders :: "json_text \<Rightarrow> decoders" where
  "wire_decoders T = \<lparr>
     dec_activate = from_slice T (de_base_response de_activate_info),
     dec_login_v2 = from_slice T (de_base_response de_login_v2_result),
     dec_login_result = from_slice T (de_base_response de_login_result),
     dec_string_result = from_slice T (de_base_response de_common_string_result),
     dec_links = from_slice T (de_base_response (de_vec de_third_party_login_info)),
     dec_otp = from_slice T (de_base_response de_otp_provision),
     dec_login_setting = from_slice T (de_base_response de_login_setting),
     dec_user_info = from_slice T (de_base_response de_user_info),
     dec_tenant_config = from_slice T (de_base_response de_tenant_config),
     dec_vpn_setting = from_slice T (de_base_response de_vpn_setting),
     dec_vpn_locations = from_slice T (de_base_response (de_vec de_vpn_dot)),
     dec_vpn_conn = from_slice T (de_base_response (de_vpn_conn_response T)),
     dec_object = from_slice T (de_base_response de_json_object),
     dec_value = from_slice T (de_base_response de_value)\<rparr>"

section \<open>Bodies of requests\<close>

definition ser_activate_request :: "string \<Rightarrow> json" where
  "ser_activate_request code = JObject [(''code'', JString code)]"

definition ser_token_check_request :: "string \<Rightarrow> json" where
  "ser_token_check_request token = JObject [(''token'', JString token)]"

definition ser_vpn_conn_request :: "vpn_conn_request \<Rightarrow> json" where
  "ser_vpn_conn_request r = JObject (some_entry ''mode'' JString (vcr_mode r) @
     [(''public_key'', JString (vcr_public_key r))] @
     some_entry ''otp'' JString (vcr_otp r) @
     [(''export_id'', ser_int (vcr_export_id r))] @
     some_entry ''sign_token'' JString (vcr_sign_token r) @
     some_entry ''not_auto'' JBool (vcr_not_auto r))"

definition ser_vpn_report_request :: "vpn_report_request \<Rightarrow> json" where
  "ser_vpn_report_request r = JObject ([(''type'', JString (vrr_type r)),
      (''ip'', JString (vrr_ip r)),
      (''public_key'', JString (vrr_public_key r)),
      (''mode'', JString (vrr_mode r))])"

definition ser_password_login_request :: "password_login_request \<Rightarrow> json" where
  "ser_password_login_request r = JObject ([(''login_scene'', JString (pl_login_scene r)),
      (''account_type'', JString (pl_account_type r)),
      (''account'', JString (pl_account r)),
      (''password'', JString (pl_password r))])"

definition ser_send_code_request :: "send_code_request \<Rightarrow> json" where
  "ser_send_code_request r = JObject ([(''login_scene'', JString (sc_login_scene r)),
      (''account_type'', JString (sc_account_type r)),
      (''login_type'', JString (sc_login_type r)),
      (''account'', JString (sc_account r))])"

definition ser_verify_code_request :: "verify_code_request \<Rightarrow> json" where
  "ser_verify_code_request r = JObject ([(''login_scene'', JString (vc_login_scene r)),
      (''account_type'', JString (vc_account_type r)),
      (''login_type'', JString (vc_login_type r)),
      (''account'', JString (vc_account r)),
      (''code'', JString (vc_code r))])"

definition ser_verify_mfa_request :: "verify_mfa_request \<Rightarrow> json" where
  "ser_verify_mfa_request r = JObject ([(''login_scene'', JString (vm_login_scene r)),
      (''mfa_type'', JString (vm_mfa_type r)),
      (''account'', JString (vm_account r))] @
     some_entry ''code'' JString (vm_code r) @
     some_entry ''password'' JString (vm_password r))"

definition ser_mfa_send_request :: "mfa_send_request \<Rightarrow> json" where
  "ser_mfa_send_request r = JObject ([(''login_scene'', JString (ms_login_scene r)),
      (''mfa_type'', JString (ms_mfa_type r)),
      (''account'', JString (ms_account r))])"

definition ser_login_skip_request :: "login_skip_request \<Rightarrow> json" where
  "ser_login_skip_request r = JObject ([(''login_scene'', JString (sk_login_scene r)), (''account'', JString (sk_account r))])"

definition ser_oauth_callback_request :: "oauth_callback_request \<Rightarrow> json" where
  "ser_oauth_callback_request r = JObject ([(''alias_key'', JString (oc_alias_key r)),
      (''code'', JString (oc_code r)),
      (''state'', JString (oc_state r)),
      (''code_verifier'', JString (oc_code_verifier r))])"

definition ser_device_oauth_callback_request :: "device_oauth_callback_request \<Rightarrow> json" where
  "ser_device_oauth_callback_request r = JObject ([(''alias_key'', JString (dc_alias_key r)),
      (''code'', JString (dc_code r)),
      (''state'', JString (dc_state r))] @
     some_entry ''code_verifier'' JString (dc_code_verifier r))"

definition ser_security_report_item :: "security_report_item \<Rightarrow> json" where
  "ser_security_report_item r = JObject ([(''key'', JString (sri_key r)),
      (''level'', ser_int (sri_level r))] @
     some_entry ''data'' JObject (sri_data r))"

definition ser_security_report_request :: "security_report_request \<Rightarrow> json" where
  "ser_security_report_request r = JObject (some_entry ''status'' JString (srq_status r) @
     [(''items'', (ser_vec ser_security_report_item) (srq_items r))] @
     some_entry ''raw'' JObject (srq_raw r))"

text \<open>\<open>SendableRequest::body\<close>.\<close>

fun request_json :: "api_request \<Rightarrow> json option" where
  "request_json (ActivateRequest code) = Some (ser_activate_request code)"
| "request_json (PasswordLoginRequest r) = Some (ser_password_login_request r)"
| "request_json (SendCodeRequest r) = Some (ser_send_code_request r)"
| "request_json (VerifyCodeRequest r) = Some (ser_verify_code_request r)"
| "request_json (VerifyMfaRequest r) = Some (ser_verify_mfa_request r)"
| "request_json (V1LoginRequest r) = Some (ser_password_login_request r)"
| "request_json (V1SendCodeRequest r) = Some (ser_send_code_request r)"
| "request_json (V1VerifyCodeRequest r) = Some (ser_verify_code_request r)"
| "request_json (V1MfaSendRequest r) = Some (ser_mfa_send_request r)"
| "request_json (V1MfaVerifyRequest r) = Some (ser_verify_mfa_request r)"
| "request_json (V1LoginSkipRequest r) = Some (ser_login_skip_request r)"
| "request_json (OAuthCallbackRequest r) = Some (ser_oauth_callback_request r)"
| "request_json (DeviceOAuthCallbackRequest r) = Some (ser_device_oauth_callback_request r)"
| "request_json (ThirdPartyTokenCheckRequest token) = Some (ser_token_check_request token)"
| "request_json (SecurityReportRequest r) = Some (ser_security_report_request r)"
| "request_json (VpnConnRequest r) = Some (ser_vpn_conn_request r)"
| "request_json (VpnReportRequest r) = Some (ser_vpn_report_request r)"
| "request_json _ = None"

definition wire_encode :: "json_text \<Rightarrow> api_request \<Rightarrow> bytes option" where
  "wire_encode T req = map_option (jt_to_vec T) (request_json req)"

section \<open>Facts\<close>

text \<open>The requests with a JSON body are those of \<open>has_body\<close>, and only they.\<close>

lemma request_json_has_body: "request_json req \<noteq> None \<longleftrightarrow> has_body req"
  by (cases req) simp_all

lemma wire_encode_total: "has_body req \<Longrightarrow> \<exists>bs. wire_encode T req = Some bs"
  using request_json_has_body [of req] by (auto simp: wire_encode_def)

lemmas wire_structs = de_vpn_dot_def de_vpn_conn_response_def de_vpn_conn_setting_def de_base_response_def
  de_vpn_setting_def

definition DOT_NAMES :: "string list" where
  "DOT_NAMES = [''id'', ''ip'', ''apiIp'', ''api_ip'', ''api_port'', ''vpn_port'', ''vpnPort'', ''protocol_mode'', ''timeout'', ''mode'',
     ''type'', ''name'', ''display_name'', ''fastIp'', ''fast_ip'', ''ip4Domain'', ''ip4_domain'', ''reconnect'', ''exclude'', ''dedicated'',
     ''backup_ips'', ''ip_delay_routing_policy'', ''ipDelayRoutingPolicy'', ''raw'']"

definition CONN_NAMES :: "string list" where
  "CONN_NAMES = [''ip'', ''ipv6'', ''ip_mask'', ''public_key'', ''preshared_key'', ''sign_token'', ''protocol_version'', ''setting'', ''raw'']"

lemma dot_ignores: "k \<notin> set DOT_NAMES \<Longrightarrow> de_vpn_dot (JObject (kvs @ (k, v) # kvs')) = de_vpn_dot (JObject (kvs @ kvs'))"
  unfolding de_vpn_dot_def DOT_NAMES_def
  by (rule unknown.blind_struct [where k = k]) ((intro unknown.blind_laws; simp), auto simp: extends_def)

lemma conn_ignores:
  "k \<notin> set CONN_NAMES \<Longrightarrow> de_vpn_conn_response T (JObject (kvs @ (k, v) # kvs')) = de_vpn_conn_response T (JObject (kvs @ kvs'))"
  unfolding de_vpn_conn_response_def CONN_NAMES_def
  by (rule unknown.blind_struct [where k = k]) ((intro unknown.blind_laws; simp), auto simp: extends_def)

text \<open>The primary spelling of a name of an access point.\<close>

definition dot_spelling :: "string \<Rightarrow> string" where
  "dot_spelling k = (case map_of [(''api_ip'', ''apiIp''), (''vpnPort'', ''vpn_port''), (''fast_ip'', ''fastIp''),
      (''ip4_domain'', ''ip4Domain''), (''ipDelayRoutingPolicy'', ''ip_delay_routing_policy'')] k of None \<Rightarrow> k | Some k' \<Rightarrow> k')"

lemma dot_respelled: "de_vpn_dot (JObject (map (\<lambda>kv. (dot_spelling (fst kv), snd kv)) kvs)) = de_vpn_dot (JObject kvs)"
  unfolding de_vpn_dot_def
  by (rule spelling.blind_struct [where f = dot_spelling])
    ((intro spelling.blind_laws; simp add: dot_spelling_def), simp add: respelled_def)

lemma dot_empty: "de_vpn_dot (JObject []) = Some vpn_dot_default"
  by (simp add: de_vpn_dot_def de_struct_def rd_bind_def opt_defaulted_def defaulted_def named_def rd_return_def vpn_dot_default_def)

text \<open>C34: an access point is read whatever else the server says about it.  Entries of unknown names change nothing,
  wherever they stand; each of the names with two spellings may be given in either; and an access point of
  which nothing is said is the default one.\<close>

theorem access_point_tolerant:
  assumes "k \<notin> set DOT_NAMES"
  shows "de_vpn_dot (JObject (kvs @ (k, v) # kvs')) = de_vpn_dot (JObject (kvs @ kvs'))
    \<and> de_vpn_dot (JObject (map (\<lambda>kv. (dot_spelling (fst kv), snd kv)) kvs)) = de_vpn_dot (JObject kvs)
    \<and> de_vpn_dot (JObject []) = Some vpn_dot_default"
  by (simp only: dot_ignores [OF assms] dot_respelled dot_empty)

theorem access_point_tolerant_witness:
  "de_vpn_dot (JObject [(''ip'', JString ''192.0.2.1''), (''load'', ser_int 7)]) = de_vpn_dot (JObject [(''ip'', JString ''192.0.2.1'')])"
  using access_point_tolerant [of "''load''" "[(''ip'', JString ''192.0.2.1'')]" "ser_int 7" "[]"] by (simp add: DOT_NAMES_def)

lemma api_ip_twice: "2 \<le> length (named [''apiIp'', ''api_ip''] d) \<Longrightarrow> de_vpn_dot (JObject d) = None"
proof -
  assume two: "2 \<le> length (named [''apiIp'', ''api_ip''] d)"
  have none: "opt_defaulted [''apiIp'', ''api_ip''] de_string (Named d) = None"
    unfolding opt_defaulted_def defaulted_def by (rule field_twice [OF two])
  show ?thesis
    unfolding de_vpn_dot_def de_struct_def
    by (simp, rule rd_bind_later [OF readers_steady(4)], rule rd_bind_later [OF readers_steady(3)], rule rd_bind_None, rule none)
qed

text \<open>One access point spoils the list.  If one access point of the server's list gives its API address in both
  spellings, the answer is not decoded at all, however many other access points it holds.\<close>

theorem both_spellings_lose_the_list:
  assumes "jt_from_slice T body = Some (JObject kvs)" "named [''data''] kvs = [JArray dots]"
    and "JObject d \<in> set dots" "2 \<le> length (named [''apiIp'', ''api_ip''] d)"
  shows "dec_vpn_locations (wire_decoders T) body = None"
proof -
  have "de_vec de_vpn_dot (JArray dots) = None"
    using those_None [OF assms(3), of de_vpn_dot] api_ip_twice [OF assms(4)] by (simp add: de_vec_def)
  then have none: "optional [''data''] (de_vec de_vpn_dot) (Named kvs) = None"
    using assms(2) by (simp add: optional_def de_option_def)
  have "de_base_response (de_vec de_vpn_dot) (JObject kvs) = None"
    unfolding de_base_response_def de_struct_def
    by (simp, rule rd_bind_later [OF readers_steady(1)], rule rd_bind_later [OF readers_steady(2)], rule rd_bind_None, rule none)
  then show ?thesis using assms(1) by (simp add: wire_decoders_def from_slice_def)
qed

definition sample_text :: "json \<Rightarrow> json_text" where
  "sample_text j = \<lparr>jt_to_vec = (\<lambda>_. [1]), jt_to_vec_pretty = (\<lambda>_. [1]), jt_from_slice = (\<lambda>_. Some j), jt_from_str = (\<lambda>_. None)\<rparr>"

theorem both_spellings_lose_the_list_witness:
  "dec_vpn_locations (wire_decoders (sample_text (JObject [(''code'', ser_int 0), (''data'', JArray [JObject [],
     JObject [(''apiIp'', JString ''a''), (''api_ip'', JString ''a'')]])]))) [1] = None"
  by (rule both_spellings_lose_the_list [where dots = "[JObject [], JObject [(''apiIp'', JString ''a''), (''api_ip'', JString ''a'')]]"
      and d = "[(''apiIp'', JString ''a''), (''api_ip'', JString ''a'')]" and kvs = "[(''code'', ser_int 0), (''data'', JArray [JObject [],
        JObject [(''apiIp'', JString ''a''), (''api_ip'', JString ''a'')]])]"])
    (simp_all add: sample_text_def named_def)

end
