(* ===== verification/PersistJson.thy ===== *)
theory PersistJson
  imports Serde Persist
begin

text \<open>
  The two files of the daemon as JSON: the serde attributes of \<open>src/crates/daemon/src/persist.rs\<close> (and of \<open>LoginApiVersion\<close> and
  \<open>ProtocolMode\<close>, which the credentials hold).  \<open>config_codec\<close> and \<open>credentials_codec\<close> are the codecs of the two files
  over the text format of JSON; the facts are that both files are read back as they were written, and which files of other versions are
  still read.
\<close>

section \<open>The configuration\<close>

definition de_device_identity_config :: "device_identity_config de" where
  "de_device_identity_config = de_struct (
   rd_bind (defaulted [''device_id''] [] de_string) (\<lambda>device_id.
   rd_bind (opt_defaulted [''os''] de_string) (\<lambda>os.
   rd_bind (opt_defaulted [''os_version''] de_string) (\<lambda>os_version.
   rd_bind (opt_defaulted [''app_version''] de_string) (\<lambda>app_version.
   rd_bind (opt_defaulted [''brand''] de_string) (\<lambda>brand.
   rd_bind (opt_defaulted [''model''] de_string) (\<lambda>model.
   rd_bind (opt_defaulted [''build_number''] de_string) (\<lambda>build_number.
   rd_bind (opt_defaulted [''os_version_patch''] de_string) (\<lambda>os_version_patch.
   rd_bind (opt_defaulted [''client_source''] de_string) (\<lambda>client_source.
   rd_bind (opt_defaulted [''language''] de_string) (\<lambda>language.
   rd_bind (opt_defaulted [''user_agent''] de_string) (\<lambda>user_agent.
   rd_return \<lparr>dic_device_id = device_id, dic_os = os, dic_os_version = os_version, dic_app_version = app_version,
     dic_brand = brand, dic_model = model, dic_build_number = build_number, dic_os_version_patch = os_version_patch,
     dic_client_source = client_source, dic_language = language, dic_user_agent = user_agent\<rparr>))))))))))))"

definition ser_device_identity_config :: "device_identity_config \<Rightarrow> json" where
  "ser_device_identity_config d = JObject [(''device_id'', JString (dic_device_id d)),
     (''os'', ser_option JString (dic_os d)), (''os_version'', ser_option JString (dic_os_version d)),
     (''app_version'', ser_option JString (dic_app_version d)), (''brand'', ser_option JString (dic_brand d)),
     (''model'', ser_option JString (dic_model d)), (''build_number'', ser_option JString (dic_build_number d)),
     (''os_version_patch'', ser_option JString (dic_os_version_patch d)),
     (''client_source'', ser_option JString (dic_client_source d)), (''language'', ser_option JString (dic_language d)),
     (''user_agent'', ser_option JString (dic_user_agent d))]"

definition de_daemon_config :: "daemon_config de" where
  "de_daemon_config = de_struct (
   rd_bind (required [''identity''] de_device_identity_config) (\<lambda>identity.
   rd_bind (optional [''outbound_interface''] de_string) (\<lambda>outbound_interface.
   rd_bind (opt_defaulted [''fallback_dns''] (de_vec de_string)) (\<lambda>fallback_dns.
   rd_bind (optional [''tun_interface''] de_string) (\<lambda>tun_interface.
   rd_bind (required [''auto_reconnect''] de_bool) (\<lambda>auto_reconnect.
   rd_bind (opt_defaulted [''dns_listen_port''] de_u32) (\<lambda>dns_listen_port.
   rd_bind (opt_defaulted [''dns_listen_host''] de_string) (\<lambda>dns_listen_host.
   rd_bind (opt_defaulted [''route_system_dns''] de_bool) (\<lambda>route_system_dns.
   rd_return \<lparr>dc_identity = identity, dc_outbound_interface = outbound_interface, dc_fallback_dns = fallback_dns,
     dc_tun_interface = tun_interface, dc_auto_reconnect = auto_reconnect, dc_dns_listen_port = dns_listen_port,
     dc_dns_listen_host = dns_listen_host, dc_route_system_dns = route_system_dns\<rparr>)))))))))"

definition ser_daemon_config :: "daemon_config \<Rightarrow> json" where
  "ser_daemon_config c = JObject [(''identity'', ser_device_identity_config (dc_identity c)),
     (''outbound_interface'', ser_option JString (dc_outbound_interface c)),
     (''fallback_dns'', ser_option (ser_vec JString) (dc_fallback_dns c)),
     (''tun_interface'', ser_option JString (dc_tun_interface c)), (''auto_reconnect'', JBool (dc_auto_reconnect c)),
     (''dns_listen_port'', ser_option (\<lambda>p. ser_int (uint p)) (dc_dns_listen_port c)),
     (''dns_listen_host'', ser_option JString (dc_dns_listen_host c)),
     (''route_system_dns'', ser_option JBool (dc_route_system_dns c))]"

section \<open>The credentials\<close>

definition de_tenant_cfg :: "tenant_cfg de" where
  "de_tenant_cfg = de_struct (
   rd_bind (required [''base_url''] de_string) (\<lambda>base_url.
   rd_bind (optional [''backup_url''] de_string) (\<lambda>backup_url.
   rd_bind (required [''use_backup''] de_bool) (\<lambda>use_backup.
   rd_bind (required [''name''] de_string) (\<lambda>name.
   rd_return \<lparr>tn_base_url = base_url, tn_backup_url = backup_url, tn_use_backup = use_backup, tn_name = name\<rparr>)))))"

definition ser_tenant_cfg :: "tenant_cfg \<Rightarrow> json" where
  "ser_tenant_cfg t = JObject [(''base_url'', JString (tn_base_url t)), (''backup_url'', ser_option JString (tn_backup_url t)),
     (''use_backup'', JBool (tn_use_backup t)), (''name'', JString (tn_name t))]"

definition de_signing_cfg :: "persisted_signing_config de" where
  "de_signing_cfg = de_struct (
   rd_bind (required [''enabled''] de_bool) (\<lambda>enabled.
   rd_bind (required [''activation_code''] de_string) (\<lambda>activation_code.
   rd_bind (required [''device_id''] de_string) (\<lambda>device_id.
   rd_return \<lparr>psc_enabled = enabled, psc_activation_code = activation_code, psc_device_id = device_id\<rparr>))))"

definition ser_signing_cfg :: "persisted_signing_config \<Rightarrow> json" where
  "ser_signing_cfg s = JObject [(''enabled'', JBool (psc_enabled s)), (''activation_code'', JString (psc_activation_code s)),
     (''device_id'', JString (psc_device_id s))]"

definition de_totp_config :: "totp_config de" where
  "de_totp_config = de_struct (
   rd_bind (required [''url''] de_string) (\<lambda>url.
   rd_bind (required [''time_diff_seconds''] (de_int i64_ok)) (\<lambda>time_diff_seconds.
   rd_return \<lparr>totp_url = url, totp_time_diff_seconds = time_diff_seconds\<rparr>)))"

definition ser_totp_config :: "totp_config \<Rightarrow> json" where
  "ser_totp_config t = JObject [(''url'', JString (totp_url t)), (''time_diff_seconds'', ser_int (totp_time_diff_seconds t))]"

definition protocol_modes :: "(string \<times> protocol_mode) list" where
  "protocol_modes = [(''Udp'', Udp), (''FeilianTcp'', FeilianTcp)]"

definition ser_protocol_mode :: "protocol_mode \<Rightarrow> json" where
  "ser_protocol_mode m = JString (case m of Udp \<Rightarrow> ''Udp'' | FeilianTcp \<Rightarrow> ''FeilianTcp'')"

definition login_api_versions :: "(string \<times> login_api_version) list" where
  "login_api_versions = [(''Legacy'', Legacy), (''V1'', V1)]"

definition ser_login_api_version :: "login_api_version \<Rightarrow> json" where
  "ser_login_api_version v = JString (case v of Legacy \<Rightarrow> ''Legacy'' | V1 \<Rightarrow> ''V1'')"

definition de_vpn_request :: "persisted_vpn_request de" where
  "de_vpn_request = de_struct (
   rd_bind (required [''mode''] de_string) (\<lambda>mode.
   rd_bind (optional [''location_id''] (de_int i32_ok)) (\<lambda>location_id.
   rd_bind (required [''protocol_mode''] (de_enum protocol_modes)) (\<lambda>protocol_mode.
   rd_bind (required [''reconnect''] de_bool) (\<lambda>reconnect.
   rd_return \<lparr>pvr_mode = mode, pvr_location_id = location_id, pvr_protocol_mode = protocol_mode,
     pvr_reconnect = reconnect\<rparr>)))))"

definition ser_vpn_request :: "persisted_vpn_request \<Rightarrow> json" where
  "ser_vpn_request r = JObject [(''mode'', JString (pvr_mode r)), (''location_id'', ser_option ser_int (pvr_location_id r)),
     (''protocol_mode'', ser_protocol_mode (pvr_protocol_mode r)), (''reconnect'', JBool (pvr_reconnect r))]"

definition de_credentials :: "persisted_credentials de" where
  "de_credentials = de_struct (
   rd_bind (required [''tenant''] de_tenant_cfg) (\<lambda>tenant.
   rd_bind (required [''signing''] de_signing_cfg) (\<lambda>signing.
   rd_bind (required [''cookies''] (de_map de_string)) (\<lambda>cookies.
   rd_bind (optional [''knock_token''] de_string) (\<lambda>knock_token.
   rd_bind (optional [''totp''] de_totp_config) (\<lambda>totp.
   rd_bind (required [''login_api_version''] (de_enum login_api_versions)) (\<lambda>login_api_version.
   rd_bind (optional [''last_vpn_request''] de_vpn_request) (\<lambda>last_vpn_request.
   rd_bind (required [''saved_at''] de_string) (\<lambda>saved_at.
   rd_return \<lparr>pc_tenant = tenant, pc_signing = signing, pc_cookies = cookies, pc_knock_token = knock_token, pc_totp = totp,
     pc_login_api_version = login_api_version, pc_last_vpn_request = last_vpn_request, pc_saved_at = saved_at\<rparr>)))))))))"

definition ser_credentials :: "persisted_credentials \<Rightarrow> json" where
  "ser_credentials c = JObject [(''tenant'', ser_tenant_cfg (pc_tenant c)), (''signing'', ser_signing_cfg (pc_signing c)),
     (''cookies'', ser_map JString (pc_cookies c)), (''knock_token'', ser_option JString (pc_knock_token c)),
     (''totp'', ser_option ser_totp_config (pc_totp c)),
     (''login_api_version'', ser_login_api_version (pc_login_api_version c)),
     (''last_vpn_request'', ser_option ser_vpn_request (pc_last_vpn_request c)), (''saved_at'', JString (pc_saved_at c))]"

section \<open>The codecs\<close>

definition codec_of :: "json_text \<Rightarrow> ('a \<Rightarrow> json) \<Rightarrow> 'a de \<Rightarrow> 'a json_codec" where
  "codec_of T ser de = \<lparr>jc_from_slice = from_slice T de, jc_to_vec_pretty = (\<lambda>x. Some (jt_to_vec_pretty T (ser x)))\<rparr>"

definition config_codec :: "json_text \<Rightarrow> daemon_config json_codec" where
  "config_codec T = codec_of T ser_daemon_config de_daemon_config"

definition credentials_codec :: "json_text \<Rightarrow> persisted_credentials json_codec" where
  "credentials_codec T = codec_of T ser_credentials de_credentials"

section \<open>Round trips\<close>

lemma identity_round_trip [serde]: "de_device_identity_config (ser_device_identity_config d) = Some d"
  by (simp add: de_device_identity_config_def ser_device_identity_config_def de_struct_def serde)

lemma config_round_trip: "de_daemon_config (ser_daemon_config c) = Some c"
  by (simp add: de_daemon_config_def ser_daemon_config_def de_struct_def serde)

lemma tenant_round_trip [serde]: "de_tenant_cfg (ser_tenant_cfg t) = Some t"
  by (simp add: de_tenant_cfg_def ser_tenant_cfg_def de_struct_def serde)

lemma signing_round_trip [serde]: "de_signing_cfg (ser_signing_cfg s) = Some s"
  by (simp add: de_signing_cfg_def ser_signing_cfg_def de_struct_def serde)

lemma optional_parts [serde]:
  "(case x of None \<Rightarrow> True | Some n \<Rightarrow> ok n) \<Longrightarrow> de_option (de_int ok) (ser_option ser_int x) = Some x"
  by (cases x) (simp_all add: de_option_def ser_option_def serde)

lemma structs_not_null [serde]: "ser_totp_config t \<noteq> JNull" "ser_vpn_request r \<noteq> JNull"
  by (simp_all add: ser_totp_config_def ser_vpn_request_def)

lemma totp_round_trip [serde]: "i64_ok (totp_time_diff_seconds t) \<Longrightarrow> de_totp_config (ser_totp_config t) = Some t"
  by (simp add: de_totp_config_def ser_totp_config_def de_struct_def serde)

lemma protocol_mode_json [serde]: "de_enum protocol_modes (ser_protocol_mode m) = Some m"
  by (cases m) (simp_all add: de_enum_def protocol_modes_def ser_protocol_mode_def)

lemma login_api_version_round_trip [serde]: "de_enum login_api_versions (ser_login_api_version v) = Some v"
  by (cases v) (simp_all add: de_enum_def login_api_versions_def ser_login_api_version_def)

definition request_ok :: "persisted_vpn_request \<Rightarrow> bool" where
  "request_ok r \<longleftrightarrow> (case pvr_location_id r of None \<Rightarrow> True | Some n \<Rightarrow> i32_ok n)"

lemma vpn_request_round_trip [serde]: "request_ok r \<Longrightarrow> de_vpn_request (ser_vpn_request r) = Some r"
  by (simp add: de_vpn_request_def ser_vpn_request_def de_struct_def request_ok_def serde)

lemma optional_structs [serde]:
  "(case t of None \<Rightarrow> True | Some t \<Rightarrow> i64_ok (totp_time_diff_seconds t)) \<Longrightarrow>
     de_option de_totp_config (ser_option ser_totp_config t) = Some t"
  "(case r of None \<Rightarrow> True | Some r \<Rightarrow> request_ok r) \<Longrightarrow> de_option de_vpn_request (ser_option ser_vpn_request r) = Some r"
  by (cases t; simp add: de_option_def ser_option_def serde) (cases r; simp add: de_option_def ser_option_def serde)

text \<open>What the Rust types promise of credentials: integers in their range, and a map of cookies.\<close>

definition credentials_ok :: "persisted_credentials \<Rightarrow> bool" where
  "credentials_ok c \<longleftrightarrow> bt_sorted (pc_cookies c)
     \<and> (case pc_totp c of None \<Rightarrow> True | Some t \<Rightarrow> i64_ok (totp_time_diff_seconds t))
     \<and> (case pc_last_vpn_request c of None \<Rightarrow> True | Some r \<Rightarrow> request_ok r)"

lemma credentials_round_trip_json: "credentials_ok c \<Longrightarrow> de_credentials (ser_credentials c) = Some c"
  by (simp add: de_credentials_def ser_credentials_def de_struct_def credentials_ok_def serde)

text \<open>The text of a value is read back as that value.\<close>

definition reads_back :: "json_text \<Rightarrow> json \<Rightarrow> bool" where
  "reads_back T j \<longleftrightarrow> jt_from_slice T (jt_to_vec_pretty T j) = Some j"

text \<open>C31: what is saved is what is loaded.  Whatever the credentials are (their integers in the ranges of the Rust types, their
  cookies a map), a successful save followed by a load gives the same credentials, every field and every optional part
  of them included, and after a delete loading finds none; and the configuration survives its own format.  The only
  thing asked of the JSON library is that it reads back the text it printed.\<close>

theorem saved_credentials_load:
  assumes "reads_back T (ser_credentials creds)" "credentials_ok creds"
    and "with_extension ''tmp'' p \<noteq> p"
    and "persist_save (credentials_codec T) creds p w = (Inr (), w1)" "fs_script w1 = []"
  shows "credentials_load (credentials_codec T) p w1 = (Inr (Some creds), w1)
    \<and> (\<exists>w2. credentials_delete p w1 = (Inr (), w2) \<and> credentials_load (credentials_codec T) p w2 = (Inr None, w2))
    \<and> (\<forall>config. reads_back T (ser_daemon_config config) \<longrightarrow>
         from_slice T de_daemon_config (jt_to_vec_pretty T (ser_daemon_config config)) = Some config)"
proof -
  have "jc_from_slice (credentials_codec T) bs = Some creds" if "jc_to_vec_pretty (credentials_codec T) creds = Some bs" for bs
    using that assms(1,2) by (auto simp: credentials_codec_def codec_of_def from_slice_def reads_back_def credentials_round_trip_json)
  from credentials_round_trip [OF this assms(3-5)] show ?thesis
    by (simp add: from_slice_def reads_back_def config_round_trip)
qed

definition sample_creds_text :: json_text where
  "sample_creds_text = \<lparr>jt_to_vec = (\<lambda>j. []), jt_to_vec_pretty = (\<lambda>j. if j = ser_credentials sample_credentials then [7] else [8]),
     jt_from_slice = (\<lambda>bs. if bs = [7] then Some (ser_credentials sample_credentials) else None), jt_from_str = (\<lambda>_. None)\<rparr>"

theorem saved_credentials_load_witness:
  "\<exists>w1. persist_save (credentials_codec sample_creds_text) sample_credentials [''etc'', ''credentials.json'']
          \<lparr>fs_files = Map.empty, fs_dirs = [], fs_script = [], fs_history = []\<rparr> = (Inr (), w1)
    \<and> credentials_load (credentials_codec sample_creds_text) [''etc'', ''credentials.json''] w1 = (Inr (Some sample_credentials), w1)"
proof -
  let ?p = "[''etc'', ''credentials.json'']"
  let ?w = "\<lparr>fs_files = Map.empty, fs_dirs = [], fs_script = [], fs_history = []\<rparr> :: fs"
  let ?w1 = "snd (persist_save (credentials_codec sample_creds_text) sample_credentials ?p ?w)"
  have t: "with_extension ''tmp'' ?p = [''etc'', ''credentials.tmp'']" by code_simp
  then have tmp: "with_extension ''tmp'' ?p \<noteq> ?p" by simp
  have ok: "reads_back sample_creds_text (ser_credentials sample_credentials)" "credentials_ok sample_credentials"
    by (simp_all add: reads_back_def sample_creds_text_def credentials_ok_def sample_credentials_def)
  have enc: "jc_to_vec_pretty (credentials_codec sample_creds_text) sample_credentials = Some [7]"
    by (simp add: credentials_codec_def codec_of_def sample_creds_text_def)
  have sv: "persist_save (credentials_codec sample_creds_text) sample_credentials ?p ?w = (Inr (), ?w1)" and q: "fs_script ?w1 = []"
    by (simp_all add: persist_save_def enc atomic_write_def t parent_def io_bind_def
        io_map_err_def create_dir_all_def open_truncate_def fs_call_def next_outcome_def put_files_def
        write_all.simps append_bytes_def sync_all_def set_permissions_def rename_def Let_def)
  show ?thesis
    using saved_credentials_load [OF ok tmp sv q] sv by blast
qed

end
