(* ===== verification/CookieStore.thy ===== *)
theory CookieStore
  imports ApiClient
begin

text \<open>
  The shared cookie jar as the client crate implements it (\<open>CookieStore\<close> in \<open>src/crates/api/src/client.rs\<close>): the
  cookies behind their lock and the slot of the listener, with the calls made to it.  The rest of the
  development works on the jar of \<open>net\<close>, which counts the notifications; \<open>store_merge_refines\<close> is the
  refinement between the two.  Also the endpoints a client can be built for.
\<close>

section \<open>Cookies\<close>

text \<open>A \<open>HashMap\<close> is the list of its entries in the order of its iteration, its keys distinct; the \<open>BTreeMap\<close> is
  sorted.\<close>

definition from_map :: "(string \<times> string) list \<Rightarrow> cookies" where
  "from_map m = bt_from_list m"

definition to_map :: "cookies \<Rightarrow> (string \<rightharpoonup> string)" where
  "to_map jar = map_of jar"

section \<open>The store\<close>

text \<open>\<open>cs_poisoned\<close>: a thread panicked while it held the lock of the listener's slot.\<close>

record 'l cookie_store =
  cs_cookies :: cookies
  cs_listener :: "'l option"
  cs_poisoned :: bool
  cs_called :: "'l list"

definition with_values :: "cookies \<Rightarrow> 'l cookie_store" where
  "with_values values = \<lparr>cs_cookies = values, cs_listener = None, cs_poisoned = False, cs_called = []\<rparr>"

definition empty_store :: "'l cookie_store" where
  "empty_store = \<lparr>cs_cookies = [], cs_listener = None, cs_poisoned = False, cs_called = []\<rparr>"

definition set_listener :: "'l \<Rightarrow> 'l cookie_store \<Rightarrow> 'l cookie_store" where
  "set_listener l s = (if cs_poisoned s then s else s\<lparr>cs_listener := Some l\<rparr>)"

definition snapshot :: "'l cookie_store \<Rightarrow> cookies" where
  "snapshot s = cs_cookies s"

definition store_is_empty :: "'l cookie_store \<Rightarrow> bool" where
  "store_is_empty s \<longleftrightarrow> cs_cookies s = []"

definition store_clear :: "'l cookie_store \<Rightarrow> 'l cookie_store" where
  "store_clear s = s\<lparr>cs_cookies := []\<rparr>"

definition notify :: "'l cookie_store \<Rightarrow> 'l cookie_store" where
  "notify s = (case (if cs_poisoned s then None else cs_listener s) of
      Some l \<Rightarrow> s\<lparr>cs_called := l # cs_called s\<rparr>
    | None \<Rightarrow> s)"

definition store_merge :: "(string \<times> string) list \<Rightarrow> 'l cookie_store \<Rightarrow> 'l cookie_store" where
  "store_merge updates s =
     (let (jar, changed) = merge_loop updates (cs_cookies s) False;
          s1 = s\<lparr>cs_cookies := jar\<rparr>
      in if changed then notify s1 else s1)"

text \<open>What the rest of the development sees of a store whose listener is installed.\<close>

definition net_of :: "'l cookie_store \<Rightarrow> 'w \<Rightarrow> 'w net" where
  "net_of s w = \<lparr>net_jar = cs_cookies s, net_notified = length (cs_called s), net_world = w\<rparr>"

section \<open>Endpoints\<close>

datatype endpoint = MatchEndpoint url | TenantEndpoint url | DotEndpoint dot_endpoint

fun base_url :: "endpoint \<Rightarrow> url" where
  "base_url (MatchEndpoint u) = u"
| "base_url (TenantEndpoint u) = u"
| "base_url (DotEndpoint d) = de_api_base_url d"

definition match_endpoint_new :: "'w http_env \<Rightarrow> string \<Rightarrow> (api_error, endpoint) result" where
  "match_endpoint_new env s = res_bind (parse_base_url env s) (\<lambda>u. Inr (MatchEndpoint u))"

definition tenant_endpoint_new :: "'w http_env \<Rightarrow> string \<Rightarrow> (api_error, endpoint) result" where
  "tenant_endpoint_new env s = res_bind (parse_base_url env s) (\<lambda>u. Inr (TenantEndpoint u))"

text \<open>\<open>None\<close> is the panic of \<open>expect\<close>.\<close>

definition match_endpoint_default :: "'w http_env \<Rightarrow> endpoint option" where
  "match_endpoint_default env = map_option MatchEndpoint (he_url_parse env DEFAULT_MATCH_BASE_URL)"

section \<open>Facts\<close>

lemma map_of_bt_get: "bt_sorted jar \<Longrightarrow> map_of jar k = bt_get jar k"
proof (cases "map_of jar k")
  case None
  then show ?thesis by (simp add: map_of_eq_None_iff bt_get_notin)
next
  case (Some v)
  assume "bt_sorted jar"
  from bt_in_get [OF this map_of_SomeD [OF Some]] Some show ?thesis by simp
qed

lemma map_of_rev_distinct: "distinct (map fst m) \<Longrightarrow> map_of (rev m) = map_of m"
  by (rule map_of_inject_set [THEN iffD2]) (simp_all flip: rev_map)

text \<open>The two conversions are inverse to one another, whatever the order in which the hash map is iterated.\<close>

lemma to_map_from_map:
  assumes "distinct (map fst m)"
  shows "to_map (from_map m) = map_of m"
  using assms by (simp add: to_map_def from_map_def map_of_bt_get bt_sorted_from_list bt_get_from_list map_of_rev_distinct fun_eq_iff)

lemma from_map_to_map:
  assumes "bt_sorted jar" "distinct (map fst m)" "map_of m = to_map jar"
  shows "from_map m = jar"
  using assms
  by (intro bt_ext) (auto simp: from_map_def to_map_def bt_sorted_from_list bt_get_from_list map_of_rev_distinct map_of_bt_get fun_eq_iff)

text \<open>A store with its listener installed implements the jar of \<open>net\<close>.\<close>

lemma store_merge_refines:
  assumes "cs_listener s = Some l" "\<not> cs_poisoned s"
  shows "net_of (store_merge ups s) w = jar_merge ups (net_of s w)"
  using assms by (auto simp: net_of_def store_merge_def jar_merge_def notify_def Let_def split: prod.splits)

lemma store_clear_refines: "net_of (store_clear s) w = jar_clear (net_of s w)"
  by (simp add: net_of_def store_clear_def jar_clear_def)

text \<open>Without a listener, and after a panic in one, the cookies are merged all the same and nobody is told.\<close>

lemma store_merge_silent:
  assumes "cs_listener s = None \<or> cs_poisoned s"
  shows "cs_called (store_merge ups s) = cs_called s \<and> cs_cookies (store_merge ups s) = fst (merge_loop ups (cs_cookies s) False)"
  using assms by (auto simp: store_merge_def notify_def Let_def split: prod.splits option.splits)

lemma set_listener_listens: "\<not> cs_poisoned s \<Longrightarrow> cs_listener (set_listener l s) = Some l \<and> \<not> cs_poisoned (set_listener l s)"
  by (simp add: set_listener_def)

end
