(* ===== verification/DeviceIo.thy ===== *)
theory DeviceIo
  imports Transport OutboundContext
begin

text \<open>
  What the WireGuard device is given to reach its peer: the factory of bound UDP sockets
  (\<open>src/crates/tunnel/src/outbound.rs\<close>) and the factory of the FeiLian TCP transport
  (\<open>src/crates/tunnel/src/transport.rs\<close>).  The device is third-party and calls them through one trait.  What the
  session relies on, whichever it chose, is the locale \<open>device_transport\<close>: sockets that carry the tunnel's own packets are
  pinned to the dialer's interface.
\<close>

section \<open>Bound UDP sockets\<close>

text \<open>\<open>io::Error::other\<close> wraps the dialer's error.\<close>

datatype device_io_error = OtherError dialer_error

definition bound_udp_bind ::
  "'w sys_env \<Rightarrow> dialer \<Rightarrow> ipv4 \<Rightarrow> ipv6 \<Rightarrow> u16 \<Rightarrow> ('w, device_io_error, (sock \<times> sock) \<times> (sock \<times> sock)) io" where
  "bound_udp_bind env d addr_v4 addr_v6 port =
     io_bind (io_map_err OtherError (bind_udp_pair env d addr_v4 addr_v6 port)) (\<lambda>(udp_v4, udp_v6).
     io_return ((udp_v4, udp_v4), (udp_v6, udp_v6)))"

definition bound_udp_send_to :: "'w sys_env \<Rightarrow> bytes \<Rightarrow> socket_addr \<Rightarrow> ('w, sys_res, unit) io" where
  "bound_udp_send_to env packet destination = (\<lambda>w. case sys_call env w (OpSendTo packet destination) of
      (SysOk, w') \<Rightarrow> (Inr (), w')
    | (e, w') \<Rightarrow> (Inl e, w'))"

text \<open>The next receive result of the socket; the buffer holds the largest datagram.\<close>

definition bound_udp_recv_from ::
  "(io_kind, bytes \<times> socket_addr) result list \<Rightarrow> (io_kind, bytes \<times> socket_addr) result option \<times> (io_kind, bytes \<times> socket_addr) result list" where
  "bound_udp_recv_from script = (case script of
      [] \<Rightarrow> (None, [])
    | Inl k # rest \<Rightarrow> (Some (Inl k), rest)
    | Inr (datagram, source) # rest \<Rightarrow> (Some (Inr (take 65535 datagram, source)), rest))"

section \<open>The FeiLian factory\<close>

text \<open>Binding opens nothing: the connections are dialled when the first packet is sent.  A side keeps the address it was
  asked for.\<close>

definition feilian_bind ::
  "'w \<Rightarrow> ipv4 \<Rightarrow> ipv6 \<Rightarrow> u16 \<Rightarrow> (socket_addr \<times> 'w feilian_tcp) \<times> (socket_addr \<times> 'w feilian_tcp)" where
  "feilian_bind w addr_v4 addr_v6 port =
     ((\<lparr>sa_ip = V4 addr_v4, sa_port = port\<rparr>, tcp_pair w), (\<lparr>sa_ip = V6 addr_v6, sa_port = port\<rparr>, tcp_pair w))"

text \<open>The connections are the dialer's; \<open>write\<close> is the operating system's.\<close>

definition feilian_env :: "'w sys_env \<Rightarrow> dialer \<Rightarrow> (bytes \<Rightarrow> 'w \<Rightarrow> nat option \<times> 'w) \<Rightarrow> 'w tcp_env" where
  "feilian_env env d write = \<lparr>te_connect = (\<lambda>destination w. case connect_tcp env d destination w of
        (Inl e, w') \<Rightarrow> (Inl e, w') | (Inr _, w') \<Rightarrow> (Inr (), w')), te_write = write\<rparr>"

text \<open>The kind of the error the device sees; \<open>KindOf k\<close> is the kind of the wrapped error.\<close>

datatype device_error_kind = KindOther | KindOf nat | KindConnectionAborted | KindInvalidData

definition transport_io_kind :: "(transport_error \<Rightarrow> nat) \<Rightarrow> transport_error \<Rightarrow> device_error_kind" where
  "transport_io_kind source_kind e = (case e of
      DialFailed _ _ \<Rightarrow> KindOther
    | SendFailed _ _ \<Rightarrow> KindOf (source_kind e)
    | RecvClosed \<Rightarrow> KindConnectionAborted
    | InvalidFrame _ _ \<Rightarrow> KindInvalidData)"

section \<open>The interface of the device\<close>

locale device_transport =
  fixes env :: "'w sys_env" and d :: dialer
    and opened :: "'a \<Rightarrow> ('w, 'e, sock list) io" and routable :: "'a \<Rightarrow> bool"
  assumes opened_pinned: "opened a w = (Inr ss, w') \<Longrightarrow> routable a \<Longrightarrow> s \<in> set ss \<Longrightarrow> pinned env (dl_interface d) s"
begin

lemma opened_on_interface:
  assumes "opened a w = (Inr ss, w')" "routable a" "s \<in> set ss" "dl_interface d = Some i"
  shows "sk_device s = Some (oi_index i) \<and> (sys_platform env = Linux \<longrightarrow> sk_mark s = Some BYPASS_FWMARK)"
  using opened_pinned [OF assms(1-3)] assms(4) by (simp add: pinned_def)

text \<open>The sockets of a device that was given the dialer of a session's context.\<close>

lemma opened_in_context:
  assumes "build_context os views dns cfg = Inr ctx" "d = ctx_directed ctx" "ocf_full_tunnel cfg"
    and "opened a w = (Inr ss, w')" "routable a" "s \<in> set ss"
  shows "\<exists>i. ctx_interface ctx = Some i \<and> oi_name i \<noteq> ocf_excluded_tun cfg \<and> sk_device s = Some (oi_index i)
    \<and> (sys_platform env = Linux \<longrightarrow> sk_mark s = Some BYPASS_FWMARK)"
  using context_bypass_dialer [OF assms(1)] opened_on_interface [OF assms(4-6)] assms(2,3)
  by (auto split: option.splits)

end

text \<open>A constructor of sockets is a transport that opens one at a time.\<close>

sublocale socket_factory \<subseteq> single: device_transport env d "\<lambda>a. io_bind (mk a) (\<lambda>s. io_return [s])" binds
  by unfold_locales (auto simp: io_bind_Inr dest: mk_pinned)

text \<open>The sockets each transport opens: the pair of UDP sockets at the binding, one connection at each dialling.\<close>

definition udp_opened :: "'w sys_env \<Rightarrow> dialer \<Rightarrow> ipv4 \<times> ipv6 \<times> u16 \<Rightarrow> ('w, device_io_error, sock list) io" where
  "udp_opened env d = (\<lambda>(addr_v4, addr_v6, port). io_bind (bound_udp_bind env d addr_v4 addr_v6 port)
     (\<lambda>((send4, recv4), (send6, recv6)). io_return [send4, recv4, send6, recv6]))"

definition tcp_opened :: "'w sys_env \<Rightarrow> dialer \<Rightarrow> socket_addr \<Rightarrow> ('w, dialer_error, sock list) io" where
  "tcp_opened env d destination = io_bind (connect_tcp env d destination) (\<lambda>s. io_return [s])"

interpretation udp_device: device_transport env d "udp_opened env d" "\<lambda>_. True"
proof
  fix a w ss w' s
  assume run: "udp_opened env d a w = (Inr ss, w')" and s: "s \<in> set ss"
  obtain a4 a6 port s4 s6 w1 where "bind_udp_pair_loop env d a4 a6 port 0 w = (Inr (s4, s6), w1)" "ss = [s4, s4, s6, s6]"
    using run by (cases a) (auto simp: udp_opened_def bound_udp_bind_def bind_udp_pair_def io_bind_Inr io_map_err_Inr)
  then show "pinned env (dl_interface d) s" using bind_udp_pair_loop_ok s by fastforce
qed

interpretation tcp_device: device_transport env d "tcp_opened env d" "\<lambda>destination. should_bind (sa_ip destination)"
  unfolding tcp_opened_def by (rule tcp_factory.single.device_transport_axioms)

text \<open>What the FeiLian sender dials is what \<open>tcp_opened\<close> opens.\<close>

lemma feilian_dials:
  "te_connect (feilian_env env d write) destination w = (Inr (), w') \<longleftrightarrow> (\<exists>s. tcp_opened env d destination w = (Inr [s], w'))"
  by (auto simp: feilian_env_def tcp_opened_def io_bind_def split: prod.splits sum.splits)

text \<open>C9: the packets of the tunnel do not travel through the tunnel.  When a session builds its context for a full
  tunnel and hands the context's dialer to the device, every UDP socket the device binds, and every connection of the
  FeiLian transport to a routable server, is bound to the physical interface of the context, whose name is not that of
  the tunnel's own device, and carries the bypass mark on Linux.\<close>

theorem device_sockets_bypass_tunnel:
  assumes "build_context os views dns cfg = Inr ctx" "ocf_full_tunnel cfg"
  shows "\<exists>i. ctx_interface ctx = Some i \<and> oi_name i \<noteq> ocf_excluded_tun cfg \<and>
    (\<forall>addr_v4 addr_v6 port w w' send4 recv4 send6 recv6 s.
       bound_udp_bind env (ctx_directed ctx) addr_v4 addr_v6 port w = (Inr ((send4, recv4), (send6, recv6)), w') \<longrightarrow>
       s \<in> {send4, recv4, send6, recv6} \<longrightarrow>
       sk_device s = Some (oi_index i) \<and> (sys_platform env = Linux \<longrightarrow> sk_mark s = Some BYPASS_FWMARK)) \<and>
    (\<forall>server w w'. te_connect (feilian_env env (ctx_directed ctx) write) server w = (Inr (), w') \<longrightarrow>
       should_bind (sa_ip server) \<longrightarrow>
       (\<exists>s. connect_tcp env (ctx_directed ctx) server w = (Inr s, w') \<and> sk_device s = Some (oi_index i) \<and>
          (sys_platform env = Linux \<longrightarrow> sk_mark s = Some BYPASS_FWMARK)))"
proof -
  obtain i where i: "ctx_interface ctx = Some i" "oi_name i \<noteq> ocf_excluded_tun cfg" "dl_interface (ctx_directed ctx) = Some i"
    using context_bypass_dialer [OF assms(1)] assms(2) by (auto split: option.splits)
  have udp: "sk_device s = Some (oi_index i) \<and> (sys_platform env = Linux \<longrightarrow> sk_mark s = Some BYPASS_FWMARK)"
    if "bound_udp_bind env (ctx_directed ctx) a4 a6 port w = (Inr ((s4, r4), (s6, r6)), w')" "s \<in> {s4, r4, s6, r6}"
    for a4 a6 port w s4 r4 s6 r6 w' s
  proof -
    have "udp_opened env (ctx_directed ctx) (a4, a6, port) w = (Inr [s4, r4, s6, r6], w')"
      using that(1) by (simp add: udp_opened_def io_bind_def)
    from udp_device.opened_on_interface [OF this TrueI _ i(3)] that(2) show ?thesis by simp
  qed
  have tcp: "\<exists>s. connect_tcp env (ctx_directed ctx) server w = (Inr s, w') \<and> sk_device s = Some (oi_index i) \<and>
      (sys_platform env = Linux \<longrightarrow> sk_mark s = Some BYPASS_FWMARK)"
    if dialled: "te_connect (feilian_env env (ctx_directed ctx) write) server w = (Inr (), w')" and ok: "should_bind (sa_ip server)"
    for server w w'
  proof -
    obtain s where s: "tcp_opened env (ctx_directed ctx) server w = (Inr [s], w')" using dialled by (auto simp: feilian_dials)
    then have "connect_tcp env (ctx_directed ctx) server w = (Inr s, w')" by (auto simp: tcp_opened_def io_bind_Inr)
    then show ?thesis using tcp_device.opened_on_interface [OF s ok _ i(3)] by simp
  qed
  show ?thesis using i(1,2) udp tcp by (intro exI [of _ i] conjI allI impI) simp_all
qed

definition sample_udp :: "socket_family \<Rightarrow> ip_addr \<Rightarrow> u16 \<Rightarrow> sock" where
  "sample_udp family ip port = \<lparr>sk_family = family, sk_stream = False, sk_device = Some 2, sk_mark = Some BYPASS_FWMARK,
     sk_local = Some \<lparr>sa_ip = ip, sa_port = port\<rparr>, sk_peer = None\<rparr>"

lemma sample_binds:
  assumes "dl_interface d = Some sample_out"
  shows "bound_udp_bind willing_env d 0 0 0 () =
    (Inr ((sample_udp FamV4 (V4 0) 0, sample_udp FamV4 (V4 0) 0), (sample_udp FamV6 (V6 0) 4000, sample_udp FamV6 (V6 0) 4000)), ())"
proof -
  have "bind_udp willing_env d a () =
      (Inr (sample_udp (family_from_addr a) (sa_ip a) (sa_port a)), ())" for a
    by (simp add: bind_udp_def io_bind_def new_socket2_def sys_do_def willing_env_def bind_socket_to_interface_def
        bind_socket_to_interface_inner_def sample_udp_def sample_out_def assms)
  then show ?thesis
    by (simp add: bound_udp_bind_def bind_udp_pair_def bind_udp_pair_loop.simps io_bind_def io_map_err_def map_err_def
        family_from_addr_def is_ipv4_def) (simp add: willing_env_def sample_udp_def)
qed

theorem device_sockets_bypass_tunnel_witness:
  "\<exists>ctx i s. build_context sample_os [] (Some []) sample_ctx_config = Inr ctx \<and> ctx_interface ctx = Some i \<and> oi_name i \<noteq> ''utun4''
     \<and> fst (bound_udp_bind willing_env (ctx_directed ctx) 0 0 0 ()) = Inr ((s, s), (sample_udp FamV6 (V6 0) 4000, sample_udp FamV6 (V6 0) 4000))
     \<and> sk_device s = Some (oi_index i) \<and> sk_mark s = Some BYPASS_FWMARK"
proof -
  obtain ctx where c: "build_context sample_os [] (Some []) sample_ctx_config = Inr ctx"
    by (simp add: build_context_def sample_resolves sample_ctx_config_def system_dns_servers_def Let_def)
  have cfg: "ocf_full_tunnel sample_ctx_config" "ocf_excluded_tun sample_ctx_config = ''utun4''" by (simp_all add: sample_ctx_config_def)
  have "ctx_interface ctx = Some sample_out"
    using build_context_Inr(5) [OF c] sample_resolves by (simp add: sample_ctx_config_def)
  then have "dl_interface (ctx_directed ctx) = Some sample_out" using build_context_Inr(1) [OF c] by simp
  note run = sample_binds [OF this]
  obtain i where i: "ctx_interface ctx = Some i" "oi_name i \<noteq> ''utun4''"
    and pins: "\<forall>addr_v4 addr_v6 port w w' send4 recv4 send6 recv6 s.
       bound_udp_bind willing_env (ctx_directed ctx) addr_v4 addr_v6 port w = (Inr ((send4, recv4), (send6, recv6)), w') \<longrightarrow>
       s \<in> {send4, recv4, send6, recv6} \<longrightarrow>
       sk_device s = Some (oi_index i) \<and> (sys_platform willing_env = Linux \<longrightarrow> sk_mark s = Some BYPASS_FWMARK)"
    using device_sockets_bypass_tunnel [OF c cfg(1), of willing_env] unfolding cfg(2) by blast
  have "sys_platform willing_env = Linux" by (simp add: willing_env_def)
  with pins [rule_format, OF run insertI1]
  have "sk_device (sample_udp FamV4 (V4 0) 0) = Some (oi_index i)" "sk_mark (sample_udp FamV4 (V4 0) 0) = Some BYPASS_FWMARK"
    by simp_all
  with i(2) have "oi_name i \<noteq> ''utun4'' \<and> sk_device (sample_udp FamV4 (V4 0) 0) = Some (oi_index i)
    \<and> sk_mark (sample_udp FamV4 (V4 0) 0) = Some BYPASS_FWMARK" by blast
  with c run i(1) show ?thesis by (intro exI [of _ ctx] exI [of _ i] exI [of _ "sample_udp FamV4 (V4 0) 0"]) (simp only: fst_conv not_False_eq_True simp_thms)
qed

end
