(* ===== verification/Startup.thy ===== *)
theory Startup
  imports Services
begin

text \<open>
  The daemon's \<open>main\<close> (\<open>src/crates/daemon/src/main.rs\<close>), with the token (\<open>token.rs\<close>), the guard in front of the RPC
  services and the embedded UI (\<open>ui.rs\<close>): the startup, serving and the shutdown.
\<close>

section \<open>Startup and shutdown\<close>

text \<open>\<open>HttpClientPanic\<close> is the panic of \<open>Daemon::new\<close> when not even the default HTTP client can be built.\<close>

datatype init_error =
    LoadConfig path persist_error
  | LogLevelParse string
  | SaveConfig path persist_error
  | LoadCredentials path persist_error
  | BindListener socket_addr
  | Serve
  | HttpClientPanic

definition config_path :: "path \<Rightarrow> path" where "config_path dir = dir @ [''config.json'']"
definition credential_path :: "path \<Rightarrow> path" where "credential_path dir = dir @ [''credentials.json'']"

text \<open>\<open>main\<close> up to the router: load and complete the configuration, load the credentials, build the daemon,
  restore the session and resume the tunnel.\<close>

definition startup ::
  "('w, 'v, 'r, 'e, 'h) node_env \<Rightarrow> client_identity \<Rightarrow> path \<Rightarrow> 'w net \<Rightarrow> ('v, 'r) session_os
   \<Rightarrow> (fs, init_error, ('w, 'v, 'r) daemon) io" where
  "startup N identity_default dir n os =
     io_bind (io_map_err (LoadConfig (config_path dir)) (config_load_or_default (ne_config N) (config_path dir))) (\<lambda>loaded.
     let config = loaded\<lparr>dc_identity := snd (ensure_full identity_default (dc_identity loaded))\<rparr> in
     io_bind (io_map_err (SaveConfig (config_path dir)) (persist_save (ne_config N) config (config_path dir))) (\<lambda>_.
     io_bind (io_map_err (LoadCredentials (credential_path dir)) (credentials_load (ne_creds N) (credential_path dir)))
       (\<lambda>credentials files.
         case initial_http_pool (se_host (ne_session N)) (se_dns_conf (ne_session N)) config of
           None \<Rightarrow> (Inl HttpClientPanic, files)
         | Some pool \<Rightarrow>
             (let d = maybe_auto_resume N (restore_auth_state (daemon_new N identity_default pool config (config_path dir)
                        (credential_path dir) credentials n files os))
              in (Inr d, da_fs d)))))"

definition shutdown_daemon ::
  "(nat \<Rightarrow> ('w, 'v, 'r) daemon \<Rightarrow> ('w, 'v, 'r) daemon) \<Rightarrow> ('w, 'v, 'r) daemon \<Rightarrow> ('w, 'v, 'r) daemon" where
  "shutdown_daemon finish d = snd (disconnect_tunnel finish d)"

definition access_urls :: "host_os \<Rightarrow> socket_addr \<Rightarrow> string \<Rightarrow> string list" where
  "access_urls os listen token =
     (let hosts = (if is_unspecified (sa_ip listen)
            then V4 (ipv4_of_octets 127 0 0 1) #
              concat (map (\<lambda>i. map V4 (if_ipv4 i)) (filter (\<lambda>i. \<not> if_is_loopback i) (os_interfaces os)))
            else [sa_ip listen])
      in map (\<lambda>host. ''http://'' @ socket_addr_to_string \<lparr>sa_ip = host, sa_port = sa_port listen\<rparr>
           @ ''/?token='' @ token) hosts)"

text \<open>The command line; the parser has filled in its defaults.\<close>

record args =
  ar_config_dir :: "path option"
  ar_listen :: socket_addr
  ar_log_level :: string

definition default_log_level :: "bool \<Rightarrow> string" where
  "default_log_level debug_assertions = (if debug_assertions then ''debug'' else ''info'')"

definition default_config_dir :: "path option \<Rightarrow> path" where
  "default_config_dir config_dir = unwrap_or config_dir [''.''] @ [''rustylink'']"

text \<open>What \<open>main\<close> asks of the process: whether the log filter parses, the user's configuration directory, whether the
  address can be bound, and what serving until a signal or an error (\<open>False\<close>) makes of the daemon.\<close>

record 'd process =
  ps_log_filter_ok :: "string \<Rightarrow> bool"
  ps_config_dir :: "path option"
  ps_bind_ok :: "socket_addr \<Rightarrow> bool"
  ps_serve :: "'d \<Rightarrow> bool \<times> 'd"

text \<open>\<open>main\<close>: its result, with the daemon as it is when the process ends, if it was built.\<close>

definition run_main ::
  "('w, 'v, 'r) daemon process \<Rightarrow> ('w, 'v, 'r, 'e, 'h) node_env \<Rightarrow> (nat \<Rightarrow> ('w, 'v, 'r) daemon \<Rightarrow> ('w, 'v, 'r) daemon)
   \<Rightarrow> client_identity \<Rightarrow> args \<Rightarrow> 'w net \<Rightarrow> ('v, 'r) session_os \<Rightarrow> fs
   \<Rightarrow> (init_error, unit) result \<times> ('w, 'v, 'r) daemon option" where
  "run_main P N finish identity_default ar n os files =
     (if \<not> ps_log_filter_ok P (ar_log_level ar) then (Inl (LogLevelParse (ar_log_level ar)), None)
      else case startup N identity_default (unwrap_or (ar_config_dir ar) (default_config_dir (ps_config_dir P))) n os files of
        (Inl e, _) \<Rightarrow> (Inl e, None)
      | (Inr d, _) \<Rightarrow>
          if \<not> ps_bind_ok P (ar_listen ar) then (Inl (BindListener (ar_listen ar)), Some d)
          else (case ps_serve P d of
              (False, d1) \<Rightarrow> (Inl Serve, Some d1)
            | (True, d1) \<Rightarrow> (Inr (), Some (shutdown_daemon finish d1))))"

section \<open>The web server\<close>

definition generate_token :: "crypto \<Rightarrow> bytes \<Rightarrow> string" where
  "generate_token c random = hex_encode c random"

record web_request =
  wq_method :: string
  wq_path :: string
  wq_authorization :: "string option"

record asset =
  as_mimetype :: string
  as_data :: bytes

datatype 'a web_response = Unauthorized | Preflight | NotFound404 | AssetPage asset | Rpc 'a

definition assets_serve :: "(string \<Rightarrow> asset option) \<Rightarrow> string \<Rightarrow> 'a web_response" where
  "assets_serve assets p = (case or_else (assets p) (assets ''index.html'') of
      None \<Rightarrow> NotFound404 | Some a \<Rightarrow> AssetPage a)"

definition ui_handler :: "(string \<Rightarrow> asset option) \<Rightarrow> web_request \<Rightarrow> 'a web_response" where
  "ui_handler assets rq = assets_serve assets (trim_start_matches (\<lambda>c. c = CHR ''/'') (wq_path rq))"

text \<open>\<open>Router::nest\<close> strips the prefix of the paths at or below it.\<close>

definition nested :: "string \<Rightarrow> string \<Rightarrow> string option" where
  "nested pre p = (case strip_prefix pre p of
      Some [] \<Rightarrow> Some ''/''
    | Some (c # rest) \<Rightarrow> if c = CHR ''/'' then Some (c # rest) else None
    | None \<Rightarrow> None)"

text \<open>The two layers of the API: \<open>CorsLayer::new\<close>, outermost, answers \<open>OPTIONS\<close> requests itself;
  \<open>ValidateRequestHeaderLayer::bearer\<close> compares the whole header.\<close>

definition api_service :: "string \<Rightarrow> (web_request \<Rightarrow> 'd \<Rightarrow> 'a \<times> 'd) \<Rightarrow> web_request \<Rightarrow> 'd \<Rightarrow> 'a web_response \<times> 'd" where
  "api_service token router rq d =
     (if wq_method rq = ''OPTIONS'' then (Preflight, d)
      else if wq_authorization rq \<noteq> Some (''Bearer '' @ token) then (Unauthorized, d)
      else (case router rq d of (x, d') \<Rightarrow> (Rpc x, d')))"

definition web_app ::
  "string \<Rightarrow> (web_request \<Rightarrow> 'd \<Rightarrow> 'a \<times> 'd) \<Rightarrow> (string \<Rightarrow> asset option) \<Rightarrow> web_request \<Rightarrow> 'd \<Rightarrow> 'a web_response \<times> 'd" where
  "web_app token router assets rq d = (case nested ''/api'' (wq_path rq) of
      Some p \<Rightarrow> api_service token router (rq\<lparr>wq_path := p\<rparr>) d
    | None \<Rightarrow> (ui_handler assets rq, d))"

text \<open>A session of requests, in the order in which they are served.\<close>

definition serve_all ::
  "string \<Rightarrow> (web_request \<Rightarrow> 'd \<Rightarrow> 'a \<times> 'd) \<Rightarrow> (string \<Rightarrow> asset option) \<Rightarrow> web_request list \<Rightarrow> 'd \<Rightarrow> 'd" where
  "serve_all token router assets rqs d = fold (\<lambda>rq d. snd (web_app token router assets rq d)) rqs d"

lemma web_app_no_token:
  "wq_authorization rq \<noteq> Some (''Bearer '' @ token) \<Longrightarrow>
   snd (web_app token router assets rq d) = d \<and> (\<forall>x. fst (web_app token router assets rq d) \<noteq> Rpc x)"
  by (auto simp: web_app_def api_service_def ui_handler_def assets_serve_def split: option.split)

lemma serve_all_authorized:
  "serve_all token router assets rqs d
     = serve_all token router assets (filter (\<lambda>rq. wq_authorization rq = Some (''Bearer '' @ token)) rqs) d"
  by (induction rqs arbitrary: d) (simp_all add: serve_all_def web_app_no_token)



end
