(* ===== verification/Restart.thy ===== *)
theory Restart
  imports Startup PersistJson
begin

text \<open>
  What a daemon started from the files of a previous run finds: the composition of the daemon core, the two files with
  their JSON form, and the startup.  Storage that works is a file system whose script of failures is empty.
\<close>

section \<open>What a restart finds\<close>

lemma quiet_save:
  assumes "fs_script w = []" "jc_to_vec_pretty codec x = Some bs" "with_extension ''tmp'' p \<noteq> p"
  shows "\<exists>w'. persist_save codec x p w = (Inr (), w') \<and> fs_script w' = []
    \<and> fs_files w' = (fs_files w)(p \<mapsto> \<lparr>nd_content = bs, nd_mode = 384, nd_synced = True\<rparr>, with_extension ''tmp'' p := None)"
  using assms
  by (cases "parent p")
    (auto simp: persist_save_def atomic_write_def io_bind_def io_map_err_def create_dir_all_def next_outcome_def
      open_truncate_def fs_call_def put_files_def write_all.simps append_bytes_def sync_all_def set_permissions_def
      rename_def fun_upd_twist Let_def)

lemma quiet_load:
  assumes "fs_script w = []"
  shows "fs_files w p = None \<Longrightarrow> credentials_load codec p w = (Inr None, w)"
    and "fs_files w p = Some nd \<Longrightarrow> jc_from_slice codec (nd_content nd) = Some c \<Longrightarrow> credentials_load codec p w = (Inr (Some c), w)"
    and "fs_files w p = Some nd \<Longrightarrow> jc_from_slice ccodec (nd_content nd) = Some cfg \<Longrightarrow>
      config_load_or_default ccodec p w = (Inr cfg, w)"
  using assms by (simp_all add: credentials_load_def config_load_or_default_def read_file_def next_outcome_def)

lemma daemon_paths:
  "with_extension ''tmp'' (config_path dir) \<noteq> config_path dir"
  "with_extension ''tmp'' (credential_path dir) \<noteq> credential_path dir"
  "credential_path dir \<noteq> config_path dir" "with_extension ''tmp'' (config_path dir) \<noteq> credential_path dir"
  "with_extension ''tmp'' (credential_path dir) \<noteq> config_path dir"
proof -
  have stem: "file_stem ''config.json'' = ''config''" "file_stem ''credentials.json'' = ''credentials''" by code_simp+
  show "with_extension ''tmp'' (config_path dir) \<noteq> config_path dir"
    "with_extension ''tmp'' (credential_path dir) \<noteq> credential_path dir"
    "credential_path dir \<noteq> config_path dir" "with_extension ''tmp'' (config_path dir) \<noteq> credential_path dir"
    "with_extension ''tmp'' (credential_path dir) \<noteq> config_path dir"
    by (simp_all add: with_extension_def config_path_def credential_path_def stem)
qed

text \<open>\<open>stored\<close>: a file decodes to a value that encodes to it.\<close>

definition stored :: "'a json_codec \<Rightarrow> files \<Rightarrow> path \<Rightarrow> 'a \<Rightarrow> bool" where
  "stored codec f p x \<longleftrightarrow> (\<exists>nd. f p = Some nd \<and> jc_from_slice codec (nd_content nd) = Some x)"

definition encodes :: "'a json_codec \<Rightarrow> 'a \<Rightarrow> bool" where
  "encodes codec x \<longleftrightarrow> (\<exists>bs. jc_to_vec_pretty codec x = Some bs \<and> jc_from_slice codec bs = Some x)"

lemma config_encodes: "reads_back T (ser_daemon_config c) \<Longrightarrow> encodes (config_codec T) c"
  by (simp add: reads_back_def encodes_def config_codec_def codec_of_def from_slice_def config_round_trip)

lemma credentials_encode: "reads_back T (ser_credentials c) \<Longrightarrow> credentials_ok c \<Longrightarrow> encodes (credentials_codec T) c"
  by (simp add: reads_back_def encodes_def credentials_codec_def codec_of_def from_slice_def credentials_round_trip_json)

lemma quiet_save_stored:
  assumes "fs_script w = []" "encodes codec x" "with_extension ''tmp'' p \<noteq> p"
  obtains w' where "persist_save codec x p w = (Inr (), w')" "fs_script w' = []" "stored codec (fs_files w') p x"
    "\<And>q. q \<noteq> p \<Longrightarrow> q \<noteq> with_extension ''tmp'' p \<Longrightarrow> fs_files w' q = fs_files w q"
proof -
  obtain bs where bs: "jc_to_vec_pretty codec x = Some bs" "jc_from_slice codec bs = Some x"
    using assms(2) by (auto simp: encodes_def)
  from quiet_save [OF assms(1) bs(1) assms(3)] show thesis
    using that bs(2) assms(3) by (fastforce simp: stored_def)
qed

lemma startup_quiet:
  assumes "fs_script files = []" "stored (ne_config N) (fs_files files) (config_path dir) cfg"
    and "is_full (dc_identity cfg)" "encodes (ne_config N) cfg"
    and "initial_http_pool (se_host (ne_session N)) (se_dns_conf (ne_session N)) cfg = Some pool"
  obtains files1 where "fs_script files1 = []" "fs_files files1 (credential_path dir) = fs_files files (credential_path dir)"
    "\<And>creds. credentials_load (ne_creds N) (credential_path dir) files1 = (Inr creds, files1) \<Longrightarrow>
      startup N identity_default dir n os files = (let d = maybe_auto_resume N (restore_auth_state
        (daemon_new N identity_default pool cfg (config_path dir) (credential_path dir) creds n files1 os)) in (Inr d, da_fs d))"
proof -
  obtain nd where nd: "fs_files files (config_path dir) = Some nd" "jc_from_slice (ne_config N) (nd_content nd) = Some cfg"
    using assms(2) by (auto simp: stored_def)
  have load: "config_load_or_default (ne_config N) (config_path dir) files = (Inr cfg, files)"
    by (rule quiet_load(3) [OF assms(1) nd])
  have same: "cfg\<lparr>dc_identity := snd (ensure_full identity_default (dc_identity cfg))\<rparr> = cfg"
    using assms(3) by (simp add: ensure_full_def)
  obtain files1 where save: "persist_save (ne_config N) cfg (config_path dir) files = (Inr (), files1)"
    and q: "fs_script files1 = []"
    and f: "\<And>q. q \<noteq> config_path dir \<Longrightarrow> q \<noteq> with_extension ''tmp'' (config_path dir) \<Longrightarrow> fs_files files1 q = fs_files files q"
    using quiet_save_stored [OF assms(1,4) daemon_paths(1)] by blast
  show thesis
  proof (rule that [of files1])
    show "fs_files files1 (credential_path dir) = fs_files files (credential_path dir)"
      using f daemon_paths(3,4) by metis
    fix creds
    assume "credentials_load (ne_creds N) (credential_path dir) files1 = (Inr creds, files1)"
    then show "startup N identity_default dir n os files = (let d = maybe_auto_resume N (restore_auth_state
        (daemon_new N identity_default pool cfg (config_path dir) (credential_path dir) creds n files1 os)) in (Inr d, da_fs d))"
      using load same save assms(5) by (simp add: startup_def io_bind_def io_map_err_def Let_def)
  qed (rule q)
qed

lemma restored_daemon:
  "restore_auth_state (daemon_new N def pool cfg cp crp (Some creds) n files os)
     = (daemon_new N def pool cfg cp crp (Some creds) n files os)\<lparr>da_inner := (da_inner (daemon_new N def pool cfg cp crp (Some creds) n files os))
         \<lparr>di_auth := (fst (restore_from_credentials creds pool (to_client_identity def cfg) n))
            \<lparr>am_state := (if pc_cookies creds = [] then Configured else Authenticated)\<rparr>\<rparr>\<rparr>"
  by (simp add: restore_auth_state_def on_auth_def daemon_new_def restore_from_credentials_def restore_session_def
      on_inner_def Let_def)

lemma same_files:
  "da_fs d = w \<Longrightarrow> d\<lparr>da_fs := w\<rparr> = d"
  by (cases d) auto


text \<open>\<open>resumable\<close>: an authenticated daemon with cookies and auto-reconnect on, whose machine holds a request, whose files are those
  below \<open>dir\<close>, whose storage works, and whose configuration and credentials are read back from their JSON text.\<close>

definition resumable ::
  "('w, 'v, 'r, 'e, 'h) node_env \<Rightarrow> json_text \<Rightarrow> path \<Rightarrow> http_client \<Rightarrow> vpn_request \<Rightarrow> ('w, 'v, 'r) daemon \<Rightarrow> bool" where
  "resumable N T dir pool request d \<longleftrightarrow> (let i = da_inner d; S = ne_session N in
     am_state (di_auth i) = Authenticated \<and> net_jar (da_net d) \<noteq> [] \<and> fs_script (da_fs d) = []
     \<and> di_config_path i = config_path dir \<and> di_credential_path i = credential_path dir
     \<and> is_full (dc_identity (di_config i)) \<and> dc_auto_reconnect (di_config i)
     \<and> ne_config N = config_codec T \<and> reads_back T (ser_daemon_config (di_config i)) \<and> ne_creds N = credentials_codec T
     \<and> initial_http_pool (se_host S) (se_dns_conf S) (di_config i) = Some pool
     \<and> build_tenant_client (dn_http (ne_daemon N)) (di_auth i) \<noteq> None
     \<and> (\<exists>vm creds. di_vpn i = Some vm \<and> current_request (vm_state vm) = Some request
          \<and> to_credentials_with_vpn (ne_daemon N) (di_auth i) (da_net d) (current_persisted_request vm) = Some creds
          \<and> reads_back T (ser_credentials creds) \<and> credentials_ok creds))"

lemma restart_resumes:
  assumes "resumable N T dir pool request d"
  defines "d1 \<equiv> persist_credentials N (persist_config N d)"
  shows "\<exists>d2 vm2 task. startup N identity_default dir n os (da_fs d1) = (Inr d2, da_fs d2)
      \<and> am_state (di_auth (da_inner d2)) = Authenticated \<and> di_vpn (da_inner d2) = Some vm2
      \<and> vm_state vm2 = Connecting (request\<lparr>vr_otp := None\<rparr>) \<and> di_tunnel_task (da_inner d2) = Some task
      \<and> (task, request\<lparr>vr_otp := None\<rparr>, vm_cancel_token vm2) \<in> set (da_spawned d2)
      \<and> vm_cancel_token vm2 \<notin> set (da_cancelled d2)"
proof -
  have d: "am_state (di_auth (da_inner d)) = Authenticated" "net_jar (da_net d) \<noteq> []" "fs_script (da_fs d) = []"
      "di_config_path (da_inner d) = config_path dir" "di_credential_path (da_inner d) = credential_path dir"
      "is_full (dc_identity (di_config (da_inner d)))" "dc_auto_reconnect (di_config (da_inner d))"
    and json: "ne_config N = config_codec T" "reads_back T (ser_daemon_config (di_config (da_inner d)))"
      "ne_creds N = credentials_codec T"
    and pool: "initial_http_pool (se_host (ne_session N)) (se_dns_conf (ne_session N)) (di_config (da_inner d)) = Some pool"
    and tenant: "build_tenant_client (dn_http (ne_daemon N)) (di_auth (da_inner d)) \<noteq> None"
    using assms(1) by (simp_all add: resumable_def Let_def)
  obtain vm creds where vm: "di_vpn (da_inner d) = Some vm" "current_request (vm_state vm) = Some request"
    and saved: "to_credentials_with_vpn (ne_daemon N) (di_auth (da_inner d)) (da_net d) (current_persisted_request vm) = Some creds"
    and good: "reads_back T (ser_credentials creds)" "credentials_ok creds"
    using assms(1) by (auto simp: resumable_def Let_def)
  have enc: "encodes (ne_config N) (di_config (da_inner d))" "encodes (ne_creds N) creds"
    using json good by (simp_all add: config_encodes credentials_encode)
  let ?c = "di_config (da_inner d)"
  obtain fs1 where s1: "persist_save (ne_config N) ?c (config_path dir) (da_fs d) = (Inr (), fs1)"
    "fs_script fs1 = []" "stored (ne_config N) (fs_files fs1) (config_path dir) ?c"
    using quiet_save_stored [OF d(3) enc(1) daemon_paths(1)] by blast
  obtain fs2 where s2: "persist_save (ne_creds N) creds (credential_path dir) fs1 = (Inr (), fs2)"
    "fs_script fs2 = []" "stored (ne_creds N) (fs_files fs2) (credential_path dir) creds"
    and f2: "\<And>q. q \<noteq> credential_path dir \<Longrightarrow> q \<noteq> with_extension ''tmp'' (credential_path dir) \<Longrightarrow> fs_files fs2 q = fs_files fs1 q"
    using quiet_save_stored [OF s1(2) enc(2) daemon_paths(2)] by blast
  have d1: "d1 = d\<lparr>da_fs := fs2\<rparr>"
    using s1(1) s2(1) d(1,4,5) vm(1) saved by (simp add: d1_def persist_config_def persist_credentials_def)
  have cfg: "stored (ne_config N) (fs_files (da_fs d1)) (config_path dir) ?c"
    using s1(3) f2 daemon_paths(3,5) by (metis d1 daemon.select_convs(4) daemon.surjective daemon.update_convs(4) stored_def)
  have q: "fs_script (da_fs d1) = []" using s2(2) d1 by simp
  obtain files1 where f1: "fs_script files1 = []"
    "fs_files files1 (credential_path dir) = fs_files (da_fs d1) (credential_path dir)"
    and run: "\<And>creds. credentials_load (ne_creds N) (credential_path dir) files1 = (Inr creds, files1) \<Longrightarrow>
      startup N identity_default dir n os (da_fs d1) = (let d = maybe_auto_resume N (restore_auth_state
        (daemon_new N identity_default pool ?c (config_path dir) (credential_path dir) creds n files1 os)) in (Inr d, da_fs d))"
    using startup_quiet [OF q cfg d(6) enc(1) pool, where identity_default = identity_default and n = n and os = os] by blast
  have "stored (ne_creds N) (fs_files files1) (credential_path dir) creds" using s2(3) f1(2) d1 by (simp add: stored_def)
  then have load: "credentials_load (ne_creds N) (credential_path dir) files1 = (Inr (Some creds), files1)"
    using quiet_load(2) [OF f1(1)] by (auto simp: stored_def)
  let ?new = "restore_auth_state (daemon_new N identity_default pool ?c (config_path dir) (credential_path dir) (Some creds) n files1 os)"
  obtain tenant signing where ts: "am_tenant (di_auth (da_inner d)) = Some tenant" "pc_tenant creds = tenant"
    and jar: "pc_cookies creds = net_jar (da_net d)" and last: "pc_last_vpn_request creds = current_persisted_request vm"
    using saved by (auto simp: to_credentials_with_vpn_def to_credentials_def bind_eq_Some_conv)
  have auth: "am_state (di_auth (da_inner ?new)) = Authenticated"
    using jar d(2) by (simp add: restored_daemon)
  have client: "build_tenant_client (dn_http (ne_daemon N)) (di_auth (da_inner ?new)) \<noteq> None"
    using tenant ts by (auto simp: restored_daemon restore_from_credentials_def build_tenant_client_def bind_eq_Some_conv)
  have new: "di_vpn (da_inner ?new) = None" "di_config (da_inner ?new) = ?c" "da_fs ?new = files1"
    "di_credential_path (da_inner ?new) = credential_path dir"
    unfolding restored_daemon by (simp_all add: daemon_new_def split: prod.split)
  obtain p where p: "current_persisted_request vm = Some p" "resumed_request p = request\<lparr>vr_otp := None\<rparr>"
    using vm(2) by (auto simp: current_persisted_request_def resumed_request_def parse_android_name)
  obtain r d2 where con: "connect_tunnel N (request\<lparr>vr_otp := None\<rparr>) ?new = (r, d2)" by fastforce
  have "maybe_auto_resume N ?new = snd (connect_tunnel N (request\<lparr>vr_otp := None\<rparr>) (?new\<lparr>da_fs := files1\<rparr>))"
    using d(7) new load last p by (simp add: maybe_auto_resume_def Let_def)
  then have m: "maybe_auto_resume N ?new = d2"
    by (simp only: same_files [OF new(3)] con snd_conv)
  have fresh: "da_cancelled ?new = []"
    unfolding restored_daemon by (simp add: daemon_new_def split: prod.split)
  from con obtain vm2 where "di_vpn (da_inner d2) = Some vm2" "vm_state vm2 = Connecting (request\<lparr>vr_otp := None\<rparr>)"
    "di_auth (da_inner d2) = di_auth (da_inner ?new)" "di_tunnel_task (da_inner d2) = Some (vm_cancel_token vm2 + 1)"
    "(vm_cancel_token vm2 + 1, request\<lparr>vr_otp := None\<rparr>, vm_cancel_token vm2) \<in> set (da_spawned d2)"
    "da_cancelled d2 = da_cancelled ?new"
    by (cases rule: connect_tunnel_cases) (use auth client new(1) in auto)
  then show ?thesis
    using run [OF load] m auth fresh by (auto simp: Let_def)
qed


text \<open>C20: a second daemon abandons a tunnel.  When the address cannot be bound, for instance because a daemon is running already, \<open>main\<close>
  ends with that error after it has resumed the tunnel of the last run: the connect task is running, its token is
  not cancelled and nobody waits for it to give back its routes.\<close>

theorem bind_failure_abandons_tunnel:
  assumes "resumable N T dir pool request d" "ps_log_filter_ok P (ar_log_level ar)" "ar_config_dir ar = Some dir"
    and "\<not> ps_bind_ok P (ar_listen ar)"
  shows "\<exists>d2 vm2 task. run_main P N finish identity_default ar n os (da_fs (persist_credentials N (persist_config N d)))
        = (Inl (BindListener (ar_listen ar)), Some d2)
      \<and> di_vpn (da_inner d2) = Some vm2 \<and> di_tunnel_task (da_inner d2) = Some task
      \<and> (task, request\<lparr>vr_otp := None\<rparr>, vm_cancel_token vm2) \<in> set (da_spawned d2)
      \<and> vm_cancel_token vm2 \<notin> set (da_cancelled d2)"
  using restart_resumes [OF assms(1), where identity_default = identity_default and n = n and os = os] assms(2-4)
  unfolding run_main_def by (auto simp: unwrap_or_def)

section \<open>Concrete instances\<close>

text \<open>A text format that has exactly two values.\<close>

definition two_texts :: "json \<Rightarrow> json \<Rightarrow> json_text" where
  "two_texts a b = (let write = (\<lambda>j. if j = a then [1] else [2])
     in \<lparr>jt_to_vec = write, jt_to_vec_pretty = write,
       jt_from_slice = (\<lambda>bs. if bs = [1] then Some a else if bs = [2] then Some b else None), jt_from_str = (\<lambda>_. None)\<rparr>)"

lemma two_texts_read_back: "reads_back (two_texts a b) a" "a \<noteq> b \<Longrightarrow> reads_back (two_texts a b) b"
  by (simp_all add: reads_back_def two_texts_def Let_def)

definition sample_full_config :: daemon_config where
  "sample_full_config = daemon_config_default\<lparr>dc_auto_reconnect := True,
     dc_identity := \<lparr>dic_device_id = ''d'', dic_os = Some ''x'', dic_os_version = Some ''x'', dic_app_version = Some ''x'',
       dic_brand = Some ''x'', dic_model = Some ''x'', dic_build_number = Some ''x'', dic_os_version_patch = Some ''x'',
       dic_client_source = Some ''x'', dic_language = Some ''x'', dic_user_agent = Some ''x''\<rparr>\<rparr>"

definition sample_running :: "((nat \<times> bytes), unit, ip_rule) daemon" where
  "sample_running = (let d = sample_daemon (Some \<lparr>vm_state = Connecting sample_vpn_request,
       vm_api_client = sample_client signing_config_default, vm_tunnel_session = None, vm_cancel_token = 0\<rparr>) in
     d\<lparr>da_inner := (da_inner d)\<lparr>di_config := sample_full_config, di_config_path := config_path [''etc''],
         di_credential_path := credential_path [''etc'']\<rparr>,
       da_fs := \<lparr>fs_files = Map.empty, fs_dirs = [], fs_script = [], fs_history = []\<rparr>\<rparr>)"

definition sample_saved :: persisted_credentials where
  "sample_saved = the (to_credentials_with_vpn sample_daemon_env (di_auth (da_inner sample_running)) (da_net sample_running)
     (Option.bind (di_vpn (da_inner sample_running)) current_persisted_request))"

definition sample_disk_text :: json_text where
  "sample_disk_text = two_texts (ser_daemon_config sample_full_config) (ser_credentials sample_saved)"

definition sample_disk_env :: "((nat \<times> bytes), unit, ip_rule, linux_error, bool) node_env" where
  "sample_disk_env = sample_node_env\<lparr>ne_creds := credentials_codec sample_disk_text, ne_config := config_codec sample_disk_text\<rparr>"

lemma sample_texts: "reads_back sample_disk_text (ser_daemon_config sample_full_config)" "reads_back sample_disk_text (ser_credentials sample_saved)"
  unfolding sample_disk_text_def
  by (rule two_texts_read_back(1), rule two_texts_read_back(2)) (simp add: ser_daemon_config_def ser_credentials_def)

lemma sample_full: "is_full (dc_identity sample_full_config)"
  by (simp add: sample_full_config_def) code_simp

lemma auto_on: "dc_auto_reconnect sample_full_config"
  by (simp add: sample_full_config_def)

lemma sample_pool:
  obtains pool where "initial_http_pool (se_host (ne_session sample_disk_env)) (se_dns_conf (ne_session sample_disk_env))
    sample_full_config = Some pool"
  by (simp add: sample_disk_env_def sample_node_env_def sample_session_env_def initial_http_pool_def sample_full_config_def
    daemon_config_default_def build_http_client_def build_dialer_and_resolver_def system_dns_servers_def Let_def)

lemma sample_running_simps:
  "am_state (di_auth (da_inner sample_running)) = Authenticated" "net_jar (da_net sample_running) \<noteq> []"
  "fs_script (da_fs sample_running) = []" "di_config_path (da_inner sample_running) = config_path [''etc'']"
  "di_credential_path (da_inner sample_running) = credential_path [''etc'']"
  "di_config (da_inner sample_running) = sample_full_config"
  "di_auth (da_inner sample_running) = sample_machine\<lparr>am_state := Authenticated\<rparr>"
  by (simp_all add: sample_running_def sample_daemon_def jar_net_def Let_def)

lemma sample_disk_env_simps:
  "ne_daemon sample_disk_env = sample_daemon_env" "ne_creds sample_disk_env = credentials_codec sample_disk_text"
  "ne_config sample_disk_env = config_codec sample_disk_text"
  by (simp_all add: sample_disk_env_def sample_node_env_def)

lemma sample_good: "credentials_ok sample_saved"
  unfolding sample_saved_def
  by (simp add: sample_running_def sample_daemon_def to_credentials_with_vpn_def to_credentials_def sample_machine_def jar_net_def
      credentials_ok_def request_ok_def current_persisted_request_def current_request_def sample_vpn_request_def
      vpn_request_default_def Let_def)

lemma sample_resumable: "\<exists>pool. resumable sample_disk_env sample_disk_text [''etc''] pool sample_vpn_request sample_running"
proof -
  obtain pool where pool: "initial_http_pool (se_host (ne_session sample_disk_env)) (se_dns_conf (ne_session sample_disk_env))
      sample_full_config = Some pool" by (rule sample_pool)
  obtain vm where vm: "di_vpn (da_inner sample_running) = Some vm" "vm_state vm = Connecting sample_vpn_request"
    by (simp add: sample_running_def sample_daemon_def Let_def)
  have saved: "to_credentials_with_vpn sample_daemon_env (sample_machine\<lparr>am_state := Authenticated\<rparr>) (da_net sample_running)
      (current_persisted_request vm) = Some sample_saved"
    unfolding sample_saved_def sample_running_simps using vm(1)
    by (simp add: to_credentials_with_vpn_def to_credentials_def sample_machine_def)
  have client: "build_tenant_client (dn_http (ne_daemon sample_disk_env)) (di_auth (da_inner sample_running)) \<noteq> None"
    by (simp add: build_tenant_client_def sample_machine_def sample_daemon_env_def sample_env_def parse_base_url_def
        sample_running_simps sample_disk_env_simps)
  have req: "current_request (vm_state vm) = Some sample_vpn_request" by (simp add: vm current_request_def)
  show ?thesis
    unfolding resumable_def Let_def
    using pool vm(1) req saved sample_good client sample_full
    by (auto simp: sample_running_simps sample_disk_env_simps sample_texts auto_on)
qed


theorem bind_failure_abandons_tunnel_witness:
  "\<exists>d2. run_main \<lparr>ps_log_filter_ok = (\<lambda>_. True), ps_config_dir = None, ps_bind_ok = (\<lambda>_. False), ps_serve = (\<lambda>d. (True, d))\<rparr>
      sample_disk_env (\<lambda>_ x. x) sample_identity \<lparr>ar_config_dir = Some [''etc''], ar_listen = \<lparr>sa_ip = V4 0x7F000001, sa_port = 7878\<rparr>,
        ar_log_level = ''info''\<rparr> (jar_net []) sample_session_os
      (da_fs (persist_credentials sample_disk_env (persist_config sample_disk_env sample_running)))
      = (Inl (BindListener \<lparr>sa_ip = V4 0x7F000001, sa_port = 7878\<rparr>), Some d2) \<and> di_tunnel_task (da_inner d2) \<noteq> None"
proof -
  obtain pool where "resumable sample_disk_env sample_disk_text [''etc''] pool sample_vpn_request sample_running"
    using sample_resumable by blast
  from bind_failure_abandons_tunnel [OF this, where identity_default = sample_identity and n = "jar_net []" and os = sample_session_os
      and P = "\<lparr>ps_log_filter_ok = (\<lambda>_. True), ps_config_dir = None, ps_bind_ok = (\<lambda>_. False), ps_serve = (\<lambda>d. (True, d))\<rparr>"
      and ar = "\<lparr>ar_config_dir = Some [''etc''], ar_listen = \<lparr>sa_ip = V4 0x7F000001, sa_port = 7878\<rparr>, ar_log_level = ''info''\<rparr>"
      and finish = "\<lambda>_ x. x"]
  show ?thesis by auto
qed


definition sample_on_disk :: "((nat \<times> bytes), unit, ip_rule) daemon" where
  "sample_on_disk = sample_running\<lparr>da_fs := \<lparr>fs_files = [config_path [''etc''] \<mapsto> \<lparr>nd_content = [1], nd_mode = 384,
     nd_synced = True\<rparr>], fs_dirs = [], fs_script = [], fs_history = []\<rparr>\<rparr>"


section \<open>Files that cannot be read\<close>

text \<open>Unreadable files stop the daemon and stay.  A configuration that does not parse ends the startup before anything
  is written.  Credentials that do not parse end it too, after the completed configuration was saved, and are neither
  deleted nor overwritten.\<close>

theorem corrupt_files_stop_startup:
  assumes "fs_script files = []" "fs_files files (config_path dir) = Some cf" "fs_files files (credential_path dir) = Some kf"
    and "case jc_from_slice (ne_config N) (nd_content cf) of None \<Rightarrow> True
      | Some cfg \<Rightarrow> jc_from_slice (ne_creds N) (nd_content kf) = None \<and>
          jc_to_vec_pretty (ne_config N) (cfg\<lparr>dc_identity := snd (ensure_full identity_default (dc_identity cfg))\<rparr>) \<noteq> None"
  shows "\<exists>e files'. startup N identity_default dir n os files = (Inl e, files')
    \<and> (if jc_from_slice (ne_config N) (nd_content cf) = None
       then e = LoadConfig (config_path dir) (Parse (config_path dir)) \<and> files' = files
       else e = LoadCredentials (credential_path dir) (Parse (credential_path dir)))
    \<and> fs_files files' (credential_path dir) = Some kf"
proof (cases "jc_from_slice (ne_config N) (nd_content cf)")
  case None
  then have "config_load_or_default (ne_config N) (config_path dir) files = (Inl (Parse (config_path dir)), files)"
    using assms(1,2) by (simp add: config_load_or_default_def read_file_def next_outcome_def ok_or_def)
  then show ?thesis using None assms(3) by (simp add: startup_def io_bind_def io_map_err_def)
next
  case (Some cfg)
  let ?cfg = "cfg\<lparr>dc_identity := snd (ensure_full identity_default (dc_identity cfg))\<rparr>"
  have load: "config_load_or_default (ne_config N) (config_path dir) files = (Inr cfg, files)"
    by (rule quiet_load(3) [OF assms(1,2) Some])
  obtain bs where "jc_to_vec_pretty (ne_config N) ?cfg = Some bs" using assms(4) Some by auto
  from quiet_save [OF assms(1) this daemon_paths(1)] obtain files' where
    save: "persist_save (ne_config N) ?cfg (config_path dir) files = (Inr (), files')" "fs_script files' = []"
    and "fs_files files' = (fs_files files)(config_path dir \<mapsto> \<lparr>nd_content = bs, nd_mode = 384, nd_synced = True\<rparr>,
      with_extension ''tmp'' (config_path dir) := None)" by blast
  then have kf: "fs_files files' (credential_path dir) = Some kf"
    using assms(3) daemon_paths(3) daemon_paths(4) [symmetric] by simp
  then have "credentials_load (ne_creds N) (credential_path dir) files' = (Inl (Parse (credential_path dir)), files')"
    using assms(4) Some save(2) by (simp add: credentials_load_def read_file_def next_outcome_def ok_or_def)
  then show ?thesis
    using load save(1) kf Some by (simp add: startup_def io_bind_def io_map_err_def Let_def)
qed

section \<open>Refreshed cookies\<close>

text \<open>\<open>install_cookie_persist_listener\<close>: each notification of the jar since \<open>before\<close> has spawned a task that saves the
  credentials; \<open>listener_tasks\<close> runs them.\<close>

definition listener_tasks :: "('w, 'v, 'r, 'e, 'h) node_env \<Rightarrow> 'w net \<Rightarrow> ('w, 'v, 'r) daemon \<Rightarrow> ('w, 'v, 'r) daemon" where
  "listener_tasks N before d = (persist_credentials N ^^ (net_notified (da_net d) - net_notified before)) d"

lemma merge_loop_notifies: "merge_loop ups jar changed = (jar', changed') \<Longrightarrow> changed' \<or> (\<not> changed \<and> jar' = jar)"
  by (induction ups jar changed rule: merge_loop.induct) (auto split: if_splits)

lemma merge_notifies: "net_jar (jar_merge ups n) \<noteq> net_jar n \<Longrightarrow> net_notified (jar_merge ups n) = Suc (net_notified n)"
  using merge_loop_notifies [of ups "net_jar n" False] by (auto simp: jar_merge_def split: prod.splits)

lemma persist_repeated:
  assumes "am_state (di_auth (da_inner d)) = Authenticated"
    and "to_credentials_with_vpn (ne_daemon N) (di_auth (da_inner d)) (da_net d)
      (Option.bind (di_vpn (da_inner d)) current_persisted_request) = Some creds"
    and "fs_script (da_fs d) = []" "encodes (ne_creds N) creds"
    and "with_extension ''tmp'' (di_credential_path (da_inner d)) \<noteq> di_credential_path (da_inner d)"
  shows "\<exists>w. (persist_credentials N ^^ Suc k) d = d\<lparr>da_fs := w\<rparr> \<and> fs_script w = []
    \<and> stored (ne_creds N) (fs_files w) (di_credential_path (da_inner d)) creds"
proof (induction k)
  case 0
  obtain w where "persist_save (ne_creds N) creds (di_credential_path (da_inner d)) (da_fs d) = (Inr (), w)" "fs_script w = []"
    "stored (ne_creds N) (fs_files w) (di_credential_path (da_inner d)) creds"
    using quiet_save_stored [OF assms(3-5)] by blast
  with assms(1,2) show ?case by (intro exI [of _ w]) (simp add: persist_credentials_def Let_def)
next
  case (Suc k)
  then obtain w where w: "(persist_credentials N ^^ Suc k) d = d\<lparr>da_fs := w\<rparr>" "fs_script w = []" by blast
  obtain w' where "persist_save (ne_creds N) creds (di_credential_path (da_inner d)) w = (Inr (), w')" "fs_script w' = []"
    "stored (ne_creds N) (fs_files w') (di_credential_path (da_inner d)) creds"
    using quiet_save_stored [OF w(2) assms(4,5)] by blast
  then have "persist_credentials N (d\<lparr>da_fs := w\<rparr>) = d\<lparr>da_fs := w'\<rparr>"
    using assms(1,2) by (simp add: persist_credentials_def Let_def)
  moreover have "(persist_credentials N ^^ Suc (Suc k)) d = persist_credentials N (d\<lparr>da_fs := w\<rparr>)"
    using w(1) by simp
  ultimately show ?case
    using \<open>fs_script w' = []\<close> \<open>stored (ne_creds N) (fs_files w') (di_credential_path (da_inner d)) creds\<close> by auto
qed

text \<open>C32: refreshed cookies reach the disk.  When an answer of the server changes the cookie jar of an authenticated daemon whose
  storage works, then, once the tasks of the jar's listener have run, the credentials file holds the new jar and
  a daemon restored from it has exactly these cookies.\<close>

theorem refreshed_cookies_saved:
  assumes "da_net d = jar_merge updates before" "net_jar (da_net d) \<noteq> net_jar before"
    and "am_state (di_auth (da_inner d)) = Authenticated"
    and "to_credentials_with_vpn (ne_daemon N) (di_auth (da_inner d)) (da_net d)
      (Option.bind (di_vpn (da_inner d)) current_persisted_request) = Some creds"
    and "fs_script (da_fs d) = []" "di_credential_path (da_inner d) = credential_path dir"
    and "ne_creds N = credentials_codec T" "reads_back T (ser_credentials creds)" "credentials_ok creds"
  shows "let files = fs_files (da_fs (listener_tasks N before d)) in
      (\<exists>nd. files (credential_path dir) = Some nd \<and> from_slice T de_credentials (nd_content nd) = Some creds)
      \<and> net_jar (snd (restore_from_credentials creds pool identity n)) = net_jar (da_net d)"
proof -
  have one: "net_notified (da_net d) - net_notified before = Suc 0"
    using merge_notifies [of updates before] assms(1,2) by simp
  have enc: "encodes (ne_creds N) creds"
    using assms(7-9) by (simp add: credentials_encode)
  have tmp: "with_extension ''tmp'' (di_credential_path (da_inner d)) \<noteq> di_credential_path (da_inner d)"
    using daemon_paths(2) assms(6) by simp
  obtain w where "listener_tasks N before d = d\<lparr>da_fs := w\<rparr>" "stored (ne_creds N) (fs_files w) (credential_path dir) creds"
    using persist_repeated [OF assms(3,4,5) enc tmp, of 0] assms(6) unfolding listener_tasks_def one by auto
  moreover have "pc_cookies creds = net_jar (da_net d)"
    using assms(4) by (auto simp: to_credentials_with_vpn_def to_credentials_def bind_eq_Some_conv)
  ultimately show ?thesis
    using assms(7) by (auto simp: Let_def stored_def credentials_codec_def codec_of_def restore_from_credentials_def)
qed

definition sample_corrupt :: fs where
  "sample_corrupt = \<lparr>fs_files = [config_path [''etc''] \<mapsto> \<lparr>nd_content = [1], nd_mode = 384, nd_synced = True\<rparr>,
     credential_path [''etc''] \<mapsto> \<lparr>nd_content = [9], nd_mode = 384, nd_synced = True\<rparr>], fs_dirs = [], fs_script = [], fs_history = []\<rparr>"

theorem corrupt_files_stop_startup_witness:
  "\<exists>files'. startup sample_disk_env sample_identity [''etc''] (jar_net []) sample_session_os sample_corrupt
      = (Inl (LoadCredentials (credential_path [''etc'']) (Parse (credential_path [''etc'']))), files')
    \<and> fs_files files' (credential_path [''etc'']) \<noteq> None"
proof -
  let ?cf = "\<lparr>nd_content = [1], nd_mode = 384, nd_synced = True\<rparr>"
  let ?kf = "\<lparr>nd_content = [9], nd_mode = 384, nd_synced = True\<rparr>"
  have f: "fs_script sample_corrupt = []" "fs_files sample_corrupt (config_path [''etc'']) = Some ?cf"
    "fs_files sample_corrupt (credential_path [''etc'']) = Some ?kf"
    using daemon_paths(3) [symmetric] by (simp_all add: sample_corrupt_def)
  have c: "jc_from_slice (ne_config sample_disk_env) [1] = Some sample_full_config"
    "jc_from_slice (ne_creds sample_disk_env) [9] = None" "jc_to_vec_pretty (ne_config sample_disk_env) x \<noteq> None" for x
    by (simp_all add: sample_disk_env_simps config_codec_def credentials_codec_def codec_of_def from_slice_def sample_disk_text_def
        two_texts_def config_round_trip Let_def)
  from corrupt_files_stop_startup [OF f, where N = sample_disk_env and identity_default = sample_identity and n = "jar_net []"
      and os = sample_session_os]
  show ?thesis using c by auto
qed

theorem refreshed_cookies_saved_witness:
  "\<exists>nd. fs_files (da_fs (listener_tasks sample_disk_env (jar_net []) (sample_running\<lparr>da_net := jar_merge [(''csrf-token'', ''x'')] (jar_net [])\<rparr>)))
    (credential_path [''etc'']) = Some nd"
proof -
  let ?d = "sample_running\<lparr>da_net := jar_merge [(''csrf-token'', ''x'')] (jar_net [])\<rparr>"
  have jar: "net_jar (da_net ?d) = [(''csrf-token'', ''x'')]" by (simp add: jar_merge_def jar_net_def)
  have "to_credentials_with_vpn (ne_daemon sample_disk_env) (di_auth (da_inner ?d)) (da_net ?d)
      (Option.bind (di_vpn (da_inner ?d)) current_persisted_request) = Some sample_saved"
    unfolding sample_saved_def
    by (simp add: sample_disk_env_simps sample_running_def sample_daemon_def to_credentials_with_vpn_def to_credentials_def
        sample_machine_def jar_net_def jar_merge_def sample_daemon_env_def Let_def)
  from refreshed_cookies_saved [OF _ _ _ this, where updates = "[(''csrf-token'', ''x'')]" and before = "jar_net []" and dir = "[''etc'']"
      and T = sample_disk_text and pool = "am_http_pool sample_machine" and identity = sample_identity and n = "jar_net []"]
  show ?thesis
    using jar sample_texts(2) sample_good by (auto simp: sample_running_simps sample_disk_env_simps jar_net_def Let_def)
qed

end
