(* ===== verification/Races.thy ===== *)
theory Races
  imports Restart
begin

text \<open>
  What can come between the two halves of an operation of the daemon (\<open>src/crates/daemon/src\<close>): \<open>persist_credentials\<close>
  takes its snapshot under the lock and saves it without, \<open>complete_device_login\<close> polls without the lock, and
  \<open>atomic_write\<close> stages every save of a file in the same temporary file.
\<close>

section \<open>A save that comes late\<close>

text \<open>\<open>persist_credentials\<close> in its two sections.\<close>

definition persist_snapshot ::
  "('w, 'v, 'r, 'e, 'h) node_env \<Rightarrow> ('w, 'v, 'r) daemon \<Rightarrow> (path \<times> persisted_credentials) option" where
  "persist_snapshot N d = (let i = da_inner d in
     if am_state (di_auth i) \<noteq> Authenticated then None
     else map_option (\<lambda>creds. (di_credential_path i, creds))
       (to_credentials_with_vpn (ne_daemon N) (di_auth i) (da_net d) (Option.bind (di_vpn i) current_persisted_request)))"

definition persist_write ::
  "('w, 'v, 'r, 'e, 'h) node_env \<Rightarrow> path \<times> persisted_credentials \<Rightarrow> ('w, 'v, 'r) daemon \<Rightarrow> ('w, 'v, 'r) daemon" where
  "persist_write N = (\<lambda>(p, creds) d. d\<lparr>da_fs := snd (persist_save (ne_creds N) creds p (da_fs d))\<rparr>)"

lemma persist_credentials_sections:
  "persist_credentials N d = (case persist_snapshot N d of None \<Rightarrow> d | Some s \<Rightarrow> persist_write N s d)"
  by (simp add: persist_credentials_def persist_snapshot_def persist_write_def Let_def split: option.split)

lemma auto_resume_auth: "di_auth (da_inner (maybe_auto_resume N d)) = di_auth (da_inner d)"
proof -
  have "di_auth (da_inner (snd (connect_tunnel N request e))) = di_auth (da_inner e)" for request e
  proof (cases "connect_tunnel N request e")
    case (Pair r e')
    from Pair show ?thesis by (cases rule: connect_tunnel_cases) (simp_all add: Pair)
  qed
  then show ?thesis by (simp add: maybe_auto_resume_def Let_def split: prod.split option.split)
qed

text \<open>A daemon started from stored files is authenticated when the stored cookies are not empty.\<close>

lemma startup_stored:
  assumes "fs_script w = []" "stored (ne_config N) (fs_files w) (config_path dir) cfg" "is_full (dc_identity cfg)"
    and "encodes (ne_config N) cfg"
    and "initial_http_pool (se_host (ne_session N)) (se_dns_conf (ne_session N)) cfg = Some pool"
    and "stored (ne_creds N) (fs_files w) (credential_path dir) creds" "pc_cookies creds \<noteq> []"
  shows "\<exists>d. startup N identity_default dir n os w = (Inr d, da_fs d) \<and> am_state (di_auth (da_inner d)) = Authenticated"
proof -
  obtain files1 where f1: "fs_script files1 = []" "fs_files files1 (credential_path dir) = fs_files w (credential_path dir)"
    and run: "\<And>c. credentials_load (ne_creds N) (credential_path dir) files1 = (Inr c, files1) \<Longrightarrow>
      startup N identity_default dir n os w = (let d = maybe_auto_resume N (restore_auth_state
        (daemon_new N identity_default pool cfg (config_path dir) (credential_path dir) c n files1 os)) in (Inr d, da_fs d))"
    using startup_quiet [OF assms(1-5), where identity_default = identity_default and n = n and os = os] by blast
  have "credentials_load (ne_creds N) (credential_path dir) files1 = (Inr (Some creds), files1)"
    using assms(6) quiet_load(2) [OF f1(1)] f1(2) by (auto simp: stored_def)
  from run [OF this] assms(7) show ?thesis by (simp add: Let_def auto_resume_auth restored_daemon)
qed

lemma logout_effect:
  assumes "am_state (di_auth (da_inner d)) \<noteq> Unconfigured"
  obtains d1 where "rpc_logout N logout_all d = (Inr (current_session d1), d1)"
    "da_fs d1 = snd (credentials_delete (di_credential_path (da_inner d)) (da_fs d))"
    "am_state (di_auth (da_inner d1)) = Configured" "net_jar (da_net d1) = []"
    "di_credential_path (da_inner d1) = di_credential_path (da_inner d)"
proof
  let ?d0 = "snd (on_auth (am_logout (ne_daemon N) logout_all) d)"
  obtain a n0 where a: "am_logout (ne_daemon N) logout_all (di_auth (da_inner d), da_net d) = (Inr (), (a, n0))"
    and st: "am_state a = Configured" "net_jar n0 = []"
    by (auto simp: am_logout_def clear_session_def jar_clear_def Let_def)
  have d0: "?d0 = (on_inner (\<lambda>i. i\<lparr>di_auth := a\<rparr>) d)\<lparr>da_net := n0\<rparr>" by (simp add: on_auth_def a)
  show "rpc_logout N logout_all d = (Inr (current_session (delete_credentials ?d0)), delete_credentials ?d0)"
    using assms by (simp add: rpc_logout_def guarded_def require_configured_def Let_def)
  show "da_fs (delete_credentials ?d0) = snd (credentials_delete (di_credential_path (da_inner d)) (da_fs d))"
    "am_state (di_auth (da_inner (delete_credentials ?d0))) = Configured" "net_jar (da_net (delete_credentials ?d0)) = []"
    "di_credential_path (da_inner (delete_credentials ?d0)) = di_credential_path (da_inner d)"
    by (simp_all add: delete_credentials_def d0 st on_inner_def)
qed

lemma quiet_delete:
  assumes "fs_script w = []"
  shows "fs_script (snd (credentials_delete p w)) = [] \<and> fs_files (snd (credentials_delete p w)) = (fs_files w)(p := None)"
  using assms by (auto simp: credentials_delete_def remove_file_def next_outcome_def put_files_def)

text \<open>C21: a late save undoes a logout.  A save of the credentials that has taken its snapshot before a logout and writes it
  after (the lock is released in between) brings the deleted file back, although the daemon itself is logged out, and the next
  daemon that is started is authenticated again.  Without a logout in between the two sections are the save.\<close>

theorem late_save_undoes_logout:
  assumes "persist_snapshot N d = Some (credential_path dir, creds)" "net_jar (da_net d) \<noteq> []" "fs_script (da_fs d) = []"
    and "stored (ne_config N) (fs_files (da_fs d)) (config_path dir) cfg" "is_full (dc_identity cfg)"
    and "ne_config N = config_codec T" "reads_back T (ser_daemon_config cfg)"
    and "ne_creds N = credentials_codec T" "reads_back T (ser_credentials creds)" "credentials_ok creds"
    and "initial_http_pool (se_host (ne_session N)) (se_dns_conf (ne_session N)) cfg = Some pool"
  shows "persist_credentials N d = persist_write N (credential_path dir, creds) d
    \<and> (\<exists>session d1 d2 d3. rpc_logout N logout_all d = (Inr session, d1)
      \<and> fs_files (da_fs d1) (credential_path dir) = None
      \<and> d2 = persist_write N (credential_path dir, creds) d1 \<and> am_state (di_auth (da_inner d2)) = Configured
      \<and> startup N identity_default dir n os (da_fs d2) = (Inr d3, da_fs d3) \<and> am_state (di_auth (da_inner d3)) = Authenticated)"
proof
  show "persist_credentials N d = persist_write N (credential_path dir, creds) d"
    using assms(1) by (simp add: persist_credentials_sections)
  have enc: "encodes (ne_config N) cfg" "encodes (ne_creds N) creds" using assms(6-10) by (simp_all add: config_encodes credentials_encode)
  have auth: "am_state (di_auth (da_inner d)) = Authenticated" "di_credential_path (da_inner d) = credential_path dir"
    "pc_cookies creds \<noteq> []"
    using assms(1,2) by (auto simp: persist_snapshot_def Let_def to_credentials_with_vpn_def to_credentials_def
        bind_eq_Some_conv split: if_splits)
  obtain d1 where d1: "rpc_logout N logout_all d = (Inr (current_session d1), d1)"
      "da_fs d1 = snd (credentials_delete (credential_path dir) (da_fs d))" "am_state (di_auth (da_inner d1)) = Configured"
    using logout_effect [of d N logout_all] auth(1,2) by auto
  from quiet_delete [OF assms(3), of "credential_path dir"]
  have gone: "fs_script (da_fs d1) = []" "fs_files (da_fs d1) = (fs_files (da_fs d))(credential_path dir := None)"
    by (simp_all add: d1(2))
  obtain w where w: "persist_save (ne_creds N) creds (credential_path dir) (da_fs d1) = (Inr (), w)" "fs_script w = []"
      "stored (ne_creds N) (fs_files w) (credential_path dir) creds"
    and other: "\<And>q. q \<noteq> credential_path dir \<Longrightarrow> q \<noteq> with_extension ''tmp'' (credential_path dir) \<Longrightarrow> fs_files w q = fs_files (da_fs d1) q"
    using quiet_save_stored [OF gone(1) enc(2) daemon_paths(2)] by blast
  have "fs_files w (config_path dir) = fs_files (da_fs d) (config_path dir)"
    using other [of "config_path dir"] daemon_paths(3,5) gone(2) by (metis fun_upd_other)
  then have "stored (ne_config N) (fs_files w) (config_path dir) cfg" using assms(4) by (simp add: stored_def)
  from startup_stored [OF w(2) this assms(5) enc(1) assms(11) w(3) auth(3)] obtain d3 where
    "startup N identity_default dir n os w = (Inr d3, da_fs d3)" "am_state (di_auth (da_inner d3)) = Authenticated" by blast
  then show "\<exists>session d1 d2 d3. rpc_logout N logout_all d = (Inr session, d1)
      \<and> fs_files (da_fs d1) (credential_path dir) = None
      \<and> d2 = persist_write N (credential_path dir, creds) d1 \<and> am_state (di_auth (da_inner d2)) = Configured
      \<and> startup N identity_default dir n os (da_fs d2) = (Inr d3, da_fs d3) \<and> am_state (di_auth (da_inner d3)) = Authenticated"
    using d1(1,3) gone(2) w(1)
    by (intro exI [of _ "current_session d1"] exI [of _ d1] exI [of _ "d1\<lparr>da_fs := w\<rparr>"] exI [of _ d3]) (simp add: persist_write_def)
qed

lemma sample_snapshot: "persist_snapshot sample_disk_env sample_on_disk = Some (credential_path [''etc''], sample_saved)"
proof -
  have same: "da_inner sample_on_disk = da_inner sample_running" "da_net sample_on_disk = da_net sample_running"
    by (simp_all add: sample_on_disk_def)
  obtain creds where "to_credentials_with_vpn sample_daemon_env (di_auth (da_inner sample_running)) (da_net sample_running)
      (Option.bind (di_vpn (da_inner sample_running)) current_persisted_request) = Some creds"
    unfolding sample_running_simps by (simp add: to_credentials_with_vpn_def to_credentials_def sample_machine_def)
  then show ?thesis
    by (simp add: persist_snapshot_def same sample_disk_env_simps sample_running_simps(1,5) sample_saved_def Let_def)
qed

theorem late_save_undoes_logout_witness:
  "\<exists>session d1 d3. rpc_logout sample_disk_env False sample_on_disk = (Inr session, d1)
    \<and> startup sample_disk_env sample_identity [''etc''] (jar_net []) sample_session_os
        (da_fs (persist_write sample_disk_env (credential_path [''etc''], sample_saved) d1)) = (Inr d3, da_fs d3)
    \<and> am_state (di_auth (da_inner d3)) = Authenticated"
proof -
  obtain pool where pool: "initial_http_pool (se_host (ne_session sample_disk_env)) (se_dns_conf (ne_session sample_disk_env))
      sample_full_config = Some pool" by (rule sample_pool)
  have st: "stored (ne_config sample_disk_env) (fs_files (da_fs sample_on_disk)) (config_path [''etc'']) sample_full_config"
    by (simp add: stored_def sample_disk_env_simps config_codec_def codec_of_def from_slice_def sample_disk_text_def two_texts_def
        sample_on_disk_def config_round_trip Let_def)
  have d: "net_jar (da_net sample_on_disk) \<noteq> []" "fs_script (da_fs sample_on_disk) = []"
    by (simp_all add: sample_on_disk_def sample_running_simps)
  have json: "ne_config sample_disk_env = config_codec sample_disk_text" "ne_creds sample_disk_env = credentials_codec sample_disk_text"
    by (simp_all add: sample_disk_env_simps)
  from late_save_undoes_logout [OF sample_snapshot d st sample_full json(1) sample_texts(1) json(2) sample_texts(2) sample_good pool,
      where logout_all = False and n = "jar_net []" and os = sample_session_os and identity_default = sample_identity]
  show ?thesis by blast
qed

section \<open>Two saves at once\<close>

text \<open>What \<open>atomic_write\<close> does to the files once the directory exists, as the five calls between which another task can run.  A
  write goes to the start of the file it has open: it replaces what is there and leaves what is longer.\<close>

definition save_steps :: "path \<Rightarrow> bytes \<Rightarrow> (files \<Rightarrow> files) list" where
  "save_steps p data = (let tmp = with_extension ''tmp'' p in
     [\<lambda>f. f(tmp \<mapsto> \<lparr>nd_content = [], nd_mode = (case f tmp of None \<Rightarrow> 384 | Some n \<Rightarrow> nd_mode n), nd_synced = False\<rparr>),
      \<lambda>f. f(tmp := map_option (\<lambda>n. n\<lparr>nd_content := data @ drop (length data) (nd_content n), nd_synced := False\<rparr>) (f tmp)),
      \<lambda>f. f(tmp := map_option (\<lambda>n. n\<lparr>nd_synced := True\<rparr>) (f tmp)),
      \<lambda>f. f(tmp := map_option (\<lambda>n. n\<lparr>nd_mode := 384\<rparr>) (f tmp)),
      \<lambda>f. f(p := f tmp, tmp := None)])"

text \<open>\<open>True\<close> in the schedule is a step of the first task.\<close>

fun interleave :: "bool list \<Rightarrow> ('s \<Rightarrow> 's) list \<Rightarrow> ('s \<Rightarrow> 's) list \<Rightarrow> 's \<Rightarrow> 's" where
  "interleave (True # sch) (a # as) bs s = interleave sch as bs (a s)"
| "interleave (False # sch) as (b # bs) s = interleave sch as bs (b s)"
| "interleave _ _ _ s = s"

lemma save_steps_alone:
  assumes "fs_script w = []" "with_extension ''tmp'' p \<noteq> p"
  shows "\<exists>w'. atomic_write p data w = (Inr (), w') \<and> fs_files w' = fold (\<lambda>step. step) (save_steps p data) (fs_files w)"
  using assms
  by (cases "parent p"; cases "data = []")
    (auto simp: atomic_write_def save_steps_def io_bind_def io_map_err_def create_dir_all_def next_outcome_def
      open_truncate_def fs_call_def put_files_def write_all.simps append_bytes_def sync_all_def set_permissions_def
      rename_def fun_eq_iff Let_def split: option.splits)

text \<open>C37: two saves at once can destroy the file.  Alone, a save leaves its data.  When two tasks open the temporary file before
  either has written, and the first finishes after the second has written, the file holds the shorter data followed by
  the tail of the longer: neither of the two versions, and if that does not parse, a file that ends the next startup.\<close>

theorem concurrent_saves_mix:
  fixes f :: files
  assumes "with_extension ''tmp'' p \<noteq> p" "length b < length a" "\<not> prefix b a"
  defines "f' \<equiv> interleave [True, False, True, False, True, True, True] (save_steps p a) (save_steps p b) f"
  shows "(\<exists>nd. f' p = Some nd \<and> nd_content nd = b @ drop (length b) a \<and> nd_content nd \<noteq> a \<and> nd_content nd \<noteq> b \<and> nd_synced nd)
    \<and> (\<forall>w. fs_script w = [] \<longrightarrow> (\<exists>w' nd. atomic_write p a w = (Inr (), w') \<and> fs_files w' p = Some nd \<and> nd_content nd = a))
    \<and> (\<forall>w codec. fs_script w = [] \<and> fs_files w = f' \<and> jc_from_slice codec (b @ drop (length b) a) = None \<longrightarrow>
         credentials_load codec p w = (Inl (Parse p), w))"
proof -
  have f': "f' p = Some \<lparr>nd_content = b @ drop (length b) a, nd_mode = 384, nd_synced = True\<rparr>"
    using assms(1,2) by (simp add: f'_def save_steps_def Let_def)
  have "b @ drop (length b) a \<noteq> a" "b @ drop (length b) a \<noteq> b"
    using assms(2,3) by (metis prefixI, simp)
  moreover have "\<exists>w' nd. atomic_write p a w = (Inr (), w') \<and> fs_files w' p = Some nd \<and> nd_content nd = a" if "fs_script w = []" for w
    using save_steps_alone [OF that assms(1), of a] assms(1) by (auto simp: save_steps_def Let_def)
  ultimately show ?thesis
    using f' by (auto simp: credentials_load_def read_file_def next_outcome_def ok_or_def)
qed

theorem concurrent_saves_mix_witness:
  "(\<exists>nd. interleave [True, False, True, False, True, True, True] (save_steps [''c.json''] [1, 2, 3]) (save_steps [''c.json''] [4, 5])
      Map.empty [''c.json''] = Some nd \<and> nd_content nd = [4, 5, 3])"
proof -
  have tmp: "with_extension ''tmp'' [''c.json''] \<noteq> [''c.json'']" by code_simp
  have "length [4, 5 :: u8] < length [1, 2, 3 :: u8]" "\<not> prefix [4, 5 :: u8] [1, 2, 3]" by simp_all
  from concurrent_saves_mix [OF tmp this, where f = Map.empty] show ?thesis by auto
qed

section \<open>A logout during the polling\<close>

text \<open>\<open>complete_device_login\<close> before and after its loop.\<close>

definition device_login_begin ::
  "('w, 'v, 'r, 'e, 'h) node_env \<Rightarrow> ('w, 'v, 'r) daemon \<Rightarrow> (daemon_error, api_client \<times> string) result" where
  "device_login_begin N d = res_bind (require_configured d) (\<lambda>_.
     case am_device_login_pending (di_auth (da_inner d)) of
       None \<Rightarrow> Inl (Fault (InvalidArgument ''no pending device login flow''))
     | Some pending \<Rightarrow> res_bind (ok_or (Fault NotConfigured) (tenant_client_of N d))
         (\<lambda>client. Inr (client, dlp_poll_token pending)))"

definition device_login_finish :: "('w, 'v, 'r, 'e, 'h) node_env \<Rightarrow> ('w, 'v, 'r, pb_session) handler" where
  "device_login_finish N = login_op N complete_device_login"

lemma device_login_sections:
  "rpc_complete_device_login N now delays d = (case device_login_begin N d of
      Inl e \<Rightarrow> (Some (Inl e), d)
    | Inr (client, token) \<Rightarrow> (case poll_token N client token (now + POLL_TIMEOUT) now delays (da_net d) of
        (None, n) \<Rightarrow> (None, d\<lparr>da_net := n\<rparr>)
      | (Some (Inl e), n) \<Rightarrow> (Some (Inl e), d\<lparr>da_net := n\<rparr>)
      | (Some (Inr _), n) \<Rightarrow> (case device_login_finish N (d\<lparr>da_net := n\<rparr>) of (r, d2) \<Rightarrow> (Some r, d2))))"
  by (auto simp: rpc_complete_device_login_def device_login_begin_def device_login_finish_def ok_or_def res_bind_def
      split: sum.splits option.splits prod.splits)

lemma after_login_auth:
  "am_state (di_auth (da_inner (post_login N d))) = am_state (di_auth (da_inner d))"
  "am_state (di_auth (da_inner (maybe_persist_and_broadcast N d))) = am_state (di_auth (da_inner d))"
proof -
  show "am_state (di_auth (da_inner (maybe_persist_and_broadcast N d))) = am_state (di_auth (da_inner d))"
    by (simp add: maybe_persist_and_broadcast_def persist_credentials_def Let_def split: option.split)
  show "am_state (di_auth (da_inner (post_login N d))) = am_state (di_auth (da_inner d))"
    by (auto simp: post_login_def maybe_report_security_def maybe_fetch_totp_def on_auth_def set_totp_def update_machine_def on_inner_def
        split: option.splits prod.splits sum.splits)
qed

text \<open>A logout during the polling is undone.  A device login that was begun before a logout and whose polls succeed after it
  leaves the daemon authenticated, and tells its client so, although the user has logged out in between.\<close>

theorem polling_undoes_logout:
  assumes "device_login_begin N d = Inr (client, token)" "rpc_logout N logout_all d = (Inr session, d1)"
    and "poll_token N client token deadline now delays (da_net d1) = (Some (Inr ()), n)"
  shows "am_state (di_auth (da_inner d1)) = Configured
    \<and> (\<exists>session2 d2. device_login_finish N (d1\<lparr>da_net := n\<rparr>) = (Inr session2, d2)
        \<and> am_state (di_auth (da_inner d2)) = Authenticated \<and> ps_state session2 = SsAuthenticated)"
proof -
  have "am_state (di_auth (da_inner d)) \<noteq> Unconfigured"
    using assms(1) by (auto simp: device_login_begin_def require_configured_def)
  then have out: "am_state (di_auth (da_inner d1)) = Configured"
    using logout_effect [of d N logout_all] assms(2) by (metis Pair_inject)
  obtain e where e: "on_auth complete_device_login (d1\<lparr>da_net := n\<rparr>) = (Inr (), e)"
    and st: "am_state (di_auth (da_inner e)) = Authenticated"
    by (simp add: on_auth_def complete_device_login_def update_machine_def on_inner_def)
  let ?d2 = "maybe_persist_and_broadcast N (post_login N e)"
  have "device_login_finish N (d1\<lparr>da_net := n\<rparr>) = (Inr (current_session ?d2), ?d2)"
    by (simp add: device_login_finish_def login_op_def e Let_def)
  moreover have a: "am_state (di_auth (da_inner ?d2)) = Authenticated" by (simp add: after_login_auth st)
  moreover have "ps_state (current_session ?d2) = SsAuthenticated"
    by (simp add: current_session_def to_session_proto_def session_status_def a)
  ultimately show ?thesis using out by blast
qed

end
