(* ===== verification/AuthInvariant.thy ===== *)
theory AuthInvariant
  imports Machines
begin

text \<open>
  The invariant of the auth machine (\<open>AuthMachine\<close> in \<open>src/crates/daemon/src/state.rs\<close>) over every sequence of its operations,
  whatever the network answers and whatever happens to it in between: the optional parts of the machine that its
  state presupposes are there.
\<close>

definition auth_wf :: "auth_machine \<Rightarrow> bool" where
  "auth_wf m \<longleftrightarrow> (am_tenant m = None \<longleftrightarrow> am_signing m = None)
     \<and> (am_tenant m = None \<longrightarrow> am_state m \<in> {Unconfigured, Configured} \<and> am_oauth_pending m = None
          \<and> am_device_login_pending m = None)"

text \<open>The machines of a run: a new or a restored one, then any operations on any network.  The handler of the device
  login finishes it after it has polled with the tenant's client (\<open>service/auth.rs\<close>), so the tenant was there.\<close>

inductive auth_reach :: "'w daemon_env \<Rightarrow> auth_machine \<Rightarrow> bool" for E :: "'w daemon_env" where
  New: "auth_reach E \<lparr>am_state = Unconfigured, am_http_pool = pool, am_identity = identity, am_tenant = None, am_signing = None,
     am_knock_token = None, am_totp = None, am_login_api_version = Legacy, am_oauth_pending = None,
     am_device_login_pending = None\<rparr>"
| Restored: "auth_reach E (fst (restore_from_credentials creds pool identity (n :: 'w net)))"
| Step: "auth_reach E m \<Longrightarrow> (op = OpCompleteDeviceLogin \<Longrightarrow> am_tenant m \<noteq> None) \<Longrightarrow>
     run_auth_op E op (m, n) = (r, (m', n')) \<Longrightarrow> auth_reach E m'"

inductive_cases auth_reachE: "auth_reach E m"

lemma with_client_tenant: "with_client E f (m, n) = (Inr x, w) \<Longrightarrow> am_tenant m \<noteq> None"
  by (auto simp: with_client_Inr build_tenant_client_def bind_eq_Some_conv)

lemma set_state_wf:
  assumes "auth_wf m" "io_bind (with_client E f) set_auth_state (m, n) = (r, (m', n'))"
  shows "auth_wf m' \<and> (am_tenant m \<noteq> None \<longrightarrow> am_tenant m' \<noteq> None)"
  using assms(2)
proof (cases rule: then_set_state)
  case 1
  with assms(1) show ?thesis by simp
next
  case (2 cl st)
  then have "am_tenant m \<noteq> None" by (auto simp: build_tenant_client_def bind_eq_Some_conv)
  with 2 assms(1) show ?thesis by (auto simp: auth_wf_def)
qed

lemma pending_wf:
  assumes "auth_wf m" "io_bind (with_client E f) (\<lambda>p. update_machine (g p)) (m, n) = (r, (m', n'))"
    and "\<And>p. am_tenant (g p m) = am_tenant m \<and> am_signing (g p m) = am_signing m"
  shows "auth_wf m' \<and> (am_tenant m \<noteq> None \<longrightarrow> am_tenant m' \<noteq> None)"
  using assms(2)
proof (elim io_bind_cases)
  fix e assume "with_client E f (m, n) = (Inl e, (m', n'))"
  then have "m' = m" by (rule with_client_machine)
  with assms(1) show ?thesis by simp
next
  fix p w assume a: "with_client E f (m, n) = (Inr p, w)" and b: "update_machine (g p) w = (r, (m', n'))"
  have "am_tenant m \<noteq> None" by (rule with_client_tenant [OF a])
  moreover have "m' = g p m" using a b by (auto simp: with_client_Inr update_machine_def)
  ultimately show ?thesis using assms(1) assms(3) [of p] by (auto simp: auth_wf_def)
qed

lemma run_auth_op_wf:
  assumes "auth_wf m" "op = OpCompleteDeviceLogin \<Longrightarrow> am_tenant m \<noteq> None" "run_auth_op E op (m, n) = (r, (m', n'))"
  shows "auth_wf m' \<and> (am_tenant m \<noteq> None \<longrightarrow> am_tenant m' \<noteq> None)"
proof (cases op)
  case (OpActivate c b k mu)
  with assms show ?thesis
    by (auto simp: am_activate_def auth_wf_def Let_def split: prod.splits sum.splits option.splits)
next
  case OpRefreshVersion
  with assms show ?thesis
    by (auto simp: refresh_login_api_version_def auth_wf_def split: prod.splits sum.splits option.splits if_splits)
next
  case (OpLogin a p s t)
  with assms set_state_wf show ?thesis by (simp add: am_login_def)
next
  case (OpSendLoginCode a l s t)
  with assms with_client_machine show ?thesis by (fastforce simp: am_send_login_code_def)
next
  case (OpVerifyLoginCode a c l s t)
  with assms set_state_wf show ?thesis by (simp add: am_verify_login_code_def)
next
  case (OpSendMfaCode mt a s)
  with assms with_client_machine show ?thesis by (fastforce simp: am_send_mfa_code_def)
next
  case (OpVerifyMfa mt a c p s)
  with assms set_state_wf show ?thesis by (simp add: am_verify_mfa_def)
next
  case (OpSkip s)
  with assms set_state_wf show ?thesis by (simp add: am_skip_challenge_def)
next
  case (OpStartOauth a)
  with assms(3) have run: "am_start_oauth E a (m, n) = (r, (m', n'))" by simp
  show ?thesis by (rule pending_wf [OF assms(1) run [unfolded am_start_oauth_def]]) simp
next
  case (OpCompleteOauth c s)
  with assms(3) have "am_complete_oauth E c s (m, n) = (r, (m', n'))" by simp
  from complete_oauth_cases [OF this] assms(1) show ?thesis
    by (auto simp: auth_wf_def oauth_answered_def build_tenant_client_def bind_eq_Some_conv)
next
  case (OpStartDeviceLogin a)
  with assms(3) have run: "am_start_device_login E a (m, n) = (r, (m', n'))" by simp
  show ?thesis by (rule pending_wf [OF assms(1) run [unfolded am_start_device_login_def]]) simp
next
  case OpCompleteDeviceLogin
  with assms show ?thesis by (auto simp: complete_device_login_def update_machine_def auth_wf_def)
next
  case (OpLogout a)
  with assms show ?thesis by (auto simp: am_logout_def clear_session_def auth_wf_def Let_def)
next
  case OpRestore
  with assms show ?thesis by (auto simp: restore_session_def auth_wf_def split: if_splits)
next
  case (OpSetTotp c)
  with assms show ?thesis by (auto simp: set_totp_def update_machine_def auth_wf_def)
qed

lemma auth_reach_wf: "auth_reach E m \<Longrightarrow> auth_wf m"
proof (induction rule: auth_reach.induct)
  case (Step m op n r m' n')
  then show ?case using run_auth_op_wf by metis
qed (simp_all add: auth_wf_def restore_from_credentials_def)



end
