(* ===== verification/Liveness.thy ===== *)
theory Liveness
  imports Session Supervisor
begin

text \<open>
  The probe of the tunnel (\<open>tunnel/src/dns.rs\<close>) and the supervisor that reads it (\<open>daemon/src/supervisor.rs\<close>), on one
  clock: which tunnels are given up, when, and which are not.  What the probe asks is carried by the session's
  transport; what is assumed of the system is that only a receive waits, and not longer than its timeout.
\<close>

section \<open>Time\<close>

text \<open>The time a tick of the supervisor reads, \<open>started\<close> being when its loop began.\<close>

definition liveness_tick :: "nat \<Rightarrow> nat list \<Rightarrow> 'h tunnel_session \<Rightarrow> nat \<Rightarrow> supervisor_event" where
  "liveness_tick started replies ts now =
     LivenessTick (session_probe_elapsed now (last_rx_at replies now) ts) (now - started)"

text \<open>A clock of the system: sending takes no time, receiving at most the timeout, and sleeping ends on time.\<close>

definition timely :: "'w sys_env \<Rightarrow> ('w \<Rightarrow> nat) \<Rightarrow> (nat \<Rightarrow> 'w \<Rightarrow> 'w) \<Rightarrow> bool" where
  "timely env clock sleep \<longleftrightarrow>
     (\<forall>w op. clock (snd (sys_call env w op)) = clock w)
     \<and> (\<forall>w s. clock w \<le> clock (snd (sys_recv env w s)) \<and> clock (snd (sys_recv env w s)) \<le> clock w + DNS_TIMEOUT)
     \<and> (\<forall>t w. clock (sleep t w) = max t (clock w))"

definition elapses :: "('w \<Rightarrow> nat) \<Rightarrow> nat \<Rightarrow> ('w, 'e, 'a) io \<Rightarrow> bool" where
  "elapses clock d m \<longleftrightarrow> (\<forall>w. clock w \<le> clock (snd (m w)) \<and> clock (snd (m w)) \<le> clock w + d)"

lemma elapses_bind:
  assumes "elapses clock 0 m" "\<And>x. elapses clock d (f x)"
  shows "elapses clock d (io_bind m f)"
  unfolding elapses_def
proof
  fix w
  obtain r w1 where m: "m w = (r, w1)" by fastforce
  then have "clock w1 = clock w" using assms(1) by (metis add_0_right elapses_def le_antisym snd_conv)
  then show "clock w \<le> clock (snd (io_bind m f w)) \<and> clock (snd (io_bind m f w)) \<le> clock w + d"
    using assms(2) m by (cases r) (simp_all add: io_bind_def elapses_def, metis)
qed

lemma elapses_map_err: "elapses clock d m \<Longrightarrow> elapses clock d (io_map_err g m)"
  by (auto simp: elapses_def io_map_err_def split: prod.splits) (metis snd_conv)+

lemma elapses_return: "elapses clock d (io_return x)" "elapses clock d (io_fail e)"
  by (simp_all add: elapses_def)

lemma elapses_sys_do: "timely env clock sleep \<Longrightarrow> elapses clock 0 (sys_do env op err)"
  unfolding elapses_def sys_do_def timely_def
  by (auto split: prod.splits sys_res.splits) (metis order_refl snd_conv)+

lemmas elapses_intros = elapses_bind elapses_map_err elapses_return elapses_sys_do

lemma elapses_bind_udp_to:
  assumes "timely env clock sleep"
  shows "elapses clock 0 (bind_udp_to env d server)"
proof -
  have dev: "elapses clock 0 (bind_socket_to_interface env s fam i)" for s fam i
    by (auto simp: bind_socket_to_interface_def bind_socket_to_interface_inner_def
        intro!: elapses_intros assms split: option.split platform.split)
  show ?thesis
    by (auto simp: bind_udp_to_def new_socket2_def Let_def intro!: elapses_intros dev assms)
qed

lemma elapses_transport_query:
  assumes "timely env clock sleep"
  shows "elapses clock DNS_TIMEOUT (transport_query env d server request)"
  unfolding transport_query_def
proof (rule elapses_bind [OF elapses_map_err [OF elapses_bind_udp_to [OF assms]]])
  fix socket
  have "clock w1 = clock w" if "sys_call env w op = (r, w1)" for w op r w1
    using assms that unfolding timely_def by (metis snd_conv)
  moreover have "clock w1 \<le> clock w2 \<and> clock w2 \<le> clock w1 + DNS_TIMEOUT" if "sys_recv env w1 s = (r, w2)" for w1 s r w2
    using assms that unfolding timely_def by (metis snd_conv)
  ultimately show "elapses clock DNS_TIMEOUT (\<lambda>w. case sys_call env w (OpSendTo request server) of
       (SysErr k, w1) \<Rightarrow> (Inl (TdSendQuery server k), w1)
     | (SysTimeout, w1) \<Rightarrow> (Inl (TdSendQuery server (IoOther 0)), w1)
     | (SysOk, w1) \<Rightarrow> (case sys_recv env w1 socket of
         (RecvTimeout, w2) \<Rightarrow> (Inl (TdQueryTimeout server), w2)
       | (RecvErr k, w2) \<Rightarrow> (Inl (TdRecvReply server k), w2)
       | (RecvOk buf, w2) \<Rightarrow> (Inr (take MAX_DNS_PACKET buf), w2)))"
    unfolding elapses_def by (fastforce split: prod.splits sys_res.splits recv_res.splits)
qed

section \<open>The replies of a probe\<close>

lemma probe_round_elapses:
  assumes "\<And>server. elapses clock DNS_TIMEOUT (query server)"
  shows "clock w \<le> clock (snd (probe_round query clock servers w))"
proof (induction servers arbitrary: w)
  case (Cons server servers)
  obtain r w1 where q: "query server w = (r, w1)" by fastforce
  then have "clock w \<le> clock w1" using assms by (metis elapses_def snd_conv)
  with q Cons.IH [of w1] show ?case by (cases r) auto
qed simp

lemma probe_round_answered:
  assumes "\<And>server. elapses clock DNS_TIMEOUT (query server)" "\<And>w. is_ok (fst (query server w))"
  obtains w' where "probe_round query clock (silent @ server # later) w = (Some (clock w'), w')"
    "clock w \<le> clock w'" "clock w' \<le> clock w + Suc (length silent) * DNS_TIMEOUT"
proof -
  have "\<exists>w'. probe_round query clock (silent @ server # later) w = (Some (clock w'), w')
      \<and> clock w \<le> clock w' \<and> clock w' \<le> clock w + Suc (length silent) * DNS_TIMEOUT"
  proof (induction silent arbitrary: w)
    case Nil
    obtain r w1 where q: "query server w = (r, w1)" by fastforce
    then have "clock w \<le> clock w1 \<and> clock w1 \<le> clock w + DNS_TIMEOUT" using assms(1) by (metis elapses_def snd_conv)
    moreover obtain x where "r = Inr x" using assms(2) [of w] q by (cases r) (auto simp: is_ok_def)
    ultimately show ?case using q by auto
  next
    case (Cons s silent)
    obtain r w1 where q: "query s w = (r, w1)" by fastforce
    then have t: "clock w \<le> clock w1 \<and> clock w1 \<le> clock w + DNS_TIMEOUT" using assms(1) by (metis elapses_def snd_conv)
    show ?case
    proof (cases r)
      case (Inl e)
      from Cons.IH [of w1] obtain w' where "probe_round query clock (silent @ server # later) w1 = (Some (clock w'), w')"
        "clock w1 \<le> clock w' \<and> clock w' \<le> clock w1 + Suc (length silent) * DNS_TIMEOUT" by blast
      then show ?thesis using q t Inl by auto
    next
      case (Inr x)
      then show ?thesis using q t by (auto simp: trans_le_add1)
    qed
  qed
  then show thesis using that by blast
qed

text \<open>While a server answers, the last reply is never older than a tick and a round.\<close>

lemma replies_recent:
  assumes "timely env clock sleep" "\<And>server. elapses clock DNS_TIMEOUT (query server)"
    and "\<And>w. is_ok (fst (query server w))"
    and "run_probe query clock sleep (silent @ server # later) start k ticks w = (replies, w')"
    and "now < start + (k + ticks) * PROBE_INTERVAL"
  shows "case last_rx_at replies now of
      None \<Rightarrow> now < max (start + k * PROBE_INTERVAL) (clock w) + Suc (length silent) * DNS_TIMEOUT
    | Some r \<Rightarrow> r \<le> now \<and> now < r + PROBE_INTERVAL + Suc (length silent) * DNS_TIMEOUT"
  using assms(4,5)
proof (induction ticks arbitrary: k w replies w')
  case 0
  then show ?case by simp
next
  case (Suc ticks)
  let ?D = "Suc (length silent) * DNS_TIMEOUT"
  define w1 where "w1 = sleep (start + k * PROBE_INTERVAL) w"
  have c1: "clock w1 = max (start + k * PROBE_INTERVAL) (clock w)"
    using assms(1) by (simp add: w1_def timely_def)
  obtain w2 where round: "probe_round query clock (silent @ server # later) w1 = (Some (clock w2), w2)"
    and t: "clock w1 \<le> clock w2" "clock w2 \<le> clock w1 + ?D"
    by (rule probe_round_answered [where query = query and server = server, OF assms(2,3)])
  obtain rs w3 where rest: "run_probe query clock sleep (silent @ server # later) start (Suc k) ticks w2 = (rs, w3)" by fastforce
  have replies: "replies = clock w2 # rs"
    using Suc.prems(1) round rest by (simp add: w1_def)
  have ih: "case last_rx_at rs now of
      None \<Rightarrow> now < max (start + Suc k * PROBE_INTERVAL) (clock w2) + ?D
    | Some r \<Rightarrow> r \<le> now \<and> now < r + PROBE_INTERVAL + ?D"
    using Suc.IH [OF rest] Suc.prems(2) by simp
  have "max (start + Suc k * PROBE_INTERVAL) (clock w2) \<le> clock w2 + PROBE_INTERVAL"
    using c1 t(1) by simp
  with ih show ?case
    using t c1 by (auto simp: replies split: option.splits)
qed

lemma last_rx_at_Some: "last_rx_at rs now = Some r \<Longrightarrow> r \<in> set rs \<and> r \<le> now"
  by (induction rs) (auto split: option.splits if_splits)

text \<open>After the tunnel was lost, a reply can only come from a query begun before.\<close>

lemma probe_round_lost:
  assumes "\<And>server. elapses clock DNS_TIMEOUT (query server)"
    and "\<And>server w. lost \<le> clock w \<Longrightarrow> \<not> is_ok (fst (query server w))"
    and "probe_round query clock servers w = (Some t, w')"
  shows "t \<le> lost + DNS_TIMEOUT"
  using assms(3)
proof (induction servers arbitrary: w)
  case (Cons server servers)
  obtain r w1 where q: "query server w = (r, w1)" by fastforce
  then have step: "clock w1 \<le> clock w + DNS_TIMEOUT" using assms(1) by (metis elapses_def snd_conv)
  show ?case
  proof (cases r)
    case (Inl e)
    with q Cons show ?thesis by simp
  next
    case (Inr x)
    then have "clock w < lost" using assms(2) [of w server] q by (force simp: is_ok_def)
    with q Inr step Cons.prems show ?thesis by auto
  qed
qed simp

lemma run_probe_lost:
  assumes "\<And>server. elapses clock DNS_TIMEOUT (query server)"
    and "\<And>server w. lost \<le> clock w \<Longrightarrow> \<not> is_ok (fst (query server w))"
    and "run_probe query clock sleep servers start k ticks w = (replies, w')"
  shows "\<forall>t \<in> set replies. t \<le> lost + DNS_TIMEOUT"
  using assms(3)
proof (induction ticks arbitrary: k w replies w')
  case (Suc ticks)
  obtain reply w1 where round: "probe_round query clock servers (sleep (start + k * PROBE_INTERVAL) w) = (reply, w1)"
    by fastforce
  obtain rs w2 where rest: "run_probe query clock sleep servers start (Suc k) ticks w1 = (rs, w2)" by fastforce
  have "\<forall>t \<in> set_option reply. t \<le> lost + DNS_TIMEOUT"
    using probe_round_lost [where query = query, OF assms(1,2)] round by (cases reply) auto
  with Suc.IH [OF rest] Suc.prems round rest show ?case by (auto split: option.splits)
qed simp

lemma run_probe_no_servers: "fst (run_probe query clock sleep [] start k ticks w) = []"
  by (induction ticks arbitrary: k w) (simp_all add: split_beta)

section \<open>The supervisor's verdict\<close>

lemma dead_evidence_decides:
  assumes "CancelRequested \<notin> set es" "ev \<in> set es" "dead_evidence outbound (unwrap_or initial None) ev"
  obtains out where "supervise outbound initial es = Some out" "out \<noteq> Cancelled"
proof -
  have "supervise outbound initial es \<noteq> None"
    using supervise_step_None assms(2,3) by (auto simp: supervise_def find_map_eq_None)
  then obtain out where out: "supervise outbound initial es = Some out" by blast
  obtain us e vs where "es = us @ e # vs"
    "supervise_step outbound (unwrap_or initial None) e = Some out"
    by (rule find_map_SomeE [OF out [unfolded supervise_def]])
  with assms(1) have "out \<noteq> Cancelled"
    by (auto simp: supervise_step_def split: supervisor_event.splits option.splits if_splits)
  with out that show thesis by blast
qed

lemma handshake_timeout_evidence:
  assumes "supervise outbound initial es = Some (Trigger HandshakeTimeout h)"
  obtains p age where "LivenessTick p age \<in> set es" "liveness_status p age \<noteq> Healthy"
proof -
  obtain us e vs where "es = us @ e # vs"
    "supervise_step outbound (unwrap_or initial None) e = Some (Trigger HandshakeTimeout h)"
    by (rule find_map_SomeE [OF assms [unfolded supervise_def]])
  then show thesis using that by (auto simp: supervise_step_def split: supervisor_event.splits option.splits if_splits)
qed

lemmas time_defs = DNS_TIMEOUT_def PROBE_INTERVAL_def CONNECT_TIMEOUT_def LIVENESS_TIMEOUT_def from_secs_def

text \<open>C26: a tunnel whose resolver answers is kept.  If one of the first five resolvers of the VPN answers every
  query of the probe, the supervisor never gives the tunnel up as dead: as long as the probe runs, however slow the
  silent resolvers before it are and whenever the ticks come, no tick of the liveness check ends the run.\<close>

theorem working_tunnel_kept:
  assumes "timely (env :: 'w sys_env) clock sleep" "ts_probe ts = Some (silent @ server # later)" "length silent \<le> 4"
    and "\<And>w. is_ok (fst (transport_query env d server request w))"
    and "run_probe (\<lambda>s. transport_query env d s request) clock sleep (silent @ server # later) start 0 ticks w = (replies, w')"
    and "start \<le> started" "clock w \<le> started"
    and "\<And>p age. LivenessTick p age \<in> set es \<Longrightarrow>
      \<exists>now. started \<le> now \<and> now < start + ticks * PROBE_INTERVAL \<and> LivenessTick p age = liveness_tick started replies ts now"
  shows "supervise outbound initial es \<noteq> Some (Trigger HandshakeTimeout h)"
proof
  assume "supervise outbound initial es = Some (Trigger HandshakeTimeout h)"
  then obtain p age where tick: "LivenessTick p age \<in> set es" "liveness_status p age \<noteq> Healthy"
    by (rule handshake_timeout_evidence)
  then obtain now where now: "started \<le> now" "now < start + (0 + ticks) * PROBE_INTERVAL"
    and p: "p = last_rx_elapsed now (last_rx_at replies now)" "age = now - started"
    using assms(8) [of p age] assms(2) by (auto simp: liveness_tick_def session_probe_elapsed_def)
  have D: "Suc (length silent) * DNS_TIMEOUT \<le> 5 * DNS_TIMEOUT"
    using assms(3) by (intro mult_right_mono) simp_all
  show False
  proof (cases "last_rx_at replies now")
    case None
    then have "now < max start (clock w) + Suc (length silent) * DNS_TIMEOUT"
      using replies_recent [OF assms(1) elapses_transport_query [OF assms(1)] assms(4,5) now(2)] by simp
    then show False using D assms(6,7) None p tick(2) by (auto simp: last_rx_elapsed_def liveness_status_def time_defs split: if_splits)
  next
    case (Some r)
    then have "now < r + PROBE_INTERVAL + Suc (length silent) * DNS_TIMEOUT"
      using replies_recent [OF assms(1) elapses_transport_query [OF assms(1)] assms(4,5) now(2)] by simp
    then show False using D Some p tick(2) by (auto simp: last_rx_elapsed_def liveness_status_def time_defs split: if_splits)
  qed
qed

definition live_env :: "nat sys_env" where
  "live_env = \<lparr>sys_platform = Linux,
     sys_call = (\<lambda>w op. (case op of OpSendTo b a \<Rightarrow> if is_ipv4 (sa_ip a) then SysOk else SysErr (IoOther 101) | _ \<Rightarrow> SysOk, w)),
     sys_local_port = (\<lambda>w s. Inr 0), sys_recv = (\<lambda>w s. (RecvOk [9], w + from_secs 1))\<rparr>"

lemma live_env_timely: "timely live_env id max"
  by (simp add: timely_def live_env_def time_defs)

lemma live_env_query:
  "transport_query live_env (dialer_new None) a q w =
     (if is_ipv4 (sa_ip a) then (Inr [9], w + from_secs 1) else (Inl (TdSendQuery a (IoOther 101)), w))"
proof -
  have "sys_do live_env op err w = (Inr (), w)" if "case op of OpSendTo b a \<Rightarrow> False | _ \<Rightarrow> True" for op err
    using that by (cases op) (simp_all add: sys_do_def live_env_def)
  then have "\<exists>s. bind_udp_to live_env (dialer_new None) a w = (Inr s, w)"
    by (simp add: bind_udp_to_def new_socket2_def bind_socket_to_interface_def io_bind_def
        io_return_def dialer_new_def Let_def)
  then show ?thesis
    by (auto simp: transport_query_def io_bind_def io_map_err_def live_env_def MAX_DNS_PACKET_def)
qed

definition live_session :: "unit tunnel_session" where
  "live_session = (session_new sample_tunnel_config)\<lparr>ts_probe :=
     Some [\<lparr>sa_ip = V6 10, sa_port = 53\<rparr>, \<lparr>sa_ip = V4 10, sa_port = 53\<rparr>]\<rparr>"

theorem working_tunnel_kept_witness:
  "supervise None None [liveness_tick 0 [from_secs 1, from_secs 4] live_session (from_secs 5)]
     \<noteq> Some (Trigger HandshakeTimeout True)"
proof (rule working_tunnel_kept [OF live_env_timely])
  show "ts_probe live_session = Some ([\<lparr>sa_ip = V6 10, sa_port = 53\<rparr>] @ \<lparr>sa_ip = V4 10, sa_port = 53\<rparr> # [])"
    by (simp add: live_session_def)
  show "is_ok (fst (transport_query live_env (dialer_new None) \<lparr>sa_ip = V4 10, sa_port = 53\<rparr> [] w))" for w
    by (simp add: live_env_query is_ipv4_def is_ok_def)
  show "run_probe (\<lambda>s. transport_query live_env (dialer_new None) s []) id max
      ([\<lparr>sa_ip = V6 10, sa_port = 53\<rparr>] @ \<lparr>sa_ip = V4 10, sa_port = 53\<rparr> # []) 0 0 2 0
    = ([from_secs 1, from_secs 4], from_secs 4)"
    by (simp add: live_env_query is_ipv4_def numeral_2_eq_2 time_defs)
  show "\<exists>now. 0 \<le> now \<and> now < 0 + 2 * PROBE_INTERVAL
      \<and> LivenessTick p age = liveness_tick 0 [from_secs 1, from_secs 4] live_session now"
    if "LivenessTick p age \<in> set [liveness_tick 0 [from_secs 1, from_secs 4] live_session (from_secs 5)]" for p age
    using that by (intro exI [of _ "from_secs 5"]) (simp, simp add: time_defs)
qed simp_all

text \<open>C27: a tunnel that dies is detected.  Once no query is answered any more, the first tick of the liveness check
  after the longest tolerated gap (the reply to a query begun just before may still arrive, and 30 seconds later the
  tunnel has stalled; one that never answered has 15 seconds) ends the run, whatever the other events are.\<close>

theorem dead_tunnel_detected:
  assumes "timely (env :: 'w sys_env) clock sleep"
    and "\<And>server w. lost \<le> clock w \<Longrightarrow> \<not> is_ok (fst (transport_query env d server request w))"
    and "run_probe (\<lambda>s. transport_query env d s request) clock sleep servers start 0 ticks w = (replies, w')"
    and "liveness_tick started replies ts now \<in> set es" "CancelRequested \<notin> set es"
    and "lost + DNS_TIMEOUT + LIVENESS_TIMEOUT < now" "started + CONNECT_TIMEOUT < now"
  shows "\<exists>out. supervise outbound initial es = Some out \<and> out \<noteq> Cancelled"
proof -
  have "r \<le> lost + DNS_TIMEOUT" if "last_rx_at replies now = Some r" for r
    using run_probe_lost [where query = "\<lambda>s. transport_query env d s request", OF elapses_transport_query [OF assms(1)] assms(2,3)]
      last_rx_at_Some [OF that] by blast
  then have "dead_evidence outbound (unwrap_or initial None) (liveness_tick started replies ts now)"
    using assms(6,7)
    by (cases "ts_probe ts"; cases "last_rx_at replies now")
      (auto simp: dead_evidence_def liveness_tick_def session_probe_elapsed_def last_rx_elapsed_def time_defs)
  with assms(4,5) show ?thesis by (blast elim: dead_evidence_decides)
qed

definition lost_env :: "nat sys_env" where
  "lost_env = live_env\<lparr>sys_recv := (\<lambda>w s. if w < from_secs 5 then (RecvOk [9], w + from_secs 1) else (RecvTimeout, w + from_secs 3))\<rparr>"

lemma lost_env_query:
  "transport_query lost_env (dialer_new None) a q w =
     (if is_ipv4 (sa_ip a)
      then if w < from_secs 5 then (Inr [9], w + from_secs 1) else (Inl (TdQueryTimeout a), w + from_secs 3)
      else (Inl (TdSendQuery a (IoOther 101)), w))"
proof -
  have "sys_do lost_env op err w = (Inr (), w)" if "case op of OpSendTo b a \<Rightarrow> False | _ \<Rightarrow> True" for op err
    using that by (cases op) (simp_all add: sys_do_def lost_env_def live_env_def)
  then have "\<exists>s. bind_udp_to lost_env (dialer_new None) a w = (Inr s, w)"
    by (simp add: bind_udp_to_def new_socket2_def bind_socket_to_interface_def io_bind_def
        io_return_def dialer_new_def Let_def)
  then show ?thesis
    by (auto simp: transport_query_def io_bind_def io_map_err_def lost_env_def live_env_def MAX_DNS_PACKET_def)
qed

theorem dead_tunnel_detected_witness:
  "\<exists>out. supervise None None [liveness_tick 0 [from_secs 1, from_secs 4] live_session (from_secs 5),
       liveness_tick 0 [from_secs 1, from_secs 4] live_session (from_secs 39)] = Some out \<and> out \<noteq> Cancelled"
proof (rule dead_tunnel_detected)
  show "timely lost_env id max"
    by (simp add: timely_def lost_env_def live_env_def time_defs)
  show "\<not> is_ok (fst (transport_query lost_env (dialer_new None) server [] w))" if "from_secs 5 \<le> id w" for server w
    using that by (simp add: lost_env_query is_ok_def)
  show "run_probe (\<lambda>s. transport_query lost_env (dialer_new None) s []) id max [\<lparr>sa_ip = V4 10, sa_port = 53\<rparr>] 0 0 3 0
    = ([from_secs 1, from_secs 4], from_secs 9)"
    by (simp add: lost_env_query is_ipv4_def numeral_3_eq_3 time_defs)
  show "liveness_tick 0 [from_secs 1, from_secs 4] live_session (from_secs 39) \<in> set
      [liveness_tick 0 [from_secs 1, from_secs 4] live_session (from_secs 5),
       liveness_tick 0 [from_secs 1, from_secs 4] live_session (from_secs 39)]" by simp
qed (simp_all add: liveness_tick_def time_defs)

section \<open>A tunnel without resolvers\<close>

text \<open>The servers a running session probes are those its configuration resolves to.\<close>

definition dns_kept :: "dns_config \<Rightarrow> 'h tunnel_session \<times> ('w, 'r) session_os \<Rightarrow> bool" where
  "dns_kept dns = (\<lambda>(ts, os). tcf_dns (ts_config ts) = dns)"

lemma open_tun_dns: "triple (dns_kept dns) (open_tun E) (\<lambda>_. dns_kept dns) (\<lambda>_. True)"
  unfolding open_tun_def
  by (rule triple_bind [OF triple_asks]) (auto simp: triple_def dns_kept_def Let_def split: sum.splits if_splits)

lemma setup_bypass_dns: "triple (dns_kept dns) (setup_bypass E i) (\<lambda>_. dns_kept dns) (\<lambda>_. True)"
  by (auto simp: triple_def setup_bypass_def dns_kept_def split: option.splits prod.splits sum.splits)

lemma install_routes_dns: "triple (dns_kept dns) (install_routes E name) (\<lambda>_. dns_kept dns) (\<lambda>_. True)"
  by (auto simp: triple_def install_routes_def io_bind_def on_routes_def modifies_def dns_kept_def map_err_def
      split: prod.splits sum.splits)

lemma build_vpn_tun_dns:
  "triple (dns_kept dns) (build_vpn_tun E name d ss)
     (\<lambda>x _. \<exists>w. snd x = fst (resolve_vpn_servers (se_dns_lib E) dns w)) (\<lambda>_. True)"
  unfolding triple_def
  by (auto simp: build_vpn_tun_def dns_kept_def Let_def split: prod.splits option.splits) (metis fst_conv)

lemma build_device_probe:
  "triple (\<lambda>_. P servers) (build_device E dvc servers) (\<lambda>_ s. ts_status (fst s) = Running \<and> (\<exists>l. ts_probe (fst s) = Some l \<and> P l)) (\<lambda>_. True)"
  by (auto simp: triple_def build_device_def split: option.splits)

lemma start_inner_probe:
  "triple (dns_kept dns) (start_inner E)
     (\<lambda>_ s. ts_status (fst s) = Running \<and> (\<exists>l. ts_probe (fst s) = Some l \<and> (\<exists>w. l = fst (resolve_vpn_servers (se_dns_lib E) dns w)))) (\<lambda>_. True)"
  unfolding start_inner_def session_context_def
  apply (rule triple_bind [OF triple_asks], rule TrueI)
  apply (rule triple_bind [OF open_tun_dns])
  apply (rule triple_owning_tun [where F = "\<lambda>_. True"])
  apply (rule triple_bind [OF triple_asks], simp)
  apply (rule triple_bind [OF triple_asks], simp)
  apply (rule triple_bind [OF triple_modifies [where Q = "dns_kept dns"]])
   apply (simp add: dns_kept_def route_system_dns_into_tunnel_def)
  apply (rule triple_bind [OF triple_asks], simp)
  apply (rule triple_bind [OF triple_on_world], simp add: dns_kept_def, simp)
  apply (rule triple_bind [OF triple_asks], simp)
  apply (rule triple_bind, rule triple_consequence [OF setup_bypass_dns], assumption, assumption, simp)
  apply (rule triple_bind, rule triple_consequence [OF install_routes_dns], assumption, assumption, simp)
  apply (rule triple_bind)
   apply (rule triple_consequence [OF build_vpn_tun_dns])
     apply assumption
    apply assumption
   apply simp
  apply (simp only: split_beta)
  apply (rule triple_bind [where R = "\<lambda>_ _. \<exists>w. snd x = fst (resolve_vpn_servers (se_dns_lib E) dns w)" for x])
   apply (auto simp: triple_def split: sum.splits) [1]
  apply (rule triple_consequence [OF build_device_probe [where P = "\<lambda>l. \<exists>w. l = fst (resolve_vpn_servers (se_dns_lib E) dns w)"]])
    apply assumption
   apply assumption
  apply simp
  done

lemma start_session_probe:
  assumes "start_session E (session_new c, os) = (Inr (), (ts, os1))"
  obtains w where "ts_status ts = Running" "ts_probe ts = Some (fst (resolve_vpn_servers (se_dns_lib E) (tcf_dns c) w))"
proof -
  have "start_inner E (session_new c, os) = (Inr (), (ts, os1))"
    using assms by (auto simp: start_session_def split: prod.splits sum.splits)
  moreover have "dns_kept (tcf_dns c) (session_new c, os)"
    by (simp add: dns_kept_def session_new_def)
  ultimately show thesis
    using start_inner_probe [of "tcf_dns c" E] that unfolding triple_def by fastforce
qed

text \<open>C28: a tunnel without resolvers never stays up.  When the VPN pushes no DNS server (the resolver is then disabled
  and the tunnel would carry traffic without it), the probe has nobody to ask: the session starts, no reply is ever
  recorded, and the first liveness tick past the connect window gives the working tunnel up as one that never came up.\<close>

theorem tunnel_without_dns_given_up:
  assumes "is_disabled (tcf_dns c)" "start_session E (session_new c, os) = (Inr (), (ts, os1))"
    and "run_probe query clock sleep (the (ts_probe ts)) start 0 ticks w = (replies, w')"
    and "started + CONNECT_TIMEOUT < now"
    and "\<forall>u \<in> set us. \<not> dead_evidence outbound (unwrap_or initial None) u"
  shows "ts_status ts = Running \<and> ts_probe ts = Some [] \<and> replies = []
    \<and> supervise outbound initial (us @ liveness_tick started replies ts now # vs) = Some (Trigger HandshakeTimeout False)"
proof -
  obtain w0 where running: "ts_status ts = Running" and "ts_probe ts = Some (fst (resolve_vpn_servers (se_dns_lib E) (tcf_dns c) w0))"
    by (rule start_session_probe [OF assms(2)])
  then have probe: "ts_probe ts = Some []"
    using assms(1) by (simp add: resolve_vpn_servers_def is_disabled_def)
  then have replies: "replies = []"
    using assms(3) run_probe_no_servers by (metis fst_conv option.sel)
  have "\<forall>u \<in> set us. supervise_step outbound (unwrap_or initial None) u = None"
    using assms(5) by (simp add: supervise_step_None)
  moreover have "supervise_step outbound (unwrap_or initial None) (liveness_tick started replies ts now)
      = Some (Trigger HandshakeTimeout False)"
    using assms(4) by (simp add: liveness_tick_def replies probe session_probe_elapsed_def last_rx_elapsed_def
        supervise_step_def liveness_status_def)
  ultimately have "supervise outbound initial (us @ liveness_tick started replies ts now # vs) = Some (Trigger HandshakeTimeout False)"
    by (simp add: supervise_def find_map_skip)
  with probe replies running show ?thesis by simp
qed

theorem tunnel_without_dns_given_up_witness:
  "\<exists>ts os1. start_session (sample_session_env None) (session_new sample_tunnel_config, sample_session_os) = (Inr (), (ts, os1))
     \<and> supervise None None [liveness_tick 0 [] ts (from_secs 16)] = Some (Trigger HandshakeTimeout False)"
proof -
  obtain ts os where run: "start_session (sample_session_env None)
      (session_new sample_tunnel_config, sample_session_os) = (Inr (), (ts, os))"
    using sample_start [of None] by auto
  have "is_disabled (tcf_dns sample_tunnel_config)"
    by (simp add: sample_tunnel_config_def is_disabled_def)
  from tunnel_without_dns_given_up [OF this run, where us = "[]" and vs = "[]" and started = 0 and now = "from_secs 16"
      and query = "\<lambda>s. transport_query live_env (dialer_new None) s []" and clock = id and sleep = max and start = 0
      and ticks = 0 and w = 0 and outbound = None and initial = None]
  show ?thesis using run by (simp add: time_defs)
qed

section \<open>A tunnel behind silent resolvers\<close>

lemma probe_round_after:
  assumes "\<And>server. elapses clock DNS_TIMEOUT (query server)"
  shows "\<forall>t \<in> set_option (fst (probe_round query clock servers w)). clock w \<le> t"
proof (induction servers arbitrary: w)
  case (Cons server servers)
  obtain r w1 where q: "query server w = (r, w1)" by fastforce
  then have "clock w \<le> clock w1" using assms by (metis elapses_def snd_conv)
  with q Cons.IH [of w1] show ?case by (cases r) auto
qed simp

lemma run_probe_after:
  assumes "timely env clock sleep" "\<And>server. elapses clock DNS_TIMEOUT (query server)"
  shows "\<forall>t \<in> set (fst (run_probe query clock sleep servers start k ticks w)). clock w \<le> t"
proof (induction ticks arbitrary: k w)
  case (Suc ticks)
  let ?w = "sleep (start + k * PROBE_INTERVAL) w"
  obtain reply w1 where round: "probe_round query clock servers ?w = (reply, w1)" by fastforce
  have w: "clock w \<le> clock ?w" using assms(1) by (simp add: timely_def)
  have "clock ?w \<le> clock w1" "\<forall>t \<in> set_option reply. clock ?w \<le> t"
    using probe_round_elapses [where query = query and w = ?w, OF assms(2)]
      probe_round_after [where query = query and w = ?w, OF assms(2)] round by (metis snd_conv, metis fst_conv)
  with w Suc.IH [of "Suc k" w1] round show ?case
    by (fastforce simp: split_beta split: option.splits)
qed simp

lemma probe_round_skips_silent:
  assumes "\<And>s w. s \<in> set silent \<Longrightarrow> \<exists>e w1. query s w = (Inl e, w1) \<and> clock w1 = clock w + DNS_TIMEOUT"
  obtains w1 where "probe_round query clock (silent @ servers) w = probe_round query clock servers w1"
    "clock w1 = clock w + length silent * DNS_TIMEOUT"
  using assms
proof (induction silent arbitrary: w thesis)
  case (Cons s silent)
  obtain e w1 where "query s w = (Inl e, w1)" "clock w1 = clock w + DNS_TIMEOUT" using Cons.prems(2) by fastforce
  then show ?case using Cons.IH [of w1] Cons.prems by (auto simp: add.assoc)
qed simp

text \<open>The resolvers are asked one after the other, three seconds each: six that stay silent push the first reply of a
  working tunnel past the connect window.\<close>

theorem silent_resolvers_hide_a_live_one:
  assumes "timely env clock sleep" "\<And>server. elapses clock DNS_TIMEOUT (query server)"
    and "\<And>s w. s \<in> set silent \<Longrightarrow> \<exists>e w1. query s w = (Inl e, w1) \<and> clock w1 = clock w + DNS_TIMEOUT"
    and "ts_probe ts = Some (silent @ servers)"
    and "run_probe query clock sleep (silent @ servers) start 0 ticks w = (replies, w')"
    and "started + CONNECT_TIMEOUT < now" "now < start + length silent * DNS_TIMEOUT"
  shows "supervise_step outbound last_net (liveness_tick started replies ts now) = Some (Trigger HandshakeTimeout False)"
proof -
  let ?t = "start + length silent * DNS_TIMEOUT"
  have late: "\<forall>t \<in> set replies. ?t \<le> t"
  proof (cases ticks)
    case (Suc n)
    let ?w = "sleep (start + 0 * PROBE_INTERVAL) w"
    obtain w1 where skip: "probe_round query clock (silent @ servers) ?w = probe_round query clock servers w1"
      "clock w1 = clock ?w + length silent * DNS_TIMEOUT"
      by (rule probe_round_skips_silent [where query = query, OF assms(3)])
    obtain reply w2 where round: "probe_round query clock servers w1 = (reply, w2)" by fastforce
    have w1: "?t \<le> clock w1" using skip(2) assms(1) by (simp add: timely_def)
    have "clock w1 \<le> clock w2" "\<forall>t \<in> set_option reply. clock w1 \<le> t"
      using probe_round_elapses [where query = query and w = w1, OF assms(2)]
        probe_round_after [where query = query and w = w1, OF assms(2)] round by (metis snd_conv, metis fst_conv)
    moreover have "\<forall>t \<in> set (fst (run_probe query clock sleep (silent @ servers) start 1 n w2)). clock w2 \<le> t"
      by (rule run_probe_after [OF assms(1,2)])
    ultimately show ?thesis
      using assms(5) w1 Suc skip(1) round by (fastforce simp: split_beta split: option.splits)
  qed (use assms(5) in simp)
  then have "last_rx_at replies now = None"
    using assms(7) last_rx_at_Some [of replies now] by (cases "last_rx_at replies now") fastforce+
  then show ?thesis
    using assms(4,6) by (simp add: liveness_tick_def session_probe_elapsed_def last_rx_elapsed_def supervise_step_def
        liveness_status_def)
qed

end
