(* ===== verification/TestKit.thy ===== *)
theory TestKit
  imports NetAddr
begin

text \<open>
  What the theories of unit tests share: the addresses a test writes as a parsed literal, and the
  rules by which the simplifier runs the address parser on such a literal.
\<close>

text \<open>\<open>s.parse().unwrap()\<close>.\<close>

definition parsed :: "string \<Rightarrow> ip_addr" where
  "parsed s = the (parse_ip s)"

lemma replicate_numeral_Cons: "replicate (numeral k) x = x # replicate (pred_numeral k) x"
  by (simp add: numeral_eq_Suc)

lemma read_groups_numeral:
  "read_groups (numeral k) limit s =
     (let i = limit - numeral k;
          v4 = (if i < limit - 1 then read_separator (CHR '':'') i read_ipv4_addr s else None)
      in case v4 of
           Some (a, s') \<Rightarrow> ([unat (drop_bit 16 a), unat (take_bit 16 a)], True, s')
         | None \<Rightarrow> (case read_separator (CHR '':'') i (read_number 16 4 True 65535) s of
               None \<Rightarrow> ([], False, s)
             | Some (g, s') \<Rightarrow>
                 (let (gs, v4, s'') = read_groups (pred_numeral k) limit s' in (g # gs, v4, s''))))"
  unfolding numeral_eq_Suc read_groups.simps ..

lemmas parse_addr = parse_ip_def parse_ipv4_def parse_ipv6_def parse_with_def read_ip_addr_def read_ipv4_addr_def
  read_ipv6_addr_def read_octet_def read_number_def read_separator_def read_given_char_def to_digit_def
  ipv4_of_octets_def ipv6_of_groups_def read_groups_numeral replicate_numeral_Cons

text \<open>Decimal numbers are printed by the digits.\<close>

lemmas eval_nat_to_string = nat_to_string_def digits_of.simps char_of_def bit_Suc_0_iff

lemma parse_literals:
  "parse_ip ''192.168.1.1'' = Some (V4 0xC0A80101)"
  "parse_ip ''192.168.1.100'' = Some (V4 0xC0A80164)"
  "parse_ip ''192.168.1.42'' = Some (V4 0xC0A8012A)"
  "parse_ip ''10.0.0.1'' = Some (V4 0x0A000001)"
  "parse_ip ''10.0.0.50'' = Some (V4 0x0A000032)"
  "parse_ip ''10.9.9.9'' = Some (V4 0x0A090909)"
  "parse_ip ''10.1.1.1'' = Some (V4 0x0A010101)"
  "parse_ip ''10.2.2.2'' = Some (V4 0x0A020202)"
  "parse_ip ''10.3.3.3'' = Some (V4 0x0A030303)"
  "parse_ip ''8.8.8.8'' = Some (V4 0x08080808)"
  "parse_ip ''fe80::1'' = Some (V6 0xFE800000000000000000000000000001)"
  "parse_ip ''fd00::1'' = Some (V6 0xFD000000000000000000000000000001)"
  "parse_ip ''2001:4860::1'' = Some (V6 0x20014860000000000000000000000001)"
  "parse_ip ''2001:4860:4860::8888'' = Some (V6 0x20014860486000000000000000008888)"
  by (simp_all add: parse_addr)

end
