(* ===== verification/OutboundTests.thy ===== *)
theory OutboundTests
  imports Dialer TestKit
begin

text \<open>
  The unit tests of the outbound crate (\<open>mod tests\<close> of \<open>interface.rs\<close>, \<open>snapshot.rs\<close>, \<open>dialer.rs\<close>,
  \<open>resolver.rs\<close>, \<open>connector.rs\<close>), run on the model: each test is the conjunction of its assertions, and
  the lemma after it says that the model passes.  Where a test takes a codec or a socket from a library,
  it passes for every one that does what the assertion is about.
\<close>

section \<open>\<open>interface.rs\<close>\<close>

text \<open>\<open>mock_interface\<close> sets the POSIX flags; the accessors are those of the interface crate.\<close>

definition IFF_UP :: u32 where "IFF_UP = 0x1"
definition IFF_BROADCAST :: u32 where "IFF_BROADCAST = 0x2"
definition IFF_LOOPBACK :: u32 where "IFF_LOOPBACK = 0x8"
definition IFF_POINTOPOINT :: u32 where "IFF_POINTOPOINT = 0x10"

definition mock_flags :: "bool \<Rightarrow> bool \<Rightarrow> bool \<Rightarrow> u32" where
  "mock_flags up loopback tun =
     (let flags = 0;
          flags = (if up then flags OR IFF_UP else flags);
          flags = (if loopback then flags OR IFF_LOOPBACK else flags)
      in if tun then (flags OR (IFF_UP OR IFF_POINTOPOINT)) AND NOT IFF_BROADCAST AND NOT IFF_LOOPBACK
         else flags)"

definition mock_interface ::
  "string \<Rightarrow> bool \<Rightarrow> bool \<Rightarrow> bool \<Rightarrow> bool \<Rightarrow> bool \<Rightarrow> net_interface" where
  "mock_interface name up loopback tun has_addr gateway =
     (let flags = mock_flags up loopback tun; set = (\<lambda>flag. flags AND flag \<noteq> 0) in
      \<lparr>if_name = name, if_index = 1, if_is_up = set IFF_UP, if_is_loopback = set IFF_LOOPBACK,
       if_is_tun = (set IFF_UP \<and> set IFF_POINTOPOINT \<and> \<not> set IFF_BROADCAST \<and> \<not> set IFF_LOOPBACK),
       if_ipv4 = (if has_addr then [ipv4_of_octets 192 168 1 100] else []), if_ipv6 = [],
       if_gateway = (if gateway then Some (V4 (ipv4_of_octets 192 168 1 1)) else None)\<rparr>)"

definition wan_candidate_truth_table :: bool where
  "wan_candidate_truth_table \<longleftrightarrow>
     is_wan_candidate (mock_interface ''en0'' True False False True True) None
     \<and> \<not> is_wan_candidate (mock_interface ''utun0'' True False False True True) (Some ''utun0'')
     \<and> \<not> is_wan_candidate (mock_interface ''en0'' False False False True True) None
     \<and> \<not> is_wan_candidate (mock_interface ''lo0'' True True False True False) None
     \<and> \<not> is_wan_candidate (mock_interface ''utun1'' False False True True False) None
     \<and> \<not> is_wan_candidate (mock_interface ''en0'' True False False False True) None"

definition fallback_prefers_gateway :: bool where
  "fallback_prefers_gateway \<longleftrightarrow>
     (let with_gw = mock_interface ''en1'' True False False True True;
          no_gw = mock_interface ''en2'' True False False True False;
          result = best_fallback_interface [no_gw, with_gw] None
      in map_option oi_name result = Some ''en1'')"

definition self_loop_guard_never_yields_tun :: bool where
  "self_loop_guard_never_yields_tun \<longleftrightarrow>
     best_fallback_interface [mock_interface ''utun0'' False False True True False] None = None"

definition from_interface_rejects_zero_index :: "net_interface \<Rightarrow> bool" where
  "from_interface_rejects_zero_index dummy \<longleftrightarrow>
     \<not> is_ok (from_interface (dummy\<lparr>if_name := ''test'', if_index := 0\<rparr>))"

lemmas iff_flags = IFF_UP_def IFF_BROADCAST_def IFF_LOOPBACK_def IFF_POINTOPOINT_def

lemma wan_candidate_truth_table_passes: wan_candidate_truth_table
  by (simp add: wan_candidate_truth_table_def mock_interface_def mock_flags_def iff_flags is_wan_candidate_def)

lemma fallback_prefers_gateway_passes: fallback_prefers_gateway
  by (simp add: fallback_prefers_gateway_def best_fallback_interface_def mock_interface_def mock_flags_def
      iff_flags is_wan_candidate_def from_interface_def)

lemma self_loop_guard_never_yields_tun_passes: self_loop_guard_never_yields_tun
  by (simp add: self_loop_guard_never_yields_tun_def best_fallback_interface_def mock_interface_def
      mock_flags_def iff_flags is_wan_candidate_def)

lemma from_interface_rejects_zero_index_passes: "from_interface_rejects_zero_index dummy"
  by (simp add: from_interface_rejects_zero_index_def from_interface_def is_ok_def)

section \<open>\<open>snapshot.rs\<close>\<close>

definition en0 :: "u32 \<Rightarrow> string option \<Rightarrow> string list \<Rightarrow> network_snapshot" where
  "en0 index gateway addrs = Some \<lparr>fp_name = ''en0'', fp_index = index,
     fp_gateway = map_option parsed gateway, fp_addrs = map parsed addrs\<rparr>"

definition equal_snapshots_compare_equal :: bool where
  "equal_snapshots_compare_equal \<longleftrightarrow>
     (let a = en0 4 (Some ''192.168.1.1'') [''192.168.1.100'']; b = a in a = b)"

definition differing_gateway_is_a_change :: bool where
  "differing_gateway_is_a_change \<longleftrightarrow>
     en0 4 (Some ''192.168.1.1'') [''192.168.1.100''] \<noteq> en0 4 (Some ''10.0.0.1'') [''192.168.1.100'']"

definition differing_index_is_a_change :: bool where
  "differing_index_is_a_change \<longleftrightarrow> en0 4 None [] \<noteq> en0 7 None []"

definition differing_addrs_is_a_change :: bool where
  "differing_addrs_is_a_change \<longleftrightarrow> en0 4 None [''192.168.1.100''] \<noteq> en0 4 None [''10.0.0.50'']"

definition none_vs_some_is_a_change :: bool where
  "none_vs_some_is_a_change \<longleftrightarrow> None \<noteq> en0 4 None []"

lemma equal_snapshots_compare_equal_passes: equal_snapshots_compare_equal
  by (simp add: equal_snapshots_compare_equal_def)

lemma differing_gateway_is_a_change_passes: differing_gateway_is_a_change
  by (simp add: differing_gateway_is_a_change_def en0_def parsed_def parse_literals)

lemma differing_index_is_a_change_passes: differing_index_is_a_change
  by (simp add: differing_index_is_a_change_def en0_def)

lemma differing_addrs_is_a_change_passes: differing_addrs_is_a_change
  by (simp add: differing_addrs_is_a_change_def en0_def parsed_def parse_literals)

lemma none_vs_some_is_a_change_passes: none_vs_some_is_a_change
  by (simp add: none_vs_some_is_a_change_def en0_def)

section \<open>\<open>dialer.rs\<close>\<close>

definition should_bind_classification :: bool where
  "should_bind_classification \<longleftrightarrow>
     \<not> should_bind (V4 (ipv4_of_octets 127 0 0 1))
     \<and> \<not> should_bind (V4 (ipv4_of_octets 169 254 1 1))
     \<and> \<not> should_bind (V4 (ipv4_of_octets 224 0 0 1))
     \<and> \<not> should_bind (V4 (ipv4_of_octets 0 0 0 0))
     \<and> \<not> should_bind (V4 (ipv4_of_octets 255 255 255 255))
     \<and> \<not> should_bind (V6 1)
     \<and> \<not> should_bind (parsed ''fe80::1'')
     \<and> \<not> should_bind (V6 0)
     \<and> should_bind (V4 (ipv4_of_octets 10 0 0 1))
     \<and> should_bind (V4 (ipv4_of_octets 172 16 0 1))
     \<and> should_bind (V4 (ipv4_of_octets 192 168 1 1))
     \<and> should_bind (V4 (ipv4_of_octets 100 64 0 1))
     \<and> should_bind (V4 (ipv4_of_octets 8 8 8 8))
     \<and> should_bind (parsed ''2001:4860::1'')
     \<and> should_bind (parsed ''fd00::1'')"

lemma should_bind_classification_passes: should_bind_classification
  by (simp add: should_bind_classification_def should_bind_def ipv4_is_loopback_def ipv4_is_link_local_def
      ipv4_is_multicast_def ipv6_is_multicast_def segment0_def ipv4_of_octets_def parsed_def parse_literals)

section \<open>\<open>resolver.rs\<close>\<close>

text \<open>The two answers of the codec that the assertions read are arguments; \<open>query_header\<close> is the header it
  decodes a query to.\<close>

record query_header =
  qh_is_query :: bool
  qh_recursion_desired :: bool
  qh_types :: "record_type list"

definition build_query_produces_valid_wire_format ::
  "dns_codec \<Rightarrow> (bytes \<Rightarrow> query_header option) \<Rightarrow> bool" where
  "build_query_produces_valid_wire_format dc decode \<longleftrightarrow>
     (case build_query dc ''example.com'' TypeA of
        Inl _ \<Rightarrow> False
      | Inr wire \<Rightarrow> (case decode wire of
            None \<Rightarrow> False
          | Some m \<Rightarrow> qh_is_query m \<and> qh_recursion_desired m \<and> length (qh_types m) = 1 \<and> qh_types m ! 0 = TypeA))"

definition extract_addrs_from_response :: bool where
  "extract_addrs_from_response \<longleftrightarrow>
     (let record = \<lparr>rec_type = Some TypeA, rec_data = RDataA (ipv4_of_octets 93 184 215 14)\<rparr>
      in extract_addrs [record] TypeA = [V4 (ipv4_of_octets 93 184 215 14)])"

definition ip_literal_resolves_directly :: "'w sys_env \<Rightarrow> dns_codec \<Rightarrow> 'w \<Rightarrow> bool" where
  "ip_literal_resolves_directly env dc w \<longleftrightarrow>
     (let resolver = resolver_new (dialer_new None) []
      in fst (resolve_host env dc resolver ''10.0.0.1'' 443 w) = Inr [\<lparr>sa_ip = parsed ''10.0.0.1'', sa_port = 443\<rparr>])"

definition no_servers_returns_error :: "'w sys_env \<Rightarrow> dns_codec \<Rightarrow> 'w \<Rightarrow> bool" where
  "no_servers_returns_error env dc w \<longleftrightarrow>
     (let resolver = resolver_new (dialer_new None) []
      in case fst (resolve_host env dc resolver ''example.com'' 443 w) of
           Inl (NoRecords _) \<Rightarrow> True | _ \<Rightarrow> False)"

definition static_override_bypasses_dns :: "'w sys_env \<Rightarrow> dns_codec \<Rightarrow> 'w \<Rightarrow> bool" where
  "static_override_bypasses_dns env dc w \<longleftrightarrow>
     (let pinned = \<lparr>sa_ip = V4 (ipv4_of_octets 192 168 1 42), sa_port = 8443\<rparr>;
          resolver = with_override (resolver_new (dialer_new None) []) ''vpn.example.com'' pinned
      in fst (resolve_host env dc resolver ''vpn.example.com'' 8443 w) = Inr [pinned])"

lemma build_query_produces_valid_wire_format_passes:
  assumes "dc_encode_query dc ''example.com'' TypeA = Some wire"
    and "decode wire = Some \<lparr>qh_is_query = True, qh_recursion_desired = True, qh_types = [TypeA]\<rparr>"
  shows "build_query_produces_valid_wire_format dc decode"
  using assms by (simp add: build_query_produces_valid_wire_format_def build_query_def)

lemma extract_addrs_from_response_passes: extract_addrs_from_response
  by (simp add: extract_addrs_from_response_def extract_addrs_def)

lemma ip_literal_resolves_directly_passes: "ip_literal_resolves_directly env dc w"
  by (simp add: ip_literal_resolves_directly_def resolve_host_literal resolver_new_def parsed_def parse_literals)

text \<open>Whether the name is accepted does not matter: without servers no record can be found.  What does matter is
  that a query can be built.\<close>

lemma no_servers_returns_error_passes:
  assumes "\<And>rt. dc_encode_query dc ''example.com'' rt \<noteq> None"
  shows "no_servers_returns_error env dc w"
proof -
  have "query_record env dc (resolver_new (dialer_new None) []) ''example.com'' rt = io_return []" for rt
    using assms [of rt] by (auto simp: query_record_def build_query_def resolver_new_def)
  moreover have "parse_ip ''example.com'' = None" by (simp add: parse_addr)
  ultimately show ?thesis
    by (simp add: no_servers_returns_error_def resolve_host_def Let_def)
       (simp add: resolver_new_def)
qed

lemma static_override_bypasses_dns_passes: "static_override_bypasses_dns env dc w"
  by (simp add: static_override_bypasses_dns_def resolve_host_override resolver_new_def with_override_def)

section \<open>\<open>connector.rs\<close>\<close>

text \<open>An \<open>http::Uri\<close> is a parsed value; each test names the parts the library finds in its text.\<close>

definition parse_uri_http_default_port :: bool where
  "parse_uri_http_default_port \<longleftrightarrow>
     parse_uri_host_port \<lparr>uri_scheme = Some ''http'', uri_host = Some ''example.com'', uri_port = None\<rparr>
       = Inr (''example.com'', 80)"

definition parse_uri_https_default_port :: bool where
  "parse_uri_https_default_port \<longleftrightarrow>
     parse_uri_host_port \<lparr>uri_scheme = Some ''https'', uri_host = Some ''example.com'', uri_port = None\<rparr>
       = Inr (''example.com'', 443)"

definition parse_uri_explicit_port :: bool where
  "parse_uri_explicit_port \<longleftrightarrow>
     parse_uri_host_port \<lparr>uri_scheme = Some ''http'', uri_host = Some ''example.com'', uri_port = Some 8080\<rparr>
       = Inr (''example.com'', 8080)"

definition parse_uri_missing_host :: bool where
  "parse_uri_missing_host \<longleftrightarrow>
     \<not> is_ok (parse_uri_host_port \<lparr>uri_scheme = None, uri_host = None, uri_port = None\<rparr>)"

definition parse_uri_unsupported_scheme :: bool where
  "parse_uri_unsupported_scheme \<longleftrightarrow>
     (case parse_uri_host_port \<lparr>uri_scheme = Some ''ftp'', uri_host = Some ''example.com'', uri_port = None\<rparr> of
        Inl (UnsupportedScheme _) \<Rightarrow> True | _ \<Rightarrow> False)"

lemmas uri_tests = parse_uri_http_default_port_def parse_uri_https_default_port_def parse_uri_explicit_port_def
  parse_uri_missing_host_def parse_uri_unsupported_scheme_def

lemma uri_tests_pass:
  "parse_uri_http_default_port" "parse_uri_https_default_port" "parse_uri_explicit_port"
  "parse_uri_missing_host" "parse_uri_unsupported_scheme"
  by (simp_all add: uri_tests parse_uri_host_port_def is_ok_def)

end
