(* ===== verification/DnsTests.thy ===== *)
theory DnsTests
  imports DnsResolve TestKit
begin

text \<open>
  The unit tests of the DNS crate (\<open>mod tests\<close> of \<open>config.rs\<close>, \<open>synthesis.rs\<close>, \<open>forwarder.rs\<close>), run on the
  model.  The tests of the synthesis pass with every codec that decodes what it encodes; those of the
  forwarder run against mock servers behind the sockets of \<open>loopback\<close>.
\<close>

section \<open>Fixtures\<close>

definition test_setting :: vpn_conn_setting where
  "test_setting = \<lparr>st_vpn_mtu = 1400, st_vpn_dns = Some ''10.0.0.53'', st_vpn_dns_backup = None,
     st_vpn_dns_domain_split = None, st_vpn_route_full = None, st_vpn_route_split = None,
     st_v6_route_full = None, st_v6_route_split = None, st_vpn_dynamic_domain_route_split = None,
     st_v6_vpn_dynamic_domain_route_split = None, st_vpn_wildcard_dynamic_domain_route_split = None,
     st_suffix_wildcard_dynamic_domain_route_split = None, st_dynamic_domain = None,
     st_central_dns = None, st_ip_nats = None\<rparr>"

definition test_conn :: "vpn_conn_setting \<Rightarrow> vpn_conn_response" where
  "test_conn setting = \<lparr>conn_ip = ''10.0.0.2'', conn_ipv6 = None, conn_ip_mask = Some 24,
     conn_public_key = ''server-public-key'', conn_preshared_key = None, conn_sign_token = None,
     conn_protocol_version = None, conn_setting = setting, conn_raw = None\<rparr>"

definition test_config :: "'w dns_lib \<Rightarrow> vpn_conn_setting \<Rightarrow> bool \<Rightarrow> dns_config" where
  "test_config lib setting full_tunnel = dns_from_vpn_conn lib (test_conn setting) None full_tunnel"

section \<open>\<open>config.rs\<close>\<close>

definition normalizes_dns_upstreams :: "'w dns_lib \<Rightarrow> bool" where
  "normalizes_dns_upstreams lib \<longleftrightarrow>
     parse_dns_endpoint lib ''8.8.8.8'' = Some ''8.8.8.8:53''
     \<and> parse_dns_endpoint lib ''2001:4860:4860::8888'' = Some ''[2001:4860:4860::8888]:53''
     \<and> parse_dns_endpoint lib ''dns.example:5353'' = Some ''dns.example:5353''
     \<and> parse_dns_endpoint lib ''udp://8.8.8.8:5353'' = Some ''8.8.8.8:5353''
     \<and> parse_dns_endpoint lib ''https://dns.example/dns-query'' = None"

definition normalizes_domain_patterns :: bool where
  "normalizes_domain_patterns \<longleftrightarrow> normalize_domain ''*.Example.COM.'' = ''example.com''"

definition split_matchers_route_through_vpn :: "'w dns_lib \<Rightarrow> bool" where
  "split_matchers_route_through_vpn lib \<longleftrightarrow>
     (let config = test_config lib (test_setting\<lparr>st_vpn_dns_domain_split := Some [''corp.example'']\<rparr>) False
      in route_through_vpn lib config (Some ''corp.example'')
       \<and> route_through_vpn lib config (Some ''host.corp.example'')
       \<and> \<not> route_through_vpn lib config (Some ''example.com'')
       \<and> \<not> route_through_vpn lib config None)"

definition full_tunnel_routes_everything_through_vpn :: "'w dns_lib \<Rightarrow> bool" where
  "full_tunnel_routes_everything_through_vpn lib \<longleftrightarrow>
     (let config = test_config lib test_setting True
      in route_through_vpn lib config (Some ''anything.example'') \<and> route_through_vpn lib config None)"

definition parses_central_dns_and_ip_nats :: "'w dns_lib \<Rightarrow> bool" where
  "parses_central_dns_and_ip_nats lib \<longleftrightarrow>
     (let central = \<lparr>cd_tenant_id = ''tenant-1'', cd_cpe_id = 0, cd_dnat_ip = ''100.64.0.1'',
            cd_dns = [''10.0.0.9''], cd_second_bloom = [], cd_third_bloom = [], cd_bloom_num = 0, cd_version = []\<rparr>;
          nat = \<lparr>nat_ips = [''10.0.0.0/8'', ''172.16.0.0/12''], nat_is_default_nat = True, nat_nat_ip = ''100.64.0.1''\<rparr>;
          config = test_config lib (test_setting\<lparr>st_central_dns := Some central, st_ip_nats := Some [nat]\<rparr>) False
      in map_option cd_tenant_id (dns_central_dns config) = Some ''tenant-1''
       \<and> length (dns_ip_nats config) = 1 \<and> nat_is_default_nat (dns_ip_nats config ! 0))"

text \<open>What the \<open>url\<close> crate makes of the three texts; a host of the scheme \<open>udp\<close> is not read as an address.\<close>

definition url_crate :: "(string \<Rightarrow> parsed_url option) \<Rightarrow> bool" where
  "url_crate parse \<longleftrightarrow>
     parse ''dns://dns.example:5353'' = Some \<lparr>pu_scheme = ''dns'', pu_path = [], pu_port = Some 5353,
       pu_host = Some (HostDomain ''dns.example'')\<rparr>
     \<and> parse ''udp://8.8.8.8:5353'' = Some \<lparr>pu_scheme = ''udp'', pu_path = [], pu_port = Some 5353,
       pu_host = Some (HostDomain ''8.8.8.8'')\<rparr>
     \<and> parse ''https://dns.example/dns-query'' = Some \<lparr>pu_scheme = ''https'', pu_path = ''/dns-query'', pu_port = None,
       pu_host = Some (HostDomain ''dns.example'')\<rparr>"

lemmas parse_socket = parse_socket_addr_def read_socket_addr_v4_def read_socket_addr_v6_def read_port_def
  read_decimal_def

lemma upstream_texts:
  "parse_socket_addr ''8.8.8.8'' = None"
  "parse_socket_addr ''2001:4860:4860::8888'' = None"
  "parse_socket_addr ''dns.example:5353'' = None"
  "parse_socket_addr ''udp://8.8.8.8:5353'' = None"
  "parse_socket_addr ''https://dns.example/dns-query'' = None"
  "parse_socket_addr ''corp.example'' = None"
  "parse_ip ''dns.example:5353'' = None"
  "parse_ip ''udp://8.8.8.8:5353'' = None"
  "parse_ip ''https://dns.example/dns-query'' = None"
  "parse_ip ''corp.example'' = None"
  by (simp_all add: parse_addr parse_socket)

lemma upstream_trimmed:
  "v \<in> {''8.8.8.8'', ''2001:4860:4860::8888'', ''dns.example:5353'', ''udp://8.8.8.8:5353'',
      ''https://dns.example/dns-query''} \<Longrightarrow>
   trim_matches (\<lambda>c. c = CHR 0x27) (trim_matches (\<lambda>c. c = CHR 0x22) (trim v)) = v"
  by (elim insertE emptyE; hypsubst) code_simp+

lemma upstream_printed:
  "socket_addr_to_string \<lparr>sa_ip = V4 0x08080808, sa_port = 53\<rparr> = ''8.8.8.8:53''"
  "socket_addr_to_string \<lparr>sa_ip = V6 0x20014860486000000000000000008888, sa_port = 53\<rparr>
     = ''[2001:4860:4860::8888]:53''"
proof -
  have "nat_to_string 53 = ''53''" "nat_to_string 8 = ''8''" by (simp_all add: eval_nat_to_string)
  then show "socket_addr_to_string \<lparr>sa_ip = V4 0x08080808, sa_port = 53\<rparr> = ''8.8.8.8:53''"
    by (simp add: socket_addr_to_string_def ipv4_to_string_def)
  have "hex_of 0x2001 = ''2001''" "hex_of 0x4860 = ''4860''" "hex_of 0x8888 = ''8888''"
    by (simp_all add: hex_of.simps hex_digit_char_def char_of_def bit_Suc_0_iff)
  moreover have "segments6 0x20014860486000000000000000008888 = [0x2001, 0x4860, 0x4860, 0, 0, 0, 0, 0x8888]"
    by (simp add: segments6_def upt_rec)
  ultimately have "ipv6_to_string 0x20014860486000000000000000008888 = ''2001:4860:4860::8888''"
    by (simp add: ipv6_to_string_def)
  with \<open>nat_to_string 53 = ''53''\<close>
  show "socket_addr_to_string \<lparr>sa_ip = V6 0x20014860486000000000000000008888, sa_port = 53\<rparr>
     = ''[2001:4860:4860::8888]:53''"
    by (simp add: socket_addr_to_string_def)
qed

lemma normalizes_dns_upstreams_passes:
  assumes "url_crate (dl_url_parse lib)"
  shows "normalizes_dns_upstreams lib"
proof -
  have "nat_to_string 5353 = ''5353''" by (simp add: eval_nat_to_string)
  then show ?thesis
    using assms unfolding normalizes_dns_upstreams_def parse_dns_endpoint_def
    by (simp add: upstream_trimmed upstream_texts upstream_printed parse_literals url_crate_def DNS_PORT_def
        sublist_Cons_right)
qed

lemma normalizes_domain_patterns_passes: normalizes_domain_patterns
  by code_simp

lemma split_matchers_route_through_vpn_passes:
  assumes "wildmatch_ok (dl_wildmatch lib)"
  shows "split_matchers_route_through_vpn lib"
proof -
  have n: "normalize_domain ''corp.example'' = ''corp.example''"
    "normalize_domain ''host.corp.example'' = ''host.corp.example''"
    "normalize_domain ''example.com'' = ''example.com''" by code_simp+
  have a: "acceptable ''corp.example''" by (simp add: acceptable_def upstream_texts)
  let ?c = "test_config lib (test_setting\<lparr>st_vpn_dns_domain_split := Some [''corp.example'']\<rparr>) False"
  have "route_through_vpn lib ?c (Some name) \<longleftrightarrow> normalize_domain name = ''corp.example''
      \<or> suffix ''.corp.example'' (normalize_domain name)" for name
    unfolding test_config_def using n a
    by (subst route_through_vpn_spec [OF assms]) (simp_all add: test_conn_def test_setting_def no_wildcard_def)
  moreover have "\<not> route_through_vpn lib ?c None"
    by (simp add: test_config_def route_through_vpn_def dns_from_vpn_conn_def Let_def)
  ultimately show ?thesis
    by (simp add: split_matchers_route_through_vpn_def Let_def n suffix_def)
qed

lemma full_tunnel_routes_everything_through_vpn_passes: "full_tunnel_routes_everything_through_vpn lib"
  by (simp add: full_tunnel_routes_everything_through_vpn_def test_config_def route_through_vpn_def
      dns_from_vpn_conn_def Let_def)

lemma parses_central_dns_and_ip_nats_passes: "parses_central_dns_and_ip_nats lib"
  by (simp add: parses_central_dns_and_ip_nats_def test_config_def dns_from_vpn_conn_def test_conn_def Let_def)

section \<open>\<open>synthesis.rs\<close>\<close>

definition query_message :: "string \<Rightarrow> query_type \<Rightarrow> dns_message" where
  "query_message name record_type = \<lparr>dm_rest = [0x12, 0x34], dm_response = False, dm_rcode = RC_NoError,
     dm_recursion_available = False, dm_queries = [\<lparr>qu_name = name, qu_type = record_type\<rparr>], dm_answers = []\<rparr>"

definition query_payload :: "msg_codec \<Rightarrow> string \<Rightarrow> query_type \<Rightarrow> bytes" where
  "query_payload c name record_type = the (mc_to_vec c (query_message name record_type))"

definition answers :: "msg_codec \<Rightarrow> bytes \<Rightarrow> rdata list" where
  "answers c payload = map an_data (dm_answers (the (mc_from_vec c payload)))"

text \<open>\<open>synthesize(..).expect(..)\<close> followed by the assertions on the payload.\<close>

definition expect_synthesized ::
  "msg_codec \<Rightarrow> dns_config \<Rightarrow> string \<Rightarrow> query_type \<Rightarrow> (bytes \<Rightarrow> bool) \<Rightarrow> bool" where
  "expect_synthesized c config name record_type P \<longleftrightarrow>
     (case synthesize c config (query_payload c name record_type) of None \<Rightarrow> False | Some payload \<Rightarrow> P payload)"

definition synthesizes_exact_a_record_with_dynamic_ttl :: "msg_codec \<Rightarrow> 'w dns_lib \<Rightarrow> bool" where
  "synthesizes_exact_a_record_with_dynamic_ttl c lib \<longleftrightarrow>
     (let config = test_config lib (test_setting\<lparr>st_dynamic_domain := Some [(''git.corp'', [''10.9.9.9''])]\<rparr>) False
      in expect_synthesized c config ''git.corp.'' QueryA (\<lambda>payload.
           let message = the (mc_from_vec c payload); records = dm_answers message
           in dm_response message \<and> dm_rcode message = RC_NoError \<and> length records = 1
            \<and> an_ttl (records ! 0) = DYNAMIC_TTL \<and> an_data (records ! 0) = RDataA (the (parse_ipv4 ''10.9.9.9''))))"

definition synthesizes_wildcard_and_suffix_matches :: "msg_codec \<Rightarrow> 'w dns_lib \<Rightarrow> bool" where
  "synthesizes_wildcard_and_suffix_matches c lib \<longleftrightarrow>
     (let config = test_config lib (test_setting
            \<lparr>st_vpn_wildcard_dynamic_domain_route_split := Some [(''*.wild.corp'', [''10.1.1.1''])],
             st_suffix_wildcard_dynamic_domain_route_split := Some [(''suffix.corp'', [''10.2.2.2''])]\<rparr>) False
      in expect_synthesized c config ''host.wild.corp.'' QueryA
           (\<lambda>wild. answers c wild = [RDataA (the (parse_ipv4 ''10.1.1.1''))])
       \<and> expect_synthesized c config ''deep.host.suffix.corp.'' QueryA
           (\<lambda>suffix. answers c suffix = [RDataA (the (parse_ipv4 ''10.2.2.2''))]))"

definition aaaa_for_v4_only_domain_returns_nodata :: "msg_codec \<Rightarrow> 'w dns_lib \<Rightarrow> bool" where
  "aaaa_for_v4_only_domain_returns_nodata c lib \<longleftrightarrow>
     (let config = test_config lib
            (test_setting\<lparr>st_vpn_dynamic_domain_route_split := Some [(''v4only.corp'', [''10.3.3.3''])]\<rparr>) False
      in expect_synthesized c config ''v4only.corp.'' QueryAAAA (\<lambda>payload.
           let message = the (mc_from_vec c payload) in dm_rcode message = RC_NoError \<and> dm_answers message = []))"

definition synthesizes_aaaa_from_v6_table :: "msg_codec \<Rightarrow> 'w dns_lib \<Rightarrow> bool" where
  "synthesizes_aaaa_from_v6_table c lib \<longleftrightarrow>
     (let config = test_config lib
            (test_setting\<lparr>st_v6_vpn_dynamic_domain_route_split := Some [(''v6.corp'', [''fd00::1''])]\<rparr>) False
      in expect_synthesized c config ''v6.corp.'' QueryAAAA
           (\<lambda>payload. answers c payload = [RDataAAAA (the (parse_ipv6 ''fd00::1''))]))"

definition unmatched_domain_is_not_synthesized :: "msg_codec \<Rightarrow> 'w dns_lib \<Rightarrow> bool" where
  "unmatched_domain_is_not_synthesized c lib \<longleftrightarrow>
     (let config = test_config lib (test_setting\<lparr>st_dynamic_domain := Some [(''git.corp'', [''10.9.9.9''])]\<rparr>) False
      in synthesize c config (query_payload c ''example.com.'' QueryA) = None)"

text \<open>A codec that decodes what it encoded.\<close>

definition faithful :: "msg_codec \<Rightarrow> bool" where
  "faithful c \<longleftrightarrow> (\<forall>m. \<exists>bytes. mc_to_vec c m = Some bytes \<and> mc_from_vec c bytes = Some m)"

lemma faithful_query: "faithful c \<Longrightarrow> mc_from_vec c (query_payload c name qt) = Some (query_message name qt)"
  unfolding query_payload_def faithful_def by (metis option.sel)

lemma faithful_response:
  assumes "faithful c"
  obtains bytes where "build_response c request as = Some bytes"
    "mc_from_vec c bytes = Some (request\<lparr>dm_response := True, dm_rcode := RC_NoError,
       dm_recursion_available := True, dm_answers := dm_answers request @ as\<rparr>)"
  using assms unfolding faithful_def build_response_def by blast

lemma expect_answers:
  assumes "faithful c"
    and "synthesize c config (query_payload c name qt) = build_response c (query_message name qt) as"
    and "\<And>bytes. mc_from_vec c bytes = Some ((query_message name qt)\<lparr>dm_response := True,
           dm_recursion_available := True, dm_answers := as\<rparr>) \<Longrightarrow> P bytes"
  shows "expect_synthesized c config name qt P"
  using assms by (elim faithful_response [of c "query_message name qt" as])
    (simp add: expect_synthesized_def query_message_def)

text \<open>The domains of the tests, as the tables and the queries normalise them.\<close>

lemma test_domains:
  "normalize_domain ''git.corp'' = ''git.corp''" "normalize_domain ''git.corp.'' = ''git.corp''"
  "normalize_domain ''*.wild.corp'' = ''wild.corp''" "normalize_domain ''suffix.corp'' = ''suffix.corp''"
  "normalize_domain ''host.wild.corp.'' = ''host.wild.corp''"
  "normalize_domain ''deep.host.suffix.corp.'' = ''deep.host.suffix.corp''"
  "normalize_domain ''v4only.corp'' = ''v4only.corp''" "normalize_domain ''v4only.corp.'' = ''v4only.corp''"
  "normalize_domain ''v6.corp'' = ''v6.corp''" "normalize_domain ''v6.corp.'' = ''v6.corp''"
  "normalize_domain ''example.com.'' = ''example.com''"
  by code_simp+

lemma test_values:
  "parse_ipv4 (value_token ''10.9.9.9'') = parse_ipv4 ''10.9.9.9''" "parse_ipv4 ''10.9.9.9'' = Some 0x0A090909"
  "parse_ipv4 (value_token ''10.1.1.1'') = parse_ipv4 ''10.1.1.1''" "parse_ipv4 ''10.1.1.1'' = Some 0x0A010101"
  "parse_ipv4 (value_token ''10.2.2.2'') = parse_ipv4 ''10.2.2.2''" "parse_ipv4 ''10.2.2.2'' = Some 0x0A020202"
  "parse_ipv6 (value_token ''fd00::1'') = parse_ipv6 ''fd00::1''"
  "parse_ipv6 ''fd00::1'' = Some 0xFD000000000000000000000000000001"
proof -
  have "value_token ''10.9.9.9'' = ''10.9.9.9''" "value_token ''10.1.1.1'' = ''10.1.1.1''"
    "value_token ''10.2.2.2'' = ''10.2.2.2''" "value_token ''fd00::1'' = ''fd00::1''" by code_simp+
  then show "parse_ipv4 (value_token ''10.9.9.9'') = parse_ipv4 ''10.9.9.9''"
    "parse_ipv4 (value_token ''10.1.1.1'') = parse_ipv4 ''10.1.1.1''"
    "parse_ipv4 (value_token ''10.2.2.2'') = parse_ipv4 ''10.2.2.2''"
    "parse_ipv6 (value_token ''fd00::1'') = parse_ipv6 ''fd00::1''" by simp_all
qed (simp_all add: parse_addr as_bytes_def utf8_char_def)

lemmas run_synthesize = test_config_def dns_from_vpn_conn_def test_conn_def test_setting_def normalized_entries_def
  extend_entry_def bt_from_list_def test_domains synthesize_def tables_empty_def lookup_v4_def lookup_v6_def
  pattern_hit_def suffix_def table_answers_def test_values

lemma synthesizes_exact_a_record_with_dynamic_ttl_passes:
  "faithful c \<Longrightarrow> synthesizes_exact_a_record_with_dynamic_ttl c lib"
  unfolding synthesizes_exact_a_record_with_dynamic_ttl_def Let_def
  by (rule expect_answers [where as = "[\<lparr>an_name = ''git.corp.'', an_ttl = DYNAMIC_TTL, an_data = RDataA 0x0A090909\<rparr>]"])
     (simp_all add: run_synthesize faithful_query query_message_def)

lemma synthesizes_wildcard_and_suffix_matches_passes:
  assumes "faithful c"
  shows "synthesizes_wildcard_and_suffix_matches c lib"
  unfolding synthesizes_wildcard_and_suffix_matches_def Let_def
proof (rule conjI)
  let ?c = "test_config lib (test_setting
      \<lparr>st_vpn_wildcard_dynamic_domain_route_split := Some [(''*.wild.corp'', [''10.1.1.1''])],
       st_suffix_wildcard_dynamic_domain_route_split := Some [(''suffix.corp'', [''10.2.2.2''])]\<rparr>) False"
  show "expect_synthesized c ?c ''host.wild.corp.'' QueryA (\<lambda>wild. answers c wild = [RDataA (the (parse_ipv4 ''10.1.1.1''))])"
    using assms
    by (rule expect_answers [where as = "[\<lparr>an_name = ''host.wild.corp.'', an_ttl = DYNAMIC_TTL, an_data = RDataA 0x0A010101\<rparr>]"])
       (simp_all add: run_synthesize faithful_query [OF assms] query_message_def answers_def)
  show "expect_synthesized c ?c ''deep.host.suffix.corp.'' QueryA
      (\<lambda>suffix. answers c suffix = [RDataA (the (parse_ipv4 ''10.2.2.2''))])"
    using assms
    by (rule expect_answers [where as = "[\<lparr>an_name = ''deep.host.suffix.corp.'', an_ttl = DYNAMIC_TTL, an_data = RDataA 0x0A020202\<rparr>]"])
       (simp_all add: run_synthesize faithful_query [OF assms] query_message_def answers_def)
qed

lemma aaaa_for_v4_only_domain_returns_nodata_passes:
  "faithful c \<Longrightarrow> aaaa_for_v4_only_domain_returns_nodata c lib"
  unfolding aaaa_for_v4_only_domain_returns_nodata_def Let_def
  by (rule expect_answers [where as = "[]"]) (simp_all add: run_synthesize faithful_query query_message_def)

lemma synthesizes_aaaa_from_v6_table_passes:
  "faithful c \<Longrightarrow> synthesizes_aaaa_from_v6_table c lib"
  unfolding synthesizes_aaaa_from_v6_table_def Let_def
  by (rule expect_answers [where as = "[\<lparr>an_name = ''v6.corp.'', an_ttl = DYNAMIC_TTL,
        an_data = RDataAAAA 0xFD000000000000000000000000000001\<rparr>]"])
     (simp_all add: run_synthesize faithful_query query_message_def answers_def)

lemma unmatched_domain_is_not_synthesized_passes:
  "faithful c \<Longrightarrow> unmatched_domain_is_not_synthesized c lib"
  unfolding unmatched_domain_is_not_synthesized_def Let_def
  by (simp add: run_synthesize faithful_query query_message_def)

section \<open>\<open>forwarder.rs\<close>\<close>

text \<open>Servers on the loopback device.  \<open>mock_server\<close> answers every datagram with fixed bytes, \<open>slow_server\<close> never
  does, so that the wait for its answer times out; the world remembers whom the last datagram went to.\<close>

definition loopback :: "(socket_addr \<Rightarrow> bytes option) \<Rightarrow> socket_addr option sys_env" where
  "loopback reply = \<lparr>sys_platform = Linux,
     sys_call = (\<lambda>w op. case op of OpSendTo _ server \<Rightarrow> (SysOk, Some server) | _ \<Rightarrow> (SysOk, w)),
     sys_local_port = (\<lambda>_ _. Inr 4000),
     sys_recv = (\<lambda>w _. (case Option.bind w reply of Some r \<Rightarrow> RecvOk r | None \<Rightarrow> RecvTimeout, w))\<rparr>"

definition local_port :: "u16 \<Rightarrow> socket_addr" where
  "local_port port = \<lparr>sa_ip = V4 (ipv4_of_octets 127 0 0 1), sa_port = port\<rparr>"

definition mock_server :: "bytes \<Rightarrow> bytes option" where
  "mock_server response = Some response"

definition slow_server :: "bytes option" where
  "slow_server = None"

definition single_server_success :: bool where
  "single_server_success \<longleftrightarrow>
     (let env = loopback (\<lambda>s. mock_server (as_bytes ''ok-response''))
      in fst (parallel_query_routed env id [local_port 1] (as_bytes ''query'') None) = Inr (as_bytes ''ok-response''))"

text \<open>Whichever of the two tasks ends first.\<close>

definition parallel_picks_fastest :: "(socket_addr list \<Rightarrow> socket_addr list) \<Rightarrow> bool" where
  "parallel_picks_fastest arrive \<longleftrightarrow>
     (let fast = local_port 1; slow = local_port 2;
          env = loopback (\<lambda>s. if s = fast then mock_server (as_bytes ''fast-reply'') else slow_server)
      in fst (parallel_query_routed env arrive [slow, fast] (as_bytes ''query'') None) = Inr (as_bytes ''fast-reply''))"

definition all_servers_timeout_returns_all_failed :: bool where
  "all_servers_timeout_returns_all_failed \<longleftrightarrow>
     \<not> is_ok (fst (parallel_query_routed (loopback (\<lambda>_. slow_server)) id [local_port 1] (as_bytes ''query'') None))"

definition empty_servers_returns_all_failed :: "'w sys_env \<Rightarrow> 'w \<Rightarrow> bool" where
  "empty_servers_returns_all_failed env w \<longleftrightarrow>
     \<not> is_ok (fst (parallel_query_routed env id [] (as_bytes ''query'') w))"

lemma query_loopback:
  "query_routed (loopback reply) request server w =
     (case reply server of Some r \<Rightarrow> Inr (take MAX_DNS_PACKET r) | None \<Rightarrow> Inl (FwTimeout server), Some server)"
  by (simp add: query_routed_def udp_socket_bind_def sys_io_def query_single_def loopback_def io_bind_def
      io_map_err_def io_return_def split: option.split)

lemma single_server_success_passes: single_server_success
  by (simp add: single_server_success_def parallel_query_routed_def parallel_query_def query_loopback
      mock_server_def as_bytes_def utf8_char_def MAX_DNS_PACKET_def Let_def)

lemma parallel_picks_fastest_passes:
  assumes "arrive [local_port 2, local_port 1] \<in> {[local_port 1, local_port 2], [local_port 2, local_port 1]}"
  shows "parallel_picks_fastest arrive"
  using assms
  by (auto simp: parallel_picks_fastest_def parallel_query_routed_def parallel_query_def query_loopback
      mock_server_def slow_server_def local_port_def as_bytes_def utf8_char_def MAX_DNS_PACKET_def Let_def)

lemma all_servers_timeout_returns_all_failed_passes: all_servers_timeout_returns_all_failed
  by (simp add: all_servers_timeout_returns_all_failed_def parallel_query_routed_def parallel_query_def
      query_loopback slow_server_def is_ok_def)

lemma empty_servers_returns_all_failed_passes: "empty_servers_returns_all_failed env w"
  by (simp add: empty_servers_returns_all_failed_def parallel_query_routed_def parallel_query_def is_ok_def)

end
