(* ===== verification/TunnelTests.thy ===== *)
theory TunnelTests
  imports Routes Reconnect Wire TestKit
begin

text \<open>
  The unit tests of the tunnel crate (\<open>mod tests\<close> of \<open>reconnect.rs\<close> and \<open>route.rs\<close>), run on the model.
  The configuration of the route tests is decoded from its JSON, as in the source.
\<close>

section \<open>\<open>reconnect.rs\<close>\<close>

definition retries_then_switches_node :: bool where
  "retries_then_switches_node \<longleftrightarrow>
     (let policy = \<lparr>max_attempts = 4, base_delay = from_secs 1, max_delay = from_secs 10, switch_node_after = 3\<rparr>;
          controller = controller_new policy;
          (first, controller) = record_event HandshakeTimeout controller;
          (second, controller) = record_event TransportFailed controller;
          (third, controller) = record_event IdleTimeout controller
      in first = Retry (from_secs 1) 1 \<and> second = Retry (from_secs 2) 2 \<and> third = SwitchNode (from_secs 4) 3)"

lemma record_event_below:
  assumes "unat (rc_attempts c) < 2 ^ 32 - 1" "\<not> rc_attempts c + 1 > max_attempts (rc_policy c)"
  shows "record_event event c = (let c = c\<lparr>rc_attempts := rc_attempts c + 1\<rparr>;
      delay = delay_for_attempt c (rc_attempts c)
    in if event = ServerKickOutEvent \<or> rc_attempts c \<ge> switch_node_after (rc_policy c)
       then (SwitchNode delay (rc_attempts c), c) else (Retry delay (rc_attempts c), c))"
  using assms by (simp add: record_event_def saturating_add_def)

lemma retries_then_switches_node_passes: retries_then_switches_node
  by (simp add: retries_then_switches_node_def controller_new_def record_event_below delay_for_attempt_eq
      from_secs_def duration_max_def Let_def word_le_nat_alt)

section \<open>\<open>route.rs\<close>\<close>

text \<open>What the tests use of the ipnetwork crate: an address is its host network, an address and a prefix are
  split at the slash, \<open>network\<close> clears the host bits.\<close>

definition ipnetwork_crate :: "net_lib \<Rightarrow> bool" where
  "ipnetwork_crate lib \<longleftrightarrow>
     (\<forall>s ip. parse_ip s = Some ip \<longrightarrow> nl_parse lib s = Some (host_network ip))
     \<and> (\<forall>s a b ip n. split_once (CHR ''/'') s = Some (a, b) \<longrightarrow> parse_ip a = Some ip \<longrightarrow>
          parse_unsigned (nw_prefix (host_network ip)) b = Some n \<longrightarrow> nl_parse lib s = Some \<lparr>nw_ip = ip, nw_prefix = n\<rparr>)
     \<and> (\<forall>a n. n \<le> 32 \<longrightarrow> nl_network lib \<lparr>nw_ip = V4 a, nw_prefix = n\<rparr> = V4 (push_bit (32 - n) (drop_bit (32 - n) a)))"

definition cidr :: "net_lib \<Rightarrow> string \<Rightarrow> ip_network" where
  "cidr lib s = the (nl_parse lib s)"

definition normalizes_host_routes :: "net_lib \<Rightarrow> bool" where
  "normalizes_host_routes lib \<longleftrightarrow>
     parse_network lib ''10.0.0.1'' FamilyV4 = Inr (cidr lib ''10.0.0.1/32'')
     \<and> parse_network lib ''fd00::1'' FamilyV6 = Inr (cidr lib ''fd00::1/128'')"

definition keeps_existing_prefixes :: "net_lib \<Rightarrow> bool" where
  "keeps_existing_prefixes lib \<longleftrightarrow> parse_network lib ''10.0.0.0/8'' FamilyV4 = Inr (cidr lib ''10.0.0.0/8'')"

definition converts_network_to_system_route :: "net_lib \<Rightarrow> bool" where
  "converts_network_to_system_route lib \<longleftrightarrow>
     (let route = system_route lib ''utun7'' (cidr lib ''10.0.0.0/8'')
      in rt_destination route = V4 (ipv4_of_octets 10 0 0 0) \<and> rt_prefix route = 8 \<and> rt_if_name route = ''utun7'')"

definition vpn_conn_json :: json where
  "vpn_conn_json = JObject [
     (''ip'', JString ''10.0.0.2''),
     (''public_key'', JString ''server''),
     (''setting'', JObject [
        (''vpn_mtu'', JNumber (NInt 1360)),
        (''vpn_route_full'', JArray [JString ''0.0.0.0/1'']),
        (''vpn_route_split'', JArray [JString ''10.0.0.0/8'']),
        (''v6_route_full'', JArray [JString ''::/1'']),
        (''v6_route_split'', JArray [JString ''fd00::/8''])])]"

definition vpn_conn :: "json_text \<Rightarrow> vpn_conn_response" where
  "vpn_conn T = the (de_vpn_conn_response T vpn_conn_json)"

definition selects_only_full_routes_from_vpn_config :: "json_text \<Rightarrow> net_lib \<Rightarrow> bool" where
  "selects_only_full_routes_from_vpn_config T lib \<longleftrightarrow>
     networks_from_vpn_conn lib (vpn_conn T) RouteFull True = Inr [cidr lib ''0.0.0.0/1'', cidr lib ''::/1'']"

definition selects_only_split_routes_from_vpn_config :: "json_text \<Rightarrow> net_lib \<Rightarrow> bool" where
  "selects_only_split_routes_from_vpn_config T lib \<longleftrightarrow>
     networks_from_vpn_conn lib (vpn_conn T) RouteSplit True = Inr [cidr lib ''10.0.0.0/8'', cidr lib ''fd00::/8'']"

definition omits_ipv6_routes_when_tunnel_has_no_v6_address :: "json_text \<Rightarrow> net_lib \<Rightarrow> bool" where
  "omits_ipv6_routes_when_tunnel_has_no_v6_address T lib \<longleftrightarrow>
     networks_from_vpn_conn lib (vpn_conn T) RouteFull False = Inr [cidr lib ''0.0.0.0/1'']"

lemma vpn_conn_decodes:
  "\<exists>r. de_vpn_conn_response T vpn_conn_json = Some r \<and> conn_setting r = conn_setting (vpn_conn T)"
  "st_vpn_route_full (conn_setting (vpn_conn T)) = Some [''0.0.0.0/1'']"
  "st_vpn_route_split (conn_setting (vpn_conn T)) = Some [''10.0.0.0/8'']"
  "st_v6_route_full (conn_setting (vpn_conn T)) = Some [''::/1'']"
  "st_v6_route_split (conn_setting (vpn_conn T)) = Some [''fd00::/8'']"
  by (simp_all add: vpn_conn_def vpn_conn_json_def de_vpn_conn_response_def de_vpn_conn_setting_def de_struct_def
      rd_bind_def rd_return_def required_def opt_defaulted_def defaulted_def named_Cons named_Nil de_option_def
      de_string_def de_vec_def de_int_def i32_ok_def)

lemma cidrs:
  assumes "ipnetwork_crate lib"
  shows "nl_parse lib ''10.0.0.1'' = Some (host_network (V4 0x0A000001))"
    "nl_parse lib ''10.0.0.1/32'' = Some \<lparr>nw_ip = V4 0x0A000001, nw_prefix = 32\<rparr>"
    "nl_parse lib ''fd00::1'' = Some (host_network (V6 0xFD000000000000000000000000000001))"
    "nl_parse lib ''fd00::1/128'' = Some \<lparr>nw_ip = V6 0xFD000000000000000000000000000001, nw_prefix = 128\<rparr>"
    "nl_parse lib ''10.0.0.0/8'' = Some \<lparr>nw_ip = V4 0x0A000000, nw_prefix = 8\<rparr>"
    "nl_parse lib ''fd00::/8'' = Some \<lparr>nw_ip = V6 0xFD000000000000000000000000000000, nw_prefix = 8\<rparr>"
    "nl_parse lib ''0.0.0.0/1'' = Some \<lparr>nw_ip = V4 0, nw_prefix = 1\<rparr>"
    "nl_parse lib ''::/1'' = Some \<lparr>nw_ip = V6 0, nw_prefix = 1\<rparr>"
proof -
  have h: "parse_ip s = Some ip \<Longrightarrow> nl_parse lib s = Some (host_network ip)"
    and c: "split_once (CHR ''/'') s = Some (a, b) \<Longrightarrow> parse_ip a = Some ip \<Longrightarrow>
      parse_unsigned (nw_prefix (host_network ip)) b = Some n \<Longrightarrow> nl_parse lib s = Some \<lparr>nw_ip = ip, nw_prefix = n\<rparr>"
    for s a b ip n
    using assms unfolding ipnetwork_crate_def by blast+
  note run = split_once_def host_network_def parse_unsigned_def digit_val_def parse_addr
  show "nl_parse lib ''10.0.0.1'' = Some (host_network (V4 0x0A000001))"
    "nl_parse lib ''fd00::1'' = Some (host_network (V6 0xFD000000000000000000000000000001))"
    by (rule h, simp add: parse_literals)+
  show "nl_parse lib ''10.0.0.1/32'' = Some \<lparr>nw_ip = V4 0x0A000001, nw_prefix = 32\<rparr>"
    by (rule c [of _ "''10.0.0.1''" "''32''"]) (simp_all add: run)
  show "nl_parse lib ''fd00::1/128'' = Some \<lparr>nw_ip = V6 0xFD000000000000000000000000000001, nw_prefix = 128\<rparr>"
    by (rule c [of _ "''fd00::1''" "''128''"]) (simp_all add: run)
  show "nl_parse lib ''10.0.0.0/8'' = Some \<lparr>nw_ip = V4 0x0A000000, nw_prefix = 8\<rparr>"
    by (rule c [of _ "''10.0.0.0''" "''8''"]) (simp_all add: run)
  show "nl_parse lib ''fd00::/8'' = Some \<lparr>nw_ip = V6 0xFD000000000000000000000000000000, nw_prefix = 8\<rparr>"
    by (rule c [of _ "''fd00::''" "''8''"]) (simp_all add: run)
  show "nl_parse lib ''0.0.0.0/1'' = Some \<lparr>nw_ip = V4 0, nw_prefix = 1\<rparr>"
    by (rule c [of _ "''0.0.0.0''" "''1''"]) (simp_all add: run)
  show "nl_parse lib ''::/1'' = Some \<lparr>nw_ip = V6 0, nw_prefix = 1\<rparr>"
    by (rule c [of _ "''::''" "''1''"]) (simp_all add: run)
qed

lemma route_tests_pass:
  assumes "ipnetwork_crate lib"
  shows "normalizes_host_routes lib" "keeps_existing_prefixes lib" "converts_network_to_system_route lib"
    "selects_only_full_routes_from_vpn_config T lib" "selects_only_split_routes_from_vpn_config T lib"
    "omits_ipv6_routes_when_tunnel_has_no_v6_address T lib"
proof -
  have "nl_network lib \<lparr>nw_ip = V4 0x0A000000, nw_prefix = 8\<rparr> = V4 0x0A000000"
    using assms by (simp add: ipnetwork_crate_def)
  then show "converts_network_to_system_route lib"
    by (simp add: converts_network_to_system_route_def cidr_def cidrs [OF assms] system_route_def ipv4_of_octets_def)
qed (simp_all add: normalizes_host_routes_def keeps_existing_prefixes_def
    selects_only_full_routes_from_vpn_config_def selects_only_split_routes_from_vpn_config_def
    omits_ipv6_routes_when_tunnel_has_no_v6_address_def networks_from_vpn_conn_def vpn_conn_decodes
    parse_network_def cidr_def cidrs [OF assms] host_network_def nw_is_ipv4_def nw_is_ipv6_def)

end
