(* ===== verification/ApiTests.thy ===== *)
theory ApiTests
  imports Wire CookieStore TestKit
begin

text \<open>
  The unit tests of the API crate (\<open>mod tests\<close> of \<open>signing.rs\<close>, \<open>client.rs\<close> and of the models), run on the
  model.  A test that decodes a text decodes here the JSON value the text denotes.  Cryptography, URLs and
  percent-encoding are the libraries'; the lemmas name what the tests rely on.
\<close>

section \<open>\<open>signing.rs\<close>\<close>

definition generated_password_cipher_uses_native_fixed_string :: "crypto \<Rightarrow> bool" where
  "generated_password_cipher_uses_native_fixed_string c \<longleftrightarrow>
     FIXED_PASSWORD_KEY = ''8bfa9ad090fbbf87e518f1ce24a93eee''
     \<and> (case (encrypt_aes_cbc c FIXED_PASSWORD_KEY ''secret'', encrypt_aes_cbc c FIXED_PASSWORD_KEY ''secret'') of
          (Inr first, Inr second) \<Rightarrow> first = second \<and> length first mod 32 = 0
        | _ \<Rightarrow> False)"

definition http_sign_key_matches_native_shape :: "crypto \<Rightarrow> bool" where
  "http_sign_key_matches_native_shape c \<longleftrightarrow>
     (case generate_http_sign_key_bytes c ''  TenantA  '' ''device-1'' of
        Inl _ \<Rightarrow> False
      | Inr key \<Rightarrow> length key = 32 \<and> length (b64_encode c key) = 44)"

text \<open>\<open>decode\<close> is the protobuf decoder: version, parameters, result.\<close>

definition http_sign_header_uses_evidenced_proto_fields ::
  "crypto \<Rightarrow> (bytes \<Rightarrow> (u64 \<times> u64 \<times> bytes) option) \<Rightarrow> bool" where
  "http_sign_header_uses_evidenced_proto_fields c decode \<longleftrightarrow>
     (let signature = array_bytes (sha256 c (as_bytes ''signing result''));
          encoded = encode_http_sign_header c 1 default_signing_input_flags signature
      in case decode encoded of
           None \<Rightarrow> False
         | Some (version, params, result) \<Rightarrow>
             version = 1 \<and> params = default_signing_input_flags \<and> result = signature)"

definition signing_header_is_android_sign_header :: "crypto \<Rightarrow> (string \<Rightarrow> bool) \<Rightarrow> bool" where
  \<open>signing_header_is_android_sign_header c to_str_ok \<longleftrightarrow>
     (let cfg = signing_config_default\<lparr>sg_enabled := True, sg_activation_code := Some ''tenant'',
            sg_device_id := Some ''device''\<rparr>;
          url = \<lparr>u_str = ''https://example.test/vpn/conn?client_source=FeiLian'', u_host = Some ''example.test'',
            u_port = None, u_path = ''/vpn/conn'', u_query = Some ''client_source=FeiLian''\<rparr>;
          headers = header_insert ''csrf-token'' ''csrf'' []
      in case sign c to_str_ok cfg ''POST'' url headers (as_bytes ''{"a":1}'') of
           Inl _ \<Rightarrow> False
         | Inr out \<Rightarrow> length out = 1 \<and> sh_name (out ! 0) = ''Sign'' \<and> prefix ''v1;'' (sh_value (out ! 0)))\<close>

lemma generated_password_cipher_uses_native_fixed_string_passes:
  assumes "\<And>key iv p. length key = 32 \<Longrightarrow> length iv = 16 \<Longrightarrow>
      \<exists>ct. aes256_cbc_pkcs7 c key iv p = Some ct \<and> length ct mod 16 = 0"
    and "\<And>bs. length (hex_encode c bs) = 2 * length bs"
  shows "generated_password_cipher_uses_native_fixed_string c"
proof -
  obtain ct where "encrypt_aes_cbc c FIXED_PASSWORD_KEY ''secret'' = Inr (hex_encode c ct)" "length ct mod 16 = 0"
    using assms(1) [OF length_FIXED_PASSWORD_KEY length_aes_cbc_iv, of c FIXED_PASSWORD_KEY "as_bytes ''secret''"]
    by (auto simp: encrypt_aes_cbc_def length_FIXED_PASSWORD_KEY)
  moreover have "2 * n mod 32 = 0" if "n mod 16 = 0" for n :: nat using that by presburger
  ultimately show ?thesis
    using assms(2) by (simp add: generated_password_cipher_uses_native_fixed_string_def FIXED_PASSWORD_KEY_def)
qed

text \<open>HMAC takes a key of any length; base64 writes four characters for three bytes, padding included.\<close>

lemma sign_key:
  assumes "\<And>k. hmac_key_ok c k"
  obtains key where "generate_http_sign_key_bytes c code device = Inr key" "length key = 32"
  using hkdf_sha256_rfc5869 [OF assms assms, of 32 1]
  by (simp add: generate_http_sign_key_bytes_def length_hkdf_blocks)

lemma http_sign_key_matches_native_shape_passes:
  assumes "\<And>k. hmac_key_ok c k" "\<And>bs. length (b64_encode c bs) = 4 * ((length bs + 2) div 3)"
  shows "http_sign_key_matches_native_shape c"
proof -
  obtain key where "generate_http_sign_key_bytes c ''  TenantA  '' ''device-1'' = Inr key" "length key = 32"
    by (rule sign_key [OF assms(1)])
  then show ?thesis by (simp add: http_sign_key_matches_native_shape_def assms(2))
qed

lemma http_sign_header_uses_evidenced_proto_fields_passes:
  assumes "\<And>v p r. decode (encode_sign_header c v p r) = Some (v, p, r)"
  shows "http_sign_header_uses_evidenced_proto_fields c decode"
  by (simp add: http_sign_header_uses_evidenced_proto_fields_def encode_http_sign_header_def assms)

lemma signing_header_is_android_sign_header_passes:
  assumes "\<And>k. hmac_key_ok c k"
  shows "signing_header_is_android_sign_header c to_str_ok"
proof -
  have l: "to_ascii_lowercase ''POST'' = ''post''" by code_simp
  obtain key where "generate_http_sign_key_bytes c ''tenant'' ''device'' = Inr key"
    by (rule sign_key [OF assms])
  then show ?thesis
    by (simp add: signing_header_is_android_sign_header_def sign_def l lower_PUT is_multipart_def header_value_def
        header_insert_def signing_config_default_def signing_input_flags_def hmac_key_def assms)
qed

section \<open>\<open>client.rs\<close>\<close>

definition dot_json :: "(string \<times> string) list \<Rightarrow> int \<Rightarrow> json" where
  "dot_json hosts api_port = JObject (map (\<lambda>(k, v). (k, JString v)) hosts
     @ [(''api_port'', JNumber (NInt api_port)), (''vpn_port'', JNumber (NInt 51820))])"

definition endpoint_url_joins_absolute_request_paths :: "'w http_env \<Rightarrow> bool" where
  "endpoint_url_joins_absolute_request_paths env \<longleftrightarrow>
     (case tenant_endpoint_new env ''https://tenant.example/base'' of
        Inl _ \<Rightarrow> False
      | Inr endpoint \<Rightarrow> (case endpoint_url env (base_url endpoint) ''/api/vpn/list'' of
            Inl _ \<Rightarrow> False
          | Inr url \<Rightarrow> u_str url = ''https://tenant.example/api/vpn/list''))"

text \<open>The dot of a test, decoded and made an endpoint, and the assertions on both.\<close>

definition expect_endpoint :: "'w http_env \<Rightarrow> json \<Rightarrow> (vpn_dot \<Rightarrow> dot_endpoint \<Rightarrow> bool) \<Rightarrow> bool" where
  "expect_endpoint env j P \<longleftrightarrow>
     (case de_vpn_dot j of
        None \<Rightarrow> False
      | Some dot \<Rightarrow> (case from_dot env dot False of Inl _ \<Rightarrow> False | Inr endpoint \<Rightarrow> P dot endpoint))"

definition dot_endpoint_builds_api_and_wireguard_urls :: "'w http_env \<Rightarrow> bool" where
  "dot_endpoint_builds_api_and_wireguard_urls env \<longleftrightarrow>
     expect_endpoint env (dot_json [(''apiIp'', ''api.example''), (''ip'', ''10.0.0.12'')] 8443) (\<lambda>dot endpoint.
       u_str (de_api_base_url endpoint) = ''https://api.example:8443/''
       \<and> u_str (de_wireguard_endpoint endpoint) = ''udp://10.0.0.12:51820/'')"

definition dot_endpoint_uses_ip4domain_for_api_and_ip_for_wireguard :: "'w http_env \<Rightarrow> bool" where
  "dot_endpoint_uses_ip4domain_for_api_and_ip_for_wireguard env \<longleftrightarrow>
     expect_endpoint env (dot_json [(''ip4Domain'', ''vpn.example.com''), (''fastIp'', ''1.1.1.1''),
         (''apiIp'', ''2.2.2.2''), (''ip'', ''3.3.3.3'')] 443) (\<lambda>dot endpoint.
       u_str (de_api_base_url endpoint) = ''https://vpn.example.com/''
       \<and> u_str (de_wireguard_endpoint endpoint) = ''udp://3.3.3.3:51820/''
       \<and> api_host dot = ''vpn.example.com'')"

definition dot_endpoint_uses_ip_when_only_ip_present :: "'w http_env \<Rightarrow> bool" where
  "dot_endpoint_uses_ip_when_only_ip_present env \<longleftrightarrow>
     expect_endpoint env (dot_json [(''ip'', ''10.0.0.12'')] 8443) (\<lambda>dot endpoint.
       u_str (de_api_base_url endpoint) = ''https://10.0.0.12:8443/''
       \<and> u_str (de_wireguard_endpoint endpoint) = ''udp://10.0.0.12:51820/''
       \<and> api_host dot = ''10.0.0.12'')"

definition dot_endpoint_rejects_missing_ip :: "'w http_env \<Rightarrow> bool" where
  "dot_endpoint_rejects_missing_ip env \<longleftrightarrow>
     (case de_vpn_dot (dot_json [(''apiIp'', ''api.example'')] 8443) of
        None \<Rightarrow> False
      | Some dot \<Rightarrow> dot_ip dot = [] \<and> \<not> is_ok (from_dot env dot False))"

text \<open>What the tests rely on of the \<open>url\<close> crate: these texts are URLs, and the default port of their scheme is left out.\<close>

definition url_texts :: "'w http_env \<Rightarrow> bool" where
  "url_texts env \<longleftrightarrow> (\<forall>(text, url_text) \<in> set
       [(''https://api.example:8443/'', ''https://api.example:8443/''),
        (''udp://10.0.0.12:51820/'', ''udp://10.0.0.12:51820/''),
        (''https://vpn.example.com:443/'', ''https://vpn.example.com/''),
        (''udp://3.3.3.3:51820/'', ''udp://3.3.3.3:51820/''),
        (''https://10.0.0.12:8443/'', ''https://10.0.0.12:8443/'')].
     map_option u_str (he_url_parse env text) = Some url_text)"

lemma endpoint_url_joins_absolute_request_paths_passes:
  assumes "he_url_parse env ''https://tenant.example/base'' = Some u"
    and "map_option u_str (he_url_join env u ''/api/vpn/list'') = Some ''https://tenant.example/api/vpn/list''"
  shows "endpoint_url_joins_absolute_request_paths env"
  using assms by (auto simp: endpoint_url_joins_absolute_request_paths_def tenant_endpoint_new_def parse_base_url_def
      endpoint_url_def)

lemmas run_decoder = de_struct_def rd_bind_def rd_return_def required_def optional_def opt_defaulted_def
  defaulted_def named_Cons named_Nil de_option_def de_string_def de_bool_def de_vec_def de_int_def i32_ok_def i64_ok_def

lemma dot_decodes:
  "de_vpn_dot (dot_json [(''apiIp'', a), (''ip'', i)] p) = (if i32_ok p then
     Some (vpn_dot_default\<lparr>dot_api_ip := Some a, dot_ip := i, dot_api_port := Some p, dot_vpn_port := Some 51820\<rparr>) else None)"
  "de_vpn_dot (dot_json [(''ip4Domain'', d), (''fastIp'', f), (''apiIp'', a), (''ip'', i)] p) = (if i32_ok p then
     Some (vpn_dot_default\<lparr>dot_ip4_domain := Some d, dot_fast_ip := Some f, dot_api_ip := Some a, dot_ip := i,
       dot_api_port := Some p, dot_vpn_port := Some 51820\<rparr>) else None)"
  "de_vpn_dot (dot_json [(''ip'', i)] p) = (if i32_ok p then
     Some (vpn_dot_default\<lparr>dot_ip := i, dot_api_port := Some p, dot_vpn_port := Some 51820\<rparr>) else None)"
  "de_vpn_dot (dot_json [(''apiIp'', a)] p) = (if i32_ok p then
     Some (vpn_dot_default\<lparr>dot_api_ip := Some a, dot_api_port := Some p, dot_vpn_port := Some 51820\<rparr>) else None)"
  by (simp_all add: dot_json_def de_vpn_dot_def run_decoder vpn_dot_default_def)

lemma test_hosts:
  "trim ''api.example'' = ''api.example''" "trim ''10.0.0.12'' = ''10.0.0.12''"
  "trim ''vpn.example.com'' = ''vpn.example.com''" "trim ''3.3.3.3'' = ''3.3.3.3''" "trim [] = []"
  by code_simp+

lemma test_hosts_not_v6:
  "parse_ipv6 ''api.example'' = None" "parse_ipv6 ''10.0.0.12'' = None" "parse_ipv6 ''vpn.example.com'' = None"
  "parse_ipv6 ''3.3.3.3'' = None"
  by (simp_all add: parse_addr)

lemma test_ports: "nat_to_string 8443 = ''8443''" "nat_to_string 443 = ''443''" "nat_to_string 51820 = ''51820''"
  by (simp_all add: eval_nat_to_string)

lemma dot_tests_pass:
  assumes "url_texts env"
  shows "dot_endpoint_builds_api_and_wireguard_urls env"
    "dot_endpoint_uses_ip4domain_for_api_and_ip_for_wireguard env"
    "dot_endpoint_uses_ip_when_only_ip_present env"
    "dot_endpoint_rejects_missing_ip env"
  using assms
  by (auto simp: dot_endpoint_builds_api_and_wireguard_urls_def
      dot_endpoint_uses_ip4domain_for_api_and_ip_for_wireguard_def dot_endpoint_uses_ip_when_only_ip_present_def
      dot_endpoint_rejects_missing_ip_def expect_endpoint_def dot_decodes i32_ok_def from_dot_def api_host_def
      vpn_dot_default_def url_from_host_port_def test_hosts test_hosts_not_v6 test_ports parse_base_url_def
      url_texts_def is_ok_def or_else_def Let_def)

section \<open>The models\<close>

text \<open>The answers of the server the tests decode: \<open>code\<close> zero and a payload.\<close>

definition ok_json :: "json \<Rightarrow> json" where
  "ok_json data = JObject [(''code'', JNumber (NInt 0)), (''data'', data)]"

text \<open>\<open>.expect("decode")\<close> followed by the assertions.\<close>

definition expect_decoded :: "'a option \<Rightarrow> ('a \<Rightarrow> bool) \<Rightarrow> bool" where
  "expect_decoded r P \<longleftrightarrow> (case r of None \<Rightarrow> False | Some x \<Rightarrow> P x)"

definition base_response_accepts_missing_optional_payload :: bool where
  "base_response_accepts_missing_optional_payload \<longleftrightarrow>
     expect_decoded (de_base_response de_value (JObject [(''code'', JNumber (NInt 0))])) (\<lambda>response.
       br_code response = 0 \<and> br_message response = None \<and> br_data response = None)"

definition security_report_response_accepts_android_common_string_result :: bool where
  "security_report_response_accepts_android_common_string_result \<longleftrightarrow>
     expect_decoded (de_base_response de_common_string_result (JObject [(''code'', JNumber (NInt 0)),
         (''action'', JString []), (''message'', JString []), (''data'', JObject [(''result'', JString ''success'')])]))
       (\<lambda>response. Option.bind (br_data response) cs_result = Some ''success'')"

definition oauth_query_callback_alias_is_path_segment_encoded :: "'w http_env \<Rightarrow> bool" where
  "oauth_query_callback_alias_is_path_segment_encoded env \<longleftrightarrow>
     request_path (he_percent_encode env)
       (OAuthQueryCallbackRequest \<lparr>oq_alias = ''foo/bar'', oq_code = ''code'', oq_state = ''state''\<rparr>)
     = ''/api/tpslogin/callback/foo%2Fbar''"

definition send_code_response_accepts_android_common_string_result :: bool where
  "send_code_response_accepts_android_common_string_result \<longleftrightarrow>
     expect_decoded (de_base_response de_common_string_result (ok_json (JObject [(''result'', JString ''ok'')])))
       (\<lambda>response. Option.bind (br_data response) cs_result = Some ''ok'')"

definition logout_response_accepts_android_token_or_result_payload :: bool where
  "logout_response_accepts_android_token_or_result_payload \<longleftrightarrow>
     expect_decoded (de_base_response de_value (ok_json (JObject [(''token'', JString ''next'')]))) (\<lambda>_. True)
     \<and> expect_decoded (de_base_response de_value (ok_json (JObject [(''result'', JString ''success'')]))) (\<lambda>_. True)"

definition login_v2_result_accepts_android_next_bean_keys :: bool where
  "login_v2_result_accepts_android_next_bean_keys \<longleftrightarrow>
     expect_decoded (de_base_response de_login_v2_result (ok_json (JObject [
         (''result'', JString ''next''),
         (''next'', JObject [
            (''action'', JString ''verify_code''),
            (''canSkip'', JBool True),
            (''authList'', JArray [JString ''otp'', JString ''mobile'']),
            (''mobile'', JString ''+1******1234''),
            (''email'', JString ''user@example.com''),
            (''passwordRule'', JObject [(''min'', JNumber (NInt 8))]),
            (''link'', JString ''https://example.invalid/reset''),
            (''passkeyUid'', JString ''passkey-user'')])])))
       (\<lambda>response. expect_decoded (Option.bind (br_data response) l2_next) (\<lambda>nxt.
          ln_can_skip nxt = Some True \<and> ln_auth_list nxt = Some [''otp'', ''mobile'']
          \<and> ln_passkey_uid nxt = Some ''passkey-user'' \<and> ln_password_rule nxt \<noteq> None))"

definition third_party_login_info_accepts_android_camel_case_keys :: bool where
  "third_party_login_info_accepts_android_camel_case_keys \<longleftrightarrow>
     expect_decoded (de_third_party_login_info (JObject [
         (''alias'', JString ''lark''),
         (''aliasKey'', JString ''lark_default''),
         (''loginUrl'', JString ''https://example.invalid/qr''),
         (''isCustom'', JBool False),
         (''fullTitle'', JString ''Lark''),
         (''token'', JString ''poll-token'')]))
       (\<lambda>provider. tp_alias_key provider = Some ''lark_default''
          \<and> tp_login_url provider = Some ''https://example.invalid/qr''
          \<and> tp_is_custom provider = Some False \<and> tp_full_title provider = Some ''Lark'')"

definition login_result_accepts_android_third_party_result_keys :: bool where
  "login_result_accepts_android_third_party_result_keys \<longleftrightarrow>
     expect_decoded (de_base_response de_login_result (ok_json (JObject [
         (''loginResult'', JString ''success''),
         (''url'', JString ''corplink://callback''),
         (''auth'', JObject [(''method'', JString ''lark'')]),
         (''timestamp'', JNumber (NInt 1710000000)),
         (''needVerify'', JBool False)])))
       (\<lambda>response. expect_decoded (br_data response) (\<lambda>data.
          lres_login_result data = Some ''success'' \<and> lres_need_verify data = Some False \<and> lres_auth data \<noteq> None))"

lemma model_tests_pass:
  "base_response_accepts_missing_optional_payload"
  "security_report_response_accepts_android_common_string_result"
  "send_code_response_accepts_android_common_string_result"
  "logout_response_accepts_android_token_or_result_payload"
  by (simp_all add: base_response_accepts_missing_optional_payload_def expect_decoded_def
      security_report_response_accepts_android_common_string_result_def
      send_code_response_accepts_android_common_string_result_def
      logout_response_accepts_android_token_or_result_payload_def ok_json_def
      de_base_response_def de_common_string_result_def de_value_def run_decoder)

lemma login_v2_result_accepts_android_next_bean_keys_passes: login_v2_result_accepts_android_next_bean_keys
  by (simp add: login_v2_result_accepts_android_next_bean_keys_def expect_decoded_def ok_json_def
      de_base_response_def de_login_v2_result_def de_login_v2_next_def de_json_object_def de_map_def de_value_def run_decoder)

lemma third_party_login_info_accepts_android_camel_case_keys_passes: third_party_login_info_accepts_android_camel_case_keys
  by (simp add: third_party_login_info_accepts_android_camel_case_keys_def expect_decoded_def
      de_third_party_login_info_def run_decoder)

lemma login_result_accepts_android_third_party_result_keys_passes: login_result_accepts_android_third_party_result_keys
  by (simp add: login_result_accepts_android_third_party_result_keys_def expect_decoded_def ok_json_def
      de_base_response_def de_login_result_def de_value_def run_decoder)

text \<open>\<open>utf8_percent_encode\<close> keeps the characters outside its set, and every other one of ASCII becomes its two upper-case
  hexadecimal digits.\<close>

lemma oauth_query_callback_alias_is_path_segment_encoded_passes:
  assumes "\<And>keeps s. he_percent_encode env keeps s =
      concat (map (\<lambda>ch. if keeps ch then [ch] else CHR ''%'' # map (\<lambda>d. if d < 10 then char_of (48 + d) else char_of (55 + d))
        [of_char ch div 16 :: nat, of_char ch mod 16]) s)"
  shows "oauth_query_callback_alias_is_path_segment_encoded env"
  by (simp add: oauth_query_callback_alias_is_path_segment_encoded_def assms path_segment_keeps_def char_of_def
      bit_Suc_0_iff)

section \<open>\<open>models/vpn.rs\<close>\<close>

definition vpn_report_request_uses_android_wire_names :: bool where
  "vpn_report_request_uses_android_wire_names \<longleftrightarrow>
     (let request = \<lparr>vrr_type = ''100'', vrr_ip = ''10.0.0.2'', vrr_public_key = ''server'', vrr_mode = ''Full''\<rparr>
      in norm_value (ser_vpn_report_request request) = norm_value (JObject [
           (''type'', JString ''100''), (''ip'', JString ''10.0.0.2''),
           (''public_key'', JString ''server''), (''mode'', JString ''Full'')]))"

definition vpn_report_response_accepts_untyped_data_payload :: bool where
  "vpn_report_response_accepts_untyped_data_payload \<longleftrightarrow>
     expect_decoded (de_base_response de_value (ok_json (JObject [(''result'', JString ''success'')]))) (\<lambda>_. True)
     \<and> expect_decoded (de_base_response de_value (ok_json (JString ''success''))) (\<lambda>_. True)"

text \<open>\<open>setting_from\<close>, with the entries every test starts with.\<close>

definition setting_from :: "json_text \<Rightarrow> entries \<Rightarrow> vpn_conn_setting option" where
  "setting_from T entries = de_vpn_conn_setting T (JObject ((''vpn_mtu'', JNumber (NInt 1400)) # entries))"

definition parses_dynamic_domain_table_from_stringified_json :: "json_text \<Rightarrow> bool" where
  \<open>parses_dynamic_domain_table_from_stringified_json T \<longleftrightarrow>
     expect_decoded (setting_from T [(''vpn_dynamic_domain_route_split'', JString ''{"intranet.corp":["10.1.2.3"]}'')])
       (\<lambda>setting. expect_decoded (st_vpn_dynamic_domain_route_split setting) (\<lambda>table.
          map_of table ''intranet.corp'' = Some [''10.1.2.3'']))\<close>

definition parses_dynamic_domain_table_from_native_object :: "json_text \<Rightarrow> bool" where
  "parses_dynamic_domain_table_from_native_object T \<longleftrightarrow>
     expect_decoded (setting_from T [(''dynamic_domain'', JObject [(''git.corp'', JArray [JString ''10.9.9.9''])])])
       (\<lambda>setting. expect_decoded (st_dynamic_domain setting) (\<lambda>table.
          length table = 1 \<and> ''git.corp'' \<in> fst ` set table))"

definition central_dns_text :: string where
  \<open>central_dns_text = ''{"TenantID":"tenant-1","DNATIp":"100.64.0.1","Dns":["10.0.0.9"]}''\<close>

definition ip_nats_text :: string where
  \<open>ip_nats_text = ''[{"ips":["10.0.0.0/8"],"is_default_nat":true,"nat_ip":"100.64.0.1"}]''\<close>

definition parses_central_dns_and_ip_nats_from_stringified_json :: "json_text \<Rightarrow> bool" where
  "parses_central_dns_and_ip_nats_from_stringified_json T \<longleftrightarrow>
     expect_decoded (setting_from T [(''central_dns'', JString central_dns_text), (''ip_nats'', JString ip_nats_text)])
       (\<lambda>setting. expect_decoded (st_central_dns setting) (\<lambda>central.
            cd_tenant_id central = ''tenant-1'' \<and> cd_dnat_ip central = ''100.64.0.1'' \<and> cd_dns central = [''10.0.0.9''])
          \<and> expect_decoded (st_ip_nats setting) (\<lambda>nats.
            length nats = 1 \<and> nat_ips (nats ! 0) = [''10.0.0.0/8''] \<and> nat_is_default_nat (nats ! 0)
            \<and> nat_nat_ip (nats ! 0) = ''100.64.0.1''))"

definition malformed_and_empty_dnat_fields_become_none :: "json_text \<Rightarrow> bool" where
  "malformed_and_empty_dnat_fields_become_none T \<longleftrightarrow>
     expect_decoded (setting_from T [(''central_dns'', JString ''not json''), (''ip_nats'', JString []),
         (''dynamic_domain'', JNull)])
       (\<lambda>setting. st_central_dns setting = None \<and> st_ip_nats setting = None \<and> st_dynamic_domain setting = None)"

text \<open>The texts inside the strings, as the JSON parser reads them.\<close>

definition json_texts :: "json_text \<Rightarrow> bool" where
  \<open>json_texts T \<longleftrightarrow>
     jt_from_str T ''{"intranet.corp":["10.1.2.3"]}'' = Some (JObject [(''intranet.corp'', JArray [JString ''10.1.2.3''])])
     \<and> jt_from_str T central_dns_text = Some (JObject [(''TenantID'', JString ''tenant-1''),
          (''DNATIp'', JString ''100.64.0.1''), (''Dns'', JArray [JString ''10.0.0.9''])])
     \<and> jt_from_str T ip_nats_text = Some (JArray [JObject [(''ips'', JArray [JString ''10.0.0.0/8'']),
          (''is_default_nat'', JBool True), (''nat_ip'', JString ''100.64.0.1'')]])
     \<and> jt_from_str T ''not json'' = None\<close>

lemma json_texts_trimmed:
  \<open>trim ''{"intranet.corp":["10.1.2.3"]}'' = ''{"intranet.corp":["10.1.2.3"]}''\<close>
  "trim central_dns_text = central_dns_text" "trim ip_nats_text = ip_nats_text" "trim ''not json'' = ''not json''"
  by code_simp+

lemma central_dns_text_nonempty: "central_dns_text \<noteq> []" "ip_nats_text \<noteq> []"
  by (simp_all add: central_dns_text_def ip_nats_text_def)

lemmas run_setting = setting_from_def de_vpn_conn_setting_def de_stringified_def deserialize_stringified_json_def
  opt_value_def from_str_def de_domain_map_def de_map_def de_central_dns_def de_ip_nat_def expect_decoded_def
  json_texts_trimmed central_dns_text_nonempty bt_from_list_def run_decoder

lemma vpn_report_request_uses_android_wire_names_passes: vpn_report_request_uses_android_wire_names
  by (simp add: vpn_report_request_uses_android_wire_names_def ser_vpn_report_request_def)

lemma vpn_report_response_accepts_untyped_data_payload_passes: vpn_report_response_accepts_untyped_data_payload
  by (simp add: vpn_report_response_accepts_untyped_data_payload_def expect_decoded_def ok_json_def
      de_base_response_def de_value_def run_decoder)

lemma parses_dynamic_domain_table_from_stringified_json_passes:
  "json_texts T \<Longrightarrow> parses_dynamic_domain_table_from_stringified_json T"
  by (simp add: parses_dynamic_domain_table_from_stringified_json_def json_texts_def run_setting)

lemma parses_dynamic_domain_table_from_native_object_passes: "parses_dynamic_domain_table_from_native_object T"
  by (simp add: parses_dynamic_domain_table_from_native_object_def run_setting)

lemma parses_central_dns_and_ip_nats_from_stringified_json_passes:
  "json_texts T \<Longrightarrow> parses_central_dns_and_ip_nats_from_stringified_json T"
  by (simp add: parses_central_dns_and_ip_nats_from_stringified_json_def json_texts_def run_setting)

lemma malformed_and_empty_dnat_fields_become_none_passes:
  "json_texts T \<Longrightarrow> malformed_and_empty_dnat_fields_become_none T"
  by (simp add: malformed_and_empty_dnat_fields_become_none_def json_texts_def run_setting test_hosts)

end
