(* ===== verification/DaemonTests.thy ===== *)
theory DaemonTests
  imports CoreAuth Supervisor Latency Daemon
begin

text \<open>
  The unit tests of the core and daemon crates and of the protocol crate (\<open>mod tests\<close> of \<open>core/src/auth.rs\<close>,
  \<open>core/src/state/auth.rs\<close>, \<open>supervisor.rs\<close>, \<open>daemon.rs\<close>, \<open>latency.rs\<close>, \<open>proto/src/lib.rs\<close>), run on the model.
\<close>

section \<open>\<open>core/src/auth.rs\<close>\<close>

definition login_v2_next_default :: login_v2_next where
  "login_v2_next_default = \<lparr>ln_action = None, ln_can_skip = None, ln_auth_list = None, ln_mobile = None,
     ln_email = None, ln_password_rule = None, ln_link = None, ln_passkey_uid = None\<rparr>"

definition with_next :: "login_v2_next \<Rightarrow> login_v2_result" where
  "with_next nxt = \<lparr>l2_result = None, l2_next = Some nxt\<rparr>"

definition explicit_success_and_missing_data_are_authenticated :: bool where
  "explicit_success_and_missing_data_are_authenticated \<longleftrightarrow>
     next_login_step None = StepAuthenticated
     \<and> next_login_step (Some \<lparr>l2_result = Some ''success'', l2_next = None\<rparr>) = StepAuthenticated"

definition goto_link_is_authenticated_not_a_challenge :: bool where
  "goto_link_is_authenticated_not_a_challenge \<longleftrightarrow>
     next_login_step (Some (with_next (login_v2_next_default\<lparr>ln_action := Some ''goto_link''\<rparr>))) = StepAuthenticated"

definition mfa_action_becomes_mfa_challenge :: bool where
  "mfa_action_becomes_mfa_challenge \<longleftrightarrow>
     next_login_step (Some (with_next (login_v2_next_default\<lparr>ln_action := Some ''mfa'', ln_can_skip := Some True,
       ln_auth_list := Some [''totp''], ln_mobile := Some ''1***''\<rparr>)))
     = StepAwaitingMfa ''totp'' [''totp''] True ''1***'' []"

definition android_2fa_success_becomes_mfa_challenge :: bool where
  "android_2fa_success_becomes_mfa_challenge \<longleftrightarrow>
     next_login_step (Some \<lparr>l2_result = Some ''success'', l2_next = Some (login_v2_next_default\<lparr>ln_action := Some ''2FA'',
       ln_can_skip := Some True, ln_auth_list := Some [''otp'', ''mobile''], ln_mobile := Some ''1***'',
       ln_email := Some ''u***@example.com''\<rparr>)\<rparr>)
     = StepAwaitingMfa ''otp'' [''otp'', ''mobile''] True ''1***'' ''u***@example.com''"

definition other_action_becomes_otp_with_channel_from_masked_target :: bool where
  "other_action_becomes_otp_with_channel_from_masked_target \<longleftrightarrow>
     next_login_step (Some (with_next (login_v2_next_default\<lparr>ln_action := Some ''verify_code'',
       ln_email := Some ''a***@x.com''\<rparr>)))
     = StepAwaitingOtp ''a***@x.com'' ''email''"

lemma test_actions:
  "to_ascii_lowercase ''goto_link'' = ''goto_link''" "to_ascii_lowercase ''mfa'' = ''mfa''"
  "to_ascii_lowercase ''2FA'' = ''2fa''" "to_ascii_lowercase ''verify_code'' = ''verify_code''"
  by code_simp+

lemmas run_login_step = next_login_step_def is_mfa_action_def login_v2_next_default_def with_next_def test_actions

lemma login_step_tests_pass:
  "explicit_success_and_missing_data_are_authenticated" "goto_link_is_authenticated_not_a_challenge"
  "mfa_action_becomes_mfa_challenge" "android_2fa_success_becomes_mfa_challenge"
  "other_action_becomes_otp_with_channel_from_masked_target"
  by (simp_all add: explicit_success_and_missing_data_are_authenticated_def
      goto_link_is_authenticated_not_a_challenge_def mfa_action_becomes_mfa_challenge_def
      android_2fa_success_becomes_mfa_challenge_def other_action_becomes_otp_with_channel_from_masked_target_def
      run_login_step)

section \<open>\<open>core/src/state/auth.rs\<close>\<close>

definition success_maps_to_authenticated :: bool where
  "success_maps_to_authenticated \<longleftrightarrow>
     next_auth_state (Some \<lparr>l2_result = Some ''success'', l2_next = None\<rparr>) = Authenticated
     \<and> next_auth_state None = Authenticated"

definition mfa_action_maps_to_awaiting_mfa :: bool where
  "mfa_action_maps_to_awaiting_mfa \<longleftrightarrow>
     (case next_auth_state (Some (with_next (login_v2_next_default\<lparr>ln_action := Some ''mfa'',
            ln_auth_list := Some [''totp'']\<rparr>))) of
        AwaitingMfa _ _ _ _ _ \<Rightarrow> True | _ \<Rightarrow> False)"

lemma auth_state_tests_pass: "success_maps_to_authenticated" "mfa_action_maps_to_awaiting_mfa"
  by (simp_all add: success_maps_to_authenticated_def mfa_action_maps_to_awaiting_mfa_def next_auth_state_def
      run_login_step)

section \<open>\<open>supervisor.rs\<close>\<close>

text \<open>\<open>saturating_sub\<close> of durations is the subtraction of natural numbers.\<close>

definition initial_connect_window_tolerates_silence_then_fails :: bool where
  "initial_connect_window_tolerates_silence_then_fails \<longleftrightarrow>
     liveness_status None (CONNECT_TIMEOUT - from_secs 1) = Healthy
     \<and> liveness_status None (CONNECT_TIMEOUT + from_secs 1) = LivenessConnectTimeout"

definition steady_state_stalls_when_probe_gap_exceeds_threshold :: bool where
  "steady_state_stalls_when_probe_gap_exceeds_threshold \<longleftrightarrow>
     (let healthy = LIVENESS_TIMEOUT - from_secs 1; stalled = LIVENESS_TIMEOUT + from_secs 1
      in liveness_status (Some healthy) (from_mins 2) = Healthy
       \<and> liveness_status (Some stalled) (from_mins 2) = Stalled)"

lemma supervisor_tests_pass:
  "initial_connect_window_tolerates_silence_then_fails" "steady_state_stalls_when_probe_gap_exceeds_threshold"
  by (simp_all add: initial_connect_window_tolerates_silence_then_fails_def
      steady_state_stalls_when_probe_gap_exceeds_threshold_def liveness_status_def CONNECT_TIMEOUT_def
      LIVENESS_TIMEOUT_def from_secs_def)

section \<open>\<open>daemon.rs\<close>\<close>

text \<open>The default of a type is an argument of \<open>non_default_or\<close>.\<close>

definition non_default_or_falls_back_only_on_default :: bool where
  "non_default_or_falls_back_only_on_default \<longleftrightarrow>
     non_default_or [] [] ''login'' = ''login''
     \<and> non_default_or [] ''scan'' ''login'' = ''scan''
     \<and> non_default_or 0 (0 :: int) 7 = 7
     \<and> non_default_or 0 (3 :: int) 7 = 3"

definition effective_transport_honors_request_only_on_dual_dots :: bool where
  "effective_transport_honors_request_only_on_dual_dots \<longleftrightarrow>
     effective_transport (Some DOT_PROTOCOL_DUAL) Udp = Udp
     \<and> effective_transport (Some DOT_PROTOCOL_DUAL) FeilianTcp = FeilianTcp
     \<and> effective_transport (Some DOT_PROTOCOL_UDP) FeilianTcp = Udp
     \<and> effective_transport (Some DOT_PROTOCOL_TCP) Udp = FeilianTcp
     \<and> effective_transport (Some DOT_PROTOCOL_UDP) Udp = Udp
     \<and> effective_transport None FeilianTcp = FeilianTcp
     \<and> effective_transport None Udp = Udp"

section \<open>\<open>latency.rs\<close>\<close>

definition cmp_latency_orders_reachable_first_then_ascending :: bool where
  "cmp_latency_orders_reachable_first_then_ascending \<longleftrightarrow>
     sort_by cmp_latency [None, Some (from_millis 50), Some (from_millis 10)]
       = [Some (from_millis 10), Some (from_millis 50), None]"

section \<open>\<open>proto/src/lib.rs\<close>\<close>

definition login_code_type_wire_round_trips :: bool where
  "login_code_type_wire_round_trips \<longleftrightarrow>
     login_code_type_wire CodeTypeMobile = ''mobile''
     \<and> login_code_type_wire CodeTypeEmail = ''email''
     \<and> login_code_type_wire CodeTypeUnspecified = ''mobile''
     \<and> login_code_type_from ''mobile'' = CodeTypeMobile
     \<and> login_code_type_from ''email'' = CodeTypeEmail
     \<and> login_code_type_from ''sms'' = CodeTypeMobile"

lemma daemon_tests_pass:
  "non_default_or_falls_back_only_on_default" "effective_transport_honors_request_only_on_dual_dots"
  "cmp_latency_orders_reachable_first_then_ascending" "login_code_type_wire_round_trips"
  by (simp_all add: non_default_or_falls_back_only_on_default_def non_default_or_def
      effective_transport_honors_request_only_on_dual_dots_def effective_transport_def
      DOT_PROTOCOL_UDP_def DOT_PROTOCOL_TCP_def DOT_PROTOCOL_DUAL_def protocol_mode_repr_def
      cmp_latency_orders_reachable_first_then_ascending_def sort_by_def cmp_latency_def cmp_nat_def from_millis_def
      login_code_type_wire_round_trips_def login_code_type_wire_def login_code_type_from_def)

end
